(* ===== verification/Go_Prelude.thy ===== *)
theory Go_Prelude
  imports
    Main
    "HOL-Library.Word"
    "HOL-Library.Char_ord"
    "HOL-Library.List_Lexorder"
    "HOL-Library.AList"
    "HOL-Library.Multiset"
    "HOL-Library.Monad_Syntax"
begin

text \<open>
  What the components share: the machine integers, byte strings and formatting verbs of Go that
  the operator uses, list updates that stand for writes through a pointer held in a slice, and
  the interface locale for ``replace the entry with this key, or append it'', which the source
  implements four times (statuses, conditions, environment variables, managed variables).

  A Go string is a sequence of bytes and HOL's \<open>string\<close> is a list of 8-bit characters, so
  \<open>length\<close> is Go's \<open>len\<close> and slicing is by bytes. A call that panics or does not return is
  \<open>None\<close> in a function with an \<open>option\<close> result.
\<close>

section \<open>Collections of facts\<close>

named_theorems go_defs \<open>definitions of the model that a proof unfolds\<close>
named_theorems go_frame \<open>what an operation leaves unchanged\<close>

section \<open>Machine integers\<close>

type_synonym i32 = "32 word"
type_synonym i64 = "64 word"
type_synonym u32 = "32 word"

section \<open>Byte strings\<close>

text \<open>The functions of package \<open>strings\<close>. \<open>to_lower\<close> is \<open>strings.ToLower\<close> on ASCII
  bytes; a byte above 127 is left as it is, so facts about lower-cased names are stated for
  \<open>ascii\<close> strings, as Kubernetes names are.\<close>

definition ascii_char :: "char \<Rightarrow> bool" where
  "ascii_char c \<longleftrightarrow> (of_char c :: nat) < 128"

definition ascii :: "string \<Rightarrow> bool" where
  "ascii s \<longleftrightarrow> list_all ascii_char s"

definition is_upper :: "char \<Rightarrow> bool" where
  "is_upper c \<longleftrightarrow> (65::nat) \<le> of_char c \<and> (of_char c :: nat) \<le> 90"

definition lower_char :: "char \<Rightarrow> char" where
  "lower_char c = (if is_upper c then char_of (of_char c + 32 :: nat) else c)"

definition to_lower :: "string \<Rightarrow> string" where
  "to_lower s = map lower_char s"

fun has_prefix :: "string \<Rightarrow> string \<Rightarrow> bool" where
  "has_prefix s [] = True"
| "has_prefix [] (p # ps) = False"
| "has_prefix (c # cs) (p # ps) = (c = p \<and> has_prefix cs ps)"

fun join :: "string \<Rightarrow> string list \<Rightarrow> string" where
  "join sep [] = []"
| "join sep [x] = x"
| "join sep (x # y # xs) = x @ sep @ join sep (y # xs)"

definition replace_char :: "char \<Rightarrow> char \<Rightarrow> string \<Rightarrow> string" where
  "replace_char a b s = map (\<lambda>c. if c = a then b else c) s"

lemma has_prefix_iff: "has_prefix s p \<longleftrightarrow> (\<exists>t. s = p @ t)"
  by (induction s p rule: has_prefix.induct) auto

lemma has_prefix_append [simp]: "has_prefix (p @ t) p"
  by (auto simp: has_prefix_iff)

lemma length_to_lower [simp]: "length (to_lower s) = length s"
  by (simp add: to_lower_def)

lemma to_lower_append: "to_lower (s @ t) = to_lower s @ to_lower t"
  by (simp add: to_lower_def)

lemma lower_char_not_upper [simp]: "\<not> is_upper (lower_char c)"
  by (auto simp: lower_char_def is_upper_def)

lemma to_lower_id: "(\<forall>c \<in> set s. \<not> is_upper c) \<Longrightarrow> to_lower s = s"
  by (simp add: to_lower_def lower_char_def map_idI)

lemma to_lower_idem [simp]: "to_lower (to_lower s) = to_lower s"
  by (rule to_lower_id) (auto simp: to_lower_def)

section \<open>Formatting numbers: the verbs d and x of fmt\<close>

definition digit_char :: "nat \<Rightarrow> char" where
  "digit_char d = ''0123456789abcdef'' ! d"

fun fmt_base :: "nat \<Rightarrow> nat \<Rightarrow> string" where
  "fmt_base b n =
     (if b < 2 \<or> n < b then [digit_char n] else fmt_base b (n div b) @ [digit_char (n mod b)])"

declare fmt_base.simps [simp del]

definition fmt_d :: "int \<Rightarrow> string" where
  "fmt_d i = (if i < 0 then CHR ''-'' # fmt_base 10 (nat (- i)) else fmt_base 10 (nat i))"

definition fmt_x :: "nat \<Rightarrow> string" where
  "fmt_x n = fmt_base 16 n"

text \<open>\<open>fmt.Sprint\<close> and \<open>%d\<close> on an \<open>int32\<close> or \<open>int64\<close> print the signed value.\<close>

abbreviation sprint_int :: "'a::len word \<Rightarrow> string" where
  "sprint_int w \<equiv> fmt_d (sint w)"

definition hex_digits :: "char set" where
  "hex_digits = set ''0123456789abcdef''"

lemma digit_char_in: "d < 16 \<Longrightarrow> digit_char d \<in> hex_digits"
  unfolding digit_char_def hex_digits_def by (rule nth_mem) simp

lemma digit_char_eq_iff: "d < 16 \<Longrightarrow> e < 16 \<Longrightarrow> digit_char d = digit_char e \<longleftrightarrow> d = e"
  unfolding digit_char_def by (rule nth_eq_iff_index_eq) auto

lemma fmt_base_not_Nil [simp]: "fmt_base b n \<noteq> []"
  by (subst fmt_base.simps) simp

lemma fmt_base_small: "n < b \<Longrightarrow> fmt_base b n = [digit_char n]"
  by (subst fmt_base.simps) simp

lemma fmt_base_big: "2 \<le> b \<Longrightarrow> b \<le> n \<Longrightarrow>
    fmt_base b n = fmt_base b (n div b) @ [digit_char (n mod b)]"
  by (subst fmt_base.simps) simp

lemma mod_base_less_16: "2 \<le> b \<Longrightarrow> b \<le> 16 \<Longrightarrow> n mod b < (16::nat)"
  using mod_less_divisor [of b n] by linarith

lemma set_fmt_base: "2 \<le> b \<Longrightarrow> b \<le> 16 \<Longrightarrow> set (fmt_base b n) \<subseteq> hex_digits"
proof (induction b n rule: fmt_base.induct)
  case (1 b n)
  show ?case
  proof (cases "n < b")
    case True
    with "1.prems" show ?thesis by (simp add: fmt_base_small digit_char_in)
  next
    case False
    moreover have "n mod b < 16" using "1.prems" by (rule mod_base_less_16)
    ultimately show ?thesis
      using "1" by (simp add: fmt_base_big digit_char_in)
  qed
qed

lemma length_fmt_base: "2 \<le> b \<Longrightarrow> n < b ^ k \<Longrightarrow> 0 < k \<Longrightarrow> length (fmt_base b n) \<le> k"
proof (induction b n arbitrary: k rule: fmt_base.induct)
  case (1 b n)
  show ?case
  proof (cases "n < b")
    case True
    with "1.prems" show ?thesis by (simp add: fmt_base_small)
  next
    case False
    with "1.prems" have "k \<noteq> 1" by auto
    with "1.prems" obtain j where k: "k = Suc j" and j: "0 < j"
      by (cases k) auto
    have "n div b < b ^ j"
      using "1.prems" k by (simp add: less_mult_imp_div_less mult.commute)
    with False "1" k j show ?thesis by (simp add: fmt_base_big)
  qed
qed

lemma length_fmt_base_pos: "0 < length (fmt_base b n)"
  by simp

lemma fmt_base_snoc_long: "2 \<le> b \<Longrightarrow> b \<le> n \<Longrightarrow> \<not> length (fmt_base b n) = 1"
  by (simp add: fmt_base_big)

lemma fmt_base_inj: "2 \<le> b \<Longrightarrow> b \<le> 16 \<Longrightarrow> fmt_base b m = fmt_base b n \<Longrightarrow> m = n"
proof (induction b m arbitrary: n rule: fmt_base.induct)
  case (1 b m)
  have bound: "x mod b < 16" for x
    using "1.prems"(1,2) by (rule mod_base_less_16)
  show ?case
  proof (cases "m < b")
    case True
    then have len: "length (fmt_base b n) = 1"
      using "1.prems" by (metis fmt_base_small length_Cons list.size(3) One_nat_def)
    then have "n < b" using "1.prems" fmt_base_snoc_long by (meson not_le)
    with True "1.prems" show ?thesis by (simp add: fmt_base_small digit_char_eq_iff)
  next
    case False
    then have "b \<le> n"
      using "1.prems" by (metis fmt_base_big fmt_base_small not_le
          butlast.simps(2) butlast_snoc fmt_base_not_Nil)
    with False "1" bound have "m div b = n div b \<and> m mod b = n mod b"
      by (simp add: fmt_base_big digit_char_eq_iff)
    then show ?thesis by (metis div_mult_mod_eq)
  qed
qed

lemma minus_not_hex_digit: "CHR ''-'' \<notin> hex_digits"
  by (simp add: hex_digits_def)

lemma fmt_base_10_not_minus: "fmt_base 10 n \<noteq> CHR ''-'' # xs"
  using set_fmt_base [of 10 n] minus_not_hex_digit by (auto simp del: fmt_base_not_Nil)

lemma fmt_d_inj: "fmt_d i = fmt_d j \<longleftrightarrow> i = j"
proof
  assume "fmt_d i = fmt_d j"
  then show "i = j"
    using fmt_base_inj [of 10 "nat i" "nat j"] fmt_base_inj [of 10 "nat (- i)" "nat (- j)"]
      fmt_base_10_not_minus fmt_base_10_not_minus [symmetric]
    by (auto simp: fmt_d_def split: if_splits)
qed simp

lemma sprint_int_inj: "sprint_int (v :: 'a::len word) = sprint_int w \<longleftrightarrow> v = w"
  by (auto simp: fmt_d_inj intro: signed_word_eqI)

lemma length_fmt_x_u32: "length (fmt_x (unat (w :: u32))) \<le> 8"
  unfolding fmt_x_def by (rule length_fmt_base) (use unsigned_less [of w] in simp_all)

lemma set_fmt_x: "set (fmt_x n) \<subseteq> hex_digits"
  by (simp add: fmt_x_def set_fmt_base)

section \<open>Writes through a pointer held in a slice\<close>

text \<open>The first entry that matches, changed in place; the last one, changed in place.\<close>

fun update_first :: "('a \<Rightarrow> bool) \<Rightarrow> ('a \<Rightarrow> 'a) \<Rightarrow> 'a list \<Rightarrow> 'a list" where
  "update_first P f [] = []"
| "update_first P f (x # xs) = (if P x then f x # xs else x # update_first P f xs)"

definition update_last :: "('a \<Rightarrow> bool) \<Rightarrow> ('a \<Rightarrow> 'a) \<Rightarrow> 'a list \<Rightarrow> 'a list" where
  "update_last P f xs = rev (update_first P f (rev xs))"

lemma map_update_first: "(\<And>x. P x \<Longrightarrow> g (f x) = g x) \<Longrightarrow> map g (update_first P f xs) = map g xs"
  by (induction xs) auto

lemma map_update_last: "(\<And>x. P x \<Longrightarrow> g (f x) = g x) \<Longrightarrow> map g (update_last P f xs) = map g xs"
  by (simp add: update_last_def map_update_first flip: rev_map)

lemma length_update_first [simp]: "length (update_first P f xs) = length xs"
  by (induction xs) auto

lemma length_update_last [simp]: "length (update_last P f xs) = length xs"
  by (simp add: update_last_def)

section \<open>Loops that thread a state\<close>

text \<open>A loop over a slice whose body returns a value and may not return at all.\<close>

fun map_state :: "('s \<Rightarrow> 'r \<Rightarrow> ('b \<times> 's) option) \<Rightarrow> 's \<Rightarrow> 'r list \<Rightarrow> ('b list \<times> 's) option" where
  "map_state f s [] = Some ([], s)"
| "map_state f s (r # rs) =
     do { (b, s1) \<leftarrow> f s r; (bs, s2) \<leftarrow> map_state f s1 rs; Some (b # bs, s2) }"

lemma find_append: "find P (xs @ ys) = (case find P xs of None \<Rightarrow> find P ys | Some x \<Rightarrow> Some x)"
  by (induction xs) auto

lemma map_state_ConsE:
  assumes "map_state f s (r # rs) = Some (bs', s')"
  obtains b s1 bs where "f s r = Some (b, s1)" "map_state f s1 rs = Some (bs, s')" "bs' = b # bs"
  using assms by (auto split: bind_splits)

lemma length_map_state: "map_state f s rs = Some (bs, s') \<Longrightarrow> length bs = length rs"
  by (induction rs arbitrary: s bs) (auto elim!: map_state_ConsE simp del: map_state.simps(2))

text \<open>The contract of a loop body that always returns while there is room: each round costs at most
  \<open>cost r\<close> and returns as long as the size stays below \<open>limit\<close>. Then so does the loop.\<close>

locale bounded_step =
  fixes size_of :: "'s \<Rightarrow> nat"
    and cost :: "'r \<Rightarrow> nat"
    and limit :: nat
    and step :: "'s \<Rightarrow> 'r \<Rightarrow> ('b \<times> 's) option"
  assumes step_returns:
    "size_of s + cost r < limit \<Longrightarrow> \<exists>b s'. step s r = Some (b, s') \<and> size_of s' \<le> size_of s + cost r"
begin

lemma loop_returns:
  "size_of s + sum_list (map cost rs) < limit \<Longrightarrow>
     \<exists>bs s'. map_state step s rs = Some (bs, s') \<and> size_of s' \<le> size_of s + sum_list (map cost rs)"
proof (induction rs arbitrary: s)
  case Nil
  then show ?case by simp
next
  case (Cons r rs)
  then obtain b s1 where 1: "step s r = Some (b, s1)" "size_of s1 \<le> size_of s + cost r"
    using step_returns [of s r] by auto
  with Cons.prems have "size_of s1 + sum_list (map cost rs) < limit" by simp
  from Cons.IH [OF this] 1 show ?case by fastforce
qed

end

section \<open>The first free value\<close>

text \<open>\<open>for inUse(p) { p++ }\<close> on a machine integer: with every value in use it runs forever.\<close>

partial_function (option) next_free :: "('a::len word \<Rightarrow> bool) \<Rightarrow> 'a word \<Rightarrow> 'a word option" where
  "next_free inUse p = (if inUse p then next_free inUse (p + 1) else Some p)"

lemma next_free_steps:
  "(\<forall>m < n. inUse (p + of_nat m)) \<Longrightarrow> \<not> inUse (p + of_nat n) \<Longrightarrow>
     next_free inUse p = Some (p + of_nat n)"
proof (induction n arbitrary: p)
  case 0
  then show ?case by (simp add: next_free.simps)
next
  case (Suc n)
  have "next_free inUse (p + 1) = Some (p + 1 + of_nat n)"
  proof (rule Suc.IH)
    show "\<forall>m<n. inUse (p + 1 + of_nat m)"
      using Suc.prems(1) by (auto simp: add.assoc dest: spec [of _ "Suc _"])
    show "\<not> inUse (p + 1 + of_nat n)"
      using Suc.prems(2) by (simp add: add.assoc)
  qed
  moreover have "inUse p" using Suc.prems(1) [rule_format, of 0] by simp
  moreover have "p + 1 + of_nat n = p + of_nat (Suc n)" by simp
  ultimately show ?case by (subst next_free.simps) simp
qed

text \<open>The loop returns as long as fewer than \<open>2^w\<close> values are in use; the result is free and
  everything passed over is in use.\<close>

lemma next_free_returns:
  fixes p :: "'a::len word"
  assumes fin: "finite U" and card: "card U < 2 ^ LENGTH('a)" and U: "\<And>x. inUse x \<longleftrightarrow> x \<in> U"
  shows "\<exists>n. next_free inUse p = Some (p + of_nat n) \<and> \<not> inUse (p + of_nat n) \<and>
           (\<forall>m < n. inUse (p + of_nat m))"
proof -
  have "\<exists>n. p + of_nat n \<notin> U"
  proof (rule ccontr)
    assume "\<nexists>n. p + of_nat n \<notin> U"
    then have all: "p + of_nat n \<in> U" for n by blast
    have "x \<in> U" for x
      using all [of "unat (x - p)"] by simp
    then have "U = UNIV" by blast
    with card show False by (simp add: card_word)
  qed
  then obtain n where n: "p + of_nat n \<notin> U" and least: "\<forall>m < n. p + of_nat m \<in> U"
    using exists_least_iff [of "\<lambda>n. p + of_nat n \<notin> U"] by blast
  with U have "next_free inUse p = Some (p + of_nat n)" by (intro next_free_steps) auto
  with n least U show ?thesis by blast
qed

lemma next_free_not_in_use:
  assumes "next_free inUse p = Some q"
  shows "\<not> inUse q"
proof (rule next_free.raw_induct [where P = "\<lambda>inUse p q. \<not> inUse q", OF _ assms])
  fix f :: "('a word \<Rightarrow> bool) \<Rightarrow> 'a word \<Rightarrow> 'a word option" and u p q
  assume "\<And>u p q. f u p = Some q \<Longrightarrow> \<not> u q"
    and "(if u p then f u (p + 1) else Some p) = Some q"
  then show "\<not> u q" by (auto split: if_splits)
qed

end
