(* ===== verification/K8s_Types.thy ===== *)
theory K8s_Types
  imports Go_Prelude
begin

text \<open>
  The Kubernetes structs that pass through the operator, with the fields it reads or writes and
  one opaque field for all the others, and the functions of the Kubernetes libraries it calls.
  The structs' zero values (\<open>corev1.Container{}\<close> and so on) have empty strings, empty slices and
  nil pointers. The libraries are not part of the repository: their functions are the fields of
  the record \<open>apimachinery\<close>, an argument of every definition that calls them, and what their
  documentation promises is the predicate \<open>labels_api_ok\<close> or \<open>parse_kind_ok\<close>.
\<close>

section \<open>Metadata\<close>

text \<open>The fields of a struct the operator carries along untouched: name and serialised value.\<close>

type_synonym opaque = "(string \<times> string) list"

text \<open>A \<open>map[string]string\<close> of labels or annotations.\<close>

type_synonym string_map = "(string \<times> string) list"

text \<open>An instant. Where the source tests \<open>IsZero\<close>, a zero or nil time is \<open>None\<close>.\<close>

type_synonym time = nat

record namespaced_name =
  nn_Namespace :: string
  nn_Name :: string

record owner_reference =
  or_APIVersion :: string
  or_Kind :: string
  or_Name :: string

text \<open>What \<open>GetObjectKind().GroupVersionKind()\<close> returns for an object.\<close>

record group_version_kind =
  gvk_Group :: string
  gvk_Version :: string
  gvk_Kind :: string

record object_meta =
  om_Name :: string
  om_Namespace :: string
  om_Labels :: string_map
  om_Annotations :: string_map
  om_OwnerReferences :: "owner_reference list"
  om_Finalizers :: "string list"
  om_Generation :: i64
  om_DeletionTimestamp :: "time option"
  om_Other :: opaque

definition zero_meta :: object_meta where
  "zero_meta = \<lparr>om_Name = [], om_Namespace = [], om_Labels = [], om_Annotations = [],
     om_OwnerReferences = [], om_Finalizers = [], om_Generation = 0,
     om_DeletionTimestamp = None, om_Other = []\<rparr>"

definition zero_gvk :: group_version_kind where
  "zero_gvk = \<lparr>gvk_Group = [], gvk_Version = [], gvk_Kind = []\<rparr>"

text \<open>The part of an object that \<open>client.Object\<close> gives access to.\<close>

record client_object =
  co_GVK :: group_version_kind
  co_Meta :: object_meta

section \<open>Containers and pods\<close>

record env_var =
  ev_Name :: string
  ev_Value :: string
  ev_ValueFrom :: "opaque option"

record container_port =
  cp_ContainerPort :: i32
  cp_Other :: opaque

datatype int_or_string = IntVal i32 | StrVal string

record http_get_action =
  hg_Port :: int_or_string
  hg_Path :: string

record probe =
  pr_HTTPGet :: "http_get_action option"
  pr_PeriodSeconds :: i32
  pr_Other :: opaque

text \<open>A \<open>resource.Quantity\<close>, by the text that \<open>resource.MustParse\<close> is given for it.\<close>

datatype quantity = MustParse string

record resource_requirements =
  rr_Requests :: "(string \<times> quantity) list"
  rr_Limits :: "(string \<times> quantity) list"

record container =
  c_Name :: string
  c_Image :: string
  c_ImagePullPolicy :: string
  c_Command :: "string list"
  c_Args :: "string list"
  c_Env :: "env_var list"
  c_Ports :: "container_port list"
  c_Resources :: resource_requirements
  c_StartupProbe :: "probe option"
  c_ReadinessProbe :: "probe option"
  c_LivenessProbe :: "probe option"
  c_Other :: opaque

definition zero_container :: container where
  "zero_container = \<lparr>c_Name = [], c_Image = [], c_ImagePullPolicy = [], c_Command = [], c_Args = [], c_Env = [],
     c_Ports = [], c_Resources = \<lparr>rr_Requests = [], rr_Limits = []\<rparr>, c_StartupProbe = None,
     c_ReadinessProbe = None, c_LivenessProbe = None, c_Other = []\<rparr>"

record pod_spec =
  ps_Containers :: "container list"
  ps_RestartPolicy :: string
  ps_TerminationGracePeriodSeconds :: "i64 option"
  ps_Other :: opaque

definition zero_pod_spec :: pod_spec where
  "zero_pod_spec = \<lparr>ps_Containers = [], ps_RestartPolicy = [], ps_TerminationGracePeriodSeconds = None, ps_Other = []\<rparr>"

section \<open>The libraries the operator calls\<close>

text \<open>An error value of a library call, by its text.\<close>

datatype go_error = GoError string

text \<open>An error of the client: a \<open>*apierrors.StatusError\<close> with its reason and text, or another error.\<close>

datatype api_error = StatusError string string | OtherError string

definition StatusReasonNotFound :: string where "StatusReasonNotFound = ''NotFound''"

text \<open>The error for a missing object, for the examples.\<close>

definition not_found :: api_error where
  "not_found = StatusError StatusReasonNotFound ''not found''"

text \<open>A \<open>labels.Selector\<close> is an interface value: the methods the operator calls on it.\<close>

record selector =
  sel_Empty :: bool
  sel_Matches :: "string_map \<Rightarrow> bool"

record label_selector =
  ls_MatchLabels :: string_map
  ls_MatchExpressions :: "(string \<times> string \<times> string list) list"

text \<open>
  \<open>newSelector\<close> is \<open>labels.NewSelector\<close>, \<open>labelSelectorAsSelector\<close> is
  \<open>metav1.LabelSelectorAsSelector\<close>, \<open>parseKindArg\<close> is the \<open>Kind\<close> of the second result of
  \<open>schema.ParseKindArg\<close>, \<open>gvIdentifier\<close> is \<open>GroupVersion.Identifier\<close>.
\<close>

record apimachinery =
  newSelector :: selector
  labelSelectorAsSelector :: "label_selector \<Rightarrow> go_error + selector"
  parseKindArg :: "string \<Rightarrow> string"
  gvIdentifier :: "string \<Rightarrow> string \<Rightarrow> string"

text \<open>Documented: a selector that reports \<open>Empty\<close> does not restrict the selection space, and the
  selector of \<open>labels.NewSelector\<close> is empty.\<close>

definition labels_api_ok :: "apimachinery \<Rightarrow> bool" where
  "labels_api_ok A \<longleftrightarrow> sel_Empty (newSelector A) \<and> (\<forall>ls. sel_Matches (newSelector A) ls) \<and>
     (\<forall>l s. labelSelectorAsSelector A l = Inr s \<longrightarrow> sel_Empty s \<longrightarrow> (\<forall>ls. sel_Matches s ls))"

text \<open>Documented: the kind is the text up to the first dot.\<close>

definition parse_kind_ok :: "apimachinery \<Rightarrow> bool" where
  "parse_kind_ok A \<longleftrightarrow> (\<forall>k. parseKindArg A k = takeWhile (\<lambda>c. c \<noteq> CHR ''.'') k)"

end
