(* ===== verification/Api_Types.thy ===== *)
theory Api_Types
  imports K8s_Types
begin

text \<open>
  \<open>internal/api/v1alpha1\<close>: the custom resource \<open>AuthProxyWorkload\<close>. The records follow the
  Go structs field by field; a pointer field is an \<open>option\<close>. The label selector conversion
  \<open>LabelsSelector\<close> takes the library functions as its first argument.
\<close>

section \<open>Constants (authproxyworkload\_types.go)\<close>

definition ErrorCodePortConflict :: string where "ErrorCodePortConflict = ''PortConflict''"

definition ErrorCodeEnvConflict :: string where "ErrorCodeEnvConflict = ''EnvVarConflict''"

definition AnnotationPrefix :: string where "AnnotationPrefix = ''cloudsql.cloud.google.com''"

definition ConditionUpToDate :: string where "ConditionUpToDate = ''UpToDate''"

definition ReasonFinishedReconcile :: string where "ReasonFinishedReconcile = ''FinishedReconcile''"

definition ReasonNoWorkloadsFound :: string where "ReasonNoWorkloadsFound = ''NoWorkloadsFound''"

definition ConditionWorkloadUpToDate :: string where
  "ConditionWorkloadUpToDate = ''WorkloadUpToDate''"

definition ReasonUpToDate :: string where "ReasonUpToDate = ''UpToDate''"

section \<open>The resource\<close>

record workload_selector_spec =
  wss_Selector :: "label_selector option"
  wss_Kind :: string
  wss_Name :: string

record auth_proxy_container_spec =
  apc_Container :: "container option"
  apc_Resources :: "resource_requirements option"
  apc_MaxConnections :: "i64 option"
  apc_MaxSigtermDelay :: "i64 option"
  apc_SQLAdminAPIEndpoint :: string
  apc_Image :: string

record instance_spec =
  is_ConnectionString :: string
  is_Port :: "i32 option"
  is_AutoIAMAuthN :: "bool option"
  is_PrivateIP :: "bool option"
  is_PortEnvName :: string
  is_HostEnvName :: string

record auth_proxy_workload_spec =
  aps_Workload :: workload_selector_spec
  aps_AuthProxyContainer :: "auth_proxy_container_spec option"
  aps_Instances :: "instance_spec list"

text \<open>\<open>metav1.Condition\<close>, whose fields the operator sets all; \<open>None\<close> is the zero time.\<close>

datatype condition_status = ConditionTrue | ConditionFalse | ConditionUnknown

record condition =
  cd_Type :: string
  cd_Status :: condition_status
  cd_ObservedGeneration :: i64
  cd_LastTransitionTime :: "time option"
  cd_Reason :: string
  cd_Message :: string

record workload_status =
  ws_Kind :: string
  ws_Version :: string
  ws_Namespace :: string
  ws_Name :: string
  ws_Conditions :: "condition list"

record auth_proxy_workload_status =
  st_Conditions :: "condition list"
  st_WorkloadStatus :: "workload_status list"

record auth_proxy_workload =
  apw_GVK :: group_version_kind
  apw_Meta :: object_meta
  apw_Spec :: auth_proxy_workload_spec
  apw_Status :: auth_proxy_workload_status

abbreviation apw_Namespace :: "auth_proxy_workload \<Rightarrow> string" where
  "apw_Namespace p \<equiv> om_Namespace (apw_Meta p)"

abbreviation apw_Name :: "auth_proxy_workload \<Rightarrow> string" where
  "apw_Name p \<equiv> om_Name (apw_Meta p)"

text \<open>The \<open>types.NamespacedName\<close> of a resource, its identity in the API server.\<close>

definition apw_key :: "auth_proxy_workload \<Rightarrow> namespaced_name" where
  "apw_key p = \<lparr>nn_Namespace = apw_Namespace p, nn_Name = apw_Name p\<rparr>"

section \<open>Operations\<close>

definition LabelsSelector :: "apimachinery \<Rightarrow> workload_selector_spec \<Rightarrow> go_error + selector" where
  "LabelsSelector A s =
     (case wss_Selector s of
        None \<Rightarrow> Inr (newSelector A)
      | Some l \<Rightarrow> labelSelectorAsSelector A l)"

text \<open>The defaulting and validating webhooks of the resource (authproxyworkload\_webhook.go):
  they log and accept everything; \<open>None\<close> is the nil error.\<close>

definition Default :: "auth_proxy_workload \<Rightarrow> auth_proxy_workload" where
  "Default r = r"

definition ValidateCreate :: "auth_proxy_workload \<Rightarrow> go_error option" where
  "ValidateCreate r = None"

definition ValidateUpdate :: "auth_proxy_workload \<Rightarrow> auth_proxy_workload \<Rightarrow> go_error option" where
  "ValidateUpdate r old = None"

definition ValidateDelete :: "auth_proxy_workload \<Rightarrow> go_error option" where
  "ValidateDelete r = None"

section \<open>Example resources\<close>

text \<open>A resource with a given name, selector kind and instances and nothing else set; the
  witnesses of the properties are built from it.\<close>

definition example_apw :: "string \<Rightarrow> string \<Rightarrow> string \<Rightarrow> instance_spec list \<Rightarrow> auth_proxy_workload" where
  "example_apw ns name kind insts =
     \<lparr>apw_GVK = \<lparr>gvk_Group = AnnotationPrefix, gvk_Version = ''v1alpha1'', gvk_Kind = ''AuthProxyWorkload''\<rparr>,
      apw_Meta = zero_meta\<lparr>om_Namespace := ns, om_Name := name\<rparr>,
      apw_Spec = \<lparr>aps_Workload = \<lparr>wss_Selector = None, wss_Kind = kind, wss_Name = []\<rparr>,
                  aps_AuthProxyContainer = None, aps_Instances = insts\<rparr>,
      apw_Status = \<lparr>st_Conditions = [], st_WorkloadStatus = []\<rparr>\<rparr>"

definition example_inst :: "string \<Rightarrow> i32 option \<Rightarrow> instance_spec" where
  "example_inst conn port =
     \<lparr>is_ConnectionString = conn, is_Port = port, is_AutoIAMAuthN = None, is_PrivateIP = None,
      is_PortEnvName = [], is_HostEnvName = []\<rparr>"

lemma example_apw_simps [simp]:
  "apw_Meta (example_apw ns name kind insts) = zero_meta\<lparr>om_Namespace := ns, om_Name := name\<rparr>"
  "aps_Instances (apw_Spec (example_apw ns name kind insts)) = insts"
  "aps_AuthProxyContainer (apw_Spec (example_apw ns name kind insts)) = None"
  "aps_Workload (apw_Spec (example_apw ns name kind insts)) =
     \<lparr>wss_Selector = None, wss_Kind = kind, wss_Name = []\<rparr>"
  by (simp_all add: example_apw_def)

end
