(* ===== verification/Names.thy ===== *)
theory Names
  imports Api_Types
begin

text \<open>
  \<open>internal/workload/names.go\<close>: the names of the containers and volumes the operator adds.
  A name over 63 bytes keeps its two ends and gets the FNV-1a checksum of the whole as suffix.
  \<open>SafePrefixedName\<close> slices by computed bounds, and a slice out of range panics: \<open>None\<close>.
\<close>

unbundle bit_operations_syntax

section \<open>Definitions\<close>

definition ContainerPrefix :: string where "ContainerPrefix = ''csql-''"

text \<open>\<open>fnv.New32a\<close>, \<open>Write\<close> and \<open>Sum32\<close> of Go's \<open>hash/fnv\<close>: offset basis, then for each byte
  exclusive-or and multiplication by the prime, modulo \<open>2\<^sup>3\<^sup>2\<close>. \<open>Write\<close> never fails and takes all
  bytes, so the panic of \<open>mustHash\<close> is unreachable.\<close>

definition mustHash :: "string \<Rightarrow> u32" where
  "mustHash bytes = foldl (\<lambda>h b. (h XOR of_char b) * 16777619) 2166136261 bytes"

text \<open>A slice expression \<open>s[lo:hi]\<close> on a string.\<close>

definition go_slice :: "string \<Rightarrow> int \<Rightarrow> int \<Rightarrow> string option" where
  "go_slice s lo hi =
     (if 0 \<le> lo \<and> lo \<le> hi \<and> hi \<le> int (length s)
      then Some (take (nat (hi - lo)) (drop (nat lo) s)) else None)"

text \<open>Go's integer division truncates towards zero.\<close>

definition go_div2 :: "int \<Rightarrow> int" where
  "go_div2 a = (if a < 0 then - ((- a) div 2) else a div 2)"

definition SafePrefixedName :: "string \<Rightarrow> string \<Rightarrow> string option" where
  "SafePrefixedName prefix instName =
     (let maxNameLen = 63; containerPrefixLen = int (length prefix) in
      if int (length instName) + containerPrefixLen > maxNameLen then
        let checksum = mustHash instName;
            hashSuffix = ''-'' @ fmt_x (unat checksum);
            hashSuffixLen = int (length hashSuffix);
            truncateLen = go_div2 (maxNameLen - hashSuffixLen - containerPrefixLen)
        in do {
          namePrefix \<leftarrow> go_slice instName 0 truncateLen;
          nameSuffix \<leftarrow> go_slice instName (int (length instName) - truncateLen)
                          (int (length instName));
          Some (to_lower (join [] [prefix, namePrefix, nameSuffix, hashSuffix]))
        }
      else Some (to_lower (prefix @ instName)))"

definition ContainerNameFromNamespacedName :: "namespaced_name \<Rightarrow> string option" where
  "ContainerNameFromNamespacedName r =
     SafePrefixedName ContainerPrefix (nn_Namespace r @ ''-'' @ nn_Name r)"

definition ContainerName :: "auth_proxy_workload \<Rightarrow> string option" where
  "ContainerName r = SafePrefixedName ContainerPrefix (apw_Namespace r @ ''-'' @ apw_Name r)"

definition VolumeName :: "auth_proxy_workload \<Rightarrow> instance_spec \<Rightarrow> string \<Rightarrow> string option" where
  "VolumeName r inst mountType =
     (let connName = replace_char (CHR '':'') (CHR ''-'') (to_lower (is_ConnectionString inst))
      in SafePrefixedName ContainerPrefix
           (apw_Namespace r @ ''-'' @ apw_Name r @ ''-'' @ mountType @ ''-'' @ connName))"

section \<open>The two forms of a name\<close>

text \<open>The number of bytes kept at each end of a name that is too long, as a natural number.\<close>

definition kept_len :: "string \<Rightarrow> string \<Rightarrow> nat" where
  "kept_len prefix instName =
     (62 - length (fmt_x (unat (mustHash instName))) - length prefix) div 2"

definition long_name :: "string \<Rightarrow> string \<Rightarrow> string" where
  "long_name prefix instName =
     prefix @ take (kept_len prefix instName) instName
       @ drop (length instName - kept_len prefix instName) instName
       @ ''-'' @ fmt_x (unat (mustHash instName))"

lemma safe_name_short:
  "length instName + length prefix \<le> 63 \<Longrightarrow>
     SafePrefixedName prefix instName = Some (to_lower (prefix @ instName))"
  by (simp add: SafePrefixedName_def)

lemma safe_name_long:
  assumes pre: "length prefix \<le> 54" and long: "63 < length instName + length prefix"
  shows "SafePrefixedName prefix instName = Some (to_lower (long_name prefix instName))"
proof -
  let ?h = "length (fmt_x (unat (mustHash instName)))"
  let ?k = "kept_len prefix instName"
  have h: "?h \<le> 8" by (rule length_fmt_x_u32)
  have trunc: "go_div2 (63 - int (length (''-'' @ fmt_x (unat (mustHash instName))))
      - int (length prefix)) = int ?k"
    using pre h by (simp add: go_div2_def kept_len_def zdiv_int of_nat_diff)
  have k: "?k \<le> length instName"
    using pre h long by (simp add: kept_len_def)
  have 1: "go_slice instName 0 (int ?k) = Some (take ?k instName)"
    using k by (simp add: go_slice_def)
  have 2: "go_slice instName (int (length instName) - int ?k) (int (length instName)) =
      Some (drop (length instName - ?k) instName)"
    using k by (simp add: go_slice_def flip: of_nat_diff)
  show ?thesis
    using long unfolding SafePrefixedName_def Let_def trunc
    by (simp add: 1 2 long_name_def)
qed

lemma length_long_name:
  "length prefix \<le> 54 \<Longrightarrow> 63 < length instName + length prefix \<Longrightarrow>
     length (long_name prefix instName) \<le> 63"
  using length_fmt_x_u32 [of "mustHash instName"] by (simp add: long_name_def kept_len_def)

lemma safe_name_cases:
  assumes "length prefix \<le> 54"
  obtains (short) "length instName + length prefix \<le> 63"
      "SafePrefixedName prefix instName = Some (to_lower (prefix @ instName))"
    | (long) "63 < length instName + length prefix"
      "SafePrefixedName prefix instName = Some (to_lower (long_name prefix instName))"
  using safe_name_short [of instName prefix] safe_name_long [OF assms, of instName]
  by (cases "length instName + length prefix \<le> 63") auto

section \<open>Properties\<close>

text \<open>The bytes a DNS label may contain, in the form the operator's inputs have them.\<close>

definition dns_char :: "char \<Rightarrow> bool" where
  "dns_char c \<longleftrightarrow> c \<in> set ''abcdefghijklmnopqrstuvwxyz0123456789-''"

definition dns_name :: "string \<Rightarrow> bool" where
  "dns_name s \<longleftrightarrow> list_all dns_char s"

lemma dns_char_not_upper: "dns_char c \<Longrightarrow> \<not> is_upper c"
  by (auto simp: dns_char_def is_upper_def)

lemma dns_name_lower: "dns_name s \<Longrightarrow> to_lower s = s"
  by (rule to_lower_id) (auto simp: dns_name_def list_all_iff dns_char_not_upper)

lemma dns_name_append [simp]: "dns_name (s @ t) \<longleftrightarrow> dns_name s \<and> dns_name t"
  by (simp add: dns_name_def)

lemma dns_name_take_drop: "dns_name s \<Longrightarrow> dns_name (take n s) \<and> dns_name (drop n s)"
  by (auto simp: dns_name_def list_all_iff dest: in_set_takeD in_set_dropD)

lemma dns_hex_digits: "list_all dns_char ''0123456789abcdef''"
  by (simp add: dns_char_def)

lemma dns_name_hex: "dns_name (fmt_x n)"
  using set_fmt_x [of n] dns_hex_digits unfolding dns_name_def list_all_iff hex_digits_def by blast

lemma dns_name_Cons [simp]: "dns_name (c # s) \<longleftrightarrow> dns_char c \<and> dns_name s"
  by (simp add: dns_name_def)

lemma dns_name_literals [simp]: "dns_char (CHR ''-'')" "dns_name ContainerPrefix" "dns_name []"
  by (simp_all add: dns_name_def dns_char_def ContainerPrefix_def)

lemma dns_long_name: "dns_name prefix \<Longrightarrow> dns_name inst \<Longrightarrow> dns_name (long_name prefix inst)"
  by (simp add: long_name_def dns_name_take_drop dns_name_hex)

lemma length_ContainerPrefix [simp]: "length ContainerPrefix = 5"
  by (simp add: ContainerPrefix_def)

text \<open>The DNS label format of RFC 1123, on lower-case text.\<close>

definition dns_label :: "string \<Rightarrow> bool" where
  "dns_label s \<longleftrightarrow> s \<noteq> [] \<and> length s \<le> 63 \<and> dns_name s \<and> hd s \<noteq> CHR ''-'' \<and> last s \<noteq> CHR ''-''"

lemma lower_char_minus: "lower_char c = CHR ''-'' \<Longrightarrow> c = CHR ''-''"
proof (rule ccontr)
  assume "lower_char c = CHR ''-''" "c \<noteq> CHR ''-''"
  then have u: "65 \<le> (of_char c :: nat)" "char_of (of_char c + 32 :: nat) = CHR ''-''" "(of_char c :: nat) \<le> 90"
    by (auto simp: lower_char_def is_upper_def split: if_splits)
  have "(of_char (char_of (of_char c + 32 :: nat)) :: nat) = of_char c + 32" using u(3) by simp
  with u(1,2) show False by simp
qed

lemma dns_long_name_lower:
  assumes "dns_name prefix" "dns_name (to_lower inst)"
  shows "dns_name (to_lower (long_name prefix inst))"
proof -
  have "to_lower (take k inst) = take k (to_lower inst)" "to_lower (drop k inst) = drop k (to_lower inst)" for k
    by (simp_all add: to_lower_def take_map drop_map)
  moreover have "to_lower (CHR ''-'' # s) = CHR ''-'' # to_lower s" for s
    by (simp add: to_lower_def lower_char_def is_upper_def)
  ultimately show ?thesis
    using assms by (simp add: long_name_def to_lower_append dns_name_lower dns_name_hex dns_name_take_drop)
qed

lemma last_to_lower: "s \<noteq> [] \<Longrightarrow> last s \<noteq> CHR ''-'' \<Longrightarrow> last (to_lower s) \<noteq> CHR ''-''"
  using lower_char_minus by (auto simp: to_lower_def last_map)

lemma last_long_name: "last (long_name prefix inst) \<noteq> CHR ''-''"
proof -
  have "fmt_x (unat (mustHash inst)) \<noteq> []" by (simp add: fmt_x_def)
  then have "last (long_name prefix inst) \<in> set (fmt_x (unat (mustHash inst)))"
    by (simp add: long_name_def)
  then have "last (long_name prefix inst) \<in> hex_digits" using set_fmt_x by blast
  then show ?thesis using minus_not_hex_digit by auto
qed

text \<open>
  C27: what \<open>SafePrefixedName\<close> guarantees. For a prefix of at most 54 bytes that starts a DNS label (the operator's has 5 bytes)
  and any ASCII name that is not empty, it never panics on a slice bound, and its result has at most 63 bytes and starts
  with the prefix. The result is a DNS label, as the comments of the file promise, if the name has only letters, digits and minus
  signs and does not end in a minus sign. It is not a DNS label if the name is short enough to be kept as it
  is and contains any other character: the dot, which names of resources may contain, is passed on.
\<close>

theorem SafePrefixedName_dns_label:
  assumes pre: "length prefix \<le> 54" "dns_name prefix" "prefix \<noteq> []" "hd prefix \<noteq> CHR ''-''"
    and inst: "instName \<noteq> []" "ascii instName"
  shows "\<exists>n. SafePrefixedName prefix instName = Some n \<and> length n \<le> 63 \<and> has_prefix n prefix \<and>
     (dns_name (to_lower instName) \<and> last instName \<noteq> CHR ''-'' \<longrightarrow> dns_label n) \<and>
     (length instName + length prefix \<le> 63 \<and> \<not> dns_name (to_lower instName) \<longrightarrow> \<not> dns_label n)"
proof (cases rule: safe_name_cases [OF pre(1), of instName, case_names short long])
  case short
  have "to_lower (prefix @ instName) = prefix @ to_lower instName" using pre(2) by (simp add: to_lower_append dns_name_lower)
  moreover have "to_lower instName \<noteq> []" using inst(1) by (simp add: to_lower_def)
  ultimately show ?thesis
    using short pre inst last_to_lower [OF inst(1)] by (simp add: dns_label_def hd_append)
next
  case long
  obtain rest where rest: "long_name prefix instName = prefix @ rest" "rest \<noteq> []" by (simp add: long_name_def)
  then have split: "to_lower (long_name prefix instName) = prefix @ to_lower rest" "to_lower rest \<noteq> []"
    using pre(2) by (simp_all add: to_lower_append dns_name_lower) (simp add: to_lower_def)
  have "dns_label (to_lower (long_name prefix instName))" if "dns_name (to_lower instName)"
    using that dns_long_name_lower [OF pre(2) that] length_long_name [OF pre(1) long(1)] pre(3,4) split
      last_to_lower [OF _ last_long_name [of prefix instName]] rest
    by (auto simp: dns_label_def hd_append)
  with long split(1) length_long_name [OF pre(1) long(1)] show ?thesis
    by (metis has_prefix_append length_to_lower linorder_not_le)
qed

theorem SafePrefixedName_dns_label_witness:
  "(\<exists>n. SafePrefixedName ''csql-'' ''default-hello-world'' = Some n \<and> dns_label n) \<and>
   (\<exists>n. ContainerName (example_apw ''default'' ''a.b'' ''Pod'' []) = Some n \<and> \<not> dns_label n)"
proof
  show "\<exists>n. SafePrefixedName ''csql-'' ''default-hello-world'' = Some n \<and> dns_label n"
    using SafePrefixedName_dns_label [of "''csql-''" "''default-hello-world''"]
    by (auto simp: dns_char_def dns_name_lower ascii_def ascii_char_def)
  show "\<exists>n. ContainerName (example_apw ''default'' ''a.b'' ''Pod'' []) = Some n \<and> \<not> dns_label n"
    using SafePrefixedName_dns_label [of ContainerPrefix "''default-a.b''"]
    by (simp add: ContainerName_def) (auto simp: ContainerPrefix_def dns_char_def to_lower_def lower_char_def is_upper_def ascii_def ascii_char_def)
qed

text \<open>The text whose shortened form is the container name.\<close>

definition full_name :: "auth_proxy_workload \<Rightarrow> string" where
  "full_name p = apw_Namespace p @ ''-'' @ apw_Name p"

lemma ContainerName_full_name: "ContainerName p = SafePrefixedName ContainerPrefix (full_name p)"
  by (simp add: ContainerName_def full_name_def)

text \<open>
  C28: within a namespace the container name identifies the resource as long as the names fit: two
  resources of one namespace whose namespace and name together have at most 57 bytes have the same
  \<open>ContainerName\<close> only if they have the same name.
\<close>

theorem ContainerName_inj_short:
  assumes "apw_Namespace p = apw_Namespace q"
    and "dns_name (full_name p)" "dns_name (full_name q)"
    and "length (full_name p) \<le> 58" "length (full_name q) \<le> 58"
  shows "ContainerName p = ContainerName q \<longleftrightarrow> apw_Name p = apw_Name q"
  using assms by (simp add: ContainerName_full_name safe_name_short dns_name_lower full_name_def)

theorem ContainerName_inj_short_witness:
  "(ContainerName (example_apw ''default'' ''hello'' ''Pod'' []) =
      ContainerName (example_apw ''default'' ''world'' ''Pod'' [])) = (''hello'' = ''world'')"
  using ContainerName_inj_short [of "example_apw ''default'' ''hello'' ''Pod'' []"
      "example_apw ''default'' ''world'' ''Pod'' []"]
  by (simp add: full_name_def dns_name_def dns_char_def)

lemma long_name_suffix:
  "takeWhile (\<lambda>c. c \<noteq> CHR ''-'') (rev (long_name prefix inst)) =
     rev (fmt_x (unat (mustHash inst)))"
proof -
  have "CHR ''-'' \<notin> set (fmt_x (unat (mustHash inst)))"
    using set_fmt_x minus_not_hex_digit by blast
  then show ?thesis
    by (auto simp: long_name_def takeWhile_append)
qed

lemma fmt_x_unat_inj: "fmt_x (unat v) = fmt_x (unat w) \<Longrightarrow> v = w"
  using fmt_base_inj [of 16 "unat v" "unat w"] by (simp add: fmt_x_def word_unat_eq_iff)

lemma long_name_eqD:
  assumes eq: "long_name prefix a = long_name prefix b"
    and long: "63 < length a + length prefix" "63 < length b + length prefix"
  shows "mustHash a = mustHash b \<and> take (kept_len prefix a) a = take (kept_len prefix a) b \<and>
     drop (length a - kept_len prefix a) a = drop (length b - kept_len prefix a) b"
proof -
  have h: "mustHash a = mustHash b"
    using arg_cong [OF eq, of "\<lambda>n. takeWhile (\<lambda>c. c \<noteq> CHR ''-'') (rev n)"]
    by (simp add: long_name_suffix fmt_x_unat_inj)
  then have k: "kept_len prefix b = kept_len prefix a"
    by (simp add: kept_len_def)
  have "kept_len prefix a \<le> length a" "kept_len prefix a \<le> length b"
    using long by (simp_all add: kept_len_def)
  with eq h k show ?thesis
    by (simp add: long_name_def)
qed

lemma ContainerName_long:
  "dns_name (full_name p) \<Longrightarrow> 58 < length (full_name p) \<Longrightarrow>
     ContainerName p = Some (long_name ContainerPrefix (full_name p))"
  by (simp add: ContainerName_full_name safe_name_long dns_name_lower dns_long_name)

text \<open>Two names of one length with equal ends whose checksums collide.\<close>

abbreviation (input) clash1 :: string where
  "clash1 \<equiv> ''reporting-database-read-umoebvpr-production-us-central1a''"

abbreviation (input) clash2 :: string where
  "clash2 \<equiv> ''reporting-database-read-zzvvqomw-production-us-central1a''"

lemma mustHash_clash:
  "mustHash (''default-'' @ clash1) = 0x567bbf5a" "mustHash (''default-'' @ clash2) = 0x567bbf5a"
  by code_simp+

lemma fmt_x_clash: "fmt_x 1450950490 = ''567bbf5a''"
  by (simp add: fmt_x_def fmt_base.simps digit_char_def)

lemma ContainerName_clash:
  "ContainerName (example_apw ''default'' clash1 k1 i1) =
     Some ''csql-default-reporting-databa-production-us-central1a-567bbf5a''"
  "ContainerName (example_apw ''default'' clash2 k2 i2) =
     Some ''csql-default-reporting-databa-production-us-central1a-567bbf5a''"
  using mustHash_clash
  by (simp_all add: ContainerName_long full_name_def dns_char_def long_name_def kept_len_def
      fmt_x_clash ContainerPrefix_def)

text \<open>
  For names that are shortened, two resources can only share a container name if the FNV-1a
  checksums of their full names collide and the names agree on both ends that are kept.
\<close>

theorem ContainerName_long_eqD:
  assumes dns: "dns_name (full_name p)" "dns_name (full_name q)"
    and long: "58 < length (full_name p)" "58 < length (full_name q)"
    and eq: "ContainerName p = ContainerName q"
  shows "mustHash (full_name p) = mustHash (full_name q) \<and>
     (let k = kept_len ContainerPrefix (full_name p) in
        take k (full_name p) = take k (full_name q) \<and>
        drop (length (full_name p) - k) (full_name p) =
          drop (length (full_name q) - k) (full_name q))"
  using long_name_eqD [of ContainerPrefix "full_name p" "full_name q"] dns long eq
  by (simp add: ContainerName_long)

theorem ContainerName_long_eqD_witness:
  "mustHash (full_name (example_apw ''default'' clash1 ''Pod'' [])) =
     mustHash (full_name (example_apw ''default'' clash2 ''Pod'' []))"
  using ContainerName_long_eqD [of "example_apw ''default'' clash1 ''Pod'' []"
      "example_apw ''default'' clash2 ''Pod'' []"]
  by (simp add: ContainerName_clash full_name_def dns_char_def)

text \<open>
  C39: the shortened name does not preserve uniqueness: two resources with different valid names in
  one namespace get the same container name.
\<close>

theorem ContainerName_not_unique:
  "\<exists>p q. apw_Namespace p = apw_Namespace q \<and> apw_Name p \<noteq> apw_Name q \<and>
     dns_name (full_name p) \<and> dns_name (full_name q) \<and> ContainerName p = ContainerName q"
proof (intro exI conjI)
  let ?p = "example_apw ''default'' clash1 ''Pod'' []"
  let ?q = "example_apw ''default'' clash2 ''Pod'' []"
  show "apw_Namespace ?p = apw_Namespace ?q" by simp
  show "apw_Name ?p \<noteq> apw_Name ?q" by simp
  show "dns_name (full_name ?p)" "dns_name (full_name ?q)"
    by (simp_all add: full_name_def dns_char_def)
  show "ContainerName ?p = ContainerName ?q" by (simp only: ContainerName_clash)
qed

end
