(* ===== verification/Keyed_Upsert.thy ===== *)
theory Keyed_Upsert
  imports Go_Prelude
begin

text \<open>
  The contract of ``replace the entry with the same key, or append a new one'', as a locale.
  \<open>key\<close> is what the loop compares, \<open>ups\<close> is the operation, and \<open>stored xs x\<close> is the entry
  that ends up in the list for \<open>x\<close> (the source sometimes stores \<open>x\<close> with a field taken from
  the entry it replaces). \<open>replaceStatus\<close>, \<open>replaceCondition\<close>, \<open>addWorkloadEnvVar\<close> and one
  round of \<open>updateContainerEnv\<close> interpret it in their own theories.
\<close>

locale keyed_upsert =
  fixes key :: "'a \<Rightarrow> 'k"
    and ups :: "'a list \<Rightarrow> 'a \<Rightarrow> 'a list"
    and stored :: "'a list \<Rightarrow> 'a \<Rightarrow> 'a"
  assumes ups_keys:
    "map key (ups xs x) =
       (if key x \<in> key ` set xs then map key xs else map key xs @ [key x])"
    and ups_others:
    "filter (\<lambda>y. key y \<noteq> key x) (ups xs x) = filter (\<lambda>y. key y \<noteq> key x) xs"
    and ups_find:
    "find (\<lambda>y. key y = key x) (ups xs x) = Some (stored xs x)"
begin

lemma stored_key: "key (stored xs x) = key x"
  using ups_find [of x xs] by (metis (mono_tags, lifting) find_Some_iff)

lemma ups_key_set: "key ` set (ups xs x) = insert (key x) (key ` set xs)"
proof -
  have "key ` set (ups xs x) = set (map key (ups xs x))" by simp
  also have "\<dots> = insert (key x) (key ` set xs)" by (subst ups_keys) auto
  finally show ?thesis .
qed

lemma ups_length_le: "length (ups xs x) \<le> Suc (length xs)"
  using arg_cong [OF ups_keys [of xs x], of length] by (simp split: if_splits)

lemma ups_length_ge: "length xs \<le> length (ups xs x)"
  using arg_cong [OF ups_keys [of xs x], of length] by (simp split: if_splits)

lemma ups_distinct:
  assumes "distinct (map key xs)"
  shows "distinct (map key (ups xs x))"
  using assms by (subst ups_keys) auto

lemma ups_same_keys: "key x \<in> key ` set xs \<Longrightarrow> map key (ups xs x) = map key xs"
  by (simp add: ups_keys)

lemma ups_other_mem: "key y \<noteq> key x \<Longrightarrow> y \<in> set (ups xs x) \<longleftrightarrow> y \<in> set xs"
  using arg_cong [OF ups_others [of x xs], of set] by auto

lemma ups_stored_mem: "stored xs x \<in> set (ups xs x)"
  using ups_find [of x xs] by (auto simp: find_Some_iff)

text \<open>With distinct keys the list is a finite map, and the operation is a map update.\<close>

lemma ups_mem_key:
  assumes "distinct (map key xs)" and "y \<in> set (ups xs x)" and "key y = key x"
  shows "y = stored xs x"
proof -
  have "inj_on key (set (ups xs x))"
    using ups_distinct [OF assms(1)] by (simp add: distinct_map)
  then show ?thesis
    by (rule inj_onD) (use assms stored_key ups_stored_mem in auto)
qed

text \<open>A whole loop of operations.\<close>

lemma foldl_ups_distinct:
  "distinct (map key xs) \<Longrightarrow> distinct (map key (foldl ups xs us))"
  by (induction us arbitrary: xs) (auto intro: ups_distinct)

lemma foldl_ups_keys: "key ` set (foldl ups xs us) = key ` set xs \<union> key ` set us"
  by (induction us arbitrary: xs) (auto simp: ups_key_set)

lemma foldl_ups_other_mem:
  "key y \<notin> key ` set us \<Longrightarrow> y \<in> set (foldl ups xs us) \<longleftrightarrow> y \<in> set xs"
  by (induction us arbitrary: xs) (auto simp: ups_other_mem)

lemma ups_others_set:
  assumes "key x \<in> N"
  shows "filter (\<lambda>y. key y \<notin> N) (ups xs x) = filter (\<lambda>y. key y \<notin> N) xs"
proof -
  have "filter (\<lambda>y. key y \<notin> N) zs = filter (\<lambda>y. key y \<notin> N) (filter (\<lambda>y. key y \<noteq> key x) zs)" for zs
    using assms by (auto simp: filter_filter intro!: filter_cong)
  then show ?thesis by (metis ups_others)
qed

lemma foldl_ups_others_set:
  "key ` set us \<subseteq> N \<Longrightarrow> filter (\<lambda>y. key y \<notin> N) (foldl ups xs us) = filter (\<lambda>y. key y \<notin> N) xs"
  by (induction us arbitrary: xs) (auto simp: ups_others_set)

lemma foldl_ups_same_keys:
  "key ` set us \<subseteq> key ` set xs \<Longrightarrow> map key (foldl ups xs us) = map key xs"
proof (induction us arbitrary: xs)
  case (Cons u us)
  then have u: "map key (ups xs u) = map key xs" by (simp add: ups_same_keys)
  then have "key ` set (ups xs u) = key ` set xs" by (metis list.set_map)
  with Cons u show ?case by simp
qed simp

end

section \<open>The two loop shapes the source uses\<close>

text \<open>Overwrite every entry that matches (the loop goes on after a hit).\<close>

definition replace_all_or_append :: "('a \<Rightarrow> bool) \<Rightarrow> 'a \<Rightarrow> 'a list \<Rightarrow> 'a list" where
  "replace_all_or_append P x xs =
     (if list_ex P xs then map (\<lambda>y. if P y then x else y) xs else xs @ [x])"

text \<open>Overwrite the first entry that matches (the loop returns at a hit).\<close>

fun replace_first_or_append :: "('a \<Rightarrow> bool) \<Rightarrow> ('a \<Rightarrow> 'a) \<Rightarrow> 'a \<Rightarrow> 'a list \<Rightarrow> 'a list" where
  "replace_first_or_append P f x [] = [x]"
| "replace_first_or_append P f x (y # ys) =
     (if P y then f y # ys else y # replace_first_or_append P f x ys)"

lemma filter_not_map_if: "(\<And>y. P y \<Longrightarrow> P (f y)) \<Longrightarrow>
    filter (\<lambda>y. \<not> P y) (map (\<lambda>y. if P y then f y else y) xs) = filter (\<lambda>y. \<not> P y) xs"
  by (induction xs) auto

lemma find_map_if: "list_ex P xs \<Longrightarrow> P x \<Longrightarrow>
    find P (map (\<lambda>y. if P y then x else y) xs) = Some x"
  by (induction xs) auto

lemma find_snoc: "\<not> list_ex P xs \<Longrightarrow> P x \<Longrightarrow> find P (xs @ [x]) = Some x"
  by (induction xs) auto

lemma keyed_upsert_replace_all:
  "keyed_upsert key (\<lambda>xs x. replace_all_or_append (\<lambda>y. key y = key x) x xs) (\<lambda>_ x. x)"
proof
  fix xs :: "'a list" and x :: 'a
  have ex: "list_ex (\<lambda>y. key y = key x) xs \<longleftrightarrow> key x \<in> key ` set xs"
    by (auto simp: list_ex_iff image_iff intro: sym)
  show "map key (replace_all_or_append (\<lambda>y. key y = key x) x xs) =
      (if key x \<in> key ` set xs then map key xs else map key xs @ [key x])"
    by (auto simp: replace_all_or_append_def ex)
  show "filter (\<lambda>y. key y \<noteq> key x) (replace_all_or_append (\<lambda>y. key y = key x) x xs) =
      filter (\<lambda>y. key y \<noteq> key x) xs"
    using filter_not_map_if [of "\<lambda>y. key y = key x" "\<lambda>_. x" xs]
    by (auto simp: replace_all_or_append_def)
  show "find (\<lambda>y. key y = key x) (replace_all_or_append (\<lambda>y. key y = key x) x xs) = Some x"
    by (simp add: replace_all_or_append_def find_map_if find_snoc)
qed

lemma replace_first_keys:
  assumes "\<And>y. key y = key x \<Longrightarrow> key (f y) = key y"
  shows "map key (replace_first_or_append (\<lambda>y. key y = key x) f x xs) =
      (if key x \<in> key ` set xs then map key xs else map key xs @ [key x])"
  using assms by (induction xs) auto

lemma replace_first_others:
  assumes "\<And>y. key y = key x \<Longrightarrow> key (f y) = key y"
  shows "filter (\<lambda>y. key y \<noteq> key x) (replace_first_or_append (\<lambda>y. key y = key x) f x xs) =
      filter (\<lambda>y. key y \<noteq> key x) xs"
  using assms by (induction xs) auto

lemma replace_first_find:
  assumes "\<And>y. key y = key x \<Longrightarrow> key (f y) = key y"
  shows "find (\<lambda>y. key y = key x) (replace_first_or_append (\<lambda>y. key y = key x) f x xs) =
      Some (case find (\<lambda>y. key y = key x) xs of None \<Rightarrow> x | Some y \<Rightarrow> f y)"
  using assms by (induction xs) auto

end
