(* ===== verification/Update_State.thy ===== *)
theory Update_State
  imports Names Keyed_Upsert
begin

text \<open>
  The working state of one run of the pod update (\<open>updateState\<close> in
  \<open>internal/workload/podspec_updates.go\<close>): the errors found so far, the table of ports in use, the
  environment variables to set and the next port to try. Each method of \<open>*updateState\<close> returns the
  new state. The searches for a free port are loops that may run forever in principle, so the
  operations that use them return an \<open>option\<close>.
\<close>

section \<open>Data\<close>

definition DefaultProxyImage :: string where
  "DefaultProxyImage = ''gcr.io/cloud-sql-connectors/cloud-sql-proxy:2.0.0-preview.4''"

definition DefaultFirstPort :: i32 where "DefaultFirstPort = 5000"

definition DefaultHealthCheckPort :: i32 where "DefaultHealthCheckPort = 9801"

record updater =
  userAgent :: string

definition NewUpdater :: "string \<Rightarrow> updater" where
  "NewUpdater ua = \<lparr>userAgent = ua\<rparr>"

record config_error_detail =
  ed_ErrorCode :: string
  ed_Description :: string
  ed_AuthProxyName :: string
  ed_AuthProxyNamespace :: string
  ed_WorkloadKind :: group_version_kind
  ed_WorkloadName :: string
  ed_WorkloadNamespace :: string

record config_error =
  ce_workloadKind :: group_version_kind
  ce_workloadName :: string
  ce_workloadNamespace :: string
  ce_details :: "config_error_detail list"

record db_instance =
  di_AuthProxyWorkload :: namespaced_name
  di_ConnectionString :: string

record managed_env_var =
  me_Instance :: db_instance
  me_OperatorManagedValue :: env_var
  me_OriginalValues :: string_map

record managed_port =
  mp_Instance :: db_instance
  mp_OriginalValues :: "(string \<times> i32) list"
  mp_Port :: i32

record managed_volume =
  mv_Volume :: opaque
  mv_VolumeMount :: opaque
  mv_Instance :: db_instance

record workload_mods =
  wm_DBInstances :: "db_instance list"
  wm_EnvVars :: "managed_env_var list"
  wm_VolumeMounts :: "managed_volume list"
  wm_Ports :: "managed_port list"

record update_state =
  us_err :: config_error
  us_mods :: workload_mods
  us_nextDBPort :: i32
  us_updater :: updater

abbreviation us_ports :: "update_state \<Rightarrow> managed_port list" where
  "us_ports s \<equiv> wm_Ports (us_mods s)"

abbreviation us_envs :: "update_state \<Rightarrow> managed_env_var list" where
  "us_envs s \<equiv> wm_EnvVars (us_mods s)"

abbreviation us_errors :: "update_state \<Rightarrow> config_error_detail list" where
  "us_errors s \<equiv> ce_details (us_err s)"

abbreviation set_ports :: "update_state \<Rightarrow> managed_port list \<Rightarrow> update_state" where
  "set_ports s ps \<equiv> s\<lparr>us_mods := (us_mods s)\<lparr>wm_Ports := ps\<rparr>\<rparr>"

abbreviation set_envs :: "update_state \<Rightarrow> managed_env_var list \<Rightarrow> update_state" where
  "set_envs s es \<equiv> s\<lparr>us_mods := (us_mods s)\<lparr>wm_EnvVars := es\<rparr>\<rparr>"

section \<open>Operations\<close>

definition dbInst :: "string \<Rightarrow> string \<Rightarrow> string \<Rightarrow> db_instance" where
  "dbInst namespace name connectionString =
     \<lparr>di_AuthProxyWorkload = \<lparr>nn_Namespace = namespace, nn_Name = name\<rparr>,
      di_ConnectionString = connectionString\<rparr>"

definition ConfigError_add ::
    "config_error \<Rightarrow> string \<Rightarrow> string \<Rightarrow> auth_proxy_workload \<Rightarrow> config_error" where
  "ConfigError_add e errorCode description p =
     e\<lparr>ce_details := ce_details e @
       [\<lparr>ed_ErrorCode = errorCode, ed_Description = description,
         ed_AuthProxyName = apw_Name p, ed_AuthProxyNamespace = apw_Namespace p,
         ed_WorkloadKind = ce_workloadKind e, ed_WorkloadName = ce_workloadName e,
         ed_WorkloadNamespace = ce_workloadNamespace e\<rparr>]\<rparr>"

definition DetailedErrors :: "config_error \<Rightarrow> config_error_detail list" where
  "DetailedErrors e = ce_details e"

text \<open>The texts of the errors. \<open>gvk\<close> is \<open>GroupVersionKind.String\<close>. The details are values and \<open>Error\<close> has a pointer
  receiver, so the verb \<open>%v\<close> prints them as structs and not by their \<open>Error\<close> method.\<close>

definition ConfigErrorDetail_Error :: "(group_version_kind \<Rightarrow> string) \<Rightarrow> config_error_detail \<Rightarrow> string" where
  "ConfigErrorDetail_Error gvk e =
     ''error '' @ ed_ErrorCode e @ '' '' @ ed_Description e @ '' while applying AuthProxyWorkload '' @
     ed_AuthProxyNamespace e @ ''/'' @ ed_AuthProxyName e @ '' to workload  '' @ gvk (ed_WorkloadKind e) @ '' '' @
     ed_WorkloadNamespace e @ ''/'' @ ed_WorkloadName e"

definition detail_struct_text :: "(group_version_kind \<Rightarrow> string) \<Rightarrow> config_error_detail \<Rightarrow> string" where
  "detail_struct_text gvk e =
     ''{'' @ join '' '' [ed_ErrorCode e, ed_Description e, ed_AuthProxyName e, ed_AuthProxyNamespace e,
       gvk (ed_WorkloadKind e), ed_WorkloadName e, ed_WorkloadNamespace e] @ ''}''"

definition ConfigError_Error :: "(group_version_kind \<Rightarrow> string) \<Rightarrow> config_error \<Rightarrow> string" where
  "ConfigError_Error gvk e =
     ''found '' @ fmt_d (int (length (ce_details e))) @ '' configuration errors on workload '' @
     gvk (ce_workloadKind e) @ '' '' @ ce_workloadNamespace e @ ''/'' @ ce_workloadName e @ '': '' @
     ''['' @ join '' '' (map (detail_struct_text gvk) (ce_details e)) @ '']''"

definition addError ::
    "update_state \<Rightarrow> string \<Rightarrow> string \<Rightarrow> auth_proxy_workload \<Rightarrow> update_state" where
  "addError s errorCode description p =
     s\<lparr>us_err := ConfigError_add (us_err s) errorCode description p\<rparr>"

definition isPortInUse :: "update_state \<Rightarrow> i32 \<Rightarrow> bool" where
  "isPortInUse s p = list_ex (\<lambda>mp. p = mp_Port mp) (us_ports s)"

text \<open>\<open>addPort\<close>: the last entry for the port is reused (the loop does not stop at a hit), otherwise
  one is appended; the container's own use of the port is recorded unless the container is one of
  the operator's.\<close>

definition addPort ::
    "update_state \<Rightarrow> i32 \<Rightarrow> string \<Rightarrow> namespaced_name \<Rightarrow> string \<Rightarrow> update_state" where
  "addPort s p containerName n connectionString =
     (let ps = us_ports s;
          ps1 = (if list_ex (\<lambda>mp. mp_Port mp = p) ps then ps
                 else ps @ [\<lparr>mp_Instance = dbInst (nn_Namespace n) (nn_Name n) connectionString,
                             mp_OriginalValues = [], mp_Port = p\<rparr>]);
          ps2 = (if containerName \<noteq> [] \<and> \<not> has_prefix containerName ContainerPrefix
                 then update_last (\<lambda>mp. mp_Port mp = p)
                        (\<lambda>mp. mp\<lparr>mp_OriginalValues :=
                            AList.update containerName p (mp_OriginalValues mp)\<rparr>) ps1
                 else ps1)
      in set_ports s ps2)"

definition addInUsePort :: "update_state \<Rightarrow> i32 \<Rightarrow> string \<Rightarrow> update_state" where
  "addInUsePort s p containerName = addPort s p containerName \<lparr>nn_Namespace = [], nn_Name = []\<rparr> []"

definition port_conflict_msg :: "i32 \<Rightarrow> string \<Rightarrow> string" where
  "port_conflict_msg port conn =
     ''proxy port '' @ sprint_int port @ '' for instance '' @ conn @ '' is already in use''"

definition useInstancePort ::
    "update_state \<Rightarrow> auth_proxy_workload \<Rightarrow> instance_spec \<Rightarrow> (i32 \<times> update_state) option" where
  "useInstancePort s p is =
     (let n = \<lparr>nn_Namespace = apw_Namespace p, nn_Name = apw_Name p\<rparr>;
          conn = is_ConnectionString is;
          same = (\<lambda>mp. di_AuthProxyWorkload (mp_Instance mp) = n \<and>
                       di_ConnectionString (mp_Instance mp) = conn)
      in case find same (us_ports s) of
           Some proxyPort \<Rightarrow>
             (case is_Port is of
                None \<Rightarrow> Some (mp_Port proxyPort, s)
              | Some q \<Rightarrow>
                  if mp_Port proxyPort \<noteq> q then
                    let s1 = (if isPortInUse s q
                              then addError s ErrorCodePortConflict (port_conflict_msg q conn) p
                              else s)
                    in Some (q, set_ports s1
                          (update_first same (\<lambda>mp. mp\<lparr>mp_Port := q\<rparr>) (us_ports s1)))
                  else Some (mp_Port proxyPort, s))
         | None \<Rightarrow>
             do {
               (port, s1) \<leftarrow>
                 (case is_Port is of
                    Some q \<Rightarrow> Some (q, s)
                  | None \<Rightarrow> map_option (\<lambda>q. (q, s\<lparr>us_nextDBPort := q\<rparr>))
                              (next_free (isPortInUse s) (us_nextDBPort s)));
               let s2 = (if isPortInUse s1 port
                         then addError s1 ErrorCodePortConflict (port_conflict_msg port conn) p
                         else s1);
               Some (port, addPort s2 port [] n conn)
             })"

text \<open>\<open>addWorkloadEnvVar\<close>: the first managed variable of that name gets the new value, with an error
  if the value text differs; otherwise the variable is appended.\<close>

definition addWorkloadEnvVar ::
    "update_state \<Rightarrow> auth_proxy_workload \<Rightarrow> instance_spec \<Rightarrow> env_var \<Rightarrow> update_state" where
  "addWorkloadEnvVar s p is ev =
     (let same = (\<lambda>m. ev_Name (me_OperatorManagedValue m) = ev_Name ev);
          fresh = \<lparr>me_Instance = dbInst (apw_Namespace p) (apw_Name p) (is_ConnectionString is),
                   me_OperatorManagedValue = ev, me_OriginalValues = []\<rparr>;
          s1 = set_envs s (replace_first_or_append same
                 (\<lambda>m. m\<lparr>me_OperatorManagedValue := ev\<rparr>) fresh (us_envs s))
      in case find same (us_envs s) of
           Some old \<Rightarrow>
             if ev_Value (me_OperatorManagedValue old) \<noteq> ev_Value ev
             then addError s1 ErrorCodeEnvConflict
                    (''environment variable named '' @ ev_Name ev @ '' already exists'') p
             else s1
         | None \<Rightarrow> s1)"

definition initState :: "update_state \<Rightarrow> auth_proxy_workload list \<Rightarrow> update_state" where
  "initState s pl =
     s\<lparr>us_mods := (us_mods s)\<lparr>wm_DBInstances :=
        concat (map (\<lambda>wl. map (\<lambda>inst.
          \<lparr>di_AuthProxyWorkload = \<lparr>nn_Namespace = apw_Namespace wl, nn_Name = apw_Name wl\<rparr>,
           di_ConnectionString = is_ConnectionString inst\<rparr>)
            (aps_Instances (apw_Spec wl))) pl)\<rparr>\<rparr>"

section \<open>What the state says\<close>

text \<open>The abstract view of the state: the ports in use, the instances that own an entry, the number
  of errors, and the value each managed environment variable has.\<close>

definition used :: "update_state \<Rightarrow> i32 set" where
  "used s = mp_Port ` set (us_ports s)"

definition owned :: "update_state \<Rightarrow> db_instance set" where
  "owned s = mp_Instance ` set (us_ports s)"

definition errs :: "update_state \<Rightarrow> nat" where
  "errs s = length (us_errors s)"

abbreviation me_pair :: "managed_env_var \<Rightarrow> string \<times> string" where
  "me_pair m \<equiv> (ev_Name (me_OperatorManagedValue m), ev_Value (me_OperatorManagedValue m))"

definition env :: "update_state \<Rightarrow> string \<Rightarrow> string option" where
  "env s = map_of (map me_pair (us_envs s))"

lemmas view_defs = used_def owned_def errs_def env_def

lemma isPortInUse_iff: "isPortInUse s p \<longleftrightarrow> p \<in> used s"
  by (auto simp: isPortInUse_def used_def list_ex_iff)

lemma addError_views [simp]:
  "used (addError s c d p) = used s" "owned (addError s c d p) = owned s"
  "env (addError s c d p) = env s" "errs (addError s c d p) = Suc (errs s)"
  "us_mods (addError s c d p) = us_mods s" "us_nextDBPort (addError s c d p) = us_nextDBPort s"
  "us_updater (addError s c d p) = us_updater s"
  by (simp_all add: addError_def view_defs ConfigError_add_def)

subsection \<open>Ports\<close>

lemma addPort_frame [simp, go_frame]:
  "us_err (addPort s p c n conn) = us_err s" "us_envs (addPort s p c n conn) = us_envs s"
  "us_nextDBPort (addPort s p c n conn) = us_nextDBPort s"
  "us_updater (addPort s p c n conn) = us_updater s"
  by (simp_all add: addPort_def Let_def)

lemma addPort_views [simp]:
  "env (addPort s p c n conn) = env s" "errs (addPort s p c n conn) = errs s"
  by (simp_all add: env_def errs_def)

text \<open>The names a container has for its ports do not matter for the table of ports.\<close>

lemma addPort_map:
  assumes "\<And>mp v. g (mp\<lparr>mp_OriginalValues := v\<rparr>) = g mp"
  shows "map g (us_ports (addPort s p c n conn)) =
     (if p \<in> used s then map g (us_ports s)
      else map g (us_ports s) @
        [g \<lparr>mp_Instance = dbInst (nn_Namespace n) (nn_Name n) conn, mp_OriginalValues = [], mp_Port = p\<rparr>])"
proof -
  have ex: "list_ex (\<lambda>mp. mp_Port mp = p) (us_ports s) \<longleftrightarrow> p \<in> used s"
    by (auto simp: used_def list_ex_iff)
  have upd: "map g (update_last (\<lambda>mp. mp_Port mp = p) (\<lambda>mp. mp\<lparr>mp_OriginalValues := h mp\<rparr>) xs) = map g xs"
    for h xs by (rule map_update_last) (simp add: assms)
  show ?thesis
    by (simp add: addPort_def Let_def ex upd)
qed

lemma used_addPort [simp]: "used (addPort s p c n conn) = insert p (used s)"
  using arg_cong [OF addPort_map [of mp_Port s p c n conn], of set]
  by (auto simp: used_def split: if_splits)

lemma owned_addPort:
  "owned (addPort s p c n conn) =
     (if p \<in> used s then owned s else insert (dbInst (nn_Namespace n) (nn_Name n) conn) (owned s))"
  using arg_cong [OF addPort_map [of mp_Instance s p c n conn], of set]
  by (auto simp: owned_def split: if_splits)

lemma length_addPort: "length (us_ports (addPort s p c n conn)) \<le> Suc (length (us_ports s))"
  using arg_cong [OF addPort_map [of mp_Port s p c n conn], of length] by (simp split: if_splits)

lemma dbInst_iff:
  "di_AuthProxyWorkload x = \<lparr>nn_Namespace = ns, nn_Name = nm\<rparr> \<and> di_ConnectionString x = conn \<longleftrightarrow>
     x = dbInst ns nm conn"
  by (cases x) (auto simp: dbInst_def)

lemma find_owned:
  "find (\<lambda>mp. di_AuthProxyWorkload (mp_Instance mp) = \<lparr>nn_Namespace = ns, nn_Name = nm\<rparr> \<and>
       di_ConnectionString (mp_Instance mp) = conn) (us_ports s) = None \<longleftrightarrow>
     dbInst ns nm conn \<notin> owned s"
  unfolding dbInst_iff by (auto simp: find_None_iff owned_def image_iff)

text \<open>The instance of a resource, as the table records it.\<close>

definition inst_key :: "auth_proxy_workload \<Rightarrow> instance_spec \<Rightarrow> db_instance" where
  "inst_key p is = dbInst (apw_Namespace p) (apw_Name p) (is_ConnectionString is)"

text \<open>For an instance without an entry, \<open>useInstancePort\<close> is a choice of the port followed by its
  registration.\<close>

definition chosen_port :: "update_state \<Rightarrow> instance_spec \<Rightarrow> (i32 \<times> update_state) option" where
  "chosen_port s is =
     (case is_Port is of
        Some q \<Rightarrow> Some (q, s)
      | None \<Rightarrow> map_option (\<lambda>q. (q, s\<lparr>us_nextDBPort := q\<rparr>))
                  (next_free (isPortInUse s) (us_nextDBPort s)))"

definition claim_port :: "update_state \<Rightarrow> auth_proxy_workload \<Rightarrow> instance_spec \<Rightarrow> i32 \<Rightarrow> update_state" where
  "claim_port s p is q =
     addPort (if q \<in> used s
              then addError s ErrorCodePortConflict (port_conflict_msg q (is_ConnectionString is)) p
              else s)
       q [] (apw_key p) (is_ConnectionString is)"

lemma useInstancePort_fresh:
  assumes "inst_key p is \<notin> owned s"
  shows "useInstancePort s p is = map_option (\<lambda>(q, s1). (q, claim_port s1 p is q)) (chosen_port s is)"
  using assms find_owned [of "apw_Namespace p" "apw_Name p" "is_ConnectionString is" s]
  by (simp add: useInstancePort_def inst_key_def apw_key_def isPortInUse_iff Let_def chosen_port_def
      claim_port_def option.map_comp comp_def map_conv_bind_option split: option.split)

lemma chosen_port_views:
  assumes "chosen_port s is = Some (q, s1)"
  shows "used s1 = used s" "owned s1 = owned s" "env s1 = env s" "errs s1 = errs s"
    "us_mods s1 = us_mods s" "is_Port is = Some w \<Longrightarrow> q = w"
  using assms by (auto simp: chosen_port_def view_defs split: option.splits)

lemma claim_port_views:
  "used (claim_port s p is q) = insert q (used s)"
  "env (claim_port s p is q) = env s"
  "errs (claim_port s p is q) = (if q \<in> used s then Suc (errs s) else errs s)"
  "owned (claim_port s p is q) = (if q \<in> used s then owned s else insert (inst_key p is) (owned s))"
  by (simp_all add: claim_port_def owned_addPort inst_key_def apw_key_def)

text \<open>A search for a free port never fails an instance; an explicit port is taken as it is.\<close>

lemma useInstancePort_ok:
  assumes step: "useInstancePort s p is = Some (q, s')" and fresh: "inst_key p is \<notin> owned s"
    and ok: "errs s' = errs s"
  shows "q \<notin> used s" "used s' = insert q (used s)" "owned s' = insert (inst_key p is) (owned s)"
    "env s' = env s" "is_Port is = Some w \<Longrightarrow> q = w"
proof -
  from step obtain s1 where c: "chosen_port s is = Some (q, s1)" and s': "s' = claim_port s1 p is q"
    by (auto simp: useInstancePort_fresh [OF fresh])
  note v = chosen_port_views [OF c] claim_port_views [of s1 p "is" q]
  show "q \<notin> used s" using ok s' v by (auto split: if_splits)
  then show "used s' = insert q (used s)" "owned s' = insert (inst_key p is) (owned s)" "env s' = env s"
    using s' v by simp_all
  show "is_Port is = Some w \<Longrightarrow> q = w" by (rule v)
qed

lemma useInstancePort_errs: "useInstancePort s p is = Some (q, s') \<Longrightarrow> errs s \<le> errs s'"
  by (auto simp: useInstancePort_def Let_def errs_def addError_def ConfigError_add_def
      split: option.splits bind_splits if_splits)

lemma useInstancePort_frame [go_frame]:
  "useInstancePort s p is = Some (q, s') \<Longrightarrow> us_envs s' = us_envs s \<and> us_updater s' = us_updater s"
  by (auto simp: useInstancePort_def Let_def addError_def split: option.splits bind_splits if_splits)

lemma finite_used [simp]: "finite (used s)"
  by (simp add: used_def)

lemma card_used: "card (used s) \<le> length (us_ports s)"
  unfolding used_def by (metis card_length list.set_map length_map)

lemma next_free_port_returns:
  assumes "length (us_ports s) < 2 ^ 32"
  shows "\<exists>n. next_free (isPortInUse s) p = Some (p + of_nat n) \<and> p + of_nat n \<notin> used s \<and>
           (\<forall>m < n. p + of_nat m \<in> used s)"
  using next_free_returns [of "used s" "isPortInUse s" p] assms card_used [of s]
  by (auto simp: isPortInUse_iff)

lemma length_claim_port: "length (us_ports (claim_port s p is q)) \<le> Suc (length (us_ports s))"
  unfolding claim_port_def by (rule order_trans [OF length_addPort]) simp

lemma useInstancePort_returns:
  assumes "length (us_ports s) < 2 ^ 32"
  shows "\<exists>q s'. useInstancePort s p is = Some (q, s') \<and> length (us_ports s') \<le> Suc (length (us_ports s))"
proof (cases "inst_key p is \<in> owned s")
  case True
  then show ?thesis
    using find_owned [of "apw_Namespace p" "apw_Name p" "is_ConnectionString is" s]
    by (auto simp: useInstancePort_def Let_def inst_key_def addError_def split: option.splits)
next
  case False
  obtain q where q: "next_free (isPortInUse s) (us_nextDBPort s) = Some q"
    using next_free_port_returns [OF assms] by blast
  then obtain r s1 where c: "chosen_port s is = Some (r, s1)"
    by (cases "is_Port is") (auto simp: chosen_port_def)
  have "length (us_ports (claim_port s1 p is r)) \<le> Suc (length (us_ports s))"
    using length_claim_port [of s1] chosen_port_views(5) [OF c] by simp
  with False c show ?thesis by (simp add: useInstancePort_fresh)
qed

subsection \<open>Environment variables\<close>

lemma addWorkloadEnvVar_frame [simp, go_frame]:
  "us_ports (addWorkloadEnvVar s p is ev) = us_ports s"
  "us_nextDBPort (addWorkloadEnvVar s p is ev) = us_nextDBPort s"
  "us_updater (addWorkloadEnvVar s p is ev) = us_updater s"
  by (simp_all add: addWorkloadEnvVar_def Let_def addError_def split: option.split)

lemma addWorkloadEnvVar_views [simp]:
  "used (addWorkloadEnvVar s p is ev) = used s" "owned (addWorkloadEnvVar s p is ev) = owned s"
  by (simp_all add: used_def owned_def)

lemma map_of_replace_first:
  assumes "me_OperatorManagedValue fresh = ev"
  shows "map_of (map me_pair (replace_first_or_append (\<lambda>m. ev_Name (me_OperatorManagedValue m) = ev_Name ev)
       (\<lambda>m. m\<lparr>me_OperatorManagedValue := ev\<rparr>) fresh xs)) =
     (map_of (map me_pair xs))(ev_Name ev \<mapsto> ev_Value ev)"
  using assms by (induction xs) (auto simp: fun_eq_iff)

lemma map_of_me_pair_find:
  "map_of (map me_pair xs) n = map_option (\<lambda>m. ev_Value (me_OperatorManagedValue m))
     (find (\<lambda>m. ev_Name (me_OperatorManagedValue m) = n) xs)"
  by (induction xs) auto

lemmas env_find = env_def map_of_me_pair_find

text \<open>The variable gets the value in any case; it is an error exactly if it had another one.\<close>

lemma env_addWorkloadEnvVar: "env (addWorkloadEnvVar s p is ev) = (env s)(ev_Name ev \<mapsto> ev_Value ev)"
  by (simp add: addWorkloadEnvVar_def Let_def addError_def env_def map_of_replace_first
      split: option.split)

lemma errs_addWorkloadEnvVar:
  "errs (addWorkloadEnvVar s p is ev) =
     (if env s (ev_Name ev) \<in> {None, Some (ev_Value ev)} then errs s else Suc (errs s))"
  by (auto simp: addWorkloadEnvVar_def Let_def addError_def errs_def env_find ConfigError_add_def
      split: option.split)

lemma addWorkloadEnvVar_ok:
  assumes "errs (addWorkloadEnvVar s p is ev) = errs s"
  shows "env s \<subseteq>\<^sub>m env (addWorkloadEnvVar s p is ev)"
  using assms by (auto simp: env_addWorkloadEnvVar errs_addWorkloadEnvVar map_le_def split: if_splits)

text \<open>The managed variables keep one entry per name.\<close>

abbreviation me_key :: "managed_env_var \<Rightarrow> string" where
  "me_key m \<equiv> ev_Name (me_OperatorManagedValue m)"

definition me_upsert :: "managed_env_var list \<Rightarrow> managed_env_var \<Rightarrow> managed_env_var list" where
  "me_upsert xs x = replace_first_or_append (\<lambda>m. me_key m = me_key x)
     (\<lambda>m. m\<lparr>me_OperatorManagedValue := me_OperatorManagedValue x\<rparr>) x xs"

definition me_stored :: "managed_env_var list \<Rightarrow> managed_env_var \<Rightarrow> managed_env_var" where
  "me_stored xs x = (case find (\<lambda>m. me_key m = me_key x) xs of
     None \<Rightarrow> x | Some m \<Rightarrow> m\<lparr>me_OperatorManagedValue := me_OperatorManagedValue x\<rparr>)"

interpretation mev: keyed_upsert me_key me_upsert me_stored
proof
  fix xs :: "managed_env_var list" and x
  show "map me_key (me_upsert xs x) =
      (if me_key x \<in> me_key ` set xs then map me_key xs else map me_key xs @ [me_key x])"
    unfolding me_upsert_def by (rule replace_first_keys) simp
  show "filter (\<lambda>y. me_key y \<noteq> me_key x) (me_upsert xs x) = filter (\<lambda>y. me_key y \<noteq> me_key x) xs"
    unfolding me_upsert_def by (rule replace_first_others) simp
  show "find (\<lambda>y. me_key y = me_key x) (me_upsert xs x) = Some (me_stored xs x)"
    unfolding me_upsert_def me_stored_def by (rule replace_first_find) simp
qed

lemma us_envs_addWorkloadEnvVar:
  "us_envs (addWorkloadEnvVar s p is ev) =
     me_upsert (us_envs s) \<lparr>me_Instance = inst_key p is, me_OperatorManagedValue = ev,
       me_OriginalValues = []\<rparr>"
  by (simp add: addWorkloadEnvVar_def Let_def me_upsert_def addError_def inst_key_def
      split: option.split)

lemma addWorkloadEnvVar_distinct:
  "distinct (map me_key (us_envs s)) \<Longrightarrow> distinct (map me_key (us_envs (addWorkloadEnvVar s p is ev)))"
  by (simp add: us_envs_addWorkloadEnvVar mev.ups_distinct)

section \<open>The contract of the state for its clients\<close>

text \<open>Three lists of one length whose entries are related.\<close>

fun all3 :: "('a \<Rightarrow> 'b \<Rightarrow> 'c \<Rightarrow> bool) \<Rightarrow> 'a list \<Rightarrow> 'b list \<Rightarrow> 'c list \<Rightarrow> bool" where
  "all3 P [] [] [] = True"
| "all3 P (x # xs) (y # ys) (z # zs) = (P x y z \<and> all3 P xs ys zs)"
| "all3 P _ _ _ = False"

lemma all3_length: "all3 P xs ys zs \<Longrightarrow> length ys = length xs \<and> length zs = length xs"
  by (induction P xs ys zs rule: all3.induct) auto

lemma all3_nth: "all3 P xs ys zs \<Longrightarrow> i < length xs \<Longrightarrow> P (xs ! i) (ys ! i) (zs ! i)"
proof (induction P xs ys zs arbitrary: i rule: all3.induct)
  case (2 P x xs y ys z zs)
  then show ?case by (cases i) auto
qed auto

lemma all3_map2: "all3 P xs ys zs \<Longrightarrow> (\<And>x y z. P x y z \<Longrightarrow> Q x (f y) z) \<Longrightarrow> all3 Q xs (map f ys) zs"
  by (induction P xs ys zs rule: all3.induct) auto

lemma all3_mono: "all3 P xs ys zs \<Longrightarrow> (\<And>x y z. P x y z \<Longrightarrow> Q x y z) \<Longrightarrow> all3 Q xs ys zs"
  by (induction P xs ys zs rule: all3.induct) auto

text \<open>Ports that respect the explicit requests, position by position.\<close>

definition honours :: "'p option list \<Rightarrow> 'p list \<Rightarrow> bool" where
  "honours ws ps \<longleftrightarrow> list_all2 (\<lambda>w p. w = None \<or> w = Some p) ws ps"

text \<open>
  A client step that registers ports and variables for the keys of a request. It keeps the
  invariant \<open>inv\<close> of the state, and errors only grow.
  If a step adds none and its keys are new, then what it built uses some distinct ports that were
  free and are registered now, explicit requests are respected, no variable changed its value and
  the needed ones are set. The contract is closed under loops: \<open>loop_ok\<close>.
\<close>

locale port_env_client =
  fixes inv :: "'s \<Rightarrow> bool"
    and used_of :: "'s \<Rightarrow> 'p set"
    and owned_of :: "'s \<Rightarrow> 'k set"
    and errs_of :: "'s \<Rightarrow> nat"
    and env_of :: "'s \<Rightarrow> 'n \<Rightarrow> 'v option"
    and step :: "'s \<Rightarrow> 'r \<Rightarrow> ('b \<times> 's) option"
    and keys :: "'r \<Rightarrow> 'k list"
    and wants :: "'r \<Rightarrow> 'p option list"
    and needs :: "'r \<Rightarrow> 'p list \<Rightarrow> ('n \<times> 'v) set"
    and built :: "'p set \<Rightarrow> 'r \<Rightarrow> 'b \<Rightarrow> 'p list \<Rightarrow> bool"
  assumes step_inv: "inv s \<Longrightarrow> step s r = Some (b, s') \<Longrightarrow> inv s'"
    and errs_mono: "step s r = Some (b, s') \<Longrightarrow> errs_of s \<le> errs_of s'"
    and step_ok:
    "\<lbrakk>inv s; step s r = Some (b, s'); errs_of s' = errs_of s; distinct (keys r);
      set (keys r) \<inter> owned_of s = {}\<rbrakk> \<Longrightarrow>
     owned_of s' = owned_of s \<union> set (keys r) \<and> env_of s \<subseteq>\<^sub>m env_of s' \<and>
     (\<exists>ps. built (used_of s) r b ps \<and> honours (wants r) ps \<and> distinct ps \<and>
        set ps \<inter> used_of s = {} \<and> used_of s' = used_of s \<union> set ps \<and>
        (\<forall>(n, v) \<in> needs r ps. env_of s' n = Some v))"
    and built_antimono: "U \<subseteq> V \<Longrightarrow> built V r b ps \<Longrightarrow> built U r b ps"
begin

definition fulfilled :: "'p set \<Rightarrow> ('n \<Rightarrow> 'v option) \<Rightarrow> 'r \<Rightarrow> 'b \<Rightarrow> 'p list \<Rightarrow> bool" where
  "fulfilled U m r b ps \<longleftrightarrow> built U r b ps \<and> honours (wants r) ps \<and> (\<forall>(n, v) \<in> needs r ps. m n = Some v)"

lemma fulfilled_mono:
  "fulfilled V m r b ps \<Longrightarrow> U \<subseteq> V \<Longrightarrow> m \<subseteq>\<^sub>m m' \<Longrightarrow> fulfilled U m' r b ps"
  unfolding fulfilled_def map_le_def using built_antimono by (fastforce simp: dom_def)

lemma loop_errs_mono: "map_state step s rs = Some (bs, s') \<Longrightarrow> errs_of s \<le> errs_of s'"
proof (induction rs arbitrary: s bs)
  case (Cons r rs)
  from Cons.prems obtain b s1 bs' where "step s r = Some (b, s1)" "map_state step s1 rs = Some (bs', s')"
    by (rule map_state_ConsE)
  with Cons.IH [of s1 bs'] errs_mono [of s r b s1] show ?case by simp
qed simp

lemma loop_inv: "inv s \<Longrightarrow> map_state step s rs = Some (bs, s') \<Longrightarrow> inv s'"
proof (induction rs arbitrary: s bs)
  case (Cons r rs)
  from Cons.prems(2) obtain b s1 bs' where "step s r = Some (b, s1)" "map_state step s1 rs = Some (bs', s')"
    by (rule map_state_ConsE)
  with Cons.IH [of s1 bs'] step_inv [OF Cons.prems(1)] show ?case by blast
qed simp

lemma loop_ok:
  "\<lbrakk>inv s; map_state step s rs = Some (bs, s'); errs_of s' = errs_of s; distinct (concat (map keys rs));
    set (concat (map keys rs)) \<inter> owned_of s = {}\<rbrakk> \<Longrightarrow>
   owned_of s' = owned_of s \<union> set (concat (map keys rs)) \<and> env_of s \<subseteq>\<^sub>m env_of s' \<and>
   (\<exists>pss. all3 (fulfilled (used_of s) (env_of s')) rs bs pss \<and> distinct (concat pss) \<and>
      set (concat pss) \<inter> used_of s = {} \<and> used_of s' = used_of s \<union> set (concat pss))"
proof (induction rs arbitrary: s bs)
  case Nil
  then show ?case by (auto intro!: exI [of _ "[]"])
next
  case (Cons r rs)
  from Cons.prems(2) obtain b s1 bs' where step: "step s r = Some (b, s1)"
    and rest: "map_state step s1 rs = Some (bs', s')" and bs: "bs = b # bs'"
    by (rule map_state_ConsE)
  have e: "errs_of s1 = errs_of s" "errs_of s' = errs_of s1"
    using errs_mono [OF step] loop_errs_mono [OF rest] Cons.prems(3) by auto
  have "distinct (keys r)" "set (keys r) \<inter> owned_of s = {}" using Cons.prems(4,5) by auto
  from step_ok [OF Cons.prems(1) step e(1) this] obtain ps where o1: "owned_of s1 = owned_of s \<union> set (keys r)"
    and m1: "env_of s \<subseteq>\<^sub>m env_of s1" and b: "fulfilled (used_of s) (env_of s1) r b ps"
    and ps: "distinct ps" "set ps \<inter> used_of s = {}" "used_of s1 = used_of s \<union> set ps"
    unfolding fulfilled_def by blast
  have "set (concat (map keys rs)) \<inter> owned_of s1 = {}" "distinct (concat (map keys rs))"
    using Cons.prems(4,5) o1 by auto
  from Cons.IH [OF step_inv [OF Cons.prems(1) step] rest e(2) this(2,1)] obtain pss
    where o2: "owned_of s' = owned_of s1 \<union> set (concat (map keys rs))" and m2: "env_of s1 \<subseteq>\<^sub>m env_of s'"
    and all: "all3 (fulfilled (used_of s1) (env_of s')) rs bs' pss"
    and pss: "distinct (concat pss)" "set (concat pss) \<inter> used_of s1 = {}"
      "used_of s' = used_of s1 \<union> set (concat pss)"
    by blast
  have "all3 (fulfilled (used_of s) (env_of s')) (r # rs) bs (ps # pss)"
    using b m2 ps(3) all3_mono [OF all] fulfilled_mono by (auto simp: bs)
  then show ?case
    using ps pss o1 o2 map_le_trans [OF m1 m2] by (intro conjI exI [of _ "ps # pss"]) auto
qed

end

section \<open>Properties of the state operations\<close>

lemma us_nextDBPort_claim_port [simp]: "us_nextDBPort (claim_port s p is q) = us_nextDBPort s"
  by (simp add: claim_port_def)

text \<open>
  C25: the automatic choice of a port. For an instance without an entry and without an explicit
  port, \<open>useInstancePort\<close> returns the first port at or after \<open>nextDBPort\<close> that is not in use (counting modulo
  \<open>2\<^sup>3\<^sup>2\<close>); the port is registered for the instance, the next search starts there, no error is added, and a second call for
  the same instance returns the same port and changes nothing.
\<close>

theorem useInstancePort_auto:
  assumes "inst_key p is \<notin> owned s" and "is_Port is = None" and "length (us_ports s) < 2 ^ 32"
  shows "\<exists>n s'. useInstancePort s p is = Some (us_nextDBPort s + of_nat n, s') \<and>
     us_nextDBPort s + of_nat n \<notin> used s \<and> (\<forall>m < n. us_nextDBPort s + of_nat m \<in> used s) \<and>
     used s' = insert (us_nextDBPort s + of_nat n) (used s) \<and> owned s' = insert (inst_key p is) (owned s) \<and>
     errs s' = errs s \<and> us_nextDBPort s' = us_nextDBPort s + of_nat n \<and>
     useInstancePort s' p is = Some (us_nextDBPort s + of_nat n, s')"
proof -
  obtain n where n: "next_free (isPortInUse s) (us_nextDBPort s) = Some (us_nextDBPort s + of_nat n)"
      "us_nextDBPort s + of_nat n \<notin> used s" "\<forall>m < n. us_nextDBPort s + of_nat m \<in> used s"
    using next_free_port_returns [OF assms(3)] by blast
  let ?q = "us_nextDBPort s + of_nat n" and ?s1 = "s\<lparr>us_nextDBPort := us_nextDBPort s + of_nat n\<rparr>"
  have c: "chosen_port s is = Some (?q, ?s1)" using assms(2) n(1) by (simp add: chosen_port_def)
  define s' where "s' = claim_port ?s1 p is ?q"
  have use: "useInstancePort s p is = Some (?q, s')"
    by (simp add: useInstancePort_fresh [OF assms(1)] c s'_def)
  have "us_ports s' = us_ports s @ [\<lparr>mp_Instance = inst_key p is, mp_OriginalValues = [], mp_Port = ?q\<rparr>]"
    using n(2) by (auto simp: s'_def claim_port_def addPort_def Let_def used_def list_ex_iff inst_key_def
        apw_key_def intro: rev_image_eqI)
  then have again: "useInstancePort s' p is = Some (?q, s')"
    using assms(1,2) find_owned [of "apw_Namespace p" "apw_Name p" "is_ConnectionString is" s]
    by (simp add: useInstancePort_def Let_def find_append inst_key_def dbInst_def)
  have "used s' = insert ?q (used s)" "owned s' = insert (inst_key p is) (owned s)" "errs s' = errs s"
    using n(2) by (simp_all add: s'_def claim_port_views chosen_port_views [OF c])
  with use again n show ?thesis by (intro exI [of _ n] exI [of _ s']) (simp add: s'_def)
qed

definition example_state :: update_state where
  "example_state =
     \<lparr>us_err = \<lparr>ce_workloadKind = zero_gvk, ce_workloadName = [], ce_workloadNamespace = [], ce_details = []\<rparr>,
      us_mods = \<lparr>wm_DBInstances = [], wm_EnvVars = [], wm_VolumeMounts = [],
        wm_Ports = [\<lparr>mp_Instance = dbInst [] [] [], mp_OriginalValues = [], mp_Port = 5000\<rparr>]\<rparr>,
      us_nextDBPort = 5000, us_updater = NewUpdater ''dev''\<rparr>"

theorem useInstancePort_auto_witness:
  "\<exists>s'. useInstancePort example_state (example_apw ''default'' ''one'' ''Pod'' []) (example_inst ''p:r:db'' None) =
     Some (5001, s') \<and> errs s' = 0"
proof -
  let ?p = "example_apw ''default'' ''one'' ''Pod'' []" and ?i = "example_inst ''p:r:db'' None"
  have "inst_key ?p ?i \<notin> owned example_state" "is_Port ?i = None" "length (us_ports example_state) < 2 ^ 32"
    by (simp_all add: example_state_def owned_def inst_key_def dbInst_def example_inst_def)
  from useInstancePort_auto [OF this] obtain n s' where
    u: "useInstancePort example_state ?p ?i = Some (us_nextDBPort example_state + of_nat n, s')"
    and free: "us_nextDBPort example_state + of_nat n \<notin> used example_state"
      "\<forall>m < n. us_nextDBPort example_state + of_nat m \<in> used example_state"
    and e: "errs s' = errs example_state" by blast
  have "n \<noteq> 0" using free(1) by (auto simp: example_state_def used_def intro: ccontr)
  moreover have "\<not> 1 < n"
    using free(2) [rule_format, of 1] by (auto simp: example_state_def used_def)
  ultimately have "n = 1" by simp
  with u e show ?thesis by (simp add: example_state_def errs_def)
qed

text \<open>
  Requesting a variable. Afterwards the variable has the requested value and all others keep
  theirs; an error is added exactly if it had another value before; the table keeps at most one entry per name if it had
  at most one, and the ports are not touched.
\<close>

theorem addWorkloadEnvVar_spec:
  "env (addWorkloadEnvVar s p is ev) = (env s)(ev_Name ev \<mapsto> ev_Value ev) \<and>
   us_errors (addWorkloadEnvVar s p is ev) = us_errors s @
     (if env s (ev_Name ev) \<in> {None, Some (ev_Value ev)} then []
      else [\<lparr>ed_ErrorCode = ErrorCodeEnvConflict,
             ed_Description = ''environment variable named '' @ ev_Name ev @ '' already exists'',
             ed_AuthProxyName = apw_Name p, ed_AuthProxyNamespace = apw_Namespace p,
             ed_WorkloadKind = ce_workloadKind (us_err s), ed_WorkloadName = ce_workloadName (us_err s),
             ed_WorkloadNamespace = ce_workloadNamespace (us_err s)\<rparr>]) \<and>
   distinct (map me_key (us_envs (addWorkloadEnvVar s p is ev))) = distinct (map me_key (us_envs s)) \<and>
   us_ports (addWorkloadEnvVar s p is ev) = us_ports s"
proof -
  have "us_errors (addWorkloadEnvVar s p is ev) = us_errors s @
     (if env s (ev_Name ev) \<in> {None, Some (ev_Value ev)} then []
      else [\<lparr>ed_ErrorCode = ErrorCodeEnvConflict,
             ed_Description = ''environment variable named '' @ ev_Name ev @ '' already exists'',
             ed_AuthProxyName = apw_Name p, ed_AuthProxyNamespace = apw_Namespace p,
             ed_WorkloadKind = ce_workloadKind (us_err s), ed_WorkloadName = ce_workloadName (us_err s),
             ed_WorkloadNamespace = ce_workloadNamespace (us_err s)\<rparr>])"
    by (auto simp: addWorkloadEnvVar_def Let_def addError_def env_find ConfigError_add_def split: option.split)
  moreover have "distinct (map me_key (us_envs (addWorkloadEnvVar s p is ev))) = distinct (map me_key (us_envs s))"
    by (auto simp: us_envs_addWorkloadEnvVar mev.ups_keys)
  ultimately show ?thesis by (simp add: env_addWorkloadEnvVar)
qed

section \<open>Error texts\<close>

lemma join_mem: "x \<in> set xs \<Longrightarrow> \<exists>a b. join sep xs = a @ x @ b"
proof (induction sep xs rule: join.induct)
  case (2 sep y)
  then show ?case by (auto intro: exI [of _ "[]"])
next
  case (3 sep y z zs)
  show ?case
  proof (cases "x = y")
    case True
    then show ?thesis by (auto intro: exI [of _ "[]"])
  next
    case False
    with 3 obtain a b where "join sep (z # zs) = a @ x @ b" by auto
    then have "join sep (y # z # zs) = (y @ sep @ a) @ x @ b" by simp
    then show ?thesis by blast
  qed
qed simp

text \<open>The text of an error contains the description of every detail.\<close>

lemma ConfigError_Error_mentions:
  assumes "d \<in> set (DetailedErrors e)"
  shows "\<exists>a b. ConfigError_Error gvk e = a @ ed_Description d @ b"
proof -
  obtain a b where 1: "join '' '' (map (detail_struct_text gvk) (ce_details e)) = a @ detail_struct_text gvk d @ b"
    using join_mem [of "detail_struct_text gvk d" "map (detail_struct_text gvk) (ce_details e)" "'' ''"] assms
    by (auto simp: DetailedErrors_def)
  have "\<exists>u v. detail_struct_text gvk d = u @ ed_Description d @ v"
    unfolding detail_struct_text_def
    by (rule exI [of _ "''{'' @ ed_ErrorCode d @ '' ''"]) simp
  with 1 show ?thesis unfolding ConfigError_Error_def by (metis append.assoc)
qed

end
