(* ===== verification/Proxy_Container.thy ===== *)
theory Proxy_Container
  imports Update_State
begin

text \<open>
  The proxy container that the operator adds for one \<open>AuthProxyWorkload\<close>, and the environment of
  all containers (\<open>updateContainer\<close>, \<open>applyContainerSpec\<close>, \<open>addHealthCheck\<close>,
  \<open>updateContainerEnv\<close> in \<open>internal/workload/podspec_updates.go\<close>). \<open>build_container\<close> is the
  specification of the container as a function of the ports; \<open>updateContainer\<close> refines it.
\<close>

section \<open>Definitions\<close>

definition defaultContainerResources :: resource_requirements where
  "defaultContainerResources =
     \<lparr>rr_Requests = [(''cpu'', MustParse ''1.0''), (''memory'', MustParse ''2Gi'')], rr_Limits = []\<rparr>"

definition defaultProxyImage :: "update_state \<Rightarrow> string" where
  "defaultProxyImage s = DefaultProxyImage"

definition http_probe :: "i32 \<Rightarrow> string \<Rightarrow> probe" where
  "http_probe port path =
     \<lparr>pr_HTTPGet = Some \<lparr>hg_Port = IntVal port, hg_Path = path\<rparr>, pr_PeriodSeconds = 30, pr_Other = []\<rparr>"

text \<open>\<open>addHealthCheck\<close>: the port is searched but not registered, so the state is not changed.\<close>

definition addHealthCheck ::
    "update_state \<Rightarrow> container \<Rightarrow> string list \<Rightarrow> (container \<times> string list) option" where
  "addHealthCheck s c cliArgs =
     do {
       port \<leftarrow> next_free (isPortInUse s) DefaultHealthCheckPort;
       let c1 = c\<lparr>c_StartupProbe := Some (http_probe port ''/startup''),
                  c_ReadinessProbe := Some (http_probe port ''/readiness''),
                  c_LivenessProbe := Some (http_probe port ''/liveness'')\<rparr>;
       Some (c1, cliArgs @ [''--http-port='' @ sprint_int port, ''--http-address=0.0.0.0'',
                            ''--health-check'', ''--structured-logs''])
     }"

definition applyContainerSpec ::
    "update_state \<Rightarrow> auth_proxy_workload \<Rightarrow> container \<Rightarrow> string list \<Rightarrow> container \<times> string list" where
  "applyContainerSpec s p c cliArgs =
     (let c0 = c\<lparr>c_Image := defaultProxyImage s, c_Resources := defaultContainerResources\<rparr> in
      case aps_AuthProxyContainer (apw_Spec p) of
        None \<Rightarrow> (c0, cliArgs)
      | Some a \<Rightarrow>
          let c1 = (if apc_Image a \<noteq> [] then c0\<lparr>c_Image := apc_Image a\<rparr> else c0);
              c2 = (case apc_Resources a of None \<Rightarrow> c1 | Some r \<Rightarrow> c1\<lparr>c_Resources := r\<rparr>);
              a1 = (if apc_SQLAdminAPIEndpoint a \<noteq> []
                    then cliArgs @ [''--sqladmin-api-endpoint='' @ apc_SQLAdminAPIEndpoint a]
                    else cliArgs);
              a2 = (case apc_MaxConnections a of
                      Some n \<Rightarrow> if n \<noteq> 0 then a1 @ [''--max-connections='' @ sprint_int n] else a1
                    | None \<Rightarrow> a1);
              a3 = (case apc_MaxSigtermDelay a of
                      Some n \<Rightarrow> if n \<noteq> 0 then a2 @ [''--max-sigterm-delay='' @ sprint_int n] else a2
                    | None \<Rightarrow> a2)
          in (c2, a3))"

text \<open>The map \<open>params\<close> of one instance as an association list in the order of its assignments.\<close>

definition instance_params :: "instance_spec \<Rightarrow> i32 \<Rightarrow> string_map" where
  "instance_params inst port =
     [(''port'', sprint_int port)]
     @ (case is_AutoIAMAuthN inst of
          None \<Rightarrow> [] | Some b \<Rightarrow> [(''auto-iam-authn'', if b then ''true'' else ''false'')])
     @ (case is_PrivateIP inst of
          None \<Rightarrow> [] | Some b \<Rightarrow> [(''private-ip'', if b then ''true'' else ''false'')])"

text \<open>From the map to the argument: the pairs are formatted in iteration order and then sorted.\<close>

definition instance_arg :: "string \<Rightarrow> string_map \<Rightarrow> string" where
  "instance_arg connectionString params =
     (let instArgs = sort (map (\<lambda>(k, v). k @ ''='' @ v) params) in
      if length instArgs > 0 then connectionString @ ''?'' @ join ''&'' instArgs
      else connectionString)"

text \<open>One round of the loop over \<open>p.Spec.Instances\<close>: the argument it appends and the new state.\<close>

definition updateInstance ::
    "auth_proxy_workload \<Rightarrow> update_state \<Rightarrow> instance_spec \<Rightarrow> (string \<times> update_state) option" where
  "updateInstance p s inst =
     do {
       (port, s1) \<leftarrow> useInstancePort s p inst;
       let s2 = (if is_HostEnvName inst \<noteq> []
                 then addWorkloadEnvVar s1 p inst
                   \<lparr>ev_Name = is_HostEnvName inst, ev_Value = ''127.0.0.1'', ev_ValueFrom = None\<rparr>
                 else s1);
       let s3 = (if is_PortEnvName inst \<noteq> []
                 then addWorkloadEnvVar s2 p inst
                   \<lparr>ev_Name = is_PortEnvName inst, ev_Value = sprint_int port, ev_ValueFrom = None\<rparr>
                 else s2);
       Some (instance_arg (is_ConnectionString inst) (instance_params inst port), s3)
     }"

definition overridden :: "auth_proxy_workload \<Rightarrow> container option" where
  "overridden p = (case aps_AuthProxyContainer (apw_Spec p) of
     None \<Rightarrow> None | Some a \<Rightarrow> apc_Container a)"

definition updateContainer ::
    "update_state \<Rightarrow> auth_proxy_workload \<Rightarrow> container \<Rightarrow> (container \<times> update_state) option" where
  "updateContainer s p c =
     (case overridden p of
        Some custom \<Rightarrow> do { name \<leftarrow> ContainerName p; Some (custom\<lparr>c_Name := name\<rparr>, s) }
      | None \<Rightarrow>
          do {
            (c1, args1) \<leftarrow> addHealthCheck s c [];
            let args2 = args1 @ [''--user-agent='' @ userAgent (us_updater s)];
            name \<leftarrow> ContainerName p;
            let c2 = c1\<lparr>c_Name := name, c_ImagePullPolicy := ''IfNotPresent''\<rparr>;
            let (c3, args3) = applyContainerSpec s p c2 args2;
            (instArgs, s1) \<leftarrow> map_state (updateInstance p) s (aps_Instances (apw_Spec p));
            Some (c3\<lparr>c_Args := args3 @ instArgs\<rparr>, s1)
          })"

text \<open>\<open>updateContainerEnv\<close>: for each managed variable, every entry of that name in the container is
  overwritten, or one is appended.\<close>

definition env_upsert :: "env_var list \<Rightarrow> env_var \<Rightarrow> env_var list" where
  "env_upsert es operatorEnv =
     replace_all_or_append (\<lambda>e. ev_Name e = ev_Name operatorEnv) operatorEnv es"

definition updateContainerEnv :: "update_state \<Rightarrow> container \<Rightarrow> container" where
  "updateContainerEnv s c =
     c\<lparr>c_Env := foldl env_upsert (c_Env c) (map me_OperatorManagedValue (us_envs s))\<rparr>"

section \<open>The environment of a container\<close>

interpretation cenv: keyed_upsert ev_Name env_upsert "\<lambda>_ x. x"
  unfolding env_upsert_def by (rule keyed_upsert_replace_all)

lemma env_upsert_all: "e \<in> set (env_upsert es x) \<Longrightarrow> ev_Name e = ev_Name x \<Longrightarrow> e = x"
  by (auto simp: env_upsert_def replace_all_or_append_def list_ex_iff split: if_splits)

text \<open>After the loop, every entry with the name of a managed variable is that variable.\<close>

lemma foldl_env_upsert_managed:
  assumes "distinct (map ev_Name us)" and "u \<in> set us"
    and "e \<in> set (foldl env_upsert es us)" and "ev_Name e = ev_Name u"
  shows "e = u"
  using assms
proof (induction us arbitrary: es)
  case (Cons x us)
  show ?case
  proof (cases "u = x")
    case True
    with Cons.prems have "ev_Name e \<notin> ev_Name ` set us" by auto
    with Cons.prems(3) have "e \<in> set (env_upsert es x)" by (simp add: cenv.foldl_ups_other_mem)
    with True Cons.prems(4) show ?thesis by (simp add: env_upsert_all)
  next
    case False
    with Cons show ?thesis by auto
  qed
qed simp

lemma foldl_env_upsert_mem:
  assumes "distinct (map ev_Name us)" and "u \<in> set us"
  shows "u \<in> set (foldl env_upsert es us)"
proof -
  have "ev_Name u \<in> ev_Name ` set (foldl env_upsert es us)"
    using assms(2) by (simp add: cenv.foldl_ups_keys)
  then obtain e where "e \<in> set (foldl env_upsert es us)" "ev_Name e = ev_Name u" by auto
  with foldl_env_upsert_managed [OF assms] show ?thesis by blast
qed

section \<open>The specification of the proxy container\<close>

definition container_flags :: "auth_proxy_workload \<Rightarrow> string list" where
  "container_flags p =
     (case aps_AuthProxyContainer (apw_Spec p) of
        None \<Rightarrow> []
      | Some a \<Rightarrow>
          (if apc_SQLAdminAPIEndpoint a = [] then []
           else [''--sqladmin-api-endpoint='' @ apc_SQLAdminAPIEndpoint a])
          @ (case apc_MaxConnections a of
               None \<Rightarrow> [] | Some n \<Rightarrow> if n = 0 then [] else [''--max-connections='' @ sprint_int n])
          @ (case apc_MaxSigtermDelay a of
               None \<Rightarrow> [] | Some n \<Rightarrow> if n = 0 then [] else [''--max-sigterm-delay='' @ sprint_int n]))"

definition container_image :: "auth_proxy_workload \<Rightarrow> string" where
  "container_image p = (case aps_AuthProxyContainer (apw_Spec p) of
     None \<Rightarrow> DefaultProxyImage
   | Some a \<Rightarrow> if apc_Image a = [] then DefaultProxyImage else apc_Image a)"

definition container_resources :: "auth_proxy_workload \<Rightarrow> resource_requirements" where
  "container_resources p = (case aps_AuthProxyContainer (apw_Spec p) of
     None \<Rightarrow> defaultContainerResources
   | Some a \<Rightarrow> (case apc_Resources a of None \<Rightarrow> defaultContainerResources | Some r \<Rightarrow> r))"

definition instance_args :: "auth_proxy_workload \<Rightarrow> i32 list \<Rightarrow> string list" where
  "instance_args p ps =
     map2 (\<lambda>inst q. instance_arg (is_ConnectionString inst) (instance_params inst q))
       (aps_Instances (apw_Spec p)) ps"

definition build_container ::
    "updater \<Rightarrow> auth_proxy_workload \<Rightarrow> string \<Rightarrow> i32 \<Rightarrow> i32 list \<Rightarrow> container" where
  "build_container u p name hp ps =
     \<lparr>c_Name = name, c_Image = container_image p, c_ImagePullPolicy = ''IfNotPresent'',
      c_Command = [], c_Args = [''--http-port='' @ sprint_int hp, ''--http-address=0.0.0.0'', ''--health-check'',
                ''--structured-logs'', ''--user-agent='' @ userAgent u]
               @ container_flags p @ instance_args p ps,
      c_Env = [], c_Ports = [], c_Resources = container_resources p,
      c_StartupProbe = Some (http_probe hp ''/startup''),
      c_ReadinessProbe = Some (http_probe hp ''/readiness''),
      c_LivenessProbe = Some (http_probe hp ''/liveness''), c_Other = []\<rparr>"

lemma applyContainerSpec_flags:
  "applyContainerSpec s p c args =
     (c\<lparr>c_Image := container_image p, c_Resources := container_resources p\<rparr>, args @ container_flags p)"
  by (auto simp: applyContainerSpec_def Let_def container_image_def container_resources_def
      container_flags_def defaultProxyImage_def split: option.split)

text \<open>The container name never panics: the prefix is short.\<close>

lemma ContainerName_Some: "\<exists>n. ContainerName p = Some n"
  unfolding ContainerName_full_name
  by (rule safe_name_cases [of ContainerPrefix "full_name p"]) auto

lemma updateContainer_refines:
  assumes "updateContainer s p zero_container = Some (c, s')" and "overridden p = None"
  shows "\<exists>hp name args. next_free (isPortInUse s) DefaultHealthCheckPort = Some hp \<and>
     ContainerName p = Some name \<and>
     map_state (updateInstance p) s (aps_Instances (apw_Spec p)) = Some (args, s') \<and>
     c = (build_container (us_updater s) p name hp [])\<lparr>c_Args :=
       c_Args (build_container (us_updater s) p name hp []) @ args\<rparr>"
  using assms
  by (auto simp: updateContainer_def addHealthCheck_def Let_def applyContainerSpec_flags zero_container_def
      build_container_def instance_args_def split: bind_splits)

section \<open>The contract at the level of one instance\<close>

definition state_inv :: "updater \<Rightarrow> update_state \<Rightarrow> bool" where
  "state_inv u s \<longleftrightarrow> us_updater s = u \<and> distinct (map me_key (us_envs s)) \<and>
     (\<forall>m \<in> set (us_envs s). ev_ValueFrom (me_OperatorManagedValue m) = None)"

definition inst_needs :: "instance_spec \<Rightarrow> i32 list \<Rightarrow> (string \<times> string) set" where
  "inst_needs inst ps =
     {(n, v). n \<noteq> [] \<and> (n = is_HostEnvName inst \<and> v = ''127.0.0.1'' \<or>
        n = is_PortEnvName inst \<and> (\<exists>q. ps = [q] \<and> v = sprint_int q))}"

definition inst_built :: "i32 set \<Rightarrow> instance_spec \<Rightarrow> string \<Rightarrow> i32 list \<Rightarrow> bool" where
  "inst_built U inst arg ps \<longleftrightarrow>
     (\<exists>q. ps = [q] \<and> arg = instance_arg (is_ConnectionString inst) (instance_params inst q))"

lemma state_inv_addWorkloadEnvVar:
  assumes "state_inv u s" and "ev_ValueFrom ev = None"
  shows "state_inv u (addWorkloadEnvVar s p is ev)"
proof -
  have "m \<in> set (replace_first_or_append P (\<lambda>m. m\<lparr>me_OperatorManagedValue := ev\<rparr>) x xs) \<Longrightarrow>
      m \<in> set xs \<or> me_OperatorManagedValue m = ev \<or> m = x" for P m x xs
    by (induction xs) (auto split: if_splits)
  then show ?thesis
    using assms addWorkloadEnvVar_distinct [of s p "is" ev]
    by (fastforce simp: state_inv_def us_envs_addWorkloadEnvVar me_upsert_def)
qed

lemma updateInstance_inv:
  assumes "state_inv u s" and "updateInstance p s inst = Some (arg, s')"
  shows "state_inv u s'"
proof -
  from assms(2) obtain q s1 where u: "useInstancePort s p inst = Some (q, s1)"
    by (auto simp: updateInstance_def split: bind_splits)
  then have "state_inv u s1" using assms(1) useInstancePort_frame [OF u] by (simp add: state_inv_def)
  with assms(2) u show ?thesis
    by (auto simp: updateInstance_def Let_def intro!: state_inv_addWorkloadEnvVar)
qed

text \<open>Setting a variable, if it has a name: the two conditional calls of the loop body.\<close>

definition set_env_if :: "auth_proxy_workload \<Rightarrow> instance_spec \<Rightarrow> string \<Rightarrow> string \<Rightarrow> update_state \<Rightarrow> update_state" where
  "set_env_if p inst name value s =
     (if name \<noteq> [] then addWorkloadEnvVar s p inst \<lparr>ev_Name = name, ev_Value = value, ev_ValueFrom = None\<rparr>
      else s)"

lemma updateInstance_alt:
  "updateInstance p s inst = do {
     (q, s1) \<leftarrow> useInstancePort s p inst;
     Some (instance_arg (is_ConnectionString inst) (instance_params inst q),
       set_env_if p inst (is_PortEnvName inst) (sprint_int q)
         (set_env_if p inst (is_HostEnvName inst) ''127.0.0.1'' s1)) }"
  by (auto simp: updateInstance_def set_env_if_def Let_def intro!: Option.bind_cong)

lemma set_env_if_views [simp]:
  "used (set_env_if p inst n v s) = used s" "owned (set_env_if p inst n v s) = owned s"
  by (simp_all add: set_env_if_def)

lemma set_env_if_errs: "errs s \<le> errs (set_env_if p inst n v s)"
  by (simp add: set_env_if_def errs_addWorkloadEnvVar)

lemma set_env_if_ok:
  assumes "errs (set_env_if p inst n v s) = errs s"
  shows "env s \<subseteq>\<^sub>m env (set_env_if p inst n v s) \<and>
     (n \<noteq> [] \<longrightarrow> env (set_env_if p inst n v s) n = Some v)"
  using assms addWorkloadEnvVar_ok [of s p inst "\<lparr>ev_Name = n, ev_Value = v, ev_ValueFrom = None\<rparr>"]
  by (auto simp: set_env_if_def env_addWorkloadEnvVar)

lemma updateInstance_errs:
  assumes "updateInstance p s inst = Some (b, s')"
  shows "errs s \<le> errs s'"
proof -
  from assms obtain q s1 where "useInstancePort s p inst = Some (q, s1)"
    and s': "s' = set_env_if p inst (is_PortEnvName inst) (sprint_int q)
        (set_env_if p inst (is_HostEnvName inst) ''127.0.0.1'' s1)"
    by (auto simp: updateInstance_alt split: bind_splits)
  then have "errs s \<le> errs s1" by (simp add: useInstancePort_errs)
  also have "\<dots> \<le> errs (set_env_if p inst (is_HostEnvName inst) ''127.0.0.1'' s1)" by (rule set_env_if_errs)
  also have "\<dots> \<le> errs s'" unfolding s' by (rule set_env_if_errs)
  finally show ?thesis .
qed

lemma map_le_SomeD: "m \<subseteq>\<^sub>m m' \<Longrightarrow> m x = Some y \<Longrightarrow> m' x = Some y"
  by (metis domI map_le_def)

lemma updateInstance_steps:
  assumes step: "updateInstance p s r = Some (b, s')" and ok: "errs s' = errs s" and fresh: "inst_key p r \<notin> owned s"
  obtains q s1 where "useInstancePort s p r = Some (q, s1)" "errs s1 = errs s" "used s' = used s1" "owned s' = owned s1"
    "b = instance_arg (is_ConnectionString r) (instance_params r q)" "env s \<subseteq>\<^sub>m env s'"
    "is_HostEnvName r \<noteq> [] \<longrightarrow> env s' (is_HostEnvName r) = Some ''127.0.0.1''"
    "is_PortEnvName r \<noteq> [] \<longrightarrow> env s' (is_PortEnvName r) = Some (sprint_int q)"
proof -
  from step obtain q s1 where use: "useInstancePort s p r = Some (q, s1)"
    and b: "b = instance_arg (is_ConnectionString r) (instance_params r q)"
    and s': "s' = set_env_if p r (is_PortEnvName r) (sprint_int q)
        (set_env_if p r (is_HostEnvName r) ''127.0.0.1'' s1)"
    by (auto simp: updateInstance_alt split: bind_splits)
  define s2 where "s2 = set_env_if p r (is_HostEnvName r) ''127.0.0.1'' s1"
  have "errs s \<le> errs s1" "errs s1 \<le> errs s2" "errs s2 \<le> errs s'"
    using useInstancePort_errs [OF use] by (simp_all add: s' s2_def set_env_if_errs)
  with ok have e: "errs s1 = errs s" "errs s2 = errs s1" "errs s' = errs s2" by simp_all
  have env12: "env s \<subseteq>\<^sub>m env s2" "env s2 \<subseteq>\<^sub>m env s'"
    "is_HostEnvName r \<noteq> [] \<longrightarrow> env s2 (is_HostEnvName r) = Some ''127.0.0.1''"
    "is_PortEnvName r \<noteq> [] \<longrightarrow> env s' (is_PortEnvName r) = Some (sprint_int q)"
    using set_env_if_ok [of p r "is_HostEnvName r" "''127.0.0.1''" s1]
      set_env_if_ok [of p r "is_PortEnvName r" "sprint_int q" s2] e s' s2_def useInstancePort_ok(4) [OF use fresh e(1)]
    by simp_all
  show thesis
    using that [OF use e(1) _ _ b map_le_trans [OF env12(1,2)]] env12(3,4) map_le_SomeD [OF env12(2)]
    by (simp add: s')
qed

interpretation inst: port_env_client "state_inv u" used owned errs env "updateInstance p"
    "\<lambda>inst. [inst_key p inst]" "\<lambda>inst. [is_Port inst]" inst_needs inst_built
  for u p
proof
  fix s s' :: update_state and r :: instance_spec and b
  show "state_inv u s \<Longrightarrow> updateInstance p s r = Some (b, s') \<Longrightarrow> state_inv u s'"
    by (rule updateInstance_inv)
  show "updateInstance p s r = Some (b, s') \<Longrightarrow> errs s \<le> errs s'"
    by (rule updateInstance_errs)
  assume step: "updateInstance p s r = Some (b, s')" "errs s' = errs s" and "set [inst_key p r] \<inter> owned s = {}"
  then have fresh: "inst_key p r \<notin> owned s" by simp
  from step this obtain q s1 where use: "useInstancePort s p r = Some (q, s1)" "errs s1 = errs s"
    and v: "used s' = used s1" "owned s' = owned s1" "b = instance_arg (is_ConnectionString r) (instance_params r q)"
    and env: "env s \<subseteq>\<^sub>m env s'" "is_HostEnvName r \<noteq> [] \<longrightarrow> env s' (is_HostEnvName r) = Some ''127.0.0.1''"
      "is_PortEnvName r \<noteq> [] \<longrightarrow> env s' (is_PortEnvName r) = Some (sprint_int q)"
    by (rule updateInstance_steps)
  note u = useInstancePort_ok [OF use(1) fresh use(2)]
  show "owned s' = owned s \<union> set [inst_key p r] \<and> env s \<subseteq>\<^sub>m env s' \<and>
     (\<exists>ps. inst_built (used s) r b ps \<and> honours [is_Port r] ps \<and> distinct ps \<and>
        set ps \<inter> used s = {} \<and> used s' = used s \<union> set ps \<and>
        (\<forall>(n, v) \<in> inst_needs r ps. env s' n = Some v))"
  proof (intro conjI exI [of _ "[q]"])
    show "owned s' = owned s \<union> set [inst_key p r]" using u(3) v by simp
    show "env s \<subseteq>\<^sub>m env s'" by (rule env)
    show "inst_built (used s) r b [q]" by (simp add: inst_built_def v)
    show "honours [is_Port r] [q]" using u(5) by (cases "is_Port r") (auto simp: honours_def)
    show "distinct [q]" "set [q] \<inter> used s = {}" "used s' = used s \<union> set [q]" using u(1,2) v by auto
    show "\<forall>(n, v) \<in> inst_needs r [q]. env s' n = Some v" using env(2,3) by (auto simp: inst_needs_def)
  qed
qed (auto simp: inst_built_def)

section \<open>The contract at the level of one container\<close>

text \<open>A resource with a custom container takes no ports.\<close>

definition cont_insts :: "auth_proxy_workload \<Rightarrow> instance_spec list" where
  "cont_insts p = (if overridden p = None then aps_Instances (apw_Spec p) else [])"

definition cont_keys :: "auth_proxy_workload \<Rightarrow> db_instance list" where
  "cont_keys p = map (inst_key p) (cont_insts p)"

definition cont_wants :: "auth_proxy_workload \<Rightarrow> i32 option list" where
  "cont_wants p = map is_Port (cont_insts p)"

definition cont_needs :: "auth_proxy_workload \<Rightarrow> i32 list \<Rightarrow> (string \<times> string) set" where
  "cont_needs p ps = (\<Union>(inst, q) \<in> set (zip (cont_insts p) ps). inst_needs inst [q])"

definition cont_built :: "updater \<Rightarrow> i32 set \<Rightarrow> auth_proxy_workload \<Rightarrow> container \<Rightarrow> i32 list \<Rightarrow> bool" where
  "cont_built u U p c ps \<longleftrightarrow>
     (\<exists>name. ContainerName p = Some name \<and>
       (case overridden p of
          Some custom \<Rightarrow> ps = [] \<and> c = custom\<lparr>c_Name := name\<rparr>
        | None \<Rightarrow> length ps = length (aps_Instances (apw_Spec p)) \<and>
            (\<exists>hp. hp \<notin> U \<and> c = build_container u p name hp ps)))"

text \<open>From one port per instance to the ports of the container.\<close>

lemma all3_fulfilled_ports:
  assumes "all3 (inst.fulfilled U m) insts args pss"
  shows "\<exists>qs. pss = map (\<lambda>q. [q]) qs \<and> length qs = length insts \<and>
     args = map2 (\<lambda>inst q. instance_arg (is_ConnectionString inst) (instance_params inst q)) insts qs \<and>
     honours (map is_Port insts) qs \<and>
     (\<forall>(inst, q) \<in> set (zip insts qs). \<forall>(n, v) \<in> inst_needs inst [q]. m n = Some v)"
  using assms
proof (induction "inst.fulfilled U m" insts args pss rule: all3.induct)
  case 1
  then show ?case by (simp add: honours_def)
next
  case (2 i insts a args ps pss)
  then obtain q qs where q: "ps = [q]" "a = instance_arg (is_ConnectionString i) (instance_params i q)"
    and h: "honours [is_Port i] [q]" and n: "\<forall>(n, v) \<in> inst_needs i [q]. m n = Some v"
    and qs: "pss = map (\<lambda>q. [q]) qs" "length qs = length insts"
      "args = map2 (\<lambda>inst q. instance_arg (is_ConnectionString inst) (instance_params inst q)) insts qs"
      "honours (map is_Port insts) qs"
      "\<forall>(inst, q) \<in> set (zip insts qs). \<forall>(n, v) \<in> inst_needs inst [q]. m n = Some v"
    by (auto simp: inst.fulfilled_def inst_built_def)
  then show ?case
    by (intro exI [of _ "q # qs"]) (auto simp: honours_def)
qed simp_all

lemma concat_singletons: "concat (map (\<lambda>q. [q]) qs) = qs"
  by (induction qs) auto

lemma updateContainer_override:
  "overridden p = Some custom \<Longrightarrow> updateContainer s p c0 = Some (c, s') \<Longrightarrow>
     s' = s \<and> (\<exists>name. ContainerName p = Some name \<and> c = custom\<lparr>c_Name := name\<rparr>)"
  by (auto simp: updateContainer_def split: bind_splits)

lemma build_container_args:
  "c = (build_container u p name hp [])\<lparr>c_Args :=
      c_Args (build_container u p name hp []) @ instance_args p ps\<rparr> \<Longrightarrow>
   c = build_container u p name hp ps"
  by (simp add: build_container_def instance_args_def)

lemma updateContainer_ok:
  assumes inv: "state_inv u s" and step: "updateContainer s p zero_container = Some (c, s')"
    and ok: "errs s' = errs s" and keys: "distinct (cont_keys p)" "set (cont_keys p) \<inter> owned s = {}"
  shows "owned s' = owned s \<union> set (cont_keys p) \<and> env s \<subseteq>\<^sub>m env s' \<and>
     (\<exists>ps. cont_built u (used s) p c ps \<and> honours (cont_wants p) ps \<and> distinct ps \<and>
        set ps \<inter> used s = {} \<and> used s' = used s \<union> set ps \<and>
        (\<forall>(n, v) \<in> cont_needs p ps. env s' n = Some v))"
proof (cases "overridden p")
  case (Some custom)
  with updateContainer_override [OF Some step] show ?thesis
    by (auto simp: cont_keys_def cont_insts_def cont_wants_def cont_needs_def cont_built_def
        honours_def intro!: exI [of _ "[]"])
next
  case None
  note defs = cont_keys_def cont_insts_def cont_wants_def cont_needs_def
  from updateContainer_refines [OF step None] obtain hp name args
    where hp: "next_free (isPortInUse s) DefaultHealthCheckPort = Some hp"
    and name: "ContainerName p = Some name"
    and loop: "map_state (updateInstance p) s (aps_Instances (apw_Spec p)) = Some (args, s')"
    and c: "c = (build_container (us_updater s) p name hp [])\<lparr>c_Args :=
       c_Args (build_container (us_updater s) p name hp []) @ args\<rparr>"
    by blast
  have k: "concat (map (\<lambda>i. [inst_key p i]) (aps_Instances (apw_Spec p))) = cont_keys p"
    using None by (simp add: defs concat_map_singleton)
  from inst.loop_ok [OF inv loop ok, unfolded k, OF keys] obtain pss
    where o: "owned s' = owned s \<union> set (cont_keys p)" and m: "env s \<subseteq>\<^sub>m env s'"
    and all: "all3 (inst.fulfilled (used s) (env s')) (aps_Instances (apw_Spec p)) args pss"
    and pss: "distinct (concat pss)" "set (concat pss) \<inter> used s = {}" "used s' = used s \<union> set (concat pss)"
    by blast
  from all3_fulfilled_ports [OF all, folded instance_args_def] obtain ps where ps: "pss = map (\<lambda>q. [q]) ps"
      "length ps = length (aps_Instances (apw_Spec p))" "args = instance_args p ps"
      "honours (map is_Port (aps_Instances (apw_Spec p))) ps"
    and n: "\<forall>(inst, q) \<in> set (zip (aps_Instances (apw_Spec p)) ps). \<forall>(n, v) \<in> inst_needs inst [q]. env s' n = Some v"
    by blast
  have n': "\<forall>(n, v) \<in> cont_needs p ps. env s' n = Some v"
    using n None by (fastforce simp: defs)
  have h: "honours (cont_wants p) ps" using ps(4) None by (simp add: defs)
  have "us_updater s = u" using inv by (simp add: state_inv_def)
  with c ps(3) have "c = build_container u p name hp ps" by (simp add: build_container_args)
  moreover have "hp \<notin> used s" using next_free_not_in_use [OF hp] by (simp add: isPortInUse_iff)
  ultimately have "cont_built u (used s) p c ps"
    using name ps(2) None by (auto simp: cont_built_def)
  with o m n' h pss show ?thesis unfolding ps(1) concat_singletons by blast
qed

lemma updateContainer_loop:
  assumes "updateContainer s p zero_container = Some (c, s')"
  shows "s' = s \<or> (\<exists>args. map_state (updateInstance p) s (aps_Instances (apw_Spec p)) = Some (args, s'))"
  using updateContainer_refines [OF assms] updateContainer_override [OF _ assms]
  by (cases "overridden p") blast+

interpretation proxy: port_env_client "state_inv u" used owned errs env
    "\<lambda>s p. updateContainer s p zero_container" cont_keys cont_wants cont_needs "cont_built u"
  for u
proof
  fix s s' :: update_state and p :: auth_proxy_workload and c
  show "state_inv u s \<Longrightarrow> updateContainer s p zero_container = Some (c, s') \<Longrightarrow> state_inv u s'"
    using updateContainer_loop inst.loop_inv by metis
  show "updateContainer s p zero_container = Some (c, s') \<Longrightarrow> errs s \<le> errs s'"
    using updateContainer_loop inst.loop_errs_mono by (metis order_refl)
  show "cont_built u V p c ps \<Longrightarrow> cont_built u U p c ps" if "U \<subseteq> V" for U V ps
    using that by (auto simp: cont_built_def split: option.splits)
qed (rule updateContainer_ok)

section \<open>Every container is built: the loops return\<close>

lemma set_env_if_ports [simp]: "us_ports (set_env_if p inst n v s) = us_ports s"
  by (simp add: set_env_if_def)

interpretation inst_bounded: bounded_step "\<lambda>s. length (us_ports s)" "\<lambda>inst. 1" "2 ^ 32" "updateInstance p" for p
proof
  fix s :: update_state and inst :: instance_spec
  assume "length (us_ports s) + 1 < 2 ^ 32"
  then obtain q s1 where "useInstancePort s p inst = Some (q, s1)" "length (us_ports s1) \<le> Suc (length (us_ports s))"
    using useInstancePort_returns [of s p inst] by auto
  then show "\<exists>b s'. updateInstance p s inst = Some (b, s') \<and> length (us_ports s') \<le> length (us_ports s) + 1"
    by (simp add: updateInstance_alt)
qed

definition n_instances :: "auth_proxy_workload \<Rightarrow> nat" where
  "n_instances p = length (aps_Instances (apw_Spec p))"

interpretation proxy_bounded: bounded_step "\<lambda>s. length (us_ports s)" n_instances "2 ^ 32"
    "\<lambda>s p. updateContainer s p zero_container"
proof
  fix s :: update_state and p
  assume room: "length (us_ports s) + n_instances p < 2 ^ 32"
  then obtain args s' where loop: "map_state (updateInstance p) s (aps_Instances (apw_Spec p)) = Some (args, s')"
      "length (us_ports s') \<le> length (us_ports s) + n_instances p"
    using inst_bounded.loop_returns [of s "aps_Instances (apw_Spec p)" p]
    by (auto simp: n_instances_def sum_list_triv)
  obtain hp where hp: "next_free (isPortInUse s) DefaultHealthCheckPort = Some hp"
    using next_free_port_returns [of s DefaultHealthCheckPort] room by auto
  obtain name where "ContainerName p = Some name" using ContainerName_Some by blast
  with loop hp show "\<exists>b s'. updateContainer s p zero_container = Some (b, s') \<and>
      length (us_ports s') \<le> length (us_ports s) + n_instances p"
    by (auto simp: updateContainer_def addHealthCheck_def Let_def split: option.split prod.split)
qed

section \<open>The argument of an instance\<close>

text \<open>The parameters in the order of the sorted list.\<close>

definition bool_text :: "bool \<Rightarrow> string" where
  "bool_text b = (if b then ''true'' else ''false'')"

definition canonical_params :: "instance_spec \<Rightarrow> i32 \<Rightarrow> string list" where
  "canonical_params inst q =
     (case is_AutoIAMAuthN inst of None \<Rightarrow> [] | Some b \<Rightarrow> [''auto-iam-authn='' @ bool_text b])
     @ [''port='' @ sprint_int q]
     @ (case is_PrivateIP inst of None \<Rightarrow> [] | Some b \<Rightarrow> [''private-ip='' @ bool_text b])"

lemma canonical_params_sort:
  assumes "mset params = mset (instance_params inst q)"
  shows "sort (map (\<lambda>(k, v). k @ ''='' @ v) params) = canonical_params inst q"
proof (rule properties_for_sort)
  have "mset (map (\<lambda>(k, v). k @ ''='' @ v) params) =
      mset (map (\<lambda>(k, v). k @ ''='' @ v) (instance_params inst q))"
    using assms by (metis mset_map)
  then show "mset (canonical_params inst q) = mset (map (\<lambda>(k, v). k @ ''='' @ v) params)"
    by (auto simp: canonical_params_def instance_params_def bool_text_def split: option.split)
  show "sorted (canonical_params inst q)"
    by (auto simp: canonical_params_def less_eq_char_def less_char_def split: option.split)
qed

text \<open>
  C26: the argument of an instance does not depend on the iteration order of the Go map \<open>params\<close>: for
  every order of its entries, the argument is the connection string followed by the parameters in
  one fixed order.
\<close>

theorem instance_arg_canonical:
  assumes "mset params = mset (instance_params inst q)"
  shows "instance_arg conn params = conn @ ''?'' @ join ''&'' (canonical_params inst q)"
  using canonical_params_sort [OF assms] by (simp add: instance_arg_def canonical_params_def)

theorem instance_arg_canonical_witness:
  "instance_arg ''p:r:db'' [(''private-ip'', ''true''), (''port'', ''5000''), (''auto-iam-authn'', ''false'')] =
     ''p:r:db?auto-iam-authn=false&port=5000&private-ip=true''"
proof -
  let ?i = "(example_inst ''p:r:db'' None)\<lparr>is_AutoIAMAuthN := Some False, is_PrivateIP := Some True\<rparr>"
  have d: "fmt_d 5000 = ''5000''"
    by (simp add: fmt_d_def fmt_base_small fmt_base_big digit_char_def)
  have "mset [(''private-ip'', ''true''), (''port'', ''5000''), (''auto-iam-authn'', ''false'')] =
      mset (instance_params ?i 5000)"
    by (simp add: instance_params_def d)
  from instance_arg_canonical [OF this, of "''p:r:db''"] show ?thesis
    by (simp add: canonical_params_def bool_text_def d)
qed

end
