(* ===== verification/Workloads.thy ===== *)
theory Workloads
  imports Api_Types
begin

text \<open>
  \<open>internal/workload/workload.go\<close>: the seven workload kinds behind one interface, the lists of
  workloads per kind, and the test whether a selector matches a workload. The interface
  \<open>Workload\<close> with \<open>WithMutablePodTemplate\<close> is the locale \<open>pod_template_access\<close>, interpreted on the
  accessors below.
\<close>

section \<open>The workload objects\<close>

record pod_template =
  pt_Labels :: string_map
  pt_Annotations :: string_map
  pt_Spec :: pod_spec
  pt_Other :: opaque

text \<open>\<open>Deployment\<close>, \<open>StatefulSet\<close>, \<open>DaemonSet\<close>, \<open>ReplicaSet\<close> and \<open>Job\<close> all hold their pod
  template at \<open>Spec.Template\<close>; \<open>Spec.Replicas\<close> and \<open>Spec.Selector\<close> are nil where the kind does not have them.\<close>

record templated =
  to_GVK :: group_version_kind
  to_Meta :: object_meta
  to_Replicas :: "i32 option"
  to_Selector :: "label_selector option"
  to_Template :: pod_template
  to_Other :: opaque

record pod =
  pod_GVK :: group_version_kind
  pod_Meta :: object_meta
  pod_Spec :: pod_spec
  pod_Other :: opaque

text \<open>A \<open>CronJob\<close> holds it at \<open>Spec.JobTemplate.Spec.Template\<close>.\<close>

record job_template =
  jt_Template :: pod_template
  jt_Other :: opaque

record cron_job =
  cj_GVK :: group_version_kind
  cj_Meta :: object_meta
  cj_JobTemplate :: job_template
  cj_Other :: opaque

datatype workload =
    DeploymentWorkload templated
  | StatefulSetWorkload templated
  | PodWorkload pod
  | JobWorkload templated
  | CronJobWorkload cron_job
  | DaemonSetWorkload templated
  | ReplicaSetWorkload templated

definition zero_template :: pod_template where
  "zero_template = \<lparr>pt_Labels = [], pt_Annotations = [], pt_Spec = zero_pod_spec, pt_Other = []\<rparr>"

definition zero_templated :: templated where
  "zero_templated =
     \<lparr>to_GVK = zero_gvk, to_Meta = zero_meta, to_Replicas = None, to_Selector = None, to_Template = zero_template, to_Other = []\<rparr>"

definition zero_pod :: pod where
  "zero_pod = \<lparr>pod_GVK = zero_gvk, pod_Meta = zero_meta, pod_Spec = zero_pod_spec, pod_Other = []\<rparr>"

definition zero_cron_job :: cron_job where
  "zero_cron_job = \<lparr>cj_GVK = zero_gvk, cj_Meta = zero_meta,
     cj_JobTemplate = \<lparr>jt_Template = zero_template, jt_Other = []\<rparr>, cj_Other = []\<rparr>"

section \<open>The methods of the interface\<close>

fun PodSpec :: "workload \<Rightarrow> pod_spec" where
  "PodSpec (DeploymentWorkload d) = pt_Spec (to_Template d)"
| "PodSpec (StatefulSetWorkload d) = pt_Spec (to_Template d)"
| "PodSpec (PodWorkload d) = pod_Spec d"
| "PodSpec (JobWorkload d) = pt_Spec (to_Template d)"
| "PodSpec (CronJobWorkload d) = pt_Spec (jt_Template (cj_JobTemplate d))"
| "PodSpec (DaemonSetWorkload d) = pt_Spec (to_Template d)"
| "PodSpec (ReplicaSetWorkload d) = pt_Spec (to_Template d)"

fun PodTemplateAnnotations :: "workload \<Rightarrow> string_map" where
  "PodTemplateAnnotations (DeploymentWorkload d) = pt_Annotations (to_Template d)"
| "PodTemplateAnnotations (StatefulSetWorkload d) = pt_Annotations (to_Template d)"
| "PodTemplateAnnotations (PodWorkload d) = om_Annotations (pod_Meta d)"
| "PodTemplateAnnotations (JobWorkload d) = pt_Annotations (to_Template d)"
| "PodTemplateAnnotations (CronJobWorkload d) = pt_Annotations (jt_Template (cj_JobTemplate d))"
| "PodTemplateAnnotations (DaemonSetWorkload d) = pt_Annotations (to_Template d)"
| "PodTemplateAnnotations (ReplicaSetWorkload d) = pt_Annotations (to_Template d)"

fun Object :: "workload \<Rightarrow> client_object" where
  "Object (DeploymentWorkload d) = \<lparr>co_GVK = to_GVK d, co_Meta = to_Meta d\<rparr>"
| "Object (StatefulSetWorkload d) = \<lparr>co_GVK = to_GVK d, co_Meta = to_Meta d\<rparr>"
| "Object (PodWorkload d) = \<lparr>co_GVK = pod_GVK d, co_Meta = pod_Meta d\<rparr>"
| "Object (JobWorkload d) = \<lparr>co_GVK = to_GVK d, co_Meta = to_Meta d\<rparr>"
| "Object (CronJobWorkload d) = \<lparr>co_GVK = cj_GVK d, co_Meta = cj_Meta d\<rparr>"
| "Object (DaemonSetWorkload d) = \<lparr>co_GVK = to_GVK d, co_Meta = to_Meta d\<rparr>"
| "Object (ReplicaSetWorkload d) = \<lparr>co_GVK = to_GVK d, co_Meta = to_Meta d\<rparr>"

text \<open>The mutators exist for five kinds; \<open>None\<close> for a \<open>Job\<close> or \<open>CronJob\<close>, whose types do not
  implement \<open>WithMutablePodTemplate\<close>.\<close>

fun SetPodSpec :: "workload \<Rightarrow> pod_spec \<Rightarrow> workload option" where
  "SetPodSpec (DeploymentWorkload d) s =
     Some (DeploymentWorkload (d\<lparr>to_Template := (to_Template d)\<lparr>pt_Spec := s\<rparr>\<rparr>))"
| "SetPodSpec (StatefulSetWorkload d) s =
     Some (StatefulSetWorkload (d\<lparr>to_Template := (to_Template d)\<lparr>pt_Spec := s\<rparr>\<rparr>))"
| "SetPodSpec (PodWorkload d) s = Some (PodWorkload (d\<lparr>pod_Spec := s\<rparr>))"
| "SetPodSpec (JobWorkload d) s = None"
| "SetPodSpec (CronJobWorkload d) s = None"
| "SetPodSpec (DaemonSetWorkload d) s =
     Some (DaemonSetWorkload (d\<lparr>to_Template := (to_Template d)\<lparr>pt_Spec := s\<rparr>\<rparr>))"
| "SetPodSpec (ReplicaSetWorkload d) s =
     Some (ReplicaSetWorkload (d\<lparr>to_Template := (to_Template d)\<lparr>pt_Spec := s\<rparr>\<rparr>))"

fun SetPodTemplateAnnotations :: "workload \<Rightarrow> string_map \<Rightarrow> workload option" where
  "SetPodTemplateAnnotations (DeploymentWorkload d) v =
     Some (DeploymentWorkload (d\<lparr>to_Template := (to_Template d)\<lparr>pt_Annotations := v\<rparr>\<rparr>))"
| "SetPodTemplateAnnotations (StatefulSetWorkload d) v =
     Some (StatefulSetWorkload (d\<lparr>to_Template := (to_Template d)\<lparr>pt_Annotations := v\<rparr>\<rparr>))"
| "SetPodTemplateAnnotations (PodWorkload d) v =
     Some (PodWorkload (d\<lparr>pod_Meta := (pod_Meta d)\<lparr>om_Annotations := v\<rparr>\<rparr>))"
| "SetPodTemplateAnnotations (JobWorkload d) v = None"
| "SetPodTemplateAnnotations (CronJobWorkload d) v = None"
| "SetPodTemplateAnnotations (DaemonSetWorkload d) v =
     Some (DaemonSetWorkload (d\<lparr>to_Template := (to_Template d)\<lparr>pt_Annotations := v\<rparr>\<rparr>))"
| "SetPodTemplateAnnotations (ReplicaSetWorkload d) v =
     Some (ReplicaSetWorkload (d\<lparr>to_Template := (to_Template d)\<lparr>pt_Annotations := v\<rparr>\<rparr>))"

section \<open>Workloads and workload lists by kind\<close>

text \<open>\<open>realWorkloadList\<close> for each of the seven instantiations: the object list that the client
  fills, with its item accessor and constructor fixed by the kind.\<close>

datatype workload_list =
    DeploymentList "templated list"
  | PodList "pod list"
  | StatefulSetList "templated list"
  | ReplicaSetList "templated list"
  | JobList "templated list"
  | CronJobList "cron_job list"
  | DaemonSetList "templated list"

fun Workloads :: "workload_list \<Rightarrow> workload list" where
  "Workloads (DeploymentList items) = map DeploymentWorkload items"
| "Workloads (PodList items) = map PodWorkload items"
| "Workloads (StatefulSetList items) = map StatefulSetWorkload items"
| "Workloads (ReplicaSetList items) = map ReplicaSetWorkload items"
| "Workloads (JobList items) = map JobWorkload items"
| "Workloads (CronJobList items) = map CronJobWorkload items"
| "Workloads (DaemonSetList items) = map DaemonSetWorkload items"

definition WorkloadListForKind :: "string \<Rightarrow> go_error + workload_list" where
  "WorkloadListForKind kind =
     (if kind = ''Deployment'' then Inr (DeploymentList [])
      else if kind = ''Pod'' then Inr (PodList [])
      else if kind = ''StatefulSet'' then Inr (StatefulSetList [])
      else if kind = ''ReplicaSet'' then Inr (ReplicaSetList [])
      else if kind = ''Job'' then Inr (JobList [])
      else if kind = ''CronJob'' then Inr (CronJobList [])
      else if kind = ''DaemonSet'' then Inr (DaemonSetList [])
      else Inl (GoError (''unknown kind for pod workloadSelector: '' @ kind)))"

definition WorkloadForKind :: "apimachinery \<Rightarrow> string \<Rightarrow> go_error + workload" where
  "WorkloadForKind A kind =
     (let k = parseKindArg A kind in
      if k = ''Deployment'' then Inr (DeploymentWorkload zero_templated)
      else if k = ''Pod'' then Inr (PodWorkload zero_pod)
      else if k = ''StatefulSet'' then Inr (StatefulSetWorkload zero_templated)
      else if k = ''Job'' then Inr (JobWorkload zero_templated)
      else if k = ''CronJob'' then Inr (CronJobWorkload zero_cron_job)
      else if k = ''DaemonSet'' then Inr (DaemonSetWorkload zero_templated)
      else if k = ''ReplicaSet'' then Inr (ReplicaSetWorkload zero_templated)
      else Inl (GoError (''unknown kind '' @ kind)))"

section \<open>Selector matching\<close>

definition workloadMatches ::
    "apimachinery \<Rightarrow> client_object \<Rightarrow> workload_selector_spec \<Rightarrow> string \<Rightarrow> bool" where
  "workloadMatches A wl sel ns =
     (if wss_Kind sel \<noteq> [] \<and> gvk_Kind (co_GVK wl) \<noteq> wss_Kind sel then False
      else if wss_Name sel \<noteq> [] \<and> om_Name (co_Meta wl) \<noteq> wss_Name sel then False
      else if ns \<noteq> [] \<and> om_Namespace (co_Meta wl) \<noteq> ns then False
      else (case LabelsSelector A sel of
              Inl err \<Rightarrow> False
            | Inr s \<Rightarrow>
                if \<not> sel_Empty s \<and> \<not> sel_Matches s (om_Labels (co_Meta wl)) then False
                else True))"

section \<open>The interface as a locale\<close>

text \<open>The identity of an object: what no accessor of the pod template may change.\<close>

definition ident :: "client_object \<Rightarrow> group_version_kind \<times> string \<times> string \<times> string_map \<times> owner_reference list"
  where "ident o1 = (co_GVK o1, om_Namespace (co_Meta o1), om_Name (co_Meta o1),
     om_Labels (co_Meta o1), om_OwnerReferences (co_Meta o1))"

locale pod_template_access =
  fixes get_spec :: "'w \<Rightarrow> 's"
    and get_ann :: "'w \<Rightarrow> 'a"
    and obj :: "'w \<Rightarrow> 'o"
    and obj_id :: "'o \<Rightarrow> 'i"
    and set_spec :: "'w \<Rightarrow> 's \<Rightarrow> 'w option"
    and set_ann :: "'w \<Rightarrow> 'a \<Rightarrow> 'w option"
  assumes get_set_spec: "set_spec w s = Some w' \<Longrightarrow> get_spec w' = s"
    and ann_set_spec: "set_spec w s = Some w' \<Longrightarrow> get_ann w' = get_ann w"
    and obj_set_spec: "set_spec w s = Some w' \<Longrightarrow> obj w' = obj w"
    and get_set_ann: "set_ann w a = Some w' \<Longrightarrow> get_ann w' = a"
    and spec_set_ann: "set_ann w a = Some w' \<Longrightarrow> get_spec w' = get_spec w"
    and id_set_ann: "set_ann w a = Some w' \<Longrightarrow> obj_id (obj w') = obj_id (obj w)"
    and mutable_iff: "set_spec w s = None \<longleftrightarrow> set_ann w a = None"
    and mutable_set_spec: "set_spec w s = Some w' \<Longrightarrow> set_spec w' t = None \<longleftrightarrow> set_spec w t = None"
begin

text \<open>A client that reads the pod spec, changes it and writes it back sees its own change, and
  nothing else of the workload moves.\<close>

lemma modify_spec:
  assumes "set_spec w (f (get_spec w)) = Some w'"
  shows "get_spec w' = f (get_spec w)" "get_ann w' = get_ann w" "obj w' = obj w"
  using assms by (simp_all add: get_set_spec ann_set_spec obj_set_spec)

lemma set_both:
  assumes "set_spec w s = Some w1" and "set_ann w1 a = Some w2"
  shows "get_spec w2 = s \<and> get_ann w2 = a \<and> obj_id (obj w2) = obj_id (obj w)"
  using assms by (metis get_set_spec spec_set_ann get_set_ann id_set_ann obj_set_spec)

lemma set_both_defined:
  assumes "set_spec w s = Some w1"
  shows "\<exists>w2. set_ann w1 a = Some w2"
  using assms mutable_iff [of w1 s a] mutable_set_spec [of w s w1 s] by auto

end

interpretation wl: pod_template_access PodSpec PodTemplateAnnotations Object ident
  SetPodSpec SetPodTemplateAnnotations
proof
  fix w w' :: workload and s t :: pod_spec and a :: string_map
  show "SetPodSpec w s = Some w' \<Longrightarrow> PodSpec w' = s" by (cases w) auto
  show "SetPodSpec w s = Some w' \<Longrightarrow> PodTemplateAnnotations w' = PodTemplateAnnotations w"
    by (cases w) auto
  show "SetPodSpec w s = Some w' \<Longrightarrow> Object w' = Object w" by (cases w) auto
  show "SetPodTemplateAnnotations w a = Some w' \<Longrightarrow> PodTemplateAnnotations w' = a"
    by (cases w) auto
  show "SetPodTemplateAnnotations w a = Some w' \<Longrightarrow> PodSpec w' = PodSpec w" by (cases w) auto
  show "SetPodTemplateAnnotations w a = Some w' \<Longrightarrow> ident (Object w') = ident (Object w)"
    by (cases w) (auto simp: ident_def)
  show "(SetPodSpec w s = None) = (SetPodTemplateAnnotations w a = None)" by (cases w) auto
  show "SetPodSpec w s = Some w' \<Longrightarrow> (SetPodSpec w' t = None) = (SetPodSpec w t = None)"
    by (cases w) auto
qed

section \<open>Properties\<close>

text \<open>
  On every kind whose pod template can be changed, writing a pod spec and then annotations is
  possible and leaves a workload that reads back exactly both, with the kind, namespace, name,
  labels and owners of the object unchanged.
\<close>

theorem SetPodSpec_then_annotations:
  assumes "SetPodSpec w s = Some w1"
  shows "\<exists>w2. SetPodTemplateAnnotations w1 a = Some w2 \<and> PodSpec w2 = s \<and>
     PodTemplateAnnotations w2 = a \<and> ident (Object w2) = ident (Object w)"
  using wl.set_both_defined [OF assms, of a] wl.set_both [OF assms] by blast

theorem SetPodSpec_then_annotations_witness:
  "\<exists>w2. SetPodTemplateAnnotations (PodWorkload zero_pod) [(''a'', ''b'')] = Some w2 \<and>
     PodSpec w2 = zero_pod_spec \<and> PodTemplateAnnotations w2 = [(''a'', ''b'')] \<and>
     ident (Object w2) = ident (Object (PodWorkload zero_pod))"
  by (rule SetPodSpec_then_annotations) (simp add: zero_pod_def)

text \<open>The Go type of a workload and of the items of a list, by the kind it stands for.\<close>

fun wl_kind :: "workload \<Rightarrow> string" where
  "wl_kind (DeploymentWorkload d) = ''Deployment''"
| "wl_kind (StatefulSetWorkload d) = ''StatefulSet''"
| "wl_kind (PodWorkload d) = ''Pod''"
| "wl_kind (JobWorkload d) = ''Job''"
| "wl_kind (CronJobWorkload d) = ''CronJob''"
| "wl_kind (DaemonSetWorkload d) = ''DaemonSet''"
| "wl_kind (ReplicaSetWorkload d) = ''ReplicaSet''"

definition supported_kinds :: "string list" where
  "supported_kinds = [''Deployment'', ''StatefulSet'', ''Pod'', ''ReplicaSet'', ''DaemonSet'',
     ''Job'', ''CronJob'']"

lemma WorkloadForKind_Inr_iff:
  "(\<exists>w. WorkloadForKind A kind = Inr w) \<longleftrightarrow> parseKindArg A kind \<in> set supported_kinds"
  by (auto simp: WorkloadForKind_def supported_kinds_def Let_def)

lemma WorkloadForKind_wl_kind: "WorkloadForKind A kind = Inr w \<Longrightarrow> wl_kind w = parseKindArg A kind"
  by (auto simp: WorkloadForKind_def Let_def split: if_splits)

lemma WorkloadListForKind_Inr_iff:
  "(\<exists>l. WorkloadListForKind k = Inr l) \<longleftrightarrow> k \<in> set supported_kinds"
  by (auto simp: WorkloadListForKind_def supported_kinds_def)

text \<open>What the client fills in has the type of the list it was given.\<close>

fun list_items_of :: "workload_list \<Rightarrow> workload_list \<Rightarrow> bool" where
  "list_items_of (DeploymentList xs) (DeploymentList ys) = True"
| "list_items_of (PodList xs) (PodList ys) = True"
| "list_items_of (StatefulSetList xs) (StatefulSetList ys) = True"
| "list_items_of (ReplicaSetList xs) (ReplicaSetList ys) = True"
| "list_items_of (JobList xs) (JobList ys) = True"
| "list_items_of (CronJobList xs) (CronJobList ys) = True"
| "list_items_of (DaemonSetList xs) (DaemonSetList ys) = True"
| "list_items_of _ _ = False"

lemma list_items_kind:
  assumes "WorkloadListForKind k = Inr l" and "list_items_of l l'" and "w \<in> set (Workloads l')"
  shows "wl_kind w = k"
  using assms by (cases l') (auto simp: WorkloadListForKind_def split: if_splits)

text \<open>
  Loading by name and listing by selector support the same kinds: after parsing, both
  constructors succeed exactly on the seven documented kinds, and a workload read by either has the
  Go type of that kind.
\<close>

theorem kinds_agree:
  "((\<exists>w. WorkloadForKind A kind = Inr w) \<longleftrightarrow> parseKindArg A kind \<in> set supported_kinds) \<and>
   ((\<exists>l. WorkloadListForKind (parseKindArg A kind) = Inr l) \<longleftrightarrow>
      parseKindArg A kind \<in> set supported_kinds) \<and>
   (\<forall>w l l' w'. WorkloadForKind A kind = Inr w \<longrightarrow> WorkloadListForKind (parseKindArg A kind) = Inr l \<longrightarrow>
      list_items_of l l' \<longrightarrow> w' \<in> set (Workloads l') \<longrightarrow> wl_kind w' = wl_kind w)"
  using WorkloadForKind_Inr_iff WorkloadListForKind_Inr_iff list_items_kind WorkloadForKind_wl_kind
  by metis

text \<open>A concrete library for the examples: dots end a kind, a selector lists required labels.\<close>

definition example_matches :: "string_map \<Rightarrow> string_map \<Rightarrow> bool" where
  "example_matches req ls = list_all (\<lambda>(k, v). map_of ls k = Some v) req"

definition example_api :: apimachinery where
  "example_api = \<lparr>newSelector = \<lparr>sel_Empty = True, sel_Matches = (\<lambda>ls. True)\<rparr>,
     labelSelectorAsSelector = (\<lambda>l. if ls_MatchExpressions l \<noteq> [] then Inl (GoError ''invalid'')
        else Inr \<lparr>sel_Empty = (ls_MatchLabels l = []), sel_Matches = example_matches (ls_MatchLabels l)\<rparr>),
     parseKindArg = takeWhile (\<lambda>c. c \<noteq> CHR ''.''),
     gvIdentifier = (\<lambda>g v. if g = [] then v else g @ ''/'' @ v)\<rparr>"

lemma labels_api_ok_example: "labels_api_ok example_api"
  by (auto simp: labels_api_ok_def example_api_def example_matches_def split: if_splits)

lemma parse_kind_ok_example: "parse_kind_ok example_api"
  by (simp add: parse_kind_ok_def example_api_def)

theorem kinds_agree_witness:
  "parseKindArg example_api ''Deployment.v1.apps'' = ''Deployment'' \<and>
   (\<exists>w. WorkloadForKind example_api ''Deployment.v1.apps'' = Inr w) \<and>
   wl_kind (DeploymentWorkload zero_templated) = ''Deployment''"
proof -
  have "parseKindArg example_api ''Deployment.v1.apps'' = ''Deployment''"
    by (simp add: example_api_def)
  then show ?thesis
    using kinds_agree [of example_api "''Deployment.v1.apps''"] by (simp add: supported_kinds_def)
qed

text \<open>
  With the documented behaviour of empty selectors, \<open>workloadMatches\<close> holds exactly when each
  of kind, name and namespace is unset or equal, the label selector converts without error, and it
  matches the labels of the object.
\<close>

theorem workloadMatches_iff:
  assumes "labels_api_ok A"
  shows "workloadMatches A wl sel ns \<longleftrightarrow>
     (wss_Kind sel = [] \<or> gvk_Kind (co_GVK wl) = wss_Kind sel) \<and>
     (wss_Name sel = [] \<or> om_Name (co_Meta wl) = wss_Name sel) \<and>
     (ns = [] \<or> om_Namespace (co_Meta wl) = ns) \<and>
     (\<exists>s. LabelsSelector A sel = Inr s \<and> sel_Matches s (om_Labels (co_Meta wl)))"
  using assms
  by (auto simp: workloadMatches_def labels_api_ok_def LabelsSelector_def
      split: sum.splits option.splits if_splits)

theorem workloadMatches_iff_witness:
  "workloadMatches example_api
     \<lparr>co_GVK = zero_gvk\<lparr>gvk_Kind := ''Pod''\<rparr>,
      co_Meta = zero_meta\<lparr>om_Namespace := ''default'', om_Name := ''hello'', om_Labels := [(''app'', ''x'')]\<rparr>\<rparr>
     \<lparr>wss_Selector = Some \<lparr>ls_MatchLabels = [(''app'', ''x'')], ls_MatchExpressions = []\<rparr>,
      wss_Kind = ''Pod'', wss_Name = ''hello''\<rparr> ''default''"
  unfolding workloadMatches_iff [OF labels_api_ok_example]
  by (simp add: LabelsSelector_def example_api_def example_matches_def)

text \<open>
  A selector kind with a version or group, which the documentation of \<open>Kind\<close> gives as an example
  and \<open>WorkloadForKind\<close> accepts, matches no object whose kind has no dot: the reconciler
  finds the workloads, and the pod webhook never selects them.
\<close>

theorem dotted_kind_never_matches:
  assumes parse: "parse_kind_ok A"
    and dotted: "CHR ''.'' \<in> set (wss_Kind sel)" and plain: "CHR ''.'' \<notin> set (gvk_Kind (co_GVK wl))"
    and supported: "takeWhile (\<lambda>c. c \<noteq> CHR ''.'') (wss_Kind sel) \<in> set supported_kinds"
  shows "\<not> workloadMatches A wl sel ns \<and> (\<exists>w. WorkloadForKind A (wss_Kind sel) = Inr w)"
proof
  from dotted plain have "wss_Kind sel \<noteq> []" and "gvk_Kind (co_GVK wl) \<noteq> wss_Kind sel" by auto
  then show "\<not> workloadMatches A wl sel ns" by (simp add: workloadMatches_def)
  show "\<exists>w. WorkloadForKind A (wss_Kind sel) = Inr w"
    using parse supported by (simp add: WorkloadForKind_Inr_iff parse_kind_ok_def)
qed

theorem dotted_kind_never_matches_witness:
  "\<not> workloadMatches example_api \<lparr>co_GVK = zero_gvk\<lparr>gvk_Kind := ''Deployment''\<rparr>, co_Meta = zero_meta\<rparr>
       \<lparr>wss_Selector = None, wss_Kind = ''Deployment.v1.apps'', wss_Name = []\<rparr> [] \<and>
   (\<exists>w. WorkloadForKind example_api ''Deployment.v1.apps'' = Inr w)"
  using dotted_kind_never_matches [OF parse_kind_ok_example,
      of "\<lparr>wss_Selector = None, wss_Kind = ''Deployment.v1.apps'', wss_Name = []\<rparr>"
         "\<lparr>co_GVK = zero_gvk\<lparr>gvk_Kind := ''Deployment''\<rparr>, co_Meta = zero_meta\<rparr>" "[]"]
  by (simp add: supported_kinds_def)

end
