(* ===== verification/Updater.thy ===== *)
theory Updater
  imports Proxy_Container Workloads
begin

text \<open>
  The entry points of package \<open>workload\<close>: which \<open>AuthProxyWorkload\<close> resources apply to a pod
  (\<open>FindMatchingAuthProxyWorkloads\<close>) and the update of the pod (\<open>ConfigureWorkload\<close>,
  \<open>updateState.update\<close>). Go leaves the iteration order of a map open: the order in which the
  deduplicating map is read is the argument \<open>ord\<close>, any function that permutes a list.
\<close>

section \<open>Definitions\<close>

definition filterMatchingInstances ::
    "apimachinery \<Rightarrow> auth_proxy_workload list \<Rightarrow> client_object \<Rightarrow> auth_proxy_workload list" where
  "filterMatchingInstances A pl wl =
     filter (\<lambda>p. workloadMatches A wl (aps_Workload (apw_Spec p)) (apw_Namespace p) \<and>
                 om_DeletionTimestamp (apw_Meta p) = None) pl"

text \<open>The key of the deduplicating map.\<close>

definition map_key :: "auth_proxy_workload \<Rightarrow> string" where
  "map_key w = apw_Namespace w @ ''/'' @ apw_Name w"

definition FindMatchingAuthProxyWorkloads ::
    "(auth_proxy_workload list \<Rightarrow> auth_proxy_workload list) \<Rightarrow> apimachinery \<Rightarrow>
     auth_proxy_workload list \<Rightarrow> pod \<Rightarrow> workload list \<Rightarrow> auth_proxy_workload list" where
  "FindMatchingAuthProxyWorkloads ord A pl wl owners =
     (let wls = filterMatchingInstances A pl (Object (PodWorkload wl))
                @ concat (map (\<lambda>owner. filterMatchingInstances A pl (Object owner)) owners);
          m = foldl (\<lambda>m w. AList.update (map_key w) w m) [] wls
      in ord (map snd m))"

definition permutes_order :: "('a list \<Rightarrow> 'a list) \<Rightarrow> bool" where
  "permutes_order ord \<longleftrightarrow> (\<forall>xs. mset (ord xs) = mset xs)"

text \<open>The two nested loops of \<open>update\<close> over the containers and their ports.\<close>

definition add_ports_of :: "update_state \<Rightarrow> container \<Rightarrow> update_state" where
  "add_ports_of s c = foldl (\<lambda>s cp. addInUsePort s (cp_ContainerPort cp) (c_Name c)) s (c_Ports c)"

definition addContainerPorts :: "update_state \<Rightarrow> container list \<Rightarrow> update_state" where
  "addContainerPorts s cs = foldl add_ports_of s cs"

definition update :: "update_state \<Rightarrow> pod \<Rightarrow> auth_proxy_workload list \<Rightarrow> (config_error + workload) option" where
  "update s wl matches =
     (let s0 = initState s matches;
          podSpec = PodSpec (PodWorkload wl);
          containers = ps_Containers podSpec;
          nonAuthProxyContainers = filter (\<lambda>c. \<not> has_prefix (c_Name c) ContainerPrefix) containers;
          s1 = addContainerPorts s0 nonAuthProxyContainers
      in do {
        (newContainers, s2) \<leftarrow> map_state (\<lambda>s inst. updateContainer s inst zero_container) s1 matches;
        let podSpec1 = podSpec\<lparr>ps_Containers :=
                         map (updateContainerEnv s2) (containers @ newContainers)\<rparr>;
        if length (us_errors s2) > 0 then Some (Inl (us_err s2))
        else map_option Inr (SetPodSpec (PodWorkload wl) podSpec1)
      })"

definition initial_state :: "updater \<Rightarrow> pod \<Rightarrow> update_state" where
  "initial_state u wl =
     \<lparr>us_err = \<lparr>ce_workloadKind = co_GVK (Object (PodWorkload wl)),
                ce_workloadName = om_Name (co_Meta (Object (PodWorkload wl))),
                ce_workloadNamespace = om_Namespace (co_Meta (Object (PodWorkload wl))),
                ce_details = []\<rparr>,
      us_mods = \<lparr>wm_DBInstances = [], wm_EnvVars = [], wm_VolumeMounts = [], wm_Ports = []\<rparr>,
      us_nextDBPort = DefaultFirstPort, us_updater = u\<rparr>"

definition ConfigureWorkload ::
    "updater \<Rightarrow> pod \<Rightarrow> auth_proxy_workload list \<Rightarrow> (config_error + workload) option" where
  "ConfigureWorkload u wl matches = update (initial_state u wl) wl matches"

section \<open>The ports of the pod\<close>

text \<open>The ports that the pod's own containers declare.\<close>

definition own_containers :: "pod \<Rightarrow> container list" where
  "own_containers wl = filter (\<lambda>c. \<not> has_prefix (c_Name c) ContainerPrefix) (ps_Containers (pod_Spec wl))"

definition own_ports :: "pod \<Rightarrow> i32 set" where
  "own_ports wl = (\<Union>c \<in> set (own_containers wl). cp_ContainerPort ` set (c_Ports c))"

text \<open>What registering the pod's own ports does to the state: the ports are in use, entries belong
  to no instance, and nothing else changes.\<close>

definition ports_added :: "update_state \<Rightarrow> i32 set \<Rightarrow> nat \<Rightarrow> update_state \<Rightarrow> bool" where
  "ports_added s P n s' \<longleftrightarrow> used s' = used s \<union> P \<and> owned s' \<subseteq> insert (dbInst [] [] []) (owned s) \<and>
     us_envs s' = us_envs s \<and> us_err s' = us_err s \<and> us_nextDBPort s' = us_nextDBPort s \<and>
     us_updater s' = us_updater s \<and> length (us_ports s') \<le> length (us_ports s) + n"

lemma ports_added_refl: "ports_added s {} 0 s"
  by (auto simp: ports_added_def)

lemma ports_added_trans:
  "ports_added s P n s1 \<Longrightarrow> ports_added s1 Q m s2 \<Longrightarrow> ports_added s (P \<union> Q) (n + m) s2"
  by (auto simp: ports_added_def)

lemma ports_added_addInUsePort: "ports_added s {q} 1 (addInUsePort s q c)"
  using length_addPort [of s] by (auto simp: ports_added_def addInUsePort_def owned_addPort)

lemma ports_added_foldl:
  assumes "\<And>s x. ports_added s (P x) (n x) (f s x)"
  shows "ports_added s (\<Union>x \<in> set xs. P x) (sum_list (map n xs)) (foldl f s xs)"
proof (induction xs arbitrary: s)
  case Nil
  then show ?case by (simp add: ports_added_refl)
next
  case (Cons x xs)
  from ports_added_trans [OF assms Cons.IH] show ?case by simp
qed

lemma ports_added_container:
  "ports_added s (cp_ContainerPort ` set (c_Ports c)) (length (c_Ports c)) (add_ports_of s c)"
  using ports_added_foldl [of "\<lambda>cp. {cp_ContainerPort cp}" "\<lambda>_. 1"
      "\<lambda>s cp. addInUsePort s (cp_ContainerPort cp) (c_Name c)" s "c_Ports c"]
  by (simp add: add_ports_of_def sum_list_triv ports_added_addInUsePort [unfolded One_nat_def] UNION_singleton_eq_range)

lemma ports_added_own:
  "ports_added s (own_ports wl) (sum_list (map (\<lambda>c. length (c_Ports c)) (own_containers wl)))
     (addContainerPorts s (own_containers wl))"
  unfolding addContainerPorts_def own_ports_def by (rule ports_added_foldl) (rule ports_added_container)

section \<open>One run of the update\<close>

text \<open>The state in which the loop over the matching resources starts.\<close>

definition start_state :: "updater \<Rightarrow> pod \<Rightarrow> auth_proxy_workload list \<Rightarrow> update_state" where
  "start_state u wl matches = addContainerPorts (initState (initial_state u wl) matches) (own_containers wl)"

lemma initState_initial:
  "used (initState (initial_state u wl) ms) = {}" "owned (initState (initial_state u wl) ms) = {}"
  "us_envs (initState (initial_state u wl) ms) = []" "us_ports (initState (initial_state u wl) ms) = []"
  "us_err (initState (initial_state u wl) ms) = us_err (initial_state u wl)"
  "us_updater (initState (initial_state u wl) ms) = u"
  by (simp_all add: initState_def initial_state_def used_def owned_def)

lemma start_state_views:
  "used (start_state u wl ms) = own_ports wl" "owned (start_state u wl ms) \<subseteq> {dbInst [] [] []}"
  "errs (start_state u wl ms) = 0" "state_inv u (start_state u wl ms)"
  "length (us_ports (start_state u wl ms)) \<le> sum_list (map (\<lambda>c. length (c_Ports c)) (own_containers wl))"
  using ports_added_own [of "initState (initial_state u wl) ms" wl]
  by (simp_all add: start_state_def ports_added_def initState_initial errs_def state_inv_def)
    (simp_all add: initial_state_def)

text \<open>\<open>ConfigureWorkload\<close> is the loop of \<open>updateContainer\<close> from the start state, followed by the
  environment update or the error.\<close>

lemma ConfigureWorkload_eq:
  "ConfigureWorkload u wl ms =
     map_option (\<lambda>(new, s).
         if errs s > 0 then Inl (us_err s)
         else Inr (PodWorkload (wl\<lparr>pod_Spec := (pod_Spec wl)\<lparr>ps_Containers :=
                map (updateContainerEnv s) (ps_Containers (pod_Spec wl) @ new)\<rparr>\<rparr>)))
       (map_state (\<lambda>s p. updateContainer s p zero_container) (start_state u wl ms) ms)"
  by (simp add: ConfigureWorkload_def update_def start_state_def own_containers_def errs_def Let_def
      map_conv_bind_option case_prod_unfold) (auto intro!: Option.bind_cong)

text \<open>What the API server guarantees of a list of resources: they have names, and these are distinct within a namespace.\<close>

definition well_named :: "auth_proxy_workload list \<Rightarrow> bool" where
  "well_named ms \<longleftrightarrow> distinct (map apw_key ms) \<and> (\<forall>p \<in> set ms. apw_Name p \<noteq> [])"

text \<open>No resource lists an instance twice. Nothing enforces this, neither the schema of the resource nor its validation, and the
  code does not check it: it is a condition on what the user wrote. What happens without it is shown in \<open>Matching\<close>.\<close>

definition instances_once :: "auth_proxy_workload set \<Rightarrow> bool" where
  "instances_once P \<longleftrightarrow> (\<forall>p \<in> P. distinct (map is_ConnectionString (cont_insts p)))"

text \<open>Together they make the keys of the port table unambiguous.\<close>

definition unambiguous :: "auth_proxy_workload list \<Rightarrow> bool" where
  "unambiguous ms \<longleftrightarrow> well_named ms \<and> instances_once (set ms)"

lemmas unambiguous_defs = unambiguous_def well_named_def instances_once_def

lemma unambiguousI: "well_named ms \<Longrightarrow> instances_once (set ms) \<Longrightarrow> unambiguous ms"
  by (simp add: unambiguous_def)

lemma inst_key_eq_iff:
  "inst_key p i = inst_key q j \<longleftrightarrow> apw_key p = apw_key q \<and> is_ConnectionString i = is_ConnectionString j"
  by (auto simp: inst_key_def dbInst_def apw_key_def)

lemma unambiguous_keys:
  assumes "unambiguous ms"
  shows "distinct (concat (map cont_keys ms))" "set (concat (map cont_keys ms)) \<inter> {dbInst [] [] []} = {}"
proof -
  have one: "distinct (cont_keys p)" if "p \<in> set ms" for p
    using that assms by (auto simp: unambiguous_defs cont_keys_def distinct_map inj_on_def inst_key_eq_iff)
  have two: "set (cont_keys p) \<inter> set (cont_keys q) = {}" if "apw_key p \<noteq> apw_key q" for p q
    using that by (auto simp: cont_keys_def inst_key_eq_iff)
  show "distinct (concat (map cont_keys ms))"
    using assms one unfolding unambiguous_defs
  proof (induction ms)
    case (Cons p ms)
    then have "set (cont_keys p) \<inter> set (cont_keys q) = {}" if "q \<in> set ms" for q
      using two [of p q] that by auto
    with Cons show ?case by auto
  qed simp
  show "set (concat (map cont_keys ms)) \<inter> {dbInst [] [] []} = {}"
    using assms by (auto simp: unambiguous_defs cont_keys_def inst_key_def dbInst_def)
qed

text \<open>The variables that are set in every container, as \<open>corev1.EnvVar\<close> values.\<close>

definition env_entry :: "string \<Rightarrow> string \<Rightarrow> env_var" where
  "env_entry n v = \<lparr>ev_Name = n, ev_Value = v, ev_ValueFrom = None\<rparr>"

lemma updateContainerEnv_entry:
  assumes inv: "state_inv u s" and env: "env s n = Some v"
  shows "env_entry n v \<in> set (c_Env (updateContainerEnv s c)) \<and>
     (\<forall>e \<in> set (c_Env (updateContainerEnv s c)). ev_Name e = n \<longrightarrow> e = env_entry n v)"
proof -
  from env have "(n, v) \<in> set (map me_pair (us_envs s))"
    unfolding env_def by (rule map_of_SomeD)
  then obtain m where m: "m \<in> set (us_envs s)" "me_pair m = (n, v)" by auto
  then have o: "me_OperatorManagedValue m = env_entry n v"
    using inv by (cases "me_OperatorManagedValue m") (auto simp: state_inv_def env_entry_def)
  let ?us = "map me_OperatorManagedValue (us_envs s)"
  have u: "distinct (map ev_Name ?us)" "env_entry n v \<in> set ?us"
    using inv m(1) o by (auto simp: state_inv_def comp_def image_iff intro: sym)
  show ?thesis
    using foldl_env_upsert_mem [OF u] foldl_env_upsert_managed [OF u]
    by (auto simp: updateContainerEnv_def env_entry_def)
qed

text \<open>Everything a successful run guarantees, in one statement for the properties below.\<close>

lemma ConfigureWorkload_ok:
  assumes run: "ConfigureWorkload u wl ms = Some (Inr w)" and named: "unambiguous ms"
  obtains new s pss where
    "w = PodWorkload (wl\<lparr>pod_Spec := (pod_Spec wl)\<lparr>ps_Containers :=
       map (updateContainerEnv s) (ps_Containers (pod_Spec wl) @ new)\<rparr>\<rparr>)"
    "map_state (\<lambda>s p. updateContainer s p zero_container) (start_state u wl ms) ms = Some (new, s)"
    "state_inv u s" "all3 (proxy.fulfilled u (own_ports wl) (env s)) ms new pss"
    "distinct (concat pss)" "set (concat pss) \<inter> own_ports wl = {}"
proof -
  from run obtain new s where
    loop: "map_state (\<lambda>s p. updateContainer s p zero_container) (start_state u wl ms) ms = Some (new, s)"
    and e: "errs s = 0"
    and w: "w = PodWorkload (wl\<lparr>pod_Spec := (pod_Spec wl)\<lparr>ps_Containers :=
       map (updateContainerEnv s) (ps_Containers (pod_Spec wl) @ new)\<rparr>\<rparr>)"
    by (auto simp: ConfigureWorkload_eq split: if_splits)
  note st = start_state_views [where u = u and wl = wl and ms = ms]
  have "set (concat (map cont_keys ms)) \<inter> owned (start_state u wl ms) = {}"
    using unambiguous_keys(2) [OF named] st(2) by blast
  from proxy.loop_ok [OF st(4) loop _ unambiguous_keys(1) [OF named] this] e st(1,3)
  obtain pss where "all3 (proxy.fulfilled u (own_ports wl) (env s)) ms new pss"
    "distinct (concat pss)" "set (concat pss) \<inter> own_ports wl = {}"
    by auto
  with w loop proxy.loop_inv [OF st(4) loop] show ?thesis by (rule that)
qed

end
