(* ===== verification/Update_Complete.thy ===== *)
theory Update_Complete
  imports Updater
begin

text \<open>
  When the update of a pod reports no error: resources whose explicit ports are free, distinct and
  processed before any automatic port, and whose variable names do not clash, are always configured.
  The loops of \<open>update\<close> and \<open>updateContainer\<close> are followed with one invariant, \<open>conflict_free\<close>, on the
  state and the list of instances still to be processed.
\<close>

section \<open>The instances still to be processed\<close>

type_synonym demand = "auth_proxy_workload \<times> instance_spec"

definition demands_of :: "auth_proxy_workload \<Rightarrow> demand list" where
  "demands_of p = map (Pair p) (cont_insts p)"

definition demands :: "auth_proxy_workload list \<Rightarrow> demand list" where
  "demands ms = concat (map demands_of ms)"

definition explicit_ports :: "demand list \<Rightarrow> i32 list" where
  "explicit_ports ds = List.map_filter (\<lambda>d. is_Port (snd d)) ds"

definition host_envs :: "demand list \<Rightarrow> string list" where
  "host_envs ds = filter (\<lambda>n. n \<noteq> []) (map (\<lambda>d. is_HostEnvName (snd d)) ds)"

definition port_envs :: "demand list \<Rightarrow> string list" where
  "port_envs ds = filter (\<lambda>n. n \<noteq> []) (map (\<lambda>d. is_PortEnvName (snd d)) ds)"

text \<open>Explicit ports come first.\<close>

definition explicit_first :: "demand list \<Rightarrow> bool" where
  "explicit_first ds \<longleftrightarrow>
     sorted_wrt (\<lambda>d e. is_Port (snd d) = None \<longrightarrow> is_Port (snd e) = None) ds"

definition ports_free :: "i32 set \<Rightarrow> demand list \<Rightarrow> bool" where
  "ports_free U ds \<longleftrightarrow> explicit_first ds \<and> distinct (explicit_ports ds) \<and> set (explicit_ports ds) \<inter> U = {}"

definition envs_free :: "(string \<Rightarrow> string option) \<Rightarrow> demand list \<Rightarrow> bool" where
  "envs_free m ds \<longleftrightarrow> distinct (port_envs ds) \<and> set (port_envs ds) \<inter> set (host_envs ds) = {} \<and>
     (\<forall>n \<in> set (port_envs ds). m n = None) \<and>
     (\<forall>n \<in> set (host_envs ds). m n \<in> {None, Some ''127.0.0.1''})"

definition keys_free :: "db_instance set \<Rightarrow> demand list \<Rightarrow> bool" where
  "keys_free K ds \<longleftrightarrow> distinct (map (\<lambda>(p, i). inst_key p i) ds) \<and> (\<lambda>(p, i). inst_key p i) ` set ds \<inter> K = {}"

definition conflict_free :: "update_state \<Rightarrow> demand list \<Rightarrow> bool" where
  "conflict_free s ds \<longleftrightarrow> ports_free (used s) ds \<and> envs_free (env s) ds \<and> keys_free (owned s) ds"

lemma explicit_ports_simps [simp]:
  "explicit_ports [] = []"
  "explicit_ports (d # ds) = (case is_Port (snd d) of None \<Rightarrow> explicit_ports ds | Some q \<Rightarrow> q # explicit_ports ds)"
  by (simp_all add: explicit_ports_def List.map_filter_simps split: option.split)

lemma explicit_ports_none: "\<forall>d \<in> set ds. is_Port (snd d) = None \<Longrightarrow> explicit_ports ds = []"
  by (induction ds) auto

lemma host_envs_Cons [simp]:
  "host_envs (d # ds) = (if is_HostEnvName (snd d) = [] then host_envs ds else is_HostEnvName (snd d) # host_envs ds)"
  by (simp add: host_envs_def)

lemma port_envs_Cons [simp]:
  "port_envs (d # ds) = (if is_PortEnvName (snd d) = [] then port_envs ds else is_PortEnvName (snd d) # port_envs ds)"
  by (simp add: port_envs_def)

text \<open>The port the next instance gets is free, and the ones after it stay free.\<close>

lemma ports_free_step:
  assumes free: "ports_free (used s) ((p, i) # ds)" and room: "length (us_ports s) < 2 ^ 32"
  shows "\<exists>q s1. chosen_port s i = Some (q, s1) \<and> q \<notin> used s \<and> ports_free (insert q (used s)) ds"
proof (cases "is_Port i")
  case None
  obtain q where "next_free (isPortInUse s) (us_nextDBPort s) = Some q" "q \<notin> used s"
    using next_free_port_returns [OF room] by blast
  moreover have "explicit_ports ds = []"
    using free None by (intro explicit_ports_none) (auto simp: ports_free_def explicit_first_def)
  ultimately show ?thesis
    using free None by (auto simp: chosen_port_def ports_free_def explicit_first_def)
next
  case (Some q)
  with free show ?thesis by (auto simp: chosen_port_def ports_free_def explicit_first_def)
qed

text \<open>Setting the variables of the next instance is no conflict, and the ones after it stay free.\<close>

lemma errs_set_env_if:
  "errs (set_env_if p i n v s) = (if n = [] \<or> env s n \<in> {None, Some v} then errs s else Suc (errs s))"
  by (auto simp: set_env_if_def errs_addWorkloadEnvVar)

lemma env_set_env_if: "env (set_env_if p i n v s) = (if n = [] then env s else (env s)(n \<mapsto> v))"
  by (simp add: set_env_if_def env_addWorkloadEnvVar)

lemma envs_free_step:
  assumes "envs_free (env s) ((p, i) # ds)"
    and "s' = set_env_if p i (is_PortEnvName i) v (set_env_if p i (is_HostEnvName i) ''127.0.0.1'' s)"
  shows "errs s' = errs s \<and> envs_free (env s') ds"
  using assms by (auto simp: envs_free_def errs_set_env_if env_set_env_if split: if_splits)

lemma updateInstance_conflict_free:
  assumes free: "conflict_free s ((p, i) # ds)" and room: "length (us_ports s) < 2 ^ 32"
  shows "\<exists>b s'. updateInstance p s i = Some (b, s') \<and> errs s' = errs s \<and> conflict_free s' ds"
proof -
  from free have k: "inst_key p i \<notin> owned s" by (auto simp: conflict_free_def keys_free_def)
  have "ports_free (used s) ((p, i) # ds)" using free by (simp add: conflict_free_def)
  from ports_free_step [OF this room] obtain q s1 where c: "chosen_port s i = Some (q, s1)"
    and q: "q \<notin> used s" "ports_free (insert q (used s)) ds" by blast
  define s2 where "s2 = claim_port s1 p i q"
  define s3 where "s3 = set_env_if p i (is_PortEnvName i) (sprint_int q)
    (set_env_if p i (is_HostEnvName i) ''127.0.0.1'' s2)"
  have v: "used s2 = insert q (used s)" "owned s2 = insert (inst_key p i) (owned s)" "env s2 = env s"
    "errs s2 = errs s"
    using q(1) by (simp_all add: s2_def claim_port_views chosen_port_views [OF c])
  have "errs s3 = errs s2 \<and> envs_free (env s3) ds"
    using free v(3) by (intro envs_free_step [OF _ s3_def]) (simp add: conflict_free_def)
  moreover have "used s3 = used s2" "owned s3 = owned s2" by (simp_all add: s3_def)
  ultimately have "errs s3 = errs s \<and> conflict_free s3 ds"
    using free q(2) v by (auto simp: conflict_free_def keys_free_def)
  moreover have "updateInstance p s i =
      Some (instance_arg (is_ConnectionString i) (instance_params i q), s3)"
    by (simp add: updateInstance_alt useInstancePort_fresh [OF k] c s2_def s3_def)
  ultimately show ?thesis by blast
qed

section \<open>The loops\<close>

lemma map_state_remaining:
  assumes "\<And>s x xs. I s (x # xs) \<Longrightarrow> \<exists>b s'. f s x = Some (b, s') \<and> I s' xs" and "I s xs"
  shows "\<exists>bs s'. map_state f s xs = Some (bs, s') \<and> I s' []"
  using assms(2)
proof (induction xs arbitrary: s)
  case (Cons x xs)
  from assms(1) [OF Cons.prems] obtain b s1 where "f s x = Some (b, s1)" "I s1 xs" by blast
  with Cons.IH [of s1] show ?case by auto
qed simp

text \<open>The loops run without an error and with room for the remaining instances.\<close>

definition quiet :: "update_state \<Rightarrow> demand list \<Rightarrow> bool" where
  "quiet s ds \<longleftrightarrow> errs s = 0 \<and> conflict_free s ds \<and> length (us_ports s) + length ds < 2 ^ 32"

lemma updateInstance_quiet:
  assumes "quiet s ((p, i) # ds)"
  shows "\<exists>b s'. updateInstance p s i = Some (b, s') \<and> quiet s' ds"
proof -
  have "length (us_ports s) + 1 < 2 ^ 32 \<or> ds = []" "length (us_ports s) < 2 ^ 32" "conflict_free s ((p, i) # ds)"
    using assms by (auto simp: quiet_def)
  from updateInstance_conflict_free [OF this(3,2)] obtain b s'
    where s': "updateInstance p s i = Some (b, s')" "errs s' = errs s" "conflict_free s' ds" by blast
  have "length (us_ports s') \<le> length (us_ports s) + 1"
    using assms s'(1) inst_bounded.step_returns [where s = s and r = i and p = p] by (auto simp: quiet_def)
  with s' assms show ?thesis by (auto simp: quiet_def)
qed

lemma updateContainer_quiet:
  assumes "quiet s (demands_of p @ ds)"
  shows "\<exists>c s'. updateContainer s p zero_container = Some (c, s') \<and> quiet s' ds"
proof (cases "overridden p")
  case (Some custom)
  obtain name where "ContainerName p = Some name" using ContainerName_Some by blast
  with Some assms show ?thesis by (simp add: updateContainer_def demands_of_def cont_insts_def)
next
  case None
  let ?I = "\<lambda>s is. quiet s (map (Pair p) is @ ds)"
  have step: "\<exists>b s'. updateInstance p s i = Some (b, s') \<and> ?I s' is" if "?I s (i # is)" for s i "is"
    using updateInstance_quiet [of s p i] that by simp
  have "?I s (aps_Instances (apw_Spec p))" using assms None by (simp add: demands_of_def cont_insts_def)
  from map_state_remaining [where I = ?I and f = "updateInstance p", OF step this] obtain args s' where
    loop: "map_state (updateInstance p) s (aps_Instances (apw_Spec p)) = Some (args, s')" "quiet s' ds"
    by auto
  obtain hp where "next_free (isPortInUse s) DefaultHealthCheckPort = Some hp"
    using next_free_port_returns [of s DefaultHealthCheckPort] assms by (auto simp: quiet_def)
  moreover obtain name where "ContainerName p = Some name" using ContainerName_Some by blast
  ultimately show ?thesis using loop None
    by (auto simp: updateContainer_def addHealthCheck_def Let_def split: option.split prod.split)
qed

lemma update_loop_quiet:
  assumes "quiet s (demands ms)"
  shows "\<exists>new s'. map_state (\<lambda>s p. updateContainer s p zero_container) s ms = Some (new, s') \<and> errs s' = 0"
proof -
  have "\<exists>c s'. updateContainer s p zero_container = Some (c, s') \<and> quiet s' (demands ms)"
    if "quiet s (demands (p # ms))" for s p ms
    using that by (intro updateContainer_quiet) (simp add: demands_def)
  from map_state_remaining [where I = "\<lambda>s ms. quiet s (demands ms)"
      and f = "\<lambda>s p. updateContainer s p zero_container", OF this assms]
  show ?thesis by (auto simp: quiet_def)
qed

section \<open>The start of the loop\<close>

text \<open>The sizes that fit into the port space.\<close>

definition port_budget :: "pod \<Rightarrow> auth_proxy_workload list \<Rightarrow> nat" where
  "port_budget wl ms = sum_list (map (\<lambda>c. length (c_Ports c)) (own_containers wl)) + sum_list (map n_instances ms)"

lemma length_demands: "length (demands ms) \<le> sum_list (map n_instances ms)"
  by (induction ms) (auto simp: demands_def demands_of_def cont_insts_def n_instances_def)

lemma demands_keys: "map (\<lambda>(p, i). inst_key p i) (demands ms) = concat (map cont_keys ms)"
  by (induction ms) (auto simp: demands_def demands_of_def cont_keys_def)

lemma env_start_state: "env (start_state u wl ms) = (\<lambda>_. None)"
  using ports_added_own [of "initState (initial_state u wl) ms" wl]
  by (simp add: start_state_def ports_added_def initState_initial env_def fun_eq_iff)

lemma ConfigureWorkload_quiet:
  assumes "unambiguous ms" "ports_free (own_ports wl) (demands ms)" "envs_free (\<lambda>_. None) (demands ms)"
    and "port_budget wl ms < 2 ^ 32"
  shows "\<exists>w. ConfigureWorkload u wl ms = Some (Inr w)"
proof -
  note st = start_state_views [where u = u and wl = wl and ms = ms]
  have "(\<lambda>(p, i). inst_key p i) ` set (demands ms) = set (concat (map cont_keys ms))"
    by (metis demands_keys list.set_map)
  then have "keys_free (owned (start_state u wl ms)) (demands ms)"
    using unambiguous_keys [OF assms(1)] st(2) unfolding keys_free_def demands_keys by blast
  moreover have "env (start_state u wl ms) = (\<lambda>_. None)" by (rule env_start_state)
  moreover have "length (us_ports (start_state u wl ms)) + length (demands ms) < 2 ^ 32"
    using st(5) length_demands [of ms] assms(4) unfolding port_budget_def by linarith
  ultimately have "quiet (start_state u wl ms) (demands ms)"
    using assms(2,3) st(1,3) by (simp add: quiet_def conflict_free_def)
  from update_loop_quiet [OF this] show ?thesis by (auto simp: ConfigureWorkload_eq)
qed

section \<open>The conditions are necessary\<close>

text \<open>Ports that honour the requests contain the explicit ones, in order.\<close>

lemma honours_append: "honours vs ps \<Longrightarrow> honours ws qs \<Longrightarrow> honours (vs @ ws) (ps @ qs)"
  by (simp add: honours_def list_all2_appendI)

lemma honours_explicit:
  "honours (map (\<lambda>d. is_Port (snd d)) ds) qs \<Longrightarrow> distinct qs \<Longrightarrow>
     set (explicit_ports ds) \<subseteq> set qs \<and> distinct (explicit_ports ds)"
proof (induction ds arbitrary: qs)
  case (Cons d ds)
  then obtain q qs' where "qs = q # qs'" "is_Port (snd d) = None \<or> is_Port (snd d) = Some q"
      "honours (map (\<lambda>d. is_Port (snd d)) ds) qs'"
    by (auto simp: honours_def list_all2_Cons1)
  with Cons.IH [of qs'] Cons.prems(2) show ?case by auto
qed simp

text \<open>Variables with the values of the instances do not clash.\<close>

definition env_values :: "(string \<Rightarrow> string option) \<Rightarrow> demand \<Rightarrow> i32 \<Rightarrow> bool" where
  "env_values m d q \<longleftrightarrow> (\<forall>(n, v) \<in> inst_needs (snd d) [q]. m n = Some v)"

lemma env_values_iff:
  "env_values m d q \<longleftrightarrow> (is_HostEnvName (snd d) \<noteq> [] \<longrightarrow> m (is_HostEnvName (snd d)) = Some ''127.0.0.1'') \<and>
     (is_PortEnvName (snd d) \<noteq> [] \<longrightarrow> m (is_PortEnvName (snd d)) = Some (sprint_int q))"
  by (auto simp: env_values_def inst_needs_def)

lemma sprint_int_not_localhost: "fmt_d i \<noteq> ''127.0.0.1''"
proof
  assume "fmt_d i = ''127.0.0.1''"
  then have "CHR ''.'' \<in> set (fmt_d i)" by simp
  then show False
    using set_fmt_base [of 10] by (auto simp: fmt_d_def hex_digits_def split: if_splits)
qed

lemma env_values_names:
  "list_all2 (env_values m) ds qs \<Longrightarrow>
     (\<forall>n \<in> set (host_envs ds). m n = Some ''127.0.0.1'') \<and>
     (\<forall>n \<in> set (port_envs ds). \<exists>q \<in> set qs. m n = Some (sprint_int q))"
  by (induction rule: list_all2_induct) (auto simp: env_values_iff host_envs_def port_envs_def)

lemma env_values_distinct: "list_all2 (env_values m) ds qs \<Longrightarrow> distinct qs \<Longrightarrow> distinct (port_envs ds)"
proof (induction rule: list_all2_induct)
  case (Cons d ds q qs)
  have "is_PortEnvName (snd d) \<notin> set (port_envs ds)" if "is_PortEnvName (snd d) \<noteq> []"
    using env_values_names [OF Cons.hyps(2)] Cons.hyps(1) Cons.prems that
    by (auto simp: env_values_iff sprint_int_inj)
  with Cons show ?case by simp
qed (simp add: port_envs_def)

lemma env_values_free:
  assumes "list_all2 (env_values m) ds qs" and "distinct qs"
  shows "envs_free (\<lambda>_. None) ds"
  using env_values_names [OF assms(1)] env_values_distinct [OF assms] sprint_int_not_localhost
  by (fastforce simp: envs_free_def)

text \<open>A successful run, seen as one list of instances and one list of ports.\<close>

lemma fulfilled_flat:
  assumes "all3 (proxy.fulfilled u U m) ms new pss"
  shows "honours (map (\<lambda>d. is_Port (snd d)) (demands ms)) (concat pss) \<and>
     list_all2 (env_values m) (demands ms) (concat pss)"
  using assms
proof (induction "proxy.fulfilled u U m" ms new pss rule: all3.induct)
  case 1
  then show ?case by (simp add: demands_def honours_def)
next
  case (2 p ms c new ps pss)
  then have f: "proxy.fulfilled u U m p c ps" by simp
  then have h: "honours (map (\<lambda>d. is_Port (snd d)) (demands_of p)) ps"
    by (simp add: proxy.fulfilled_def demands_of_def cont_wants_def comp_def)
  then have "length (cont_insts p) = length ps"
    by (auto simp: honours_def demands_of_def dest: list_all2_lengthD)
  moreover have "env_values m (p, i) q" if "(i, q) \<in> set (zip (cont_insts p) ps)" for i q
    using f that by (fastforce simp: proxy.fulfilled_def cont_needs_def env_values_def)
  ultimately have "list_all2 (env_values m) (demands_of p) ps"
    by (auto simp: demands_of_def list_all2_iff zip_map1)
  with 2 h show ?case by (simp add: demands_def honours_append list_all2_appendI)
qed simp_all

lemma ConfigureWorkload_necessary:
  assumes "ConfigureWorkload u wl ms = Some (Inr w)" and "unambiguous ms"
  shows "distinct (explicit_ports (demands ms)) \<and> set (explicit_ports (demands ms)) \<inter> own_ports wl = {} \<and>
     envs_free (\<lambda>_. None) (demands ms)"
proof -
  from assms obtain new s pss where all: "all3 (proxy.fulfilled u (own_ports wl) (env s)) ms new pss"
    and d: "distinct (concat pss)" "set (concat pss) \<inter> own_ports wl = {}"
    by (rule ConfigureWorkload_ok)
  from fulfilled_flat [OF all] honours_explicit [OF _ d(1)] env_values_free [OF _ d(1)] d(2)
  show ?thesis by blast
qed

lemma ConfigureWorkload_error_nonempty:
  "ConfigureWorkload u wl ms = Some (Inl e) \<Longrightarrow> ce_details e \<noteq> []"
  by (auto simp: ConfigureWorkload_eq errs_def split: if_splits)

lemma port_budget_returns:
  assumes "port_budget wl ms < 2 ^ 32"
  shows "\<exists>r. ConfigureWorkload u wl ms = Some r"
proof -
  have "length (us_ports (start_state u wl ms)) + sum_list (map n_instances ms) < 2 ^ 32"
    using start_state_views(5) [of u wl ms] assms unfolding port_budget_def by linarith
  from proxy_bounded.loop_returns [OF this] show ?thesis
    by (auto simp: ConfigureWorkload_eq)
qed

end
