(* ===== verification/Pod_Update.thy ===== *)
theory Pod_Update
  imports Update_Complete
begin

text \<open>
  The properties of the pod update as a whole (\<open>ConfigureWorkload\<close> and \<open>FindMatchingAuthProxyWorkloads\<close> in
  \<open>internal/workload/podspec_updates.go\<close>): safety of ports and variables, when it succeeds and when it
  reports an error, what it leaves alone, and concrete runs that show its limits.
\<close>

section \<open>Examples\<close>

text \<open>A small pod and two resources for the witnesses.\<close>

definition example_pod :: pod where
  "example_pod = zero_pod\<lparr>pod_GVK := zero_gvk\<lparr>gvk_Version := ''v1'', gvk_Kind := ''Pod''\<rparr>,
     pod_Meta := zero_meta\<lparr>om_Namespace := ''default'', om_Name := ''busybox''\<rparr>,
     pod_Spec := zero_pod_spec\<lparr>ps_Containers :=
       [zero_container\<lparr>c_Name := ''busybox'', c_Ports := [\<lparr>cp_ContainerPort = 8080, cp_Other = []\<rparr>]\<rparr>]\<rparr>\<rparr>"

definition example_env_inst :: "string \<Rightarrow> i32 option \<Rightarrow> string \<Rightarrow> string \<Rightarrow> instance_spec" where
  "example_env_inst conn port portEnv hostEnv =
     (example_inst conn port)\<lparr>is_PortEnvName := portEnv, is_HostEnvName := hostEnv\<rparr>"

abbreviation one_db :: auth_proxy_workload where
  "one_db \<equiv> example_apw ''default'' ''one'' ''Pod'' [example_env_inst ''p:r:db'' None ''DB_PORT'' ''DB_HOST'']"

abbreviation two_db :: auth_proxy_workload where
  "two_db \<equiv> example_apw ''default'' ''two'' ''Pod'' [example_env_inst ''p:r:db'' (Some 5000) [] []]"

lemmas example_defs = example_pod_def zero_pod_def zero_pod_spec_def zero_container_def
  ContainerPrefix_def NewUpdater_def example_env_inst_def example_inst_def

lemma ContainerName_examples:
  "ContainerName one_db = Some ''csql-default-one''" "ContainerName two_db = Some ''csql-default-two''"
  by (simp_all add: ContainerName_full_name safe_name_short full_name_def ContainerPrefix_def
      to_lower_def lower_char_def is_upper_def)

lemma own_containers_example:
  "own_containers example_pod =
     [zero_container\<lparr>c_Name := ''busybox'', c_Ports := [\<lparr>cp_ContainerPort = 8080, cp_Other = []\<rparr>]\<rparr>]"
  by (simp add: own_containers_def example_defs)

lemma own_ports_example: "own_ports example_pod = {8080}"
  by (simp add: own_ports_def own_containers_example)

lemma port_budget_examples:
  "port_budget example_pod [one_db] < 2 ^ 32" "port_budget example_pod [two_db, one_db] < 2 ^ 32"
  "port_budget example_pod [one_db, two_db] < 2 ^ 32"
  by (simp_all add: port_budget_def own_containers_example n_instances_def)

lemma unambiguous_examples:
  "unambiguous [one_db]" "unambiguous [two_db, one_db]" "unambiguous [one_db, two_db]"
  by (simp_all add: unambiguous_defs cont_insts_def overridden_def apw_key_def)

lemma named_examples:
  "well_named [one_db]" "instances_once (set [one_db])" "well_named [two_db, one_db]" "instances_once (set [two_db, one_db])"
  using unambiguous_examples unfolding unambiguous_def by blast+

lemmas demand_defs = demands_def demands_of_def cont_insts_def overridden_def explicit_first_def
  envs_free_def host_envs_def port_envs_def explicit_ports_def List.map_filter_simps

lemma demands_examples:
  "ports_free (own_ports example_pod) (demands [one_db])" "envs_free (\<lambda>_. None) (demands [one_db])"
  "ports_free (own_ports example_pod) (demands [two_db, one_db])" "envs_free (\<lambda>_. None) (demands [two_db, one_db])"
  by (simp_all add: demand_defs ports_free_def own_ports_example example_env_inst_def example_inst_def)

lemma example_run: "\<exists>w. ConfigureWorkload (NewUpdater ''dev'') example_pod [one_db] = Some (Inr w)"
  by (intro ConfigureWorkload_quiet unambiguous_examples demands_examples port_budget_examples)

section \<open>Ports, variables and errors\<close>

definition same_but_env :: "container \<Rightarrow> container \<Rightarrow> bool" where
  "same_but_env c c' \<longleftrightarrow> (\<exists>e. c' = c\<lparr>c_Env := e\<rparr>)"

lemma same_but_env_update: "same_but_env c (updateContainerEnv s c)"
  by (auto simp: same_but_env_def updateContainerEnv_def)

lemma all_same_but_env_update: "list_all2 same_but_env cs (map (updateContainerEnv s) cs)"
  by (simp add: list.rel_map list_all2_same same_but_env_update)

lemma all_same_but_env_twice: "list_all2 same_but_env cs (map (updateContainerEnv s) (map (updateContainerEnv s) cs))"
  by (auto simp: list.rel_map list_all2_same same_but_env_def updateContainerEnv_def)

text \<open>
  C2: port safety of the whole update. Suppose the configuration of a pod succeeds for resources none of which lists an instance
  twice. Then the containers added for them are exactly the specified ones (or the custom container), one per
  resource in order; the ports of all instances of all resources are pairwise distinct, none of them
  is a port of the pod's own containers, explicit ports are honoured, and each health check port is
  not one of the pod's own ports. For a resource that lists an instance twice this can fail, see
  \<open>repeated_instance_hides_conflict\<close>.
\<close>

theorem ConfigureWorkload_ports:
  assumes "ConfigureWorkload u wl ms = Some (Inr w)" and "well_named ms" and "instances_once (set ms)"
  shows "\<exists>new pss.
     list_all2 same_but_env (ps_Containers (pod_Spec wl) @ new)
       (ps_Containers (PodSpec w)) \<and>
     all3 (\<lambda>p c ps. cont_built u (own_ports wl) p c ps \<and> honours (cont_wants p) ps) ms new pss \<and>
     distinct (concat pss) \<and> set (concat pss) \<inter> own_ports wl = {}"
proof -
  from assms(1) unambiguousI [OF assms(2,3)] obtain new s pss where w: "w = PodWorkload (wl\<lparr>pod_Spec := (pod_Spec wl)\<lparr>ps_Containers :=
       map (updateContainerEnv s) (ps_Containers (pod_Spec wl) @ new)\<rparr>\<rparr>)"
    and all: "all3 (proxy.fulfilled u (own_ports wl) (env s)) ms new pss"
    and d: "distinct (concat pss)" "set (concat pss) \<inter> own_ports wl = {}"
    by (rule ConfigureWorkload_ok)
  have "all3 (\<lambda>p c ps. cont_built u (own_ports wl) p c ps \<and> honours (cont_wants p) ps) ms new pss"
    using all by (rule all3_mono) (simp add: proxy.fulfilled_def)
  moreover have "ps_Containers (PodSpec w) = map (updateContainerEnv s) (ps_Containers (pod_Spec wl) @ new)"
    by (simp add: w)
  ultimately show ?thesis
    using d all_same_but_env_update by (intro exI [of _ new] exI [of _ pss]) (simp del: map_append)
qed

theorem ConfigureWorkload_ports_witness:
  "\<exists>w new pss. ConfigureWorkload (NewUpdater ''dev'') example_pod [one_db] = Some (Inr w) \<and>
     all3 (\<lambda>p c ps. cont_built (NewUpdater ''dev'') (own_ports example_pod) p c ps \<and>
       honours (cont_wants p) ps) [one_db] new pss \<and> distinct (concat pss)"
proof -
  obtain w where w: "ConfigureWorkload (NewUpdater ''dev'') example_pod [one_db] = Some (Inr w)"
    using example_run by blast
  from ConfigureWorkload_ports [OF w named_examples(1,2)] w show ?thesis by blast
qed



text \<open>
  The update returns. With fewer than \<open>2\<^sup>3\<^sup>2\<close> container ports and instances together, the searches
  for a free port end, no name computation panics, and \<open>ConfigureWorkload\<close> gives a result.
\<close>

theorem ConfigureWorkload_returns:
  assumes "port_budget wl ms < 2 ^ 32"
  shows "\<exists>r. ConfigureWorkload u wl ms = Some r"
  using assms by (rule port_budget_returns)

theorem ConfigureWorkload_returns_witness:
  "\<exists>r. ConfigureWorkload (NewUpdater ''dev'') example_pod [one_db, two_db] = Some r"
  by (rule ConfigureWorkload_returns) (rule port_budget_examples)



text \<open>
  Conflicts are reported, whatever the order of the resources, if no resource lists an instance twice. If two explicit ports are
  equal, an explicit port is a port of the pod's own containers, or variable names clash, then the
  update ends with a configuration error that has at least one detail and the pod is not changed.
\<close>

theorem ConfigureWorkload_rejects:
  assumes "unambiguous ms" and "port_budget wl ms < 2 ^ 32"
    and "\<not> distinct (explicit_ports (demands ms)) \<or> set (explicit_ports (demands ms)) \<inter> own_ports wl \<noteq> {} \<or>
      \<not> distinct (port_envs (demands ms)) \<or> set (port_envs (demands ms)) \<inter> set (host_envs (demands ms)) \<noteq> {}"
  shows "\<exists>e. ConfigureWorkload u wl ms = Some (Inl e) \<and> DetailedErrors e \<noteq> []"
proof -
  obtain r where r: "ConfigureWorkload u wl ms = Some r" using port_budget_returns [OF assms(2)] by blast
  show ?thesis
  proof (cases r)
    case (Inl e)
    with r show ?thesis by (auto simp: DetailedErrors_def dest: ConfigureWorkload_error_nonempty)
  next
    case (Inr w)
    with r ConfigureWorkload_necessary [OF _ assms(1)] assms(3) show ?thesis by (auto simp: envs_free_def)
  qed
qed

theorem ConfigureWorkload_rejects_witness:
  "\<exists>e. ConfigureWorkload (NewUpdater ''dev'') example_pod
     [example_apw ''default'' ''one'' ''Pod'' [example_inst ''p:r:db'' (Some 8080)]] = Some (Inl e) \<and>
     DetailedErrors e \<noteq> []"
  by (rule ConfigureWorkload_rejects)
    (simp_all add: unambiguous_defs port_budget_def demand_defs own_ports_example own_containers_example
      example_inst_def n_instances_def)

section \<open>What the update leaves alone\<close>

text \<open>Only variables that the resources name are managed.\<close>

definition requested_names :: "auth_proxy_workload list \<Rightarrow> string set" where
  "requested_names ms = set (host_envs (demands ms)) \<union> set (port_envs (demands ms))"

lemma map_state_grows:
  assumes "\<And>s x b s'. f s x = Some (b, s') \<Longrightarrow> R s' \<subseteq> R s \<union> N x"
  shows "map_state f s xs = Some (bs, s') \<Longrightarrow> R s' \<subseteq> R s \<union> (\<Union>x \<in> set xs. N x)"
proof (induction xs arbitrary: s bs)
  case (Cons x xs)
  from Cons.prems obtain b s1 bs' where "f s x = Some (b, s1)" "map_state f s1 xs = Some (bs', s')"
    by (rule map_state_ConsE)
  with Cons.IH [of s1 bs'] assms [of s x b s1] show ?case by auto
qed simp

lemma dom_env: "dom (env s) = me_key ` set (us_envs s)"
  by (simp add: env_def dom_map_of_conv_image_fst image_image)

lemma dom_env_updateInstance:
  assumes "updateInstance p s i = Some (b, s')"
  shows "dom (env s') \<subseteq> dom (env s) \<union> ({is_HostEnvName i, is_PortEnvName i} - {[]})"
proof -
  from assms obtain q s1 where u: "useInstancePort s p i = Some (q, s1)"
    and s': "s' = set_env_if p i (is_PortEnvName i) (sprint_int q)
        (set_env_if p i (is_HostEnvName i) ''127.0.0.1'' s1)"
    by (auto simp: updateInstance_alt split: bind_splits)
  from u have "env s1 = env s" using useInstancePort_frame [OF u] by (simp add: env_def)
  then show ?thesis by (auto simp: s' env_set_env_if)
qed

lemma dom_env_updateContainer:
  assumes "updateContainer s p zero_container = Some (c, s')"
  shows "dom (env s') \<subseteq> dom (env s) \<union> requested_names [p]"
proof (cases "overridden p")
  case (Some custom)
  with updateContainer_override [OF Some assms] show ?thesis by simp
next
  case None
  with updateContainer_refines [OF assms] obtain args
    where "map_state (updateInstance p) s (aps_Instances (apw_Spec p)) = Some (args, s')" by blast
  from map_state_grows [where R = "\<lambda>s. dom (env s)" and f = "updateInstance p"
      and N = "\<lambda>i. {is_HostEnvName i, is_PortEnvName i} - {[]}", OF dom_env_updateInstance this]
  have "dom (env s') \<subseteq> dom (env s) \<union> (\<Union>i \<in> set (aps_Instances (apw_Spec p)). {is_HostEnvName i, is_PortEnvName i} - {[]})" .
  moreover have "(\<Union>i \<in> set (aps_Instances (apw_Spec p)). {is_HostEnvName i, is_PortEnvName i} - {[]}) \<subseteq> requested_names [p]"
    using None by (auto simp: requested_names_def demands_def demands_of_def cont_insts_def host_envs_def port_envs_def)
  ultimately show ?thesis by blast
qed

lemma requested_names_mem: "(\<Union>p \<in> set ms. requested_names [p]) = requested_names ms"
  by (induction ms) (auto simp: requested_names_def demands_def host_envs_def port_envs_def)

lemma managed_names:
  assumes "map_state (\<lambda>s p. updateContainer s p zero_container) (start_state u wl ms) ms = Some (new, s)"
  shows "dom (env s) \<subseteq> requested_names ms"
proof -
  have "dom (env (start_state u wl ms)) = {}"
    using ports_added_own [of "initState (initial_state u wl) ms" wl]
    by (simp add: dom_env start_state_def ports_added_def initState_initial)
  with map_state_grows [where R = "\<lambda>s. dom (env s)" and N = "\<lambda>p. requested_names [p]",
      OF dom_env_updateContainer assms]
  show ?thesis unfolding requested_names_mem by simp
qed

lemma updateContainerEnv_unmanaged:
  "filter (\<lambda>e. ev_Name e \<notin> N) (c_Env (updateContainerEnv s c)) = filter (\<lambda>e. ev_Name e \<notin> N) (c_Env c)"
  if "dom (env s) \<subseteq> N"
  using that unfolding updateContainerEnv_def dom_env
  by (simp, intro cenv.foldl_ups_others_set) auto

text \<open>
  C12: the frame of the update. A configured pod differs from the original in its containers only
  (in particular \<open>TerminationGracePeriodSeconds\<close> is never set). The original containers come first, in
  order, each with everything but its environment unchanged, and in each environment the variables that no resource
  names are unchanged and in order; then follows one container per resource.
\<close>

theorem ConfigureWorkload_frame:
  assumes "ConfigureWorkload u wl ms = Some (Inr w)"
  shows "\<exists>cs new. w = PodWorkload (wl\<lparr>pod_Spec := (pod_Spec wl)\<lparr>ps_Containers := cs @ new\<rparr>\<rparr>) \<and>
     list_all2 (\<lambda>c c'. same_but_env c c' \<and>
         filter (\<lambda>e. ev_Name e \<notin> requested_names ms) (c_Env c') =
         filter (\<lambda>e. ev_Name e \<notin> requested_names ms) (c_Env c)) (ps_Containers (pod_Spec wl)) cs \<and>
     length new = length ms"
proof -
  from assms obtain new s where
    loop: "map_state (\<lambda>s p. updateContainer s p zero_container) (start_state u wl ms) ms = Some (new, s)"
    and w: "w = PodWorkload (wl\<lparr>pod_Spec := (pod_Spec wl)\<lparr>ps_Containers :=
       map (updateContainerEnv s) (ps_Containers (pod_Spec wl)) @ map (updateContainerEnv s) new\<rparr>\<rparr>)"
    by (auto simp: ConfigureWorkload_eq split: if_splits)
  have "dom (env s) \<subseteq> requested_names ms" using loop by (rule managed_names)
  then have "list_all2 (\<lambda>c c'. same_but_env c c' \<and>
         filter (\<lambda>e. ev_Name e \<notin> requested_names ms) (c_Env c') =
         filter (\<lambda>e. ev_Name e \<notin> requested_names ms) (c_Env c)) cs (map (updateContainerEnv s) cs)" for cs
    unfolding list.rel_map list_all2_same
    by (auto simp: updateContainerEnv_unmanaged) (auto simp: same_but_env_def updateContainerEnv_def)
  with w length_map_state [OF loop] show ?thesis
    by (intro exI [of _ "map (updateContainerEnv s) (ps_Containers (pod_Spec wl))"]
        exI [of _ "map (updateContainerEnv s) new"]) simp
qed

theorem ConfigureWorkload_frame_witness:
  "\<exists>w. ConfigureWorkload (NewUpdater ''dev'') example_pod [one_db] = Some (Inr w) \<and>
     ps_TerminationGracePeriodSeconds (PodSpec w) = None \<and> length (ps_Containers (PodSpec w)) = 2"
proof -
  obtain w where w: "ConfigureWorkload (NewUpdater ''dev'') example_pod [one_db] = Some (Inr w)"
    using example_run by blast
  from ConfigureWorkload_frame [OF w] w show ?thesis
    by (auto simp: example_pod_def zero_pod_def zero_pod_spec_def dest!: list_all2_lengthD)
qed

text \<open>The names of the containers after the update.\<close>

lemma updateContainer_name:
  assumes "updateContainer s p zero_container = Some (c, s')"
  shows "ContainerName p = Some (c_Name c)"
proof (cases "overridden p")
  case (Some custom)
  with updateContainer_override [OF Some assms] show ?thesis by auto
next
  case None
  from updateContainer_refines [OF assms None] show ?thesis by (auto simp: build_container_def)
qed

lemma map_state_results:
  assumes "\<And>s x b s'. f s x = Some (b, s') \<Longrightarrow> g x = h b"
  shows "map_state f s xs = Some (bs, s') \<Longrightarrow> map g xs = map h bs"
proof (induction xs arbitrary: s bs)
  case (Cons x xs)
  from Cons.prems obtain b s1 bs' where "f s x = Some (b, s1)" "map_state f s1 xs = Some (bs', s')" "bs = b # bs'"
    by (rule map_state_ConsE)
  with Cons.IH [of s1 bs'] assms [of s x b s1] show ?case by auto
qed simp

text \<open>A configured pod has the same own containers, up to their environment, so a second update starts
  in the same state.\<close>

lemma ContainerName_prefix: "ContainerName p = Some n \<Longrightarrow> has_prefix n ContainerPrefix"
proof -
  have l: "to_lower (ContainerPrefix @ s) = ContainerPrefix @ to_lower s" for s
    by (simp add: to_lower_append) (simp add: ContainerPrefix_def to_lower_def lower_char_def is_upper_def)
  have pre: "length ContainerPrefix \<le> 54" by (simp add: ContainerPrefix_def)
  assume "ContainerName p = Some n"
  then show ?thesis
    unfolding ContainerName_full_name
    by - (rule safe_name_cases [OF pre, of "full_name p"], auto simp: long_name_def l)
qed

lemma own_containers_configured:
  assumes "\<forall>c \<in> set new. has_prefix (c_Name c) ContainerPrefix"
  shows "own_containers (wl\<lparr>pod_Spec := (pod_Spec wl)\<lparr>ps_Containers :=
       map (updateContainerEnv s) (ps_Containers (pod_Spec wl) @ new)\<rparr>\<rparr>) =
     map (updateContainerEnv s) (own_containers wl)"
proof -
  have "filter (\<lambda>c. \<not> has_prefix (c_Name c) ContainerPrefix) (map (updateContainerEnv s) cs) =
      map (updateContainerEnv s) (filter (\<lambda>c. \<not> has_prefix (c_Name c) ContainerPrefix) cs)" for cs
    by (simp add: filter_map comp_def updateContainerEnv_def)
  with assms show ?thesis by (simp add: own_containers_def del: map_append)
qed

lemma start_state_configured:
  assumes "\<forall>c \<in> set new. has_prefix (c_Name c) ContainerPrefix"
  shows "start_state u (wl\<lparr>pod_Spec := (pod_Spec wl)\<lparr>ps_Containers :=
       map (updateContainerEnv s) (ps_Containers (pod_Spec wl) @ new)\<rparr>\<rparr>) ms = start_state u wl ms"
proof -
  have "add_ports_of t (updateContainerEnv s c) = add_ports_of t c" for t c
    by (simp add: add_ports_of_def updateContainerEnv_def)
  then have "addContainerPorts t (map (updateContainerEnv s) cs) = addContainerPorts t cs" for t cs
    by (simp add: addContainerPorts_def foldl_map)
  then show ?thesis
    unfolding start_state_def own_containers_configured [OF assms] by (simp add: initial_state_def)
qed

text \<open>
  C38: the update always appends. If a pod is configured, then configuring the result again with the
  same resources succeeds too and adds every proxy container a second time, the same up to its environment and
  under the same name: existing proxy containers are neither updated nor removed.
\<close>

theorem ConfigureWorkload_twice:
  assumes "ConfigureWorkload u wl ms = Some (Inr (PodWorkload wl'))"
  shows "\<exists>w new. ConfigureWorkload u wl' ms = Some (Inr w) \<and> map (\<lambda>c. Some (c_Name c)) new = map ContainerName ms \<and>
     list_all2 same_but_env (ps_Containers (pod_Spec wl) @ new) (ps_Containers (pod_Spec wl')) \<and>
     list_all2 same_but_env (ps_Containers (pod_Spec wl) @ new @ new) (ps_Containers (PodSpec w))"
proof -
  from assms obtain new s where
    loop: "map_state (\<lambda>s p. updateContainer s p zero_container) (start_state u wl ms) ms = Some (new, s)"
    and e: "errs s = 0" and wl': "wl' = wl\<lparr>pod_Spec := (pod_Spec wl)\<lparr>ps_Containers :=
       map (updateContainerEnv s) (ps_Containers (pod_Spec wl) @ new)\<rparr>\<rparr>"
    by (auto simp: ConfigureWorkload_eq split: if_splits)
  from map_state_results [where f = "\<lambda>s p. updateContainer s p zero_container" and g = ContainerName
      and h = "\<lambda>c. Some (c_Name c)", OF updateContainer_name loop]
  have names: "map ContainerName ms = map (\<lambda>c. Some (c_Name c)) new" .
  then have "Some (c_Name c) \<in> ContainerName ` set ms" if "c \<in> set new" for c
    using that by (metis (no_types, lifting) image_eqI list.set_map)
  then have "\<forall>c \<in> set new. has_prefix (c_Name c) ContainerPrefix" by (metis ContainerName_prefix imageE)
  from start_state_configured [OF this, where u = u and wl = wl and s = s and ms = ms] loop
  have "map_state (\<lambda>s p. updateContainer s p zero_container) (start_state u wl' ms) ms = Some (new, s)"
    unfolding wl' by simp
  then have w: "ConfigureWorkload u wl' ms = Some (Inr (PodWorkload (wl'\<lparr>pod_Spec := (pod_Spec wl')\<lparr>ps_Containers :=
       map (updateContainerEnv s) (ps_Containers (pod_Spec wl') @ new)\<rparr>\<rparr>)))"
    by (simp add: ConfigureWorkload_eq e)
  have "map (updateContainerEnv s) (ps_Containers (pod_Spec wl') @ new) =
      map (updateContainerEnv s) (map (updateContainerEnv s) (ps_Containers (pod_Spec wl) @ new)) @ map (updateContainerEnv s) new"
    by (simp add: wl')
  then have "list_all2 same_but_env ((ps_Containers (pod_Spec wl) @ new) @ new)
      (map (updateContainerEnv s) (ps_Containers (pod_Spec wl') @ new))"
    using all_same_but_env_twice all_same_but_env_update by (simp only: list_all2_appendI)
  moreover have "list_all2 same_but_env (ps_Containers (pod_Spec wl) @ new) (ps_Containers (pod_Spec wl'))"
    using all_same_but_env_update by (simp add: wl' del: map_append)
  ultimately show ?thesis using w names by (auto simp del: map_append map_map)
qed

theorem ConfigureWorkload_twice_witness:
  "\<exists>wl' w. ConfigureWorkload (NewUpdater ''dev'') example_pod [one_db] = Some (Inr (PodWorkload wl')) \<and>
     ConfigureWorkload (NewUpdater ''dev'') wl' [one_db] = Some (Inr w) \<and>
     length (ps_Containers (pod_Spec wl')) = 2 \<and> length (ps_Containers (PodSpec w)) = 3"
proof -
  obtain wl' where w: "ConfigureWorkload (NewUpdater ''dev'') example_pod [one_db] = Some (Inr (PodWorkload wl'))"
    using example_run by (auto simp: ConfigureWorkload_eq split: if_splits)
  obtain w2 new where "ConfigureWorkload (NewUpdater ''dev'') wl' [one_db] = Some (Inr w2)"
    "map (\<lambda>c. Some (c_Name c)) new = map ContainerName [one_db]"
    "list_all2 same_but_env (ps_Containers (pod_Spec example_pod) @ new) (ps_Containers (pod_Spec wl'))"
    "list_all2 same_but_env (ps_Containers (pod_Spec example_pod) @ new @ new) (ps_Containers (PodSpec w2))"
    using ConfigureWorkload_twice [OF w] by blast
  moreover from this(2) have "length new = 1" using arg_cong [of _ _ length] by fastforce
  ultimately show ?thesis
    using w by (auto simp: example_pod_def dest!: list_all2_lengthD)
qed

end
