(* ===== verification/Matching.thy ===== *)
theory Matching
  imports Pod_Update
begin

text \<open>
  Which resources apply to a pod (\<open>FindMatchingAuthProxyWorkloads\<close>), for every iteration order of the
  deduplicating map, and concrete runs of the whole update that show where its outcome depends on
  that order or where ports clash unnoticed.
\<close>

section \<open>The deduplicating map\<close>

lemma dedup_map_of:
  assumes "inj_on k (set ws)"
  shows "map_of (foldl (\<lambda>m w. AList.update (k w) w m) [] ws) a = Some b \<longleftrightarrow> b \<in> set ws \<and> k b = a"
  using assms
proof (induction ws rule: rev_induct)
  case (snoc w ws)
  then have "inj_on k (set ws)" by (simp add: inj_on_def)
  with snoc show ?case by (auto simp: update_conv' inj_on_def)
qed simp

lemma dedup_distinct: "distinct (map fst (foldl (\<lambda>m w. AList.update (k w) w m) [] ws))"
  by (induction ws rule: rev_induct) (auto simp: distinct_update)

lemma dedup_values:
  assumes "inj_on k (set ws)"
  shows "distinct (map snd (foldl (\<lambda>m w. AList.update (k w) w m) [] ws))"
    "set (map snd (foldl (\<lambda>m w. AList.update (k w) w m) [] ws)) = set ws"
proof -
  let ?m = "foldl (\<lambda>m w. AList.update (k w) w m) [] ws"
  have mem: "(a, b) \<in> set ?m \<longleftrightarrow> b \<in> set ws \<and> k b = a" for a b
    using map_of_eq_Some_iff [OF dedup_distinct, of k ws a b] dedup_map_of [OF assms, of a b] by simp
  have "distinct ?m" using dedup_distinct [of k ws] by (simp add: distinct_map)
  moreover have "inj_on snd (set ?m)" using mem by (auto simp: inj_on_def)
  ultimately show "distinct (map snd ?m)" by (simp add: distinct_map)
  show "set (map snd ?m) = set ws" using mem by (auto simp: image_iff) force
qed

text \<open>A namespace contains no slash, so the map key determines the resource.\<close>

lemma slash_split: "c \<notin> set a \<Longrightarrow> c \<notin> set a' \<Longrightarrow> a @ c # b = a' @ c # b' \<longleftrightarrow> a = a' \<and> b = b'"
proof (induction a arbitrary: a')
  case Nil
  then show ?case by (cases a') auto
next
  case (Cons x a)
  then show ?case by (cases a') auto
qed

definition plain_namespaces :: "auth_proxy_workload list \<Rightarrow> bool" where
  "plain_namespaces pl \<longleftrightarrow> (\<forall>p \<in> set pl. CHR ''/'' \<notin> set (apw_Namespace p))"

lemma map_key_inj:
  assumes "plain_namespaces pl" and "distinct (map apw_key pl)"
  shows "inj_on map_key (set pl)"
proof (rule inj_onI)
  fix p q assume "p \<in> set pl" "q \<in> set pl" "map_key p = map_key q"
  with assms have "apw_key p = apw_key q" "inj_on apw_key (set pl)"
    by (auto simp: plain_namespaces_def map_key_def slash_split apw_key_def distinct_map)
  with \<open>p \<in> set pl\<close> \<open>q \<in> set pl\<close> show "p = q" by (simp add: inj_on_def)
qed

lemma mem_permuted: "permutes_order ord \<Longrightarrow> set (ord xs) = set xs \<and> distinct (ord xs) = distinct xs"
  unfolding permutes_order_def by (metis mset_eq_imp_distinct_iff mset_eq_setD)

section \<open>The matching resources\<close>

lemma FindMatching_set:
  assumes "permutes_order ord" and "plain_namespaces pl" and "distinct (map apw_key pl)"
  shows "distinct (FindMatchingAuthProxyWorkloads ord A pl wl owners) \<and>
     set (FindMatchingAuthProxyWorkloads ord A pl wl owners) =
       {p \<in> set pl. om_DeletionTimestamp (apw_Meta p) = None \<and>
          (\<exists>w \<in> set (PodWorkload wl # owners).
             workloadMatches A (Object w) (aps_Workload (apw_Spec p)) (apw_Namespace p))}"
proof -
  let ?wls = "filterMatchingInstances A pl (Object (PodWorkload wl))
    @ concat (map (\<lambda>owner. filterMatchingInstances A pl (Object owner)) owners)"
  have "set ?wls \<subseteq> set pl" by (auto simp: filterMatchingInstances_def)
  then have "inj_on map_key (set ?wls)" using map_key_inj [OF assms(2,3)] by (rule inj_on_subset [rotated])
  from dedup_values [OF this] mem_permuted [OF assms(1)]
  have "distinct (FindMatchingAuthProxyWorkloads ord A pl wl owners) \<and>
      set (FindMatchingAuthProxyWorkloads ord A pl wl owners) = set ?wls"
    unfolding FindMatchingAuthProxyWorkloads_def Let_def by blast
  then show ?thesis by (auto simp: filterMatchingInstances_def)
qed

text \<open>
  C8: the matching resources of a pod. For every iteration order of the map, the result has no
  duplicates and holds exactly the resources that are not being deleted and whose selector matches
  the pod or one of its owners, even when one resource matches several of them.
\<close>

theorem FindMatching_correct:
  assumes "permutes_order ord" and "plain_namespaces pl" and "distinct (map apw_key pl)"
  shows "distinct (FindMatchingAuthProxyWorkloads ord A pl wl owners) \<and>
     set (FindMatchingAuthProxyWorkloads ord A pl wl owners) =
       {p \<in> set pl. om_DeletionTimestamp (apw_Meta p) = None \<and>
          (\<exists>w \<in> set (PodWorkload wl # owners).
             workloadMatches A (Object w) (aps_Workload (apw_Spec p)) (apw_Namespace p))}"
  using assms by (rule FindMatching_set)

lemma permutes_order_id_rev: "permutes_order (\<lambda>xs. xs)" "permutes_order rev"
  by (simp_all add: permutes_order_def)

lemma example_pod_matches:
  assumes "p \<in> {one_db, two_db}"
  shows "workloadMatches example_api (Object (PodWorkload example_pod)) (aps_Workload (apw_Spec p)) (apw_Namespace p)"
    "om_DeletionTimestamp (apw_Meta p) = None"
proof -
  have "aps_Workload (apw_Spec p) = \<lparr>wss_Selector = None, wss_Kind = ''Pod'', wss_Name = []\<rparr>"
      "apw_Namespace p = ''default''" "om_DeletionTimestamp (apw_Meta p) = None"
    using assms by (auto simp: zero_meta_def)
  then show "workloadMatches example_api (Object (PodWorkload example_pod)) (aps_Workload (apw_Spec p)) (apw_Namespace p)"
    "om_DeletionTimestamp (apw_Meta p) = None"
    by (simp_all add: workloadMatches_def LabelsSelector_def example_api_def example_pod_def zero_meta_def)
qed

theorem FindMatching_correct_witness:
  "distinct (FindMatchingAuthProxyWorkloads rev example_api [one_db, two_db] example_pod [PodWorkload example_pod]) \<and>
   set (FindMatchingAuthProxyWorkloads rev example_api [one_db, two_db] example_pod [PodWorkload example_pod]) =
     {one_db, two_db}"
proof -
  have "plain_namespaces [one_db, two_db]" "distinct (map apw_key [one_db, two_db])"
    by (simp_all add: plain_namespaces_def apw_key_def)
  note c = FindMatching_correct [OF permutes_order_id_rev(2) this, of example_api example_pod "[PodWorkload example_pod]"]
  have both: "{p \<in> set [a, b]. Q p \<and> R p} = {a, b}" if "\<And>p. p \<in> {a, b} \<Longrightarrow> Q p \<and> R p"
    for a b :: auth_proxy_workload and Q R using that by auto
  have "{p \<in> set [one_db, two_db]. om_DeletionTimestamp (apw_Meta p) = None \<and>
      (\<exists>w \<in> set [PodWorkload example_pod, PodWorkload example_pod].
         workloadMatches example_api (Object w) (aps_Workload (apw_Spec p)) (apw_Namespace p))} = {one_db, two_db}"
    by (rule both) (use example_pod_matches in \<open>simp only: list.set bex_simps; blast\<close>)
  with c show ?thesis by simp
qed

section \<open>Concrete runs\<close>

lemma start_state_example:
  "start_state u example_pod ms =
     \<lparr>us_err = us_err (initial_state u example_pod),
      us_mods = \<lparr>wm_DBInstances = wm_DBInstances (us_mods (initState (initial_state u example_pod) ms)),
        wm_EnvVars = [], wm_VolumeMounts = [],
        wm_Ports = [\<lparr>mp_Instance = dbInst [] [] [], mp_OriginalValues = [(''busybox'', 8080)], mp_Port = 8080\<rparr>]\<rparr>,
      us_nextDBPort = 5000, us_updater = u\<rparr>"
  by (simp add: start_state_def own_containers_example addContainerPorts_def add_ports_of_def
      addInUsePort_def addPort_def Let_def initState_def initial_state_def DefaultFirstPort_def
      ContainerPrefix_def update_last_def)

lemma no_errors_initial: "us_errors (initial_state u wl) = []"
  by (simp add: initial_state_def)

lemma succeedsI:
  "(case r of Some (Inr w) \<Rightarrow> P w | _ \<Rightarrow> False) \<Longrightarrow> \<exists>w. r = Some (Inr w) \<and> P w"
  by (auto split: option.splits sum.splits)

lemma failsI:
  "(case r of Some (Inl e) \<Rightarrow> P e | _ \<Rightarrow> False) \<Longrightarrow> \<exists>e. r = Some (Inl e) \<and> P e"
  by (auto split: option.splits sum.splits)

lemmas run_defs = ConfigureWorkload_eq start_state_example no_errors_initial updateContainer_def
  addHealthCheck_def isPortInUse_def DefaultHealthCheckPort_def next_free.simps Let_def overridden_def
  applyContainerSpec_flags container_flags_def updateInstance_def useInstancePort_def addPort_def addWorkloadEnvVar_def
  dbInst_def errs_def addError_def ConfigError_add_def example_env_inst_def example_inst_def
  updateContainerEnv_def

lemma example_names:
  "ContainerName (example_apw ''default'' ''one'' k is) = Some ''csql-default-one''"
  "ContainerName (example_apw ''default'' ''two'' k is) = Some ''csql-default-two''"
  by (simp_all add: ContainerName_full_name safe_name_short full_name_def ContainerPrefix_def
      to_lower_def lower_char_def is_upper_def)

lemma fmt_d_ports: "fmt_d 9801 = ''9801''" "fmt_d 6000 = ''6000''" "fmt_d 7000 = ''7000''" "fmt_d 5000 = ''5000''"
  by (simp_all add: fmt_d_def fmt_base_small fmt_base_big digit_char_def)

lemma example_pod_containers:
  "ps_Containers (pod_Spec example_pod) =
     [zero_container\<lparr>c_Name := ''busybox'', c_Ports := [\<lparr>cp_ContainerPort = 8080, cp_Other = []\<rparr>]\<rparr>]"
  by (simp add: example_pod_def)

lemmas arg_defs = instance_arg_def instance_params_def join.simps fmt_d_ports
  example_pod_containers zero_container_def

text \<open>
  C34: the outcome depends on the iteration order. One list of resources and one pod are given, and two
  orders in which Go may iterate over the map: with the first order the pod is rejected with a port
  conflict, because the automatic port was assigned before the explicit one was seen; with the second it is configured.
\<close>

theorem admission_order_dependent:
  "(\<exists>e. ConfigureWorkload (NewUpdater ''dev'') example_pod
       (FindMatchingAuthProxyWorkloads (\<lambda>xs. xs) example_api [one_db, two_db] example_pod []) = Some (Inl e) \<and>
       map ed_ErrorCode (DetailedErrors e) = [ErrorCodePortConflict]) \<and>
   (\<exists>w. ConfigureWorkload (NewUpdater ''dev'') example_pod
       (FindMatchingAuthProxyWorkloads rev example_api [one_db, two_db] example_pod []) = Some (Inr w)) \<and>
   permutes_order (\<lambda>xs :: auth_proxy_workload list. xs) \<and> permutes_order (rev :: auth_proxy_workload list \<Rightarrow> _)"
proof -
  have m: "FindMatchingAuthProxyWorkloads ord example_api [one_db, two_db] example_pod [] = ord [one_db, two_db]" for ord
    using example_pod_matches [of one_db] example_pod_matches [of two_db]
    by (simp add: FindMatchingAuthProxyWorkloads_def filterMatchingInstances_def map_key_def)
  have "\<exists>e. ConfigureWorkload (NewUpdater ''dev'') example_pod [one_db, two_db] = Some (Inl e) \<and>
      map ed_ErrorCode (DetailedErrors e) = [ErrorCodePortConflict]"
    by (rule failsI) (simp add: run_defs example_names DetailedErrors_def)
  moreover have "\<exists>w. ConfigureWorkload (NewUpdater ''dev'') example_pod [two_db, one_db] = Some (Inr w)"
    by (intro ConfigureWorkload_quiet unambiguous_examples demands_examples port_budget_examples)
  ultimately show ?thesis using permutes_order_id_rev unfolding m by simp
qed

section \<open>Health check ports\<close>

definition health_port :: "container \<Rightarrow> i32 option" where
  "health_port c = (case c_StartupProbe c of
     Some pr \<Rightarrow> (case pr_HTTPGet pr of Some g \<Rightarrow> (case hg_Port g of IntVal q \<Rightarrow> Some q | StrVal _ \<Rightarrow> None) | None \<Rightarrow> None)
   | None \<Rightarrow> None)"

lemma updateContainer_health_port:
  assumes "updateContainer s p zero_container = Some (c, s')" and "overridden p = None" and "DefaultHealthCheckPort \<notin> used s"
  shows "health_port c = Some DefaultHealthCheckPort"
proof -
  from updateContainer_refines [OF assms(1,2)] obtain hp name args where
    hp: "next_free (isPortInUse s) DefaultHealthCheckPort = Some hp"
    and c: "c = (build_container (us_updater s) p name hp [])\<lparr>c_Args :=
       c_Args (build_container (us_updater s) p name hp []) @ args\<rparr>" by blast
  from hp assms(3) have "hp = DefaultHealthCheckPort"
    by (subst (asm) next_free.simps) (simp add: isPortInUse_iff)
  then show ?thesis by (simp add: c health_port_def build_container_def http_probe_def)
qed

text \<open>The loop over the resources, with the ports that the resources before each one have taken.\<close>

lemma loop_health_ports:
  "\<lbrakk>state_inv u s; map_state (\<lambda>s p. updateContainer s p zero_container) s ms = Some (new, s'); errs s' = errs s;
    distinct (concat (map cont_keys ms)); set (concat (map cont_keys ms)) \<inter> owned s = {}\<rbrakk> \<Longrightarrow>
   \<exists>pss. all3 (\<lambda>p c ps. cont_built u (used s) p c ps \<and> honours (cont_wants p) ps) ms new pss \<and>
     (\<forall>i < length ms. overridden (ms ! i) = None \<and> DefaultHealthCheckPort \<notin> used s \<union> set (concat (take i pss)) \<longrightarrow>
        health_port (new ! i) = Some DefaultHealthCheckPort)"
proof (induction ms arbitrary: s new)
  case (Cons p ms)
  from Cons.prems(2) obtain c s1 new' where step: "updateContainer s p zero_container = Some (c, s1)"
    and rest: "map_state (\<lambda>s p. updateContainer s p zero_container) s1 ms = Some (new', s')" and new: "new = c # new'"
    by (rule map_state_ConsE)
  have e: "errs s1 = errs s" "errs s' = errs s1"
    using proxy.errs_mono [OF step] proxy.loop_errs_mono [OF rest] Cons.prems(3) by auto
  have k: "distinct (cont_keys p)" "set (cont_keys p) \<inter> owned s = {}" using Cons.prems(4,5) by auto
  from updateContainer_ok [OF Cons.prems(1) step e(1) k] obtain ps where o: "owned s1 = owned s \<union> set (cont_keys p)"
    and ps: "cont_built u (used s) p c ps" "honours (cont_wants p) ps" "used s1 = used s \<union> set ps" by blast
  have "set (concat (map cont_keys ms)) \<inter> owned s1 = {}" "distinct (concat (map cont_keys ms))"
    using Cons.prems(4,5) o by auto
  from Cons.IH [OF proxy.step_inv [OF Cons.prems(1) step] rest e(2) this(2,1)] obtain pss where
    all: "all3 (\<lambda>p c ps. cont_built u (used s1) p c ps \<and> honours (cont_wants p) ps) ms new' pss"
    and h: "\<And>i. i < length ms \<Longrightarrow> overridden (ms ! i) = None \<Longrightarrow>
        DefaultHealthCheckPort \<notin> used s1 \<union> set (concat (take i pss)) \<Longrightarrow> health_port (new' ! i) = Some DefaultHealthCheckPort"
    by blast
  have "all3 (\<lambda>p c ps. cont_built u (used s) p c ps \<and> honours (cont_wants p) ps) ms new' pss"
    using all by (rule all3_mono) (use proxy.built_antimono [of "used s" "used s1"] ps(3) in auto)
  moreover have "health_port (new ! i) = Some DefaultHealthCheckPort"
    if "i < length (p # ms)" "overridden ((p # ms) ! i) = None"
      "DefaultHealthCheckPort \<notin> used s \<union> set (concat (take i (ps # pss)))" for i
    using that updateContainer_health_port [OF step] h ps(3) by (cases i) (auto simp: new)
  ultimately show ?case using ps by (intro exI [of _ "ps # pss"]) (auto simp: new)
qed (auto intro: exI [of _ "[]"])

text \<open>
  C35: health check ports are not reserved. Suppose a pod is configured, its own containers do not use port 9801, and no resource
  lists an instance twice. Then every generated proxy container gets 9801 as its health check port unless the instances of
  resources \<^emph>\<open>before\<close> it have taken that port. So all generated proxies of a pod share it, although they share one network,
  and a proxy container also gets it when one of its own instances or of a later resource listens on 9801.
\<close>

theorem health_port_not_reserved:
  assumes "ConfigureWorkload u wl ms = Some (Inr w)" and "well_named ms" and "instances_once (set ms)"
    and "DefaultHealthCheckPort \<notin> own_ports wl"
  shows "\<exists>new pss. list_all2 same_but_env (ps_Containers (pod_Spec wl) @ new) (ps_Containers (PodSpec w)) \<and>
     all3 (\<lambda>p c ps. cont_built u (own_ports wl) p c ps \<and> honours (cont_wants p) ps) ms new pss \<and>
     (\<forall>i < length ms. overridden (ms ! i) = None \<and> DefaultHealthCheckPort \<notin> set (concat (take i pss)) \<longrightarrow>
        health_port (new ! i) = Some DefaultHealthCheckPort)"
proof -
  from assms(1) obtain new s where
    loop: "map_state (\<lambda>s p. updateContainer s p zero_container) (start_state u wl ms) ms = Some (new, s)" and e: "errs s = 0"
    and w: "ps_Containers (PodSpec w) = map (updateContainerEnv s) (ps_Containers (pod_Spec wl) @ new)"
    by (auto simp: ConfigureWorkload_eq split: if_splits)
  note st = start_state_views [where u = u and wl = wl and ms = ms]
  note keys = unambiguous_keys [OF unambiguousI [OF assms(2,3)]]
  from keys(2) st(2) have "set (concat (map cont_keys ms)) \<inter> owned (start_state u wl ms) = {}" by blast
  from loop_health_ports [OF st(4) loop _ keys(1) this] e st(3) obtain pss where
    "all3 (\<lambda>p c ps. cont_built u (own_ports wl) p c ps \<and> honours (cont_wants p) ps) ms new pss"
    "\<forall>i < length ms. overridden (ms ! i) = None \<and> DefaultHealthCheckPort \<notin> own_ports wl \<union> set (concat (take i pss)) \<longrightarrow>
        health_port (new ! i) = Some DefaultHealthCheckPort"
    unfolding st(1) by auto
  with assms(4) w all_same_but_env_update show ?thesis
    by (intro exI [of _ new] exI [of _ pss]) (simp del: map_append)
qed

definition wants_health_port :: auth_proxy_workload where
  "wants_health_port = example_apw ''default'' ''one'' ''Pod'' [example_inst ''p:r:db'' (Some 9801)]"

theorem health_port_not_reserved_witness:
  "\<exists>w new. ConfigureWorkload (NewUpdater ''dev'') example_pod [wants_health_port] = Some (Inr w) \<and>
     cont_wants wants_health_port = [Some 9801] \<and> length new = 1 \<and> health_port (new ! 0) = Some 9801 \<and>
     list_all2 same_but_env (ps_Containers (pod_Spec example_pod) @ new) (ps_Containers (PodSpec w))"
proof -
  let ?ms = "[wants_health_port]"
  note defs = wants_health_port_def cont_insts_def overridden_def example_inst_def
  have un: "well_named ?ms" "instances_once (set ?ms)" by (simp_all add: unambiguous_defs defs)
  have free: "ports_free (own_ports example_pod) (demands ?ms)" "envs_free (\<lambda>_. None) (demands ?ms)"
    by (simp_all add: demand_defs ports_free_def own_ports_example defs)
  have "port_budget example_pod ?ms < 2 ^ 32"
    by (simp add: port_budget_def own_containers_example n_instances_def defs)
  then obtain w where w: "ConfigureWorkload (NewUpdater ''dev'') example_pod ?ms = Some (Inr w)"
    using ConfigureWorkload_quiet [OF unambiguousI [OF un] free] by blast
  have "DefaultHealthCheckPort \<notin> own_ports example_pod" by (simp add: own_ports_example DefaultHealthCheckPort_def)
  from health_port_not_reserved [OF w un this] obtain new pss where
    n: "list_all2 same_but_env (ps_Containers (pod_Spec example_pod) @ new) (ps_Containers (PodSpec w))"
    "all3 (\<lambda>p c ps. cont_built (NewUpdater ''dev'') (own_ports example_pod) p c ps \<and> honours (cont_wants p) ps) ?ms new pss"
    "health_port (new ! 0) = Some DefaultHealthCheckPort"
    by (fastforce simp: defs)
  have "cont_wants wants_health_port = [Some 9801]" by (simp add: cont_wants_def defs)
  with w n all3_length [OF n(2)] show ?thesis by (auto simp: DefaultHealthCheckPort_def)
qed

section \<open>Instances that are listed twice\<close>

text \<open>A second entry for an instance moves its registered port; the first port is free afterwards.\<close>

lemma useInstancePort_moves:
  assumes ports: "us_ports s = ps @ [\<lparr>mp_Instance = inst_key p i, mp_OriginalValues = v, mp_Port = a\<rparr>]"
    and first: "inst_key p i \<notin> mp_Instance ` set ps" and b: "is_Port i = Some b" "b \<noteq> a" "b \<notin> used s"
  shows "useInstancePort s p i =
    Some (b, set_ports s (ps @ [\<lparr>mp_Instance = inst_key p i, mp_OriginalValues = v, mp_Port = b\<rparr>]))"
proof -
  let ?same = "\<lambda>mp. di_AuthProxyWorkload (mp_Instance mp) = \<lparr>nn_Namespace = apw_Namespace p, nn_Name = apw_Name p\<rparr> \<and>
      di_ConnectionString (mp_Instance mp) = is_ConnectionString i"
  have same: "?same mp \<longleftrightarrow> mp_Instance mp = inst_key p i" for mp by (simp add: dbInst_iff inst_key_def)
  have none: "\<forall>mp \<in> set ps. \<not> ?same mp" using first unfolding same by force
  have "find ?same (us_ports s) = Some \<lparr>mp_Instance = inst_key p i, mp_OriginalValues = v, mp_Port = a\<rparr>"
    using none unfolding ports find_append by (simp add: find_None_iff [THEN iffD2] same)
  moreover have "update_first ?same f (ps @ [x]) = ps @ [f x]" if "?same x" for f x
    using none that by (induction ps) auto
  moreover have "?same \<lparr>mp_Instance = inst_key p i, mp_OriginalValues = v, mp_Port = a\<rparr>" unfolding same by simp
  ultimately show ?thesis
    using b by (simp add: useInstancePort_def Let_def ports isPortInUse_iff)
qed

lemma us_ports_set_env_if [simp]: "us_ports (set_env_if p i n v s) = us_ports s"
  by (simp add: set_env_if_def)

text \<open>The three rounds of the loop over the instances.\<close>

lemma repeated_instance_rounds:
  assumes insts: "aps_Instances (apw_Spec p) = [i1, i2, i3]" "overridden p = None"
    and conn: "is_ConnectionString i2 = is_ConnectionString i1" "is_ConnectionString i3 \<noteq> is_ConnectionString i1"
    and ports: "is_Port i1 = Some a" "is_Port i2 = Some b" "is_Port i3 = Some a" "a \<noteq> b"
    and free: "a \<notin> used s" "b \<notin> used s" "inst_key p i1 \<notin> owned s" "inst_key p i3 \<notin> owned s"
    and envs: "envs_free (env s) (demands [p])"
  shows "\<exists>s'. map_state (updateInstance p) s [i1, i2, i3] = Some (instance_args p [a, b, a], s') \<and> errs s' = errs s"
proof -
  let ?e = "\<lambda>i q s. set_env_if p i (is_PortEnvName i) (sprint_int q) (set_env_if p i (is_HostEnvName i) ''127.0.0.1'' s)"
  let ?arg = "\<lambda>i q. instance_arg (is_ConnectionString i) (instance_params i q)"
  have round: "updateInstance p s i = Some (?arg i q, ?e i q s1)" if "useInstancePort s p i = Some (q, s1)" for s i q s1
    using that by (simp add: updateInstance_alt)
  have ds: "demands [p] = [(p, i1), (p, i2), (p, i3)]"
    using insts by (simp add: demands_def demands_of_def cont_insts_def)
  define t1 where "t1 = ?e i1 a (claim_port s p i1 a)"
  have u1: "useInstancePort s p i1 = Some (a, claim_port s p i1 a)"
    using free(3) ports(1) by (simp add: useInstancePort_fresh chosen_port_def)
  have p1: "us_ports t1 = us_ports s @ [\<lparr>mp_Instance = inst_key p i1, mp_OriginalValues = [], mp_Port = a\<rparr>]"
    using free(1) by (auto simp: t1_def claim_port_def addPort_def Let_def used_def list_ex_iff inst_key_def apw_key_def
        intro: rev_image_eqI)
  have e1: "errs t1 = errs s" "envs_free (env t1) [(p, i2), (p, i3)]"
    using envs_free_step [OF envs [folded claim_port_views(2) [of s p i1 a], unfolded ds] t1_def] free(1)
    by (simp_all add: claim_port_views)
  have k: "inst_key p i2 = inst_key p i1" "inst_key p i3 \<noteq> inst_key p i1"
    using conn by (simp_all add: inst_key_eq_iff)
  let ?t = "set_ports t1 (us_ports s @ [\<lparr>mp_Instance = inst_key p i1, mp_OriginalValues = [], mp_Port = b\<rparr>])"
  have "b \<notin> used t1" using p1 free(2) ports(4) by (auto simp: used_def)
  then have u2: "useInstancePort t1 p i2 = Some (b, ?t)"
    using useInstancePort_moves [of t1 "us_ports s" p i2 "[]" a b] p1 free(3) ports by (simp add: k owned_def)
  define t2 where "t2 = ?e i2 b ?t"
  have "env ?t = env t1" "errs ?t = errs t1" by (simp_all add: env_def errs_def)
  with e1 envs_free_step [of ?t p i2 "[(p, i3)]", OF _ t2_def] have e2: "errs t2 = errs s" "envs_free (env t2) [(p, i3)]"
    by simp_all
  have v2: "used t2 = insert b (used s)" "owned t2 = insert (inst_key p i1) (owned s)"
    by (simp_all add: t2_def used_def owned_def)
  have u3: "useInstancePort t2 p i3 = Some (a, claim_port t2 p i3 a)"
    using free(4) v2(2) k ports(3) by (simp add: useInstancePort_fresh chosen_port_def)
  have "errs (?e i3 a (claim_port t2 p i3 a)) = errs s"
    using envs_free_step [of "claim_port t2 p i3 a" p i3 "[]", OF _ refl] e2 free(1) v2(1) ports(4)
    by (simp add: claim_port_views)
  then show ?thesis
    using round [OF u1] round [OF u2] round [OF u3] by (simp add: t1_def [symmetric] t2_def [symmetric] insts instance_args_def)
qed

text \<open>
  C36: an instance that is listed twice hides a conflict. Take any resource whose three instances are one instance with explicit port
  \<open>a\<close>, the same instance with port \<open>b\<close>, and another one with port \<open>a\<close> again, where the pod uses neither port and the
  variables do not clash. The second entry moves the registered port of the first one, so that \<open>a\<close> counts as free while the container
  still uses it: the update succeeds, and the proxy container listens on \<open>a\<close> for both instances.
\<close>

theorem repeated_instance_hides_conflict:
  assumes "aps_Instances (apw_Spec p) = [i1, i2, i3]" and "overridden p = None" and "apw_Name p \<noteq> []"
    and "is_ConnectionString i2 = is_ConnectionString i1" and "is_ConnectionString i3 \<noteq> is_ConnectionString i1"
    and "is_Port i1 = Some a" and "is_Port i2 = Some b" and "is_Port i3 = Some a" and "a \<noteq> b"
    and "a \<notin> own_ports wl" and "b \<notin> own_ports wl" and "envs_free (\<lambda>_. None) (demands [p])" and "port_budget wl [p] < 2 ^ 32"
  shows "\<exists>w c. ConfigureWorkload u wl [p] = Some (Inr w) \<and> same_but_env c (last (ps_Containers (PodSpec w))) \<and>
     instance_arg (is_ConnectionString i1) (instance_params i1 a) \<in> set (c_Args c) \<and>
     instance_arg (is_ConnectionString i3) (instance_params i3 a) \<in> set (c_Args c)"
proof -
  note st = start_state_views [where u = u and wl = wl and ms = "[p]"]
  let ?s = "start_state u wl [p]"
  have env: "env ?s = (\<lambda>_. None)" by (rule env_start_state)
  have "inst_key p i \<notin> owned ?s" for i using st(2) assms(3) by (auto simp: inst_key_def dbInst_def)
  from repeated_instance_rounds [OF assms(1,2,4-9) _ _ this this assms(12) [folded env]] assms(10,11) st(1) obtain s' where
    loop: "map_state (updateInstance p) ?s [i1, i2, i3] = Some (instance_args p [a, b, a], s')" and e: "errs s' = errs ?s"
    by auto
  have "length (us_ports ?s) < 2 ^ 32" using st(5) assms(13) unfolding port_budget_def by linarith
  then obtain hp where hp: "next_free (isPortInUse ?s) DefaultHealthCheckPort = Some hp"
    using next_free_port_returns by blast
  obtain name where name: "ContainerName p = Some name" using ContainerName_Some by blast
  define c where "c = build_container (us_updater ?s) p name hp [a, b, a]"
  have "updateContainer ?s p zero_container = Some (c, s')"
    using assms(1,2) loop hp name
    by (simp add: updateContainer_def addHealthCheck_def Let_def applyContainerSpec_flags c_def build_container_def zero_container_def)
  then have "ConfigureWorkload u wl [p] = Some (Inr (PodWorkload (wl\<lparr>pod_Spec := (pod_Spec wl)\<lparr>ps_Containers :=
      map (updateContainerEnv s') (ps_Containers (pod_Spec wl) @ [c])\<rparr>\<rparr>)))"
    using e st(3) by (simp add: ConfigureWorkload_eq)
  moreover have "instance_arg (is_ConnectionString i1) (instance_params i1 a) \<in> set (c_Args c)"
    "instance_arg (is_ConnectionString i3) (instance_params i3 a) \<in> set (c_Args c)"
    by (simp_all add: c_def build_container_def instance_args_def assms(1))
  ultimately show ?thesis using same_but_env_update by fastforce
qed

definition listed_twice :: auth_proxy_workload where
  "listed_twice = example_apw ''default'' ''one'' ''Pod''
     [example_inst ''p:r:x'' (Some 6000), example_inst ''p:r:x'' (Some 7000), example_inst ''p:r:y'' (Some 6000)]"

theorem repeated_instance_hides_conflict_witness:
  "\<exists>w c. ConfigureWorkload (NewUpdater ''dev'') example_pod [listed_twice] = Some (Inr w) \<and>
     same_but_env c (last (ps_Containers (PodSpec w))) \<and>
     ''p:r:x?port=6000'' \<in> set (c_Args c) \<and> ''p:r:y?port=6000'' \<in> set (c_Args c)"
proof -
  let ?x = "\<lambda>q. example_inst ''p:r:x'' (Some q)" and ?y = "example_inst ''p:r:y'' (Some 6000)"
  have args: "instance_arg (is_ConnectionString (?x 6000)) (instance_params (?x 6000) 6000) = ''p:r:x?port=6000''"
    "instance_arg (is_ConnectionString ?y) (instance_params ?y 6000) = ''p:r:y?port=6000''"
    by (simp_all add: arg_defs example_inst_def)
  show ?thesis
    by (rule repeated_instance_hides_conflict [where p = listed_twice and wl = example_pod and a = 6000 and b = 7000
          and ?i1.0 = "?x 6000" and ?i2.0 = "?x 7000" and ?i3.0 = ?y, unfolded args])
      (simp_all add: listed_twice_def overridden_def example_inst_def own_ports_example demand_defs port_budget_def
        own_containers_example n_instances_def)
qed

end
