(* ===== verification/Pod_Webhook.thy ===== *)
theory Pod_Webhook
  imports Matching
begin

text \<open>
  The admission webhook for pods (\<open>internal/controller/pod_controller.go\<close>): \<open>Handle\<close> decodes the pod,
  lists the resources of its namespace, follows the owner references, and answers with the changed
  pod. The Kubernetes client, the decoder and the JSON encoder are arguments. The owner search is a
  recursion over objects of the cluster that may not end, so it returns an \<open>option\<close>.
\<close>

section \<open>The interface to the cluster\<close>

text \<open>
  \<open>ac_Get z key\<close> is \<open>Client.Get\<close> into the workload object \<open>z\<close>, \<open>ac_GetMeta kind apiVersion key\<close> the same
  into a \<open>PartialObjectMetadata\<close>: the object afterwards and the error, if any. \<open>ac_List ns\<close> is
  \<open>Client.List\<close> of the \<open>AuthProxyWorkload\<close> resources of a namespace.
\<close>

record api_client =
  ac_Get :: "workload \<Rightarrow> namespaced_name \<Rightarrow> workload \<times> api_error option"
  ac_GetMeta :: "string \<Rightarrow> string \<Rightarrow> namespaced_name \<Rightarrow> client_object \<times> api_error option"
  ac_List :: "string \<Rightarrow> api_error + auth_proxy_workload list"

record admission_request =
  rq_Raw :: string

datatype webhook_error =
    DecodeError go_error
  | UnableToList
  | OwnersError api_error
  | ConfigurationError config_error
  | UnableToMarshal

datatype response =
    Errored nat webhook_error
  | PatchResponseFromRaw string string

definition StatusInternalServerError :: nat where "StatusInternalServerError = 500"

text \<open>\<open>PodAdmissionWebhook\<close>, with the library functions it calls and the iteration order of the map in
  \<open>FindMatchingAuthProxyWorkloads\<close>.\<close>

record pod_admission_webhook =
  wh_Client :: api_client
  wh_decode :: "admission_request \<Rightarrow> go_error + pod"
  wh_updater :: updater
  wh_api :: apimachinery
  wh_order :: "auth_proxy_workload list \<Rightarrow> auth_proxy_workload list"
  wh_marshal :: "workload \<Rightarrow> go_error + string"

section \<open>Owners\<close>

text \<open>The first part of the loop body of \<open>listOwners\<close>: the workload appended to \<open>owners\<close>, if the kind
  is supported, the owner object after \<open>Get\<close>, and the error of \<open>Get\<close>. The workload is appended before
  \<open>Get\<close> fills it in through the pointer, so it is in the list whatever \<open>Get\<close> returns.\<close>

record fetched =
  fo_appended :: "workload list"
  fo_owner :: client_object
  fo_err :: "api_error option"

definition fetch_owner :: "apimachinery \<Rightarrow> api_client \<Rightarrow> string \<Rightarrow> owner_reference \<Rightarrow> fetched" where
  "fetch_owner A C ns r =
     (let key = \<lparr>nn_Namespace = ns, nn_Name = or_Name r\<rparr> in
      case WorkloadForKind A (or_Kind r) of
        Inl _ \<Rightarrow>
          (let (owner, err) = ac_GetMeta C (or_Kind r) (or_APIVersion r) key
           in \<lparr>fo_appended = [], fo_owner = owner, fo_err = err\<rparr>)
      | Inr z \<Rightarrow>
          (let (wl, err) = ac_Get C z key
           in \<lparr>fo_appended = [wl], fo_owner = Object wl, fo_err = err\<rparr>))"

definition ignored :: "api_error \<Rightarrow> bool" where
  "ignored e = (case e of StatusError reason _ \<Rightarrow> reason = StatusReasonNotFound | OtherError _ \<Rightarrow> False)"

text \<open>The loop over the owner references of an object in namespace \<open>ns\<close>.\<close>

partial_function (option) owners_loop ::
    "apimachinery \<Rightarrow> api_client \<Rightarrow> string \<Rightarrow> owner_reference list \<Rightarrow> (api_error + workload list) option" where
  "owners_loop A C ns refs =
     (if refs = [] then Some (Inr [])
      else let r = hd refs; rs = tl refs; f = fetch_owner A C ns r in
        if fo_err f \<noteq> None then
          if ignored (the (fo_err f)) then do {
            rest \<leftarrow> owners_loop A C ns rs;
            Some (map_sum id (\<lambda>ws. fo_appended f @ ws) rest)
          }
          else Some (Inl (the (fo_err f)))
        else do {
          ownerOwners \<leftarrow> owners_loop A C (om_Namespace (co_Meta (fo_owner f))) (om_OwnerReferences (co_Meta (fo_owner f)));
          if isl ownerOwners then Some (Inl (projl ownerOwners))
          else do {
            rest \<leftarrow> owners_loop A C ns rs;
            Some (map_sum id (\<lambda>ws. fo_appended f @ projr ownerOwners @ ws) rest)
          }
        })"

definition listOwners ::
    "apimachinery \<Rightarrow> api_client \<Rightarrow> client_object \<Rightarrow> (api_error + workload list) option" where
  "listOwners A C object = owners_loop A C (om_Namespace (co_Meta object)) (om_OwnerReferences (co_Meta object))"

section \<open>The handler\<close>

definition Handle :: "pod_admission_webhook \<Rightarrow> admission_request \<Rightarrow> response option" where
  "Handle a req =
     (case wh_decode a req of
        Inl err \<Rightarrow> Some (Errored StatusInternalServerError (DecodeError err))
      | Inr wl \<Rightarrow>
          (case ac_List (wh_Client a) (om_Namespace (co_Meta (Object (PodWorkload wl)))) of
             Inl err \<Rightarrow> Some (Errored StatusInternalServerError UnableToList)
           | Inr instList \<Rightarrow> do {
               owners \<leftarrow> listOwners (wh_api a) (wh_Client a) (Object (PodWorkload wl));
               case owners of
                 Inl err \<Rightarrow> Some (Errored StatusInternalServerError (OwnersError err))
               | Inr os \<Rightarrow>
                   let proxies = FindMatchingAuthProxyWorkloads (wh_order a) (wh_api a) instList wl os in
                   if length proxies = 0 then Some (PatchResponseFromRaw (rq_Raw req) (rq_Raw req))
                   else do {
                     configured \<leftarrow> ConfigureWorkload (wh_updater a) wl proxies;
                     Some (case configured of
                             Inl wlConfigErr \<Rightarrow>
                               Errored StatusInternalServerError (ConfigurationError wlConfigErr)
                           | Inr result \<Rightarrow>
                               (case wh_marshal a result of
                                  Inl err \<Rightarrow> Errored StatusInternalServerError UnableToMarshal
                                | Inr marshaledRes \<Rightarrow> PatchResponseFromRaw (rq_Raw req) marshaledRes))
                   }
             }))"

section \<open>The owner search\<close>

abbreviation obj_ns :: "client_object \<Rightarrow> string" where
  "obj_ns o1 \<equiv> om_Namespace (co_Meta o1)"

abbreviation obj_refs :: "client_object \<Rightarrow> owner_reference list" where
  "obj_refs o1 \<equiv> om_OwnerReferences (co_Meta o1)"

lemma owners_loop_Nil [simp]: "owners_loop A C ns [] = Some (Inr [])"
  by (subst owners_loop.simps) simp

lemma owners_loop_error:
  "fo_err (fetch_owner A C ns r) = Some e \<Longrightarrow>
     owners_loop A C ns (r # rs) =
       (if ignored e then map_option (map_sum id (\<lambda>ws. fo_appended (fetch_owner A C ns r) @ ws)) (owners_loop A C ns rs)
        else Some (Inl e))"
  by (subst owners_loop.simps) (simp add: Let_def map_conv_bind_option comp_def)

lemma owners_loop_found:
  "fo_err (fetch_owner A C ns r) = None \<Longrightarrow>
     owners_loop A C ns (r # rs) =
       (case owners_loop A C (obj_ns (fo_owner (fetch_owner A C ns r))) (obj_refs (fo_owner (fetch_owner A C ns r))) of
          None \<Rightarrow> None
        | Some (Inl e) \<Rightarrow> Some (Inl e)
        | Some (Inr os) \<Rightarrow>
            map_option (map_sum id (\<lambda>ws. fo_appended (fetch_owner A C ns r) @ os @ ws)) (owners_loop A C ns rs))"
  by (subst owners_loop.simps)
    (simp add: Let_def map_conv_bind_option comp_def split: option.split sum.split)

text \<open>The specification: the workloads that a chain of owner references leads to. A supported owner
  belongs to the result whether or not it was found; only found owners are followed.\<close>

inductive owner_via :: "apimachinery \<Rightarrow> api_client \<Rightarrow> string \<Rightarrow> owner_reference list \<Rightarrow> workload \<Rightarrow> bool"
  for A C where
  direct: "r \<in> set refs \<Longrightarrow> w \<in> set (fo_appended (fetch_owner A C ns r)) \<Longrightarrow> owner_via A C ns refs w"
| indirect: "r \<in> set refs \<Longrightarrow> fo_err (fetch_owner A C ns r) = None \<Longrightarrow>
    owner_via A C (obj_ns (fo_owner (fetch_owner A C ns r))) (obj_refs (fo_owner (fetch_owner A C ns r))) w \<Longrightarrow>
    owner_via A C ns refs w"

inductive_cases owner_via_NilE: "owner_via A C ns [] w"

lemma owner_via_mono: "owner_via A C ns rs w \<Longrightarrow> set rs \<subseteq> set rs' \<Longrightarrow> owner_via A C ns rs' w"
  by (cases rule: owner_via.cases) (auto intro: owner_via.intros)

lemma owner_via_Cons:
  "owner_via A C ns (r # rs) w \<longleftrightarrow>
     w \<in> set (fo_appended (fetch_owner A C ns r)) \<or>
     fo_err (fetch_owner A C ns r) = None \<and>
       owner_via A C (obj_ns (fo_owner (fetch_owner A C ns r))) (obj_refs (fo_owner (fetch_owner A C ns r))) w \<or>
     owner_via A C ns rs w"
  (is "_ \<longleftrightarrow> ?direct \<or> ?found \<or> _")
proof
  assume "owner_via A C ns (r # rs) w"
  then show "?direct \<or> ?found \<or> owner_via A C ns rs w"
    by (cases rule: owner_via.cases) (auto intro: owner_via.intros)
next
  assume "?direct \<or> ?found \<or> owner_via A C ns rs w"
  then show "owner_via A C ns (r # rs) w"
    by (auto intro: owner_via.intros owner_via_mono)
qed

lemma map_sum_Inr_iff: "map_sum id g z = Inr os \<longleftrightarrow> (\<exists>ws. z = Inr ws \<and> os = g ws)"
  by (cases z) auto

text \<open>Induction over the calls of a search that returns.\<close>

lemma owners_loop_induct [consumes 1, case_names Nil Skip Fail Found_Fail Found]:
  assumes "owners_loop A C ns refs = Some y"
    and Nil: "\<And>ns. P ns [] (Inr [])"
    and Skip: "\<And>ns r rs e rest. fo_err (fetch_owner A C ns r) = Some e \<Longrightarrow> ignored e \<Longrightarrow> P ns rs rest \<Longrightarrow>
      P ns (r # rs) (map_sum id (\<lambda>ws. fo_appended (fetch_owner A C ns r) @ ws) rest)"
    and Fail: "\<And>ns r rs e. fo_err (fetch_owner A C ns r) = Some e \<Longrightarrow> \<not> ignored e \<Longrightarrow> P ns (r # rs) (Inl e)"
    and Found_Fail: "\<And>ns r rs e. fo_err (fetch_owner A C ns r) = None \<Longrightarrow>
      P (obj_ns (fo_owner (fetch_owner A C ns r))) (obj_refs (fo_owner (fetch_owner A C ns r))) (Inl e) \<Longrightarrow>
      P ns (r # rs) (Inl e)"
    and Found: "\<And>ns r rs os rest. fo_err (fetch_owner A C ns r) = None \<Longrightarrow>
      P (obj_ns (fo_owner (fetch_owner A C ns r))) (obj_refs (fo_owner (fetch_owner A C ns r))) (Inr os) \<Longrightarrow>
      P ns rs rest \<Longrightarrow> P ns (r # rs) (map_sum id (\<lambda>ws. fo_appended (fetch_owner A C ns r) @ os @ ws) rest)"
  shows "P ns refs y"
proof -
  have "A = A \<longrightarrow> C = C \<longrightarrow> P ns refs y"
  proof (rule owners_loop.raw_induct
      [where P = "\<lambda>A' C' ns refs y. A' = A \<longrightarrow> C' = C \<longrightarrow> P ns refs y", OF _ assms(1)], intro impI)
    fix f :: "apimachinery \<Rightarrow> api_client \<Rightarrow> string \<Rightarrow> owner_reference list \<Rightarrow> (api_error + workload list) option"
      and A' C' ns refs y
    assume hyp: "\<And>A' C' ns refs y. f A' C' ns refs = Some y \<Longrightarrow> A' = A \<longrightarrow> C' = C \<longrightarrow> P ns refs y"
      and run: "(if refs = [] then Some (Inr [])
        else let r = hd refs; rs = tl refs; fo = fetch_owner A' C' ns r in
          if fo_err fo \<noteq> None then
            if ignored (the (fo_err fo)) then do {
              rest \<leftarrow> f A' C' ns rs; Some (map_sum id (\<lambda>ws. fo_appended fo @ ws) rest) }
            else Some (Inl (the (fo_err fo)))
          else do {
            ownerOwners \<leftarrow> f A' C' (obj_ns (fo_owner fo)) (obj_refs (fo_owner fo));
            if isl ownerOwners then Some (Inl (projl ownerOwners))
            else do {
              rest \<leftarrow> f A' C' ns rs;
              Some (map_sum id (\<lambda>ws. fo_appended fo @ projr ownerOwners @ ws) rest) } }) = Some y"
      and eqs: "A' = A" "C' = C"
    note IH = hyp [THEN mp, THEN mp, OF _ refl refl]
    show "P ns refs y"
    proof (cases refs)
      case (Cons r rs)
      show ?thesis
      proof (cases "fo_err (fetch_owner A C ns r)")
        case None
        with run Cons eqs show ?thesis
          by (auto simp: Let_def isl_def dest!: IH intro: Found Found_Fail split: bind_splits if_splits)
      next
        case (Some e)
        with run Cons eqs show ?thesis
          by (auto simp: Let_def dest!: IH intro: Skip Fail split: bind_splits if_splits)
      qed
    qed (use run Nil in simp)
  qed
  then show ?thesis by simp
qed

lemma owners_loop_sound:
  "owners_loop A C ns refs = Some y \<Longrightarrow> y = Inr os \<Longrightarrow> set os = {w. owner_via A C ns refs w}"
proof (induction arbitrary: os rule: owners_loop_induct)
  case (Nil ns)
  then show ?case by (auto elim: owner_via_NilE)
qed (auto simp: map_sum_Inr_iff owner_via_Cons)

text \<open>The search ends when every found owner is smaller in some ranking of the objects.\<close>

definition ranked_owners :: "apimachinery \<Rightarrow> api_client \<Rightarrow> (client_object \<Rightarrow> nat) \<Rightarrow> bool" where
  "ranked_owners A C rank \<longleftrightarrow>
     (\<forall>o1. \<forall>r \<in> set (obj_refs o1). fo_err (fetch_owner A C (obj_ns o1) r) = None \<longrightarrow>
        rank (fo_owner (fetch_owner A C (obj_ns o1) r)) < rank o1)"

lemma owners_loop_returns:
  assumes "ranked_owners A C rank"
  shows "set rs \<subseteq> set (obj_refs o1) \<Longrightarrow> \<exists>y. owners_loop A C (obj_ns o1) rs = Some y"
proof (induction "rank o1" arbitrary: o1 rs rule: less_induct)
  case less
  note outer = less.hyps
  from less.prems show ?case
  proof (induction rs)
    case (Cons r rs)
    then obtain y where y: "owners_loop A C (obj_ns o1) rs = Some y" by auto
    show ?case
    proof (cases "fo_err (fetch_owner A C (obj_ns o1) r)")
      case None
      let ?o = "fo_owner (fetch_owner A C (obj_ns o1) r)"
      have "rank ?o < rank o1" using assms None Cons.prems by (auto simp: ranked_owners_def)
      from outer [OF this subset_refl] obtain z where "owners_loop A C (obj_ns ?o) (obj_refs ?o) = Some z" by blast
      with y None show ?thesis by (cases z) (simp_all add: owners_loop_found)
    next
      case (Some e)
      with y show ?thesis by (simp add: owners_loop_error)
    qed
  qed simp
qed

text \<open>An object that owns itself is followed forever.\<close>

lemma owners_loop_cycle:
  assumes "fo_err (fetch_owner A C ns r) = None" "obj_ns (fo_owner (fetch_owner A C ns r)) = ns"
    "obj_refs (fo_owner (fetch_owner A C ns r)) = [r]"
  shows "owners_loop A C ns [r] = None"
proof (rule ccontr)
  have no: "owners_loop A C ns' refs = Some y \<Longrightarrow> \<not> (ns' = ns \<and> refs = [r])" for ns' refs y
    by (induction rule: owners_loop_induct) (use assms in auto)
  assume "owners_loop A C ns [r] \<noteq> None"
  with no show False by blast
qed

section \<open>Properties of the owner search\<close>

text \<open>An example cluster: a pod of a replica set of a deployment that no longer exists.\<close>

definition owner_ref :: "string \<Rightarrow> string \<Rightarrow> owner_reference" where
  "owner_ref kind name = \<lparr>or_APIVersion = ''apps/v1'', or_Kind = kind, or_Name = name\<rparr>"

definition example_rs :: "string \<Rightarrow> owner_reference list \<Rightarrow> workload" where
  "example_rs name refs = ReplicaSetWorkload (zero_templated
     \<lparr>to_GVK := zero_gvk\<lparr>gvk_Version := ''v1'', gvk_Kind := ''ReplicaSet''\<rparr>,
      to_Meta := zero_meta\<lparr>om_Namespace := ''default'', om_Name := name, om_OwnerReferences := refs\<rparr>\<rparr>)"

definition example_client :: "owner_reference list \<Rightarrow> auth_proxy_workload list \<Rightarrow> api_client" where
  "example_client refs pl =
     \<lparr>ac_Get = (\<lambda>z key. case z of
          ReplicaSetWorkload _ \<Rightarrow>
            if key = \<lparr>nn_Namespace = ''default'', nn_Name = ''rs''\<rparr> then (example_rs ''rs'' refs, None)
            else (z, Some not_found)
        | _ \<Rightarrow> (z, Some not_found)),
      ac_GetMeta = (\<lambda>k v key. (\<lparr>co_GVK = zero_gvk, co_Meta = zero_meta\<rparr>, Some not_found)),
      ac_List = (\<lambda>ns. Inr (filter (\<lambda>p. apw_Namespace p = ns) pl))\<rparr>"

definition owned_pod :: pod where
  "owned_pod = example_pod\<lparr>pod_Meta := (pod_Meta example_pod)\<lparr>om_OwnerReferences := [owner_ref ''ReplicaSet'' ''rs'']\<rparr>\<rparr>"

lemmas cluster_defs = fetch_owner_def WorkloadForKind_def example_api_def owner_ref_def example_client_def
  example_rs_def not_found_def

text \<open>
  C10: the owner search is right. If \<open>listOwners\<close> returns a list, it holds exactly the workloads of
  supported kinds that chains of owner references lead to, following found owners only.
\<close>

theorem listOwners_correct:
  assumes "listOwners A C object = Some (Inr os)"
  shows "set os = {w. owner_via A C (obj_ns object) (obj_refs object) w}"
  using owners_loop_sound [OF assms [unfolded listOwners_def] refl] .

lemma example_owners:
  "listOwners example_api (example_client [owner_ref ''Deployment'' ''gone''] []) (Object (PodWorkload owned_pod)) =
     Some (Inr [example_rs ''rs'' [owner_ref ''Deployment'' ''gone''], DeploymentWorkload zero_templated])"
  by (simp add: listOwners_def owned_pod_def example_pod_def owners_loop_found owners_loop_error
      cluster_defs ignored_def)

theorem listOwners_correct_witness:
  "{w. owner_via example_api (example_client [owner_ref ''Deployment'' ''gone''] [])
       (obj_ns (Object (PodWorkload owned_pod))) (obj_refs (Object (PodWorkload owned_pod))) w} =
     {example_rs ''rs'' [owner_ref ''Deployment'' ''gone''], DeploymentWorkload zero_templated}"
  using listOwners_correct [OF example_owners] by simp

text \<open>
  The owner search ends. If the found owners decrease in some ranking, that is, if there is no
  cycle of ownership, \<open>listOwners\<close> returns a list of owners or an error of the client.
\<close>

theorem listOwners_returns:
  assumes "ranked_owners A C rank"
  shows "\<exists>y. listOwners A C object = Some y"
  unfolding listOwners_def using owners_loop_returns [OF assms subset_refl] .

definition example_rank :: "client_object \<Rightarrow> nat" where
  "example_rank o1 = (if obj_refs o1 = [owner_ref ''Deployment'' ''gone''] then 0 else 1)"

lemma example_fetch:
  assumes "fo_err (fetch_owner example_api (example_client refs pl) ns r) = None"
  shows "fo_owner (fetch_owner example_api (example_client refs pl) ns r) = Object (example_rs ''rs'' refs)"
  using assms
  by (auto simp: fetch_owner_def WorkloadForKind_def example_client_def not_found_def Let_def split: if_splits)

lemma example_ranked:
  "ranked_owners example_api (example_client [owner_ref ''Deployment'' ''gone''] pl) example_rank"
proof -
  have gone: "fo_err (fetch_owner example_api (example_client [owner_ref ''Deployment'' ''gone''] pl) ns
      (owner_ref ''Deployment'' ''gone'')) \<noteq> None" for ns
    by (simp add: cluster_defs)
  show ?thesis
    unfolding ranked_owners_def using gone
    by (auto simp: example_fetch example_rank_def example_rs_def)
qed

theorem listOwners_returns_witness:
  "\<exists>y. listOwners example_api (example_client [owner_ref ''Deployment'' ''gone''] []) (Object (PodWorkload owned_pod)) = Some y"
  by (rule listOwners_returns) (rule example_ranked)

section \<open>Properties of the handler\<close>

text \<open>The resources that select the pod or one of its owners, as a set.\<close>

definition selecting :: "pod_admission_webhook \<Rightarrow> pod \<Rightarrow> auth_proxy_workload list \<Rightarrow> auth_proxy_workload set" where
  "selecting a wl pl =
     {p \<in> set pl. om_DeletionTimestamp (apw_Meta p) = None \<and>
        (\<exists>w. (w = PodWorkload wl \<or>
              owner_via (wh_api a) (wh_Client a) (obj_ns (Object (PodWorkload wl))) (obj_refs (Object (PodWorkload wl))) w) \<and>
          workloadMatches (wh_api a) (Object w) (aps_Workload (apw_Spec p)) (apw_Namespace p))}"

text \<open>What the handler relies on: the map is read in some order, and the API server returns resources
  with distinct names, in namespaces without a slash.\<close>

definition list_ok :: "pod_admission_webhook \<Rightarrow> bool" where
  "list_ok a \<longleftrightarrow> permutes_order (wh_order a) \<and>
     (\<forall>ns pl. ac_List (wh_Client a) ns = Inr pl \<longrightarrow> plain_namespaces pl \<and> distinct (map apw_key pl))"

lemma FindMatching_selecting:
  assumes "list_ok a" and "ac_List (wh_Client a) ns = Inr pl"
    and "listOwners (wh_api a) (wh_Client a) (Object (PodWorkload wl)) = Some (Inr os)"
  shows "distinct (FindMatchingAuthProxyWorkloads (wh_order a) (wh_api a) pl wl os) \<and>
     set (FindMatchingAuthProxyWorkloads (wh_order a) (wh_api a) pl wl os) = selecting a wl pl"
proof -
  have os: "set os = {w. owner_via (wh_api a) (wh_Client a) (obj_ns (Object (PodWorkload wl)))
      (obj_refs (Object (PodWorkload wl))) w}"
    using owners_loop_sound [OF assms(3) [unfolded listOwners_def] refl] .
  show ?thesis
    using FindMatching_set [of "wh_order a" pl "wh_api a" wl os] assms(1,2)
    unfolding selecting_def list_ok_def by (auto simp: os)
qed

text \<open>The three ways through the handler once the pod is decoded and the resources are listed.\<close>

lemma Handle_decoded:
  assumes "wh_decode a req = Inr wl" and "ac_List (wh_Client a) (obj_ns (Object (PodWorkload wl))) = Inr pl"
    and "listOwners (wh_api a) (wh_Client a) (Object (PodWorkload wl)) = Some (Inr os)"
    and "ms = FindMatchingAuthProxyWorkloads (wh_order a) (wh_api a) pl wl os"
  shows "Handle a req =
     (if ms = [] then Some (PatchResponseFromRaw (rq_Raw req) (rq_Raw req))
      else map_option (\<lambda>c. case c of
               Inl e \<Rightarrow> Errored StatusInternalServerError (ConfigurationError e)
             | Inr w \<Rightarrow> (case wh_marshal a w of
                 Inl _ \<Rightarrow> Errored StatusInternalServerError UnableToMarshal
               | Inr raw \<Rightarrow> PatchResponseFromRaw (rq_Raw req) raw))
             (ConfigureWorkload (wh_updater a) wl ms))"
  using assms by (simp add: Handle_def map_conv_bind_option comp_def)

text \<open>
  What an admitted pod is. If the handler answers with a patch, then the pod was decoded and the
  resources of its namespace were listed, and either no resource selects the pod or
  its owners and the patch is empty, or the patch is the encoding of the pod configured with exactly
  the selecting resources, each once.
\<close>

theorem Handle_patch:
  assumes "Handle a req = Some (PatchResponseFromRaw old new)" and "list_ok a"
  shows "old = rq_Raw req \<and>
     (\<exists>wl pl. wh_decode a req = Inr wl \<and> ac_List (wh_Client a) (obj_ns (Object (PodWorkload wl))) = Inr pl \<and>
       (selecting a wl pl = {} \<and> new = old \<or>
        selecting a wl pl \<noteq> {} \<and>
        (\<exists>ms w. distinct ms \<and> set ms = selecting a wl pl \<and>
           ConfigureWorkload (wh_updater a) wl ms = Some (Inr w) \<and> wh_marshal a w = Inr new)))"
proof -
  from assms(1) obtain wl pl where d: "wh_decode a req = Inr wl"
      "ac_List (wh_Client a) (obj_ns (Object (PodWorkload wl))) = Inr pl"
    by (auto simp: Handle_def split: sum.splits)
  with assms(1) obtain os where o: "listOwners (wh_api a) (wh_Client a) (Object (PodWorkload wl)) = Some (Inr os)"
    by (auto simp: Handle_def split: sum.splits bind_splits)
  define ms where "ms = FindMatchingAuthProxyWorkloads (wh_order a) (wh_api a) pl wl os"
  have sel: "distinct ms" "set ms = selecting a wl pl"
    unfolding ms_def using FindMatching_selecting [OF assms(2) d(2) o] by auto
  show ?thesis
  proof (cases "ms = []")
    case True
    with assms(1) d sel show ?thesis by (auto simp: Handle_decoded [OF d o ms_def])
  next
    case False
    obtain z where z: "ConfigureWorkload (wh_updater a) wl ms = Some z"
      using False assms(1) by (auto simp: Handle_decoded [OF d o ms_def])
    obtain w where w: "z = Inr w"
      using False assms(1) z by (cases z) (auto simp: Handle_decoded [OF d o ms_def])
    have "wh_marshal a w = Inr new \<and> old = rq_Raw req"
      using False assms(1) z w by (cases "wh_marshal a w") (auto simp: Handle_decoded [OF d o ms_def])
    note this z [unfolded w]
    moreover have "selecting a wl pl \<noteq> {}" using False sel(2) by auto
    ultimately show ?thesis using d sel by blast
  qed
qed

definition example_webhook :: "api_client \<Rightarrow> pod \<Rightarrow> pod_admission_webhook" where
  "example_webhook C wl =
     \<lparr>wh_Client = C, wh_decode = (\<lambda>_. Inr wl), wh_updater = NewUpdater ''dev'', wh_api = example_api,
      wh_order = (\<lambda>xs. xs), wh_marshal = (\<lambda>w. Inr ''patched'')\<rparr>"

lemma list_ok_example:
  assumes "plain_namespaces pl" and "distinct (map apw_key pl)"
  shows "list_ok (example_webhook (example_client refs pl) wl)"
proof -
  have "distinct (map apw_key (filter Q pl)) \<and> plain_namespaces (filter Q pl)" for Q
    using assms by (auto simp: distinct_map_filter plain_namespaces_def)
  then show ?thesis
    by (auto simp: list_ok_def example_webhook_def example_client_def permutes_order_id_rev)
qed

lemma example_Handle:
  "Handle (example_webhook (example_client [] [one_db]) example_pod) \<lparr>rq_Raw = ''raw''\<rparr> =
     Some (PatchResponseFromRaw ''raw'' ''patched'')"
proof -
  let ?a = "example_webhook (example_client [] [one_db]) example_pod"
  have d: "wh_decode ?a \<lparr>rq_Raw = ''raw''\<rparr> = Inr example_pod"
      "ac_List (wh_Client ?a) (obj_ns (Object (PodWorkload example_pod))) = Inr [one_db]"
      "listOwners (wh_api ?a) (wh_Client ?a) (Object (PodWorkload example_pod)) = Some (Inr [])"
    by (simp_all add: example_webhook_def example_client_def listOwners_def example_pod_def zero_meta_def)
  have ms: "[one_db] = FindMatchingAuthProxyWorkloads (wh_order ?a) (wh_api ?a) [one_db] example_pod []"
    using example_pod_matches [of one_db]
    by (simp add: FindMatchingAuthProxyWorkloads_def filterMatchingInstances_def map_key_def example_webhook_def)
  obtain w where "ConfigureWorkload (NewUpdater ''dev'') example_pod [one_db] = Some (Inr w)"
    using example_run by blast
  then show ?thesis
    unfolding Handle_decoded [OF d ms] by (simp add: example_webhook_def)
qed

theorem Handle_patch_witness:
  "\<exists>ms w. set ms = selecting (example_webhook (example_client [] [one_db]) example_pod) example_pod [one_db] \<and>
     ms \<noteq> [] \<and> ConfigureWorkload (NewUpdater ''dev'') example_pod ms = Some (Inr w)"
proof -
  let ?a = "example_webhook (example_client [] [one_db]) example_pod"
  have "list_ok ?a" by (rule list_ok_example) (simp_all add: plain_namespaces_def)
  from Handle_patch [OF example_Handle this] show ?thesis
    by (fastforce simp: example_webhook_def example_client_def example_pod_def)
qed










lemma sum_set_le_sum_list:
  fixes f :: "'a \<Rightarrow> nat"
  shows "sum f (set ys) \<le> sum_list (map f ys)"
  by (induction ys) (auto simp: sum.insert_if)

lemma sum_list_sublist:
  fixes f :: "'a \<Rightarrow> nat"
  assumes "distinct xs" and "set xs \<subseteq> set ys"
  shows "sum_list (map f xs) \<le> sum_list (map f ys)"
proof -
  have "sum_list (map f xs) = sum f (set xs)" using assms(1) by (rule sum_list_distinct_conv_sum_set)
  also have "\<dots> \<le> sum f (set ys)" using assms(2) by (intro sum_mono2) auto
  finally show ?thesis using sum_set_le_sum_list [of f ys] by linarith
qed


definition clash_db :: auth_proxy_workload where
  "clash_db = example_apw ''default'' ''one'' ''Pod'' [example_inst ''p:r:db'' (Some 8080)]"

lemma clash_db_simps:
  "apw_Namespace clash_db = ''default''" "apw_Name clash_db = ''one''"
  "om_DeletionTimestamp (apw_Meta clash_db) = None"
  "cont_insts clash_db = [example_inst ''p:r:db'' (Some 8080)]" "n_instances clash_db = 1"
  by (simp_all add: clash_db_def cont_insts_def overridden_def n_instances_def zero_meta_def)

lemma clash_db_matches:
  "workloadMatches example_api (Object (PodWorkload example_pod)) (aps_Workload (apw_Spec clash_db)) (apw_Namespace clash_db)"
  unfolding clash_db_simps
  by (simp add: clash_db_def workloadMatches_def LabelsSelector_def example_api_def example_pod_def)


text \<open>
  C21: the handler answers. If ownership has no cycle and the container ports of the pod and the
  instances of the listed resources are fewer than \<open>2\<^sup>3\<^sup>2\<close>, every request gets a response.
\<close>

theorem Handle_returns:
  assumes "ranked_owners (wh_api a) (wh_Client a) rank" and "list_ok a"
    and "\<And>wl pl. wh_decode a req = Inr wl \<Longrightarrow> ac_List (wh_Client a) (obj_ns (Object (PodWorkload wl))) = Inr pl \<Longrightarrow>
      port_budget wl pl < 2 ^ 32"
  shows "\<exists>r. Handle a req = Some r"
proof (cases "wh_decode a req")
  case (Inl err)
  then show ?thesis by (simp add: Handle_def)
next
  case wl: (Inr wl)
  show ?thesis
  proof (cases "ac_List (wh_Client a) (obj_ns (Object (PodWorkload wl)))")
    case (Inl err)
    with wl show ?thesis by (simp add: Handle_def)
  next
    case pl: (Inr pl)
    obtain y where y: "listOwners (wh_api a) (wh_Client a) (Object (PodWorkload wl)) = Some y"
      unfolding listOwners_def using owners_loop_returns [OF assms(1) subset_refl] by blast
    show ?thesis
    proof (cases y)
      case (Inl err)
      with wl pl y show ?thesis by (simp add: Handle_def)
    next
      case (Inr os)
      define ms where "ms = FindMatchingAuthProxyWorkloads (wh_order a) (wh_api a) pl wl os"
      have sel: "distinct ms" "set ms \<subseteq> set pl"
        unfolding ms_def using FindMatching_selecting [OF assms(2) pl, of wl os] y Inr
        by (auto simp: selecting_def)
      have "port_budget wl ms < 2 ^ 32"
        using assms(3) [OF wl pl] sum_list_sublist [OF sel, of n_instances] unfolding port_budget_def by linarith
      then obtain c where "ConfigureWorkload (wh_updater a) wl ms = Some c" using port_budget_returns by blast
      with y Inr show ?thesis by (simp add: Handle_decoded [OF wl pl _ ms_def])
    qed
  qed
qed

theorem Handle_returns_witness:
  "\<exists>r. Handle (example_webhook (example_client [owner_ref ''Deployment'' ''gone''] [one_db]) owned_pod)
     \<lparr>rq_Raw = ''raw''\<rparr> = Some r"
proof (rule Handle_returns)
  let ?a = "example_webhook (example_client [owner_ref ''Deployment'' ''gone''] [one_db]) owned_pod"
  show "ranked_owners (wh_api ?a) (wh_Client ?a) example_rank"
    using example_ranked by (simp add: example_webhook_def)
  show "list_ok ?a" by (rule list_ok_example) (simp_all add: plain_namespaces_def)
  fix wl pl
  assume "wh_decode ?a \<lparr>rq_Raw = ''raw''\<rparr> = Inr wl"
    and "ac_List (wh_Client ?a) (obj_ns (Object (PodWorkload wl))) = Inr pl"
  then have "wl = owned_pod" "pl = [one_db]"
    by (auto simp: example_webhook_def example_client_def owned_pod_def example_pod_def)
  moreover have "own_containers owned_pod = own_containers example_pod"
    by (simp add: own_containers_def owned_pod_def)
  ultimately show "port_budget wl pl < 2 ^ 32"
    using port_budget_examples(1) by (simp add: port_budget_def)
qed

section \<open>Isolation and cycles\<close>

text \<open>Documented behaviour of \<open>Client.Get\<close>: without an error a workload has the requested namespace, and any other object has it
  too or, if its kind is not namespaced, none; an error leaves the namespace of the object as it was, or is found after it was filled in.\<close>

definition get_ok :: "api_client \<Rightarrow> bool" where
  "get_ok C \<longleftrightarrow>
     (\<forall>z key w err. ac_Get C z key = (w, err) \<longrightarrow>
        (err = None \<longrightarrow> om_Namespace (co_Meta (Object w)) = nn_Namespace key) \<and>
        (err \<noteq> None \<longrightarrow> om_Namespace (co_Meta (Object w)) \<in> {nn_Namespace key, om_Namespace (co_Meta (Object z))})) \<and>
     (\<forall>k v key o1. ac_GetMeta C k v key = (o1, None) \<longrightarrow> om_Namespace (co_Meta o1) \<in> {nn_Namespace key, []})"

lemma zero_workload_ns: "WorkloadForKind A k = Inr z \<Longrightarrow> obj_ns (Object z) = []"
  by (auto simp: WorkloadForKind_def Let_def zero_templated_def zero_pod_def zero_cron_job_def zero_meta_def
      split: if_splits)

lemma fetch_owner_ns:
  assumes "get_ok C"
  shows "w \<in> set (fo_appended (fetch_owner A C ns r)) \<Longrightarrow> obj_ns (Object w) \<in> {ns, []}"
    and "fo_err (fetch_owner A C ns r) = None \<Longrightarrow> obj_ns (fo_owner (fetch_owner A C ns r)) \<in> {ns, []}"
  using assms zero_workload_ns [of A "or_Kind r"]
  by (auto simp: fetch_owner_def get_ok_def Let_def split: sum.splits prod.splits)
    (metis namespaced_name.select_convs(1) option.exhaust)+

lemma owner_via_ns:
  assumes "get_ok C"
  shows "owner_via A C ns refs w \<Longrightarrow> obj_ns (Object w) \<in> {ns, []}"
proof (induction rule: owner_via.induct)
  case (direct r refs w ns)
  then show ?case using fetch_owner_ns(1) [OF assms] by blast
next
  case (indirect r refs ns w)
  then show ?case using fetch_owner_ns(2) [OF assms, of A ns r] by auto
qed

lemma workloadMatches_ns: "workloadMatches A o1 sel ns \<Longrightarrow> ns \<noteq> [] \<Longrightarrow> obj_ns o1 = ns"
  by (auto simp: workloadMatches_def split: if_splits)

text \<open>
  Namespaces are isolated. Whatever the list call returns, a resource in a namespace is only
  applied to a pod of the same namespace: the owner search does not leave the namespace of the pod, and an owner
  that was not found matches no namespaced resource.
\<close>

theorem selecting_same_namespace:
  assumes "get_ok (wh_Client a)" and "p \<in> selecting a wl pl" and "apw_Namespace p \<noteq> []"
  shows "apw_Namespace p = om_Namespace (pod_Meta wl)"
proof -
  from assms(2) obtain w where "w = PodWorkload wl \<or>
      owner_via (wh_api a) (wh_Client a) (om_Namespace (pod_Meta wl)) (om_OwnerReferences (pod_Meta wl)) w"
    and m: "workloadMatches (wh_api a) (Object w) (aps_Workload (apw_Spec p)) (apw_Namespace p)"
    by (auto simp: selecting_def)
  then have "obj_ns (Object w) \<in> {om_Namespace (pod_Meta wl), []}"
    using owner_via_ns [OF assms(1)] by auto
  with workloadMatches_ns [OF m assms(3)] assms(3) show ?thesis by auto
qed

lemma get_ok_example: "get_ok (example_client refs pl)"
  by (auto simp: get_ok_def example_client_def example_rs_def not_found_def split: workload.splits if_splits)

theorem selecting_same_namespace_witness:
  "clash_db \<in> selecting (example_webhook (example_client [] []) example_pod) example_pod [clash_db] \<and>
   apw_Namespace clash_db = om_Namespace (pod_Meta example_pod)"
proof -
  have "clash_db \<in> selecting (example_webhook (example_client [] []) example_pod) example_pod [clash_db]"
    using clash_db_matches by (auto simp: selecting_def clash_db_simps example_webhook_def)
  moreover have "get_ok (wh_Client (example_webhook (example_client [] []) example_pod))"
    using get_ok_example by (simp add: example_webhook_def)
  ultimately show ?thesis
    using selecting_same_namespace [of "example_webhook (example_client [] []) example_pod" clash_db example_pod "[clash_db]"]
    by (simp add: clash_db_simps)
qed

text \<open>
  C37: a cycle of ownership is fatal. If the only owner of a pod is found and has itself as its only owner, the
  recursion of \<open>listOwners\<close> never ends and the handler gives no answer.
\<close>

theorem Handle_owner_cycle:
  assumes "wh_decode a req = Inr wl" and "ac_List (wh_Client a) (om_Namespace (pod_Meta wl)) = Inr pl"
    and "om_OwnerReferences (pod_Meta wl) = [r]"
    and "fetch_owner (wh_api a) (wh_Client a) (om_Namespace (pod_Meta wl)) r =
      \<lparr>fo_appended = own, fo_owner = owner, fo_err = None\<rparr>"
    and "obj_ns owner = om_Namespace (pod_Meta wl)" and "obj_refs owner = [r]"
  shows "Handle a req = None"
proof -
  have "owners_loop (wh_api a) (wh_Client a) (om_Namespace (pod_Meta wl)) [r] = None"
    by (rule owners_loop_cycle) (simp_all add: assms)
  with assms(1-3) show ?thesis by (simp add: Handle_def listOwners_def)
qed

theorem Handle_owner_cycle_witness:
  "Handle (example_webhook (example_client [owner_ref ''ReplicaSet'' ''rs''] []) owned_pod) \<lparr>rq_Raw = ''raw''\<rparr> = None"
  by (rule Handle_owner_cycle [where wl = owned_pod and pl = "[]" and r = "owner_ref ''ReplicaSet'' ''rs''"
        and own = "[example_rs ''rs'' [owner_ref ''ReplicaSet'' ''rs'']]"
        and owner = "Object (example_rs ''rs'' [owner_ref ''ReplicaSet'' ''rs''])"])
    (simp_all add: example_webhook_def cluster_defs owned_pod_def example_pod_def)

end
