(* ===== verification/Status.thy ===== *)
theory Status
  imports Workloads Keyed_Upsert
begin

text \<open>
  The status of an \<open>AuthProxyWorkload\<close>: conditions and the statuses of the matching workloads
  (\<open>findCondition\<close>, \<open>replaceCondition\<close>, \<open>replaceStatus\<close>, \<open>newStatus\<close> in
  \<open>internal/controller/authproxyworkload_controller.go\<close>). The clock is read at each call of
  \<open>replaceCondition\<close>: the instant is its argument \<open>now\<close>. Both replacement loops interpret
  the locale \<open>keyed_upsert\<close>.
\<close>

section \<open>Definitions\<close>

definition findCondition :: "condition list \<Rightarrow> string \<Rightarrow> condition option" where
  "findCondition conds name = find (\<lambda>c. cd_Type c = name) conds"

definition replaceCondition :: "time \<Rightarrow> condition list \<Rightarrow> condition \<Rightarrow> condition list" where
  "replaceCondition now conds newC =
     replace_first_or_append (\<lambda>c. cd_Type c = cd_Type newC)
       (\<lambda>c. if cd_Status c = cd_Status newC \<and> cd_LastTransitionTime c \<noteq> None
             then newC\<lparr>cd_LastTransitionTime := cd_LastTransitionTime c\<rparr>
             else newC\<lparr>cd_LastTransitionTime := Some now\<rparr>)
       (newC\<lparr>cd_LastTransitionTime := Some now\<rparr>) conds"

definition replaceStatus :: "workload_status list \<Rightarrow> workload_status \<Rightarrow> workload_status list" where
  "replaceStatus statuses updatedStatus =
     replace_all_or_append (\<lambda>s. ws_Name s = ws_Name updatedStatus \<and> ws_Namespace s = ws_Namespace updatedStatus \<and>
        ws_Kind s = ws_Kind updatedStatus \<and> ws_Version s = ws_Version updatedStatus) updatedStatus statuses"

definition newStatus :: "apimachinery \<Rightarrow> workload \<Rightarrow> workload_status" where
  "newStatus A wl =
     \<lparr>ws_Kind = gvk_Kind (co_GVK (Object wl)),
      ws_Version = gvIdentifier A (gvk_Group (co_GVK (Object wl))) (gvk_Version (co_GVK (Object wl))),
      ws_Namespace = om_Namespace (co_Meta (Object wl)), ws_Name = om_Name (co_Meta (Object wl)),
      ws_Conditions = []\<rparr>"

section \<open>Conditions\<close>

text \<open>The entry that ends up in the list: the new condition with the instant of its last transition.\<close>

definition stored_condition :: "time \<Rightarrow> condition list \<Rightarrow> condition \<Rightarrow> condition" where
  "stored_condition now conds newC =
     newC\<lparr>cd_LastTransitionTime :=
       (case findCondition conds (cd_Type newC) of
          Some c \<Rightarrow> if cd_Status c = cd_Status newC \<and> cd_LastTransitionTime c \<noteq> None
                    then cd_LastTransitionTime c else Some now
        | None \<Rightarrow> Some now)\<rparr>"

lemma replaceCondition_alt:
  "replaceCondition now conds newC =
     replace_first_or_append (\<lambda>c. cd_Type c = cd_Type (newC\<lparr>cd_LastTransitionTime := Some now\<rparr>))
       (\<lambda>c. if cd_Status c = cd_Status newC \<and> cd_LastTransitionTime c \<noteq> None
             then newC\<lparr>cd_LastTransitionTime := cd_LastTransitionTime c\<rparr>
             else newC\<lparr>cd_LastTransitionTime := Some now\<rparr>)
       (newC\<lparr>cd_LastTransitionTime := Some now\<rparr>) conds"
  by (simp add: replaceCondition_def)

interpretation cond: keyed_upsert cd_Type "replaceCondition now" "stored_condition now" for now
proof
  fix xs :: "condition list" and x :: condition
  let ?x = "x\<lparr>cd_LastTransitionTime := Some now\<rparr>"
  let ?f = "\<lambda>c. if cd_Status c = cd_Status x \<and> cd_LastTransitionTime c \<noteq> None
             then x\<lparr>cd_LastTransitionTime := cd_LastTransitionTime c\<rparr> else ?x"
  have f: "\<And>y. cd_Type y = cd_Type ?x \<Longrightarrow> cd_Type (?f y) = cd_Type y" by simp
  show "map cd_Type (replaceCondition now xs x) =
      (if cd_Type x \<in> cd_Type ` set xs then map cd_Type xs else map cd_Type xs @ [cd_Type x])"
    unfolding replaceCondition_alt using replace_first_keys [where key = cd_Type and x = ?x and f = ?f, OF f] by simp
  show "filter (\<lambda>y. cd_Type y \<noteq> cd_Type x) (replaceCondition now xs x) = filter (\<lambda>y. cd_Type y \<noteq> cd_Type x) xs"
    unfolding replaceCondition_alt using replace_first_others [where key = cd_Type and x = ?x and f = ?f, OF f] by simp
  show "find (\<lambda>y. cd_Type y = cd_Type x) (replaceCondition now xs x) = Some (stored_condition now xs x)"
    unfolding replaceCondition_alt
    using replace_first_find [where key = cd_Type and x = ?x and f = ?f and xs = xs, OF f]
    by (simp add: stored_condition_def findCondition_def split: option.split)
qed

text \<open>
  C20: conditions are replaced by type. After \<open>replaceCondition\<close>, looking up the type of the new
  condition gives it, with the recorded instant of the last transition if the status is the same and an instant was
  recorded, and with the current instant otherwise; looking up any other type gives what it gave before;
  and the types in the list are the same, or the new one is appended.
\<close>

theorem replaceCondition_lookup:
  "findCondition (replaceCondition now conds newC) name =
     (if name = cd_Type newC then Some (stored_condition now conds newC) else findCondition conds name) \<and>
   map cd_Type (replaceCondition now conds newC) =
     (if findCondition conds (cd_Type newC) = None then map cd_Type conds @ [cd_Type newC] else map cd_Type conds)"
proof -
  have "find (\<lambda>c. cd_Type c = name) xs = find (\<lambda>c. cd_Type c = name) (filter (\<lambda>c. cd_Type c \<noteq> cd_Type newC) xs)"
    if "name \<noteq> cd_Type newC" for xs
    using that by (induction xs) auto
  then have "name \<noteq> cd_Type newC \<Longrightarrow> findCondition (replaceCondition now conds newC) name = findCondition conds name"
    unfolding findCondition_def by (metis cond.ups_others)
  moreover have "findCondition conds (cd_Type newC) = None \<longleftrightarrow> cd_Type newC \<notin> cd_Type ` set conds"
    by (auto simp: findCondition_def find_None_iff image_iff)
  ultimately show ?thesis
    using cond.ups_find [of newC now conds] cond.ups_keys [of now conds newC] by (auto simp: findCondition_def)
qed

section \<open>Workload statuses\<close>

text \<open>The identity of a workload in the list of statuses.\<close>

definition ws_key :: "workload_status \<Rightarrow> string \<times> string \<times> string \<times> string" where
  "ws_key s = (ws_Name s, ws_Namespace s, ws_Kind s, ws_Version s)"

lemma replaceStatus_key:
  "replaceStatus statuses s = replace_all_or_append (\<lambda>y. ws_key y = ws_key s) s statuses"
  by (simp add: replaceStatus_def ws_key_def)

interpretation wst: keyed_upsert ws_key replaceStatus "\<lambda>_ x. x"
  unfolding replaceStatus_key by (rule keyed_upsert_replace_all)

definition findStatus :: "workload_status list \<Rightarrow> workload_status \<Rightarrow> workload_status option" where
  "findStatus statuses s = find (\<lambda>y. ws_key y = ws_key s) statuses"

text \<open>
  Statuses are replaced by workload. After \<open>replaceStatus\<close>, the workload's entry is the new one,
  the entries of other workloads are unchanged and in order, and a list with one entry per workload
  keeps that property.
\<close>

theorem replaceStatus_lookup:
  "findStatus (replaceStatus statuses s) s = Some s \<and>
   filter (\<lambda>y. ws_key y \<noteq> ws_key s) (replaceStatus statuses s) = filter (\<lambda>y. ws_key y \<noteq> ws_key s) statuses \<and>
   distinct (map ws_key (replaceStatus statuses s)) = distinct (map ws_key statuses)"
proof -
  have "distinct (map ws_key (replaceStatus statuses s)) = distinct (map ws_key statuses)"
    by (auto simp: wst.ups_keys)
  then show ?thesis using wst.ups_find [of s statuses] wst.ups_others [of s statuses] by (simp add: findStatus_def)
qed

end
