(* ===== verification/Reconciler.thy ===== *)
theory Reconciler
  imports Status
begin

text \<open>
  The reconcile loop of the \<open>AuthProxyWorkload\<close> controller
  (\<open>internal/controller/authproxyworkload_controller.go\<close>). The Kubernetes API is an argument: a record
  of the client's operations on an abstract cluster state \<open>'w\<close> and of the library functions on
  finalizers. Every method returns the new cluster state. The clock is the argument \<open>now\<close>; its
  \<open>i\<close>-th value is read by the \<open>i\<close>-th call of \<open>replaceCondition\<close>.
\<close>

section \<open>The interface to the cluster\<close>

text \<open>
  \<open>cl_Get\<close> loads a resource by name, \<open>cl_Update\<close> writes one, \<open>cl_StatusPatch w resource orig\<close> patches its
  status with the difference from \<open>orig\<close>. \<open>cl_GetWorkload\<close> loads a workload into an empty object of
  its kind, and gives the object and the error; \<open>cl_ListWorkloads\<close> fills a list for a namespace and a selector.
  \<open>cl_isNotFound\<close> is \<open>errors.IsNotFound\<close>; the last three are the functions of \<open>controllerutil\<close>.
\<close>

record 'w cluster_api =
  cl_Get :: "'w \<Rightarrow> namespaced_name \<Rightarrow> api_error + auth_proxy_workload"
  cl_Update :: "'w \<Rightarrow> auth_proxy_workload \<Rightarrow> 'w \<times> api_error option"
  cl_StatusPatch :: "'w \<Rightarrow> auth_proxy_workload \<Rightarrow> auth_proxy_workload \<Rightarrow> 'w \<times> api_error option"
  cl_GetWorkload :: "'w \<Rightarrow> workload \<Rightarrow> namespaced_name \<Rightarrow> workload \<times> api_error option"
  cl_ListWorkloads :: "'w \<Rightarrow> workload_list \<Rightarrow> string \<Rightarrow> selector \<Rightarrow> api_error + workload_list"
  cl_isNotFound :: "api_error \<Rightarrow> bool"
  containsFinalizer :: "auth_proxy_workload \<Rightarrow> string \<Rightarrow> bool"
  addFinalizer :: "auth_proxy_workload \<Rightarrow> string \<Rightarrow> auth_proxy_workload"
  removeFinalizer :: "auth_proxy_workload \<Rightarrow> string \<Rightarrow> auth_proxy_workload"

text \<open>The errors that the methods of the reconciler return, with the wrapped error.\<close>

datatype reconcile_error =
    ClientError api_error
  | LibraryError go_error
  | UnableToLoadByName namespaced_name go_error
  | UnableToLoadResource namespaced_name api_error

section \<open>Data\<close>

definition finalizerName :: string where
  "finalizerName = AnnotationPrefix @ ''/AuthProxyWorkload-finalizer''"

record ctrl_result =
  Requeue :: bool
  RequeueAfter :: i64

definition no_requeue :: ctrl_result where
  "no_requeue = \<lparr>Requeue = False, RequeueAfter = 0\<rparr>"

definition requeueNow :: ctrl_result where
  "requeueNow = \<lparr>Requeue = True, RequeueAfter = 0\<rparr>"

text \<open>30 seconds, as a \<open>time.Duration\<close> in nanoseconds.\<close>

definition requeueWithDelay :: ctrl_result where
  "requeueWithDelay = \<lparr>Requeue = True, RequeueAfter = 30 * 1000000000\<rparr>"

text \<open>\<open>recentlyDeletedCache\<close>: the lock makes each operation atomic, and a nil map reads like an empty one.\<close>

type_synonym recently_deleted_cache = "namespaced_name \<rightharpoonup> bool"

definition cache_set :: "recently_deleted_cache \<Rightarrow> namespaced_name \<Rightarrow> bool \<Rightarrow> recently_deleted_cache" where
  "cache_set c k deleted = c(k \<mapsto> deleted)"

definition cache_get :: "recently_deleted_cache \<Rightarrow> namespaced_name \<Rightarrow> bool" where
  "cache_get c k = (case c k of None \<Rightarrow> False | Some deleted \<Rightarrow> deleted)"

section \<open>Loading the workloads of a resource\<close>

definition loadByName ::
    "'w cluster_api \<Rightarrow> apimachinery \<Rightarrow> 'w \<Rightarrow> workload_selector_spec \<Rightarrow> string \<Rightarrow> reconcile_error + workload list" where
  "loadByName K A w workloadSelector ns =
     (let key = \<lparr>nn_Namespace = ns, nn_Name = wss_Name workloadSelector\<rparr> in
      case WorkloadForKind A (wss_Kind workloadSelector) of
        Inl err \<Rightarrow> Inl (UnableToLoadByName key err)
      | Inr z \<Rightarrow>
          (case cl_GetWorkload K w z key of
             (wl, None) \<Rightarrow> Inr [wl]
           | (wl, Some err) \<Rightarrow> if cl_isNotFound K err then Inr [] else Inl (UnableToLoadResource key err)))"

definition loadByLabelSelector ::
    "'w cluster_api \<Rightarrow> apimachinery \<Rightarrow> 'w \<Rightarrow> workload_selector_spec \<Rightarrow> string \<Rightarrow> reconcile_error + workload list" where
  "loadByLabelSelector K A w workloadSelector ns =
     (case LabelsSelector A workloadSelector of
        Inl err \<Rightarrow> Inl (LibraryError err)
      | Inr sel \<Rightarrow>
          (case WorkloadListForKind (parseKindArg A (wss_Kind workloadSelector)) of
             Inl err \<Rightarrow> Inl (LibraryError err)
           | Inr wl \<Rightarrow>
               (case cl_ListWorkloads K w wl ns sel of
                  Inl err \<Rightarrow> Inl (ClientError err)
                | Inr filled \<Rightarrow> Inr (Workloads filled))))"

definition listWorkloads ::
    "'w cluster_api \<Rightarrow> apimachinery \<Rightarrow> 'w \<Rightarrow> workload_selector_spec \<Rightarrow> string \<Rightarrow> reconcile_error + workload list" where
  "listWorkloads K A w workloadSelector ns =
     (if wss_Name workloadSelector \<noteq> [] then loadByName K A w workloadSelector ns
      else loadByLabelSelector K A w workloadSelector ns)"

section \<open>Updating the status\<close>

text \<open>The loop of \<open>updateWorkloadStatus\<close> over the matching workloads, on the list of statuses; \<open>i\<close> counts
  the readings of the clock.\<close>

fun update_statuses ::
    "apimachinery \<Rightarrow> (nat \<Rightarrow> time) \<Rightarrow> nat \<Rightarrow> i64 \<Rightarrow> workload list \<Rightarrow> workload_status list \<Rightarrow> workload_status list" where
  "update_statuses A now i gen [] statuses = statuses"
| "update_statuses A now i gen (wl # wls) statuses =
     (let s = newStatus A wl;
          s1 = s\<lparr>ws_Conditions := replaceCondition (now i) (ws_Conditions s)
                 \<lparr>cd_Type = ConditionWorkloadUpToDate, cd_Status = ConditionTrue, cd_ObservedGeneration = gen,
                  cd_LastTransitionTime = None, cd_Reason = ReasonUpToDate,
                  cd_Message = ''No update needed for this workload''\<rparr>\<rparr>
      in update_statuses A now (Suc i) gen wls (replaceStatus statuses s1))"

definition updateWorkloadStatus ::
    "'w cluster_api \<Rightarrow> apimachinery \<Rightarrow> (nat \<Rightarrow> time) \<Rightarrow> 'w \<Rightarrow> auth_proxy_workload \<Rightarrow>
     reconcile_error + workload list \<times> auth_proxy_workload" where
  "updateWorkloadStatus K A now w resource =
     (case listWorkloads K A w (aps_Workload (apw_Spec resource)) (apw_Namespace resource) of
        Inl err \<Rightarrow> Inl err
      | Inr matching \<Rightarrow>
          Inr (matching, resource\<lparr>apw_Status := (apw_Status resource)\<lparr>st_WorkloadStatus :=
             update_statuses A now 0 (om_Generation (apw_Meta resource)) matching
               (st_WorkloadStatus (apw_Status resource))\<rparr>\<rparr>))"

definition patchAuthProxyWorkloadStatus ::
    "'w cluster_api \<Rightarrow> 'w \<Rightarrow> auth_proxy_workload \<Rightarrow> auth_proxy_workload \<Rightarrow> 'w \<times> api_error option" where
  "patchAuthProxyWorkloadStatus K w resource orig =
     (case cl_StatusPatch K w resource orig of
        (w1, Some err) \<Rightarrow> (w1, Some err)
      | (w1, None) \<Rightarrow>
          (case cl_Get K w1 \<lparr>nn_Namespace = apw_Namespace resource, nn_Name = apw_Name resource\<rparr> of
             Inl err \<Rightarrow> (w1, Some err)
           | Inr _ \<Rightarrow> (w1, None)))"

text \<open>The resource that \<open>reconcileResult\<close> hands to the patch.\<close>

definition up_to_date_resource :: "time \<Rightarrow> auth_proxy_workload \<Rightarrow> string \<Rightarrow> string \<Rightarrow> auth_proxy_workload" where
  "up_to_date_resource now resource reason message =
     resource\<lparr>apw_Status := (apw_Status resource)\<lparr>st_Conditions :=
       replaceCondition now (st_Conditions (apw_Status resource))
         \<lparr>cd_Type = ConditionUpToDate, cd_Status = ConditionTrue,
          cd_ObservedGeneration = om_Generation (apw_Meta resource), cd_LastTransitionTime = None,
          cd_Reason = reason, cd_Message = message\<rparr>\<rparr>\<rparr>"

definition reconcileResult ::
    "'w cluster_api \<Rightarrow> time \<Rightarrow> 'w \<Rightarrow> auth_proxy_workload \<Rightarrow> auth_proxy_workload \<Rightarrow> string \<Rightarrow> string \<Rightarrow>
     'w \<times> ctrl_result \<times> reconcile_error option" where
  "reconcileResult K now w resource orig reason message =
     (case patchAuthProxyWorkloadStatus K w (up_to_date_resource now resource reason message) orig of
        (w1, Some err) \<Rightarrow> (w1, no_requeue, Some (ClientError err))
      | (w1, None) \<Rightarrow> (w1, no_requeue, None))"

section \<open>The state machine\<close>

definition applyFinalizer ::
    "'w cluster_api \<Rightarrow> 'w \<Rightarrow> auth_proxy_workload \<Rightarrow> 'w \<times> ctrl_result \<times> reconcile_error option" where
  "applyFinalizer K w resource =
     (case cl_Update K w (addFinalizer K resource finalizerName) of
        (w1, Some err) \<Rightarrow> (w1, requeueNow, Some (ClientError err))
      | (w1, None) \<Rightarrow> (w1, requeueNow, None))"

definition doCreateUpdate ::
    "'w cluster_api \<Rightarrow> apimachinery \<Rightarrow> (nat \<Rightarrow> time) \<Rightarrow> 'w \<Rightarrow> auth_proxy_workload \<Rightarrow>
     'w \<times> ctrl_result \<times> reconcile_error option" where
  "doCreateUpdate K A now w resource =
     (let orig = resource in
      if \<not> containsFinalizer K resource finalizerName then applyFinalizer K w resource
      else case updateWorkloadStatus K A now w resource of
             Inl err \<Rightarrow> (w, requeueWithDelay, Some err)
           | Inr (allWorkloads, resource1) \<Rightarrow>
               if length allWorkloads = 0
               then reconcileResult K (now (length allWorkloads)) w resource1 orig ReasonNoWorkloadsFound
                      ''No workload updates needed''
               else reconcileResult K (now (length allWorkloads)) w resource1 orig ReasonFinishedReconcile
                      (''Reconciled '' @ fmt_d (int (length allWorkloads)) @ '' matching workloads complete''))"

definition doDelete ::
    "'w cluster_api \<Rightarrow> apimachinery \<Rightarrow> (nat \<Rightarrow> time) \<Rightarrow> 'w \<Rightarrow> auth_proxy_workload \<Rightarrow>
     'w \<times> ctrl_result \<times> reconcile_error option" where
  "doDelete K A now w resource =
     (case updateWorkloadStatus K A now w resource of
        Inl err \<Rightarrow> (w, requeueNow, Some err)
      | Inr (_, resource1) \<Rightarrow>
          if containsFinalizer K resource1 finalizerName
          then (case cl_Update K w (removeFinalizer K resource1 finalizerName) of
                  (w1, Some err) \<Rightarrow> (w1, no_requeue, Some (ClientError err))
                | (w1, None) \<Rightarrow> (w1, no_requeue, None))
          else (w, no_requeue, None))"

definition Reconcile ::
    "'w cluster_api \<Rightarrow> apimachinery \<Rightarrow> (nat \<Rightarrow> time) \<Rightarrow> recently_deleted_cache \<Rightarrow> 'w \<Rightarrow> namespaced_name \<Rightarrow>
     recently_deleted_cache \<times> 'w \<times> ctrl_result \<times> reconcile_error option" where
  "Reconcile K A now c w req =
     (case cl_Get K w req of
        Inl err \<Rightarrow>
          if cache_get c req then (c, w, no_requeue, None)
          else (c, w, requeueWithDelay, Some (ClientError err))
      | Inr resource \<Rightarrow>
          if om_DeletionTimestamp (apw_Meta resource) \<noteq> None
          then (cache_set c req True, doDelete K A now w resource)
          else (cache_set c req False, doCreateUpdate K A now w resource))"

section \<open>An example cluster\<close>

text \<open>A store of resources and a fixed list of pods, without failures, for the witnesses. Like the API
  server, an update keeps the stored status and a status patch keeps everything else, and a resource that is
  being deleted disappears with its last finalizer.\<close>

type_synonym store = "namespaced_name \<rightharpoonup> auth_proxy_workload"

definition set_finalizers :: "auth_proxy_workload \<Rightarrow> string list \<Rightarrow> auth_proxy_workload" where
  "set_finalizers r fs = r\<lparr>apw_Meta := (apw_Meta r)\<lparr>om_Finalizers := fs\<rparr>\<rparr>"

definition example_cluster :: "pod list \<Rightarrow> store cluster_api" where
  "example_cluster pods =
     \<lparr>cl_Get = (\<lambda>w k. case w k of None \<Rightarrow> Inl not_found | Some r \<Rightarrow> Inr r),
      cl_Update = (\<lambda>w r. case w (apw_key r) of
          None \<Rightarrow> (w, Some not_found)
        | Some old \<Rightarrow>
            (if om_DeletionTimestamp (apw_Meta r) \<noteq> None \<and> om_Finalizers (apw_Meta r) = []
             then w(apw_key r := None) else w(apw_key r \<mapsto> r\<lparr>apw_Status := apw_Status old\<rparr>), None)),
      cl_StatusPatch = (\<lambda>w r orig. case w (apw_key r) of
          None \<Rightarrow> (w, Some not_found)
        | Some old \<Rightarrow> (w(apw_key r \<mapsto> old\<lparr>apw_Status := apw_Status r\<rparr>), None)),
      cl_GetWorkload = (\<lambda>w z k. (z, Some not_found)),
      cl_ListWorkloads = (\<lambda>w l ns sel. Inr (case l of
          PodList _ \<Rightarrow> PodList (filter (\<lambda>p. om_Namespace (pod_Meta p) = ns) pods) | _ \<Rightarrow> l)),
      cl_isNotFound = (\<lambda>e. e = not_found),
      containsFinalizer = (\<lambda>r n. n \<in> set (om_Finalizers (apw_Meta r))),
      addFinalizer = (\<lambda>r n. if n \<in> set (om_Finalizers (apw_Meta r)) then r
                            else set_finalizers r (om_Finalizers (apw_Meta r) @ [n])),
      removeFinalizer = (\<lambda>r n. set_finalizers r (filter (\<lambda>f. f \<noteq> n) (om_Finalizers (apw_Meta r))))\<rparr>"

end
