(* ===== verification/Setup.thy ===== *)
theory Setup
  imports Pod_Webhook Reconciler
begin

text \<open>
  Start-up (\<open>internal/controller/setup.go\<close>, \<open>SetupWithManager\<close> in \<open>authproxyworkload_controller.go\<close>, \<open>SetupWebhookWithManager\<close>
  in \<open>authproxyworkload_webhook.go\<close>): the two controllers and the webhook of the resource are registered with the
  manager of controller-runtime, one after the other. The manager is an abstract state with the library's operations as
  parameters.
\<close>

section \<open>Definitions\<close>

record auth_proxy_workload_reconciler =
  recentlyDeleted :: recently_deleted_cache
  rc_updater :: updater

text \<open>
  \<open>mg_completeController\<close> is \<open>NewControllerManagedBy(mgr).For(...).Complete(r)\<close>, \<open>mg_completeWebhook\<close> is
  \<open>NewWebhookManagedBy(mgr).For(r).Complete()\<close>, \<open>mg_register\<close> is \<open>GetWebhookServer().Register\<close> of a pod webhook with the
  given updater.
\<close>

record 'm manager_api =
  mg_completeController :: "'m \<Rightarrow> auth_proxy_workload_reconciler \<Rightarrow> 'm \<times> go_error option"
  mg_completeWebhook :: "'m \<Rightarrow> 'm \<times> go_error option"
  mg_register :: "'m \<Rightarrow> string \<Rightarrow> updater \<Rightarrow> 'm"

definition SetupWithManager ::
    "'m manager_api \<Rightarrow> 'm \<Rightarrow> auth_proxy_workload_reconciler \<Rightarrow> 'm \<times> go_error option" where
  "SetupWithManager G mgr r = mg_completeController G mgr r"

definition NewAuthProxyWorkloadReconciler ::
    "'m manager_api \<Rightarrow> 'm \<Rightarrow> updater \<Rightarrow> 'm \<times> auth_proxy_workload_reconciler \<times> go_error option" where
  "NewAuthProxyWorkloadReconciler G mgr u =
     (let r = \<lparr>recentlyDeleted = Map.empty, rc_updater = u\<rparr>;
          (mgr1, err) = SetupWithManager G mgr r
      in (mgr1, r, err))"

definition SetupWebhookWithManager :: "'m manager_api \<Rightarrow> 'm \<Rightarrow> 'm \<times> go_error option" where
  "SetupWebhookWithManager G mgr = mg_completeWebhook G mgr"

definition RegisterPodWebhook :: "'m manager_api \<Rightarrow> 'm \<Rightarrow> updater \<Rightarrow> 'm \<times> go_error option" where
  "RegisterPodWebhook G mgr u = (mg_register G mgr ''/mutate-pods'' u, None)"

definition SetupManagers :: "'m manager_api \<Rightarrow> 'm \<Rightarrow> string \<Rightarrow> 'm \<times> go_error option" where
  "SetupManagers G mgr ua =
     (let u = NewUpdater ua in
      case NewAuthProxyWorkloadReconciler G mgr u of
        (mgr1, _, Some err) \<Rightarrow> (mgr1, Some err)
      | (mgr1, _, None) \<Rightarrow>
          (case SetupWebhookWithManager G mgr1 of
             (mgr2, Some err) \<Rightarrow> (mgr2, Some err)
           | (mgr2, None) \<Rightarrow>
               (case RegisterPodWebhook G mgr2 u of
                  (mgr3, Some err) \<Rightarrow> (mgr3, Some err)
                | (mgr3, None) \<Rightarrow> (mgr3, None))))"

section \<open>What start-up guarantees\<close>

text \<open>Start-up succeeds exactly if both registrations succeed; then the reconciler starts with an empty cache, the pod
  webhook is registered under its path, and both share the updater for the given user agent. After a failure nothing
  further is registered.\<close>

lemma SetupManagers_iff:
  "SetupManagers G mgr ua = (mgr', None) \<longleftrightarrow>
     (\<exists>mgr1 mgr2. mg_completeController G mgr \<lparr>recentlyDeleted = Map.empty, rc_updater = NewUpdater ua\<rparr> = (mgr1, None) \<and>
        mg_completeWebhook G mgr1 = (mgr2, None) \<and> mgr' = mg_register G mgr2 ''/mutate-pods'' (NewUpdater ua))"
  by (auto simp: SetupManagers_def NewAuthProxyWorkloadReconciler_def SetupWithManager_def
      SetupWebhookWithManager_def RegisterPodWebhook_def Let_def split: prod.splits option.splits)

text \<open>The cache with which the reconciler starts is the one with which every run starts: no missing resource is
  taken for a deleted one.\<close>

lemma NewAuthProxyWorkloadReconciler_cache:
  "NewAuthProxyWorkloadReconciler G mgr u = (mgr', r, err) \<Longrightarrow> \<not> cache_get (recentlyDeleted r) k"
  by (auto simp: NewAuthProxyWorkloadReconciler_def cache_get_def Let_def split: prod.splits)

end
