(* ===== verification/Test_Retry.thy ===== *)
theory Test_Retry
  imports K8s_Types
begin

text \<open>
  \<open>RetryUntilSuccess\<close> of \<open>internal/testhelpers/helpers.go\<close>, on which all waiting of the test helpers rests. The function it
  retries is a closure: a function on a state \<open>'s\<close> that holds the cluster and the captured variables. \<open>sleep\<close> is what
  happens to that state during one pause. Errors that wrap others are values instead of texts.
\<close>

section \<open>Definitions\<close>

datatype test_error =
    ApiError api_error
  | LibError go_error
  | Message string
  | Wrapped string test_error
  | AfterAttempts int "test_error option"

text \<open>The loop at its \<open>i\<close>-th round, with \<open>n\<close> rounds left and the last error.\<close>

fun retry_loop ::
    "('s \<Rightarrow> 's) \<Rightarrow> ('s \<Rightarrow> test_error option \<times> 's) \<Rightarrow> nat \<Rightarrow> nat \<Rightarrow> test_error option \<Rightarrow> 's \<Rightarrow>
     (unit + test_error option) \<times> 's" where
  "retry_loop sleep f i 0 err s = (Inr err, s)"
| "retry_loop sleep f i (Suc n) err s =
     (let s1 = (if i > 0 then sleep s else s) in
      case f s1 of
        (None, s2) \<Rightarrow> (Inl (), s2)
      | (Some e, s2) \<Rightarrow> retry_loop sleep f (Suc i) n (Some e) s2)"

definition RetryUntilSuccess ::
    "int \<Rightarrow> ('s \<Rightarrow> 's) \<Rightarrow> ('s \<Rightarrow> test_error option \<times> 's) \<Rightarrow> 's \<Rightarrow> test_error option \<times> 's" where
  "RetryUntilSuccess attempts sleep f s =
     (case retry_loop sleep f 0 (nat attempts) None s of
        (Inl _, s') \<Rightarrow> (None, s')
      | (Inr err, s') \<Rightarrow> (Some (AfterAttempts attempts err), s'))"

section \<open>The attempts as a sequence\<close>

text \<open>The state before the \<open>k\<close>-th attempt, if all attempts before it fail: attempts and pauses alternate.\<close>

fun before_attempt :: "('s \<Rightarrow> 's) \<Rightarrow> ('s \<Rightarrow> test_error option \<times> 's) \<Rightarrow> 's \<Rightarrow> nat \<Rightarrow> 's" where
  "before_attempt sleep f s 0 = s"
| "before_attempt sleep f s (Suc k) = sleep (snd (f (before_attempt sleep f s k)))"

definition attempt_fails :: "('s \<Rightarrow> 's) \<Rightarrow> ('s \<Rightarrow> test_error option \<times> 's) \<Rightarrow> 's \<Rightarrow> nat \<Rightarrow> bool" where
  "attempt_fails sleep f s k \<longleftrightarrow> fst (f (before_attempt sleep f s k)) \<noteq> None"

text \<open>The specification: the first attempt below \<open>n\<close> that succeeds ends the loop; without one, the last error is returned.\<close>

definition first_success :: "('s \<Rightarrow> 's) \<Rightarrow> ('s \<Rightarrow> test_error option \<times> 's) \<Rightarrow> 's \<Rightarrow> nat \<Rightarrow> nat option" where
  "first_success sleep f s n = find (\<lambda>k. \<not> attempt_fails sleep f s k) [0..<n]"

lemma retry_loop_tail:
  assumes "\<forall>j\<le>i. attempt_fails sleep f s j"
  shows "retry_loop sleep f (Suc i) n (fst (f (before_attempt sleep f s i))) (snd (f (before_attempt sleep f s i))) =
    (case find (\<lambda>k. \<not> attempt_fails sleep f s k) [Suc i..<Suc i + n] of
       Some k \<Rightarrow> (Inl (), snd (f (before_attempt sleep f s k)))
     | None \<Rightarrow> (Inr (fst (f (before_attempt sleep f s (i + n)))), snd (f (before_attempt sleep f s (i + n)))))"
  using assms
proof (induction n arbitrary: i)
  case (Suc n)
  obtain e s' where e: "f (before_attempt sleep f s (Suc i)) = (e, s')" by (cases "f (before_attempt sleep f s (Suc i))")
  have split: "[Suc i..<Suc i + Suc n] = Suc i # [Suc (Suc i)..<Suc (Suc i) + n]" by (simp add: upt_rec)
  show ?case
  proof (cases e)
    case None
    then show ?thesis using e unfolding split by (simp add: attempt_fails_def)
  next
    case (Some err)
    then have fails: "attempt_fails sleep f s (Suc i)" using e by (simp add: attempt_fails_def)
    then have "\<forall>j\<le>Suc i. attempt_fails sleep f s j" using Suc.prems by (simp add: le_Suc_eq)
    from Suc.IH [OF this] show ?thesis
      using e Some fails unfolding split by (simp del: upt_Suc split: option.split)
  qed
qed simp

lemma retry_loop_eq:
  "retry_loop sleep f 0 n None s =
    (case first_success sleep f s n of
       Some k \<Rightarrow> (Inl (), snd (f (before_attempt sleep f s k)))
     | None \<Rightarrow> if n = 0 then (Inr None, s)
               else (Inr (fst (f (before_attempt sleep f s (n - 1)))), snd (f (before_attempt sleep f s (n - 1)))))"
proof (cases n)
  case (Suc m)
  obtain e s' where e: "f s = (e, s')" by (cases "f s")
  have split: "[0..<Suc m] = 0 # [Suc 0..<Suc 0 + m]" by (simp add: upt_rec)
  show ?thesis
  proof (cases e)
    case None
    then show ?thesis using e Suc unfolding first_success_def Suc split by (simp add: attempt_fails_def)
  next
    case (Some err)
    then have "\<forall>j\<le>0. attempt_fails sleep f s j" using e by (simp add: attempt_fails_def)
    from retry_loop_tail [OF this, of m] Some e show ?thesis
      unfolding first_success_def Suc split by (simp add: attempt_fails_def del: upt_Suc split: option.split)
  qed
qed (simp add: first_success_def)

lemma first_success_Some_iff:
  "first_success sleep f s n = Some k \<longleftrightarrow> k < n \<and> \<not> attempt_fails sleep f s k \<and> (\<forall>j<k. attempt_fails sleep f s j)"
  unfolding first_success_def find_Some_iff by (auto simp: less_imp_le)

lemma first_success_None_iff: "first_success sleep f s n = None \<longleftrightarrow> (\<forall>k<n. attempt_fails sleep f s k)"
  by (auto simp: first_success_def find_None_iff)

text \<open>
  C22: \<open>RetryUntilSuccess\<close> calls the function once, then again after each pause while it fails, at most \<open>attempts\<close> times in all. It
  returns nil exactly if one of these calls succeeds, right after the first such call, and else the error of the last call;
  for \<open>attempts \<le> 0\<close> it makes no call and returns an error all the same.
\<close>

theorem RetryUntilSuccess_spec:
  "RetryUntilSuccess attempts sleep f s =
     (case first_success sleep f s (nat attempts) of
        Some k \<Rightarrow> (None, snd (f (before_attempt sleep f s k)))
      | None \<Rightarrow>
          if attempts \<le> 0 then (Some (AfterAttempts attempts None), s)
          else let (e, s') = f (before_attempt sleep f s (nat attempts - 1)) in (Some (AfterAttempts attempts e), s'))"
  by (auto simp: RetryUntilSuccess_def retry_loop_eq Let_def split: option.split prod.split)

text \<open>The contract of a function that waits for a condition: when it succeeds, the condition holds of the state it leaves.\<close>

locale wait_for =
  fixes check :: "'s \<Rightarrow> test_error option \<times> 's" and reached :: "'s \<Rightarrow> bool"
  assumes check_ok: "check s = (None, s') \<Longrightarrow> reached s'"
begin

lemma retry_reached:
  assumes "RetryUntilSuccess attempts sleep check s = (None, s')"
  shows "reached s'"
proof -
  from assms obtain k where "first_success sleep check s (nat attempts) = Some k" "s' = snd (check (before_attempt sleep check s k))"
    by (auto simp: RetryUntilSuccess_def retry_loop_eq split: option.splits if_splits)
  then show ?thesis using check_ok by (auto simp: first_success_Some_iff attempt_fails_def prod_eq_iff)
qed

end

text \<open>Enough attempts give success: the condition only has to hold at one of them.\<close>

lemma retry_succeeds:
  assumes "k < nat attempts" and "fst (f (before_attempt sleep f s k)) = None"
  shows "\<exists>s'. RetryUntilSuccess attempts sleep f s = (None, s')"
proof -
  have "first_success sleep f s (nat attempts) \<noteq> None" using assms by (auto simp: first_success_None_iff attempt_fails_def)
  then show ?thesis by (auto simp: RetryUntilSuccess_spec split: option.split)
qed

lemma retry_fails_iff:
  "fst (RetryUntilSuccess attempts sleep f s) \<noteq> None \<longleftrightarrow> (\<forall>k < nat attempts. attempt_fails sleep f s k)"
  by (auto simp: RetryUntilSuccess_spec Let_def simp flip: first_success_None_iff split: option.split prod.split)

end
