(* ===== verification/Entry_Points.thy ===== *)
theory Entry_Points
  imports Setup Test_Retry
begin

text \<open>
  The two programs that start the operator: \<open>main.go\<close>, with its command line and the scheme (\<open>InitScheme\<close> in \<open>setup.go\<close>,
  \<open>groupversion_info.go\<close>), and the environment of the integration tests (\<open>internal/testintegration/setup.go\<close>). The
  libraries they call are arguments. The command line follows package \<open>flag\<close> of Go; flags that libraries
  add to it are an argument too. A panic is \<open>None\<close>.
\<close>

section \<open>The scheme\<close>

record group_version =
  gv_Group :: string
  gv_Version :: string

definition GroupVersion :: group_version where
  "GroupVersion = \<lparr>gv_Group = ''cloudsql.cloud.google.com'', gv_Version = ''v1alpha1''\<rparr>"

text \<open>The types that \<open>init\<close> of \<open>authproxyworkload_types.go\<close> registers with \<open>SchemeBuilder\<close>.\<close>

definition registered_types :: "string list" where
  "registered_types = [''AuthProxyWorkload'', ''AuthProxyWorkloadList'']"

text \<open>\<open>sc_addKubernetes\<close> is \<open>AddToScheme\<close> of client-go, \<open>sc_addTypes\<close> that of a builder of controller-runtime. \<open>sc_Must\<close> tells
  whether \<open>utilruntime.Must\<close> returns for an error value; otherwise it panics.\<close>

record 's scheme_api =
  sc_addKubernetes :: "'s \<Rightarrow> 's \<times> go_error option"
  sc_addTypes :: "'s \<Rightarrow> group_version \<Rightarrow> string list \<Rightarrow> 's \<times> go_error option"
  sc_Must :: "go_error option \<Rightarrow> bool"

definition AddToScheme :: "'s scheme_api \<Rightarrow> 's \<Rightarrow> 's \<times> go_error option" where
  "AddToScheme S s = sc_addTypes S s GroupVersion registered_types"

definition Must :: "'s scheme_api \<Rightarrow> 's \<times> go_error option \<Rightarrow> 's option" where
  "Must S r = (if sc_Must S (snd r) then Some (fst r) else None)"

definition InitScheme :: "'s scheme_api \<Rightarrow> 's \<Rightarrow> 's option" where
  "InitScheme S s = do { s1 \<leftarrow> Must S (sc_addKubernetes S s); Must S (AddToScheme S s1) }"

section \<open>The command line\<close>

record main_flags =
  metricsAddr :: string
  enableLeaderElection :: bool
  probeAddr :: string

definition default_flags :: main_flags where
  "default_flags = \<lparr>metricsAddr = '':8080'', enableLeaderElection = False, probeAddr = '':8081''\<rparr>"

text \<open>The flags of libraries: for each name whether it is a boolean flag, and whether it accepts a value.\<close>

record other_flags =
  of_isBool :: "string \<Rightarrow> bool option"
  of_accepts :: "string \<Rightarrow> string \<Rightarrow> bool"

text \<open>\<open>strconv.ParseBool\<close>.\<close>

definition ParseBool :: "string \<Rightarrow> bool option" where
  "ParseBool s =
     (if s \<in> set [''1'', ''t'', ''T'', ''true'', ''TRUE'', ''True''] then Some True
      else if s \<in> set [''0'', ''f'', ''F'', ''false'', ''FALSE'', ''False''] then Some False
      else None)"

definition flag_isBool :: "other_flags \<Rightarrow> string \<Rightarrow> bool option" where
  "flag_isBool lib n =
     (if n = ''metrics-bind-address'' \<or> n = ''health-probe-bind-address'' then Some False
      else if n = ''leader-elect'' then Some True
      else of_isBool lib n)"

definition set_flag :: "other_flags \<Rightarrow> string \<Rightarrow> string \<Rightarrow> main_flags \<Rightarrow> main_flags option" where
  "set_flag lib n v fl =
     (if n = ''metrics-bind-address'' then Some (fl\<lparr>metricsAddr := v\<rparr>)
      else if n = ''health-probe-bind-address'' then Some (fl\<lparr>probeAddr := v\<rparr>)
      else if n = ''leader-elect'' then map_option (\<lambda>b. fl\<lparr>enableLeaderElection := b\<rparr>) (ParseBool v)
      else if of_accepts lib n v then Some fl
      else None)"

text \<open>The name of a flag and the value after the first equals sign, if there is one.\<close>

definition split_flag :: "string \<Rightarrow> string \<times> string option" where
  "split_flag s =
     (case dropWhile (\<lambda>c. c \<noteq> CHR ''='') s of
        [] \<Rightarrow> (s, None)
      | _ # v \<Rightarrow> (takeWhile (\<lambda>c. c \<noteq> CHR ''='') s, Some v))"

text \<open>One argument: not a flag (the end of the flags), the terminator, bad syntax, or a flag.\<close>

datatype arg_shape = NotAFlag | Terminator | BadSyntax | Flag string "string option"

definition shape_of_arg :: "string \<Rightarrow> arg_shape" where
  "shape_of_arg s =
     (if length s < 2 \<or> s ! 0 \<noteq> CHR ''-'' then NotAFlag
      else if s = ''--'' then Terminator
      else let name = drop (if s ! 1 = CHR ''-'' then 2 else 1) s in
        if name = [] \<or> hd name = CHR ''-'' \<or> hd name = CHR ''='' then BadSyntax
        else (case split_flag name of (n, v) \<Rightarrow> Flag n v))"

text \<open>\<open>flag.Parse\<close> on the arguments of the process: the flags, or the exit code with which the process ends.\<close>

fun flag_Parse :: "other_flags \<Rightarrow> string list \<Rightarrow> main_flags \<Rightarrow> nat + main_flags" where
  "flag_Parse lib [] fl = Inr fl"
| "flag_Parse lib (s # args) fl =
     (case shape_of_arg s of
        NotAFlag \<Rightarrow> Inr fl
      | Terminator \<Rightarrow> Inr fl
      | BadSyntax \<Rightarrow> Inl 2
      | Flag n v \<Rightarrow>
          (case flag_isBool lib n of
             None \<Rightarrow> if n = ''help'' \<or> n = ''h'' then Inl 0 else Inl 2
           | Some True \<Rightarrow>
               (case set_flag lib n (case v of None \<Rightarrow> ''true'' | Some x \<Rightarrow> x) fl of
                  None \<Rightarrow> Inl 2
                | Some fl1 \<Rightarrow> flag_Parse lib args fl1)
           | Some False \<Rightarrow>
               (case v of
                  Some x \<Rightarrow> (case set_flag lib n x fl of None \<Rightarrow> Inl 2 | Some fl1 \<Rightarrow> flag_Parse lib args fl1)
                | None \<Rightarrow>
                    (case args of
                       [] \<Rightarrow> Inl 2
                     | x # rest \<Rightarrow> (case set_flag lib n x fl of None \<Rightarrow> Inl 2 | Some fl1 \<Rightarrow> flag_Parse lib rest fl1)))))"

section \<open>The process\<close>

record ctrl_options =
  co_MetricsBindAddress :: string
  co_Port :: int
  co_HealthProbeBindAddress :: string
  co_LeaderElection :: bool
  co_LeaderElectionID :: string

text \<open>\<open>pr_config\<close> tells whether \<open>GetConfigOrDie\<close> finds a configuration; \<open>pr_start\<close> is \<open>mgr.Start\<close>, which
  blocks until the process is told to stop.\<close>

record ('s, 'm) process_api =
  pr_scheme :: "'s scheme_api"
  pr_newScheme :: 's
  pr_flags :: other_flags
  pr_config :: bool
  pr_newManager :: "'s \<Rightarrow> ctrl_options \<Rightarrow> go_error + 'm"
  pr_manager :: "'m manager_api"
  pr_AddHealthzCheck :: "'m \<Rightarrow> string \<Rightarrow> 'm \<times> go_error option"
  pr_AddReadyzCheck :: "'m \<Rightarrow> string \<Rightarrow> 'm \<times> go_error option"
  pr_start :: "'m \<Rightarrow> go_error option"

text \<open>How the process ends: with an exit code, and the manager that was started, if one was.\<close>

record 'm process_end =
  exit_code :: nat
  started :: "'m option"

definition exits :: "nat \<Rightarrow> 'm process_end" where
  "exits n = \<lparr>exit_code = n, started = None\<rparr>"

definition main_options :: "main_flags \<Rightarrow> ctrl_options" where
  "main_options fl =
     \<lparr>co_MetricsBindAddress = metricsAddr fl, co_Port = 9443, co_HealthProbeBindAddress = probeAddr fl,
      co_LeaderElection = enableLeaderElection fl, co_LeaderElectionID = ''76941ffa.cloud.google.com''\<rparr>"

text \<open>\<open>version\<close> is the variable that the linker sets. The functions \<open>init\<close> run before \<open>main\<close>; a panic ends the process with code 2.\<close>

definition user_agent :: "string \<Rightarrow> string" where
  "user_agent version = ''cloud-sql-proxy-operator/'' @ version"

definition main :: "('s, 'm) process_api \<Rightarrow> string \<Rightarrow> string list \<Rightarrow> 'm process_end" where
  "main P version args =
     (case InitScheme (pr_scheme P) (pr_newScheme P) of
        None \<Rightarrow> exits 2
      | Some scheme \<Rightarrow>
          (case flag_Parse (pr_flags P) args default_flags of
             Inl n \<Rightarrow> exits n
           | Inr fl \<Rightarrow>
               if \<not> pr_config P then exits 1
               else (case pr_newManager P scheme (main_options fl) of
                  Inl err \<Rightarrow> exits 1
                | Inr mgr \<Rightarrow>
                    (case SetupManagers (pr_manager P) mgr (user_agent version) of
                       (_, Some err) \<Rightarrow> exits 1
                     | (mgr1, None) \<Rightarrow>
                         (case pr_AddHealthzCheck P mgr1 ''healthz'' of
                            (_, Some err) \<Rightarrow> exits 1
                          | (mgr2, None) \<Rightarrow>
                              (case pr_AddReadyzCheck P mgr2 ''readyz'' of
                                 (_, Some err) \<Rightarrow> exits 1
                               | (mgr3, None) \<Rightarrow>
                                   (case pr_start P mgr3 of
                                      Some err \<Rightarrow> \<lparr>exit_code = 1, started = Some mgr3\<rparr>
                                    | None \<Rightarrow> \<lparr>exit_code = 0, started = Some mgr3\<rparr>)))))))"

section \<open>The environment of the integration tests\<close>

text \<open>
  \<open>'t\<close> is the state of the test environment: the API server and the manager that runs in the background. \<open>en_assets\<close> is the
  environment variable, \<open>en_output\<close> the result of running \<open>setup-envtest\<close>, \<open>en_start\<close> and \<open>en_stop\<close> start and stop the API server, and
  \<open>en_cancel\<close> cancels the context of the manager; \<open>en_newClient\<close> gives whether the client is not nil. \<open>en_background\<close> starts
  the manager, \<open>en_dial\<close> is one attempt to reach the webhook server, and \<open>en_sleep\<close> a pause of one second.
\<close>

record ('s, 'm, 't) env_api =
  en_scheme :: "'s scheme_api"
  en_knownScheme :: 's
  en_assets :: "string option"
  en_output :: "go_error + string"
  en_start :: "string \<Rightarrow> 't \<Rightarrow> go_error option \<times> 't"
  en_stop :: "'t \<Rightarrow> go_error option \<times> 't"
  en_cancel :: "'t \<Rightarrow> 't"
  en_newClient :: "'s \<Rightarrow> go_error + bool"
  en_newManager :: "'s \<Rightarrow> go_error + 'm"
  en_manager :: "'m manager_api"
  en_background :: "'m \<Rightarrow> 't \<Rightarrow> 't"
  en_dial :: "'t \<Rightarrow> test_error option \<times> 't"
  en_sleep :: "'t \<Rightarrow> 't"

text \<open>On an error the code runs \<open>CombinedOutput\<close> for the log and returns the first error in any case.\<close>

definition runSetupEnvtest :: "('s, 'm, 't) env_api \<Rightarrow> go_error + string" where
  "runSetupEnvtest E = (case en_output E of Inl err \<Rightarrow> Inl err | Inr path \<Rightarrow> Inr path)"

text \<open>The function that is returned to the caller. An error of \<open>Stop\<close> is only logged.\<close>

definition teardownFunc :: "('s, 'm, 't) env_api \<Rightarrow> 't \<Rightarrow> 't" where
  "teardownFunc E t =
     (let t1 = en_cancel E t;
          (err, t2) = en_stop E t1
      in t2)"

text \<open>The teardown function, or nil, the error, and the environment. The last step waits for the webhook server. \<open>None\<close> is a panic.\<close>

definition EnvTestSetup ::
    "('s, 'm, 't) env_api \<Rightarrow> 't \<Rightarrow> (('t \<Rightarrow> 't) option \<times> test_error option \<times> 't) option" where
  "EnvTestSetup E t =
     (case (case en_assets E of Some a \<Rightarrow> Inr a | None \<Rightarrow> runSetupEnvtest E) of
        Inl err \<Rightarrow> Some (None, Some (Wrapped ''unable to run setup-envtest'' (LibError err)), t)
      | Inr kubebuilderAssets \<Rightarrow>
          let failed = (\<lambda>teardown err t. Some (teardown, Some (Wrapped ''unable to start kuberenetes envtest'' (LibError err)), t)) in
          case en_start E kubebuilderAssets t of
            (Some err, t1) \<Rightarrow> failed None err t1
          | (None, t1) \<Rightarrow> do {
              s \<leftarrow> InitScheme (en_scheme E) (en_knownScheme E);
              case en_newClient E s of
                Inl err \<Rightarrow> failed (Some (teardownFunc E)) err t1
              | Inr False \<Rightarrow> Some (Some (teardownFunc E), Some (Message ''unable to start kuberenetes envtest <nil>''), t1)
              | Inr True \<Rightarrow>
                  (case en_newManager E s of
                     Inl err \<Rightarrow> failed (Some (teardownFunc E)) err t1
                   | Inr mgr \<Rightarrow>
                       (case SetupManagers (en_manager E) mgr ''cloud-sql-proxy-operator/dev'' of
                          (_, Some err) \<Rightarrow> failed (Some (teardownFunc E)) err t1
                        | (mgr1, None) \<Rightarrow>
                            let (err, t2) = RetryUntilSuccess 10 (en_sleep E) (en_dial E) (en_background E mgr1 t1) in
                            Some (Some (teardownFunc E), None, t2)))
            })"

section \<open>Properties\<close>

text \<open>The arguments that set all flags of the operator; \<open>flag.Parse\<close> reads them back.\<close>

definition print_flags :: "main_flags \<Rightarrow> string list" where
  "print_flags fl =
     [''--metrics-bind-address='' @ metricsAddr fl, ''--health-probe-bind-address='' @ probeAddr fl,
      ''--leader-elect='' @ (if enableLeaderElection fl then ''true'' else ''false'')]"

text \<open>
  C29: the command line is read as it was meant. Whatever addresses are given, and whatever flags
  libraries add under other names, parsing the arguments that set all three flags gives exactly these
  flags, whatever the flags were before.
\<close>

theorem flag_Parse_print_flags: "flag_Parse lib (print_flags fl) fl0 = Inr fl"
proof -
  have shape: "shape_of_arg (''--metrics-bind-address='' @ v) = Flag ''metrics-bind-address'' (Some v)"
    "shape_of_arg (''--health-probe-bind-address='' @ v) = Flag ''health-probe-bind-address'' (Some v)"
    "shape_of_arg (''--leader-elect='' @ v) = Flag ''leader-elect'' (Some v)" for v
    by (simp_all add: shape_of_arg_def split_flag_def)
  show ?thesis
    by (simp add: print_flags_def shape flag_isBool_def set_flag_def ParseBool_def del: append.simps)
qed

text \<open>
  C18: the operator runs completely set up or not at all. If \<open>main\<close> starts the manager, then the command line and the scheme were
  good, both controllers were registered with one updater for the user agent of this version, the pod webhook under
  its path, and both health checks; the exit code is zero exactly if the manager stopped without an error. If the manager is not
  started, the exit code is zero only for the help flag.
\<close>

theorem main_complete_or_fails:
  "case started (main P version args) of
     Some mgr \<Rightarrow>
       \<exists>s fl m0 m1 m2 m3. InitScheme (pr_scheme P) (pr_newScheme P) = Some s \<and>
         flag_Parse (pr_flags P) args default_flags = Inr fl \<and> pr_newManager P s (main_options fl) = Inr m0 \<and>
         mg_completeController (pr_manager P) m0
           \<lparr>recentlyDeleted = Map.empty, rc_updater = NewUpdater (user_agent version)\<rparr> = (m1, None) \<and>
         mg_completeWebhook (pr_manager P) m1 = (m2, None) \<and>
         pr_AddHealthzCheck P (mg_register (pr_manager P) m2 ''/mutate-pods'' (NewUpdater (user_agent version))) ''healthz'' = (m3, None) \<and>
         pr_AddReadyzCheck P m3 ''readyz'' = (mgr, None) \<and>
         (exit_code (main P version args) = 0 \<longleftrightarrow> pr_start P mgr = None)
   | None \<Rightarrow> exit_code (main P version args) = 0 \<longleftrightarrow>
       flag_Parse (pr_flags P) args default_flags = Inl 0 \<and> InitScheme (pr_scheme P) (pr_newScheme P) \<noteq> None"
proof (cases "\<exists>s fl m0 mA m3 mgr. InitScheme (pr_scheme P) (pr_newScheme P) = Some s \<and>
    flag_Parse (pr_flags P) args default_flags = Inr fl \<and> pr_config P \<and> pr_newManager P s (main_options fl) = Inr m0 \<and>
    SetupManagers (pr_manager P) m0 (user_agent version) = (mA, None) \<and>
    pr_AddHealthzCheck P mA ''healthz'' = (m3, None) \<and> pr_AddReadyzCheck P m3 ''readyz'' = (mgr, None)")
  case True
  then obtain s fl m0 mA m3 mgr where c: "InitScheme (pr_scheme P) (pr_newScheme P) = Some s"
    "flag_Parse (pr_flags P) args default_flags = Inr fl" "pr_config P" "pr_newManager P s (main_options fl) = Inr m0"
    "SetupManagers (pr_manager P) m0 (user_agent version) = (mA, None)"
    "pr_AddHealthzCheck P mA ''healthz'' = (m3, None)" "pr_AddReadyzCheck P m3 ''readyz'' = (mgr, None)" by blast
  then have "main P version args = \<lparr>exit_code = (if pr_start P mgr = None then 0 else 1), started = Some mgr\<rparr>"
    by (simp add: main_def split: option.split)
  with c show ?thesis by (auto simp: SetupManagers_iff)
next
  case False
  then have "started (main P version args) = None \<and> (exit_code (main P version args) = 0 \<longleftrightarrow>
      flag_Parse (pr_flags P) args default_flags = Inl 0 \<and> InitScheme (pr_scheme P) (pr_newScheme P) \<noteq> None)"
    by (auto simp: main_def exits_def split: option.split sum.split prod.split)
  then show ?thesis by simp
qed

text \<open>The caller gets a teardown function exactly if the API server was started.\<close>

lemma EnvTestSetup_teardown:
  assumes "EnvTestSetup E t = Some (teardown, err, t')"
  shows "(\<exists>assets t1. (case en_assets E of Some a \<Rightarrow> Inr a | None \<Rightarrow> runSetupEnvtest E) = Inr assets \<and>
       en_start E assets t = (None, t1) \<and> teardown = Some (teardownFunc E)) \<or>
     teardown = None \<and> err \<noteq> None \<and> (t' = t \<or> (\<exists>assets e. en_start E assets t = (Some e, t')))"
  using assms
  by (auto simp: EnvTestSetup_def Let_def split: option.splits sum.splits prod.splits bind_splits bool.splits)

text \<open>
  C40: the environment of the integration tests does not wait for the webhook. Once the managers are set up, \<open>EnvTestSetup\<close> reports
  success even if the webhook server can never be reached: the error of the loop that waits for it is dropped. The caller
  still gets the function that cancels the manager and stops the API server.
\<close>

theorem EnvTestSetup_ignores_readiness:
  assumes "en_assets E = Some assets" and "en_start E assets t = (None, t1)"
    and "InitScheme (en_scheme E) (en_knownScheme E) = Some s" and "en_newClient E s = Inr True"
    and "en_newManager E s = Inr mgr" and "SetupManagers (en_manager E) mgr ''cloud-sql-proxy-operator/dev'' = (mgr1, None)"
    and "\<And>t. fst (en_dial E t) \<noteq> None"
  shows "\<exists>err t2. RetryUntilSuccess 10 (en_sleep E) (en_dial E) (en_background E mgr1 t1) = (Some err, t2) \<and>
     EnvTestSetup E t = Some (Some (\<lambda>t. snd (en_stop E (en_cancel E t))), None, t2)"
proof -
  have "fst (RetryUntilSuccess 10 (en_sleep E) (en_dial E) (en_background E mgr1 t1)) \<noteq> None"
    unfolding retry_fails_iff attempt_fails_def using assms(7) by blast
  then obtain err t2 where r: "RetryUntilSuccess 10 (en_sleep E) (en_dial E) (en_background E mgr1 t1) = (Some err, t2)"
    by (metis option.exhaust prod.collapse)
  have "teardownFunc E = (\<lambda>t. snd (en_stop E (en_cancel E t)))"
    by (simp add: fun_eq_iff teardownFunc_def case_prod_beta)
  with assms(1-6) r show ?thesis by (simp add: EnvTestSetup_def)
qed

definition unreachable_env :: "(unit, unit, nat) env_api" where
  "unreachable_env =
     \<lparr>en_scheme = \<lparr>sc_addKubernetes = (\<lambda>s. (s, None)), sc_addTypes = (\<lambda>s gv ts. (s, None)), sc_Must = (\<lambda>err. err = None)\<rparr>, en_knownScheme = (),
      en_assets = Some ''/assets'', en_output = Inr [], en_start = (\<lambda>_ t. (None, t + 1)), en_stop = (\<lambda>t. (None, t - 1)), en_cancel = id,
      en_newClient = (\<lambda>_. Inr True), en_newManager = (\<lambda>_. Inr ()),
      en_manager = \<lparr>mg_completeController = (\<lambda>m r. (m, None)), mg_completeWebhook = (\<lambda>m. (m, None)), mg_register = (\<lambda>m p u. m)\<rparr>,
      en_background = (\<lambda>_ t. t), en_dial = (\<lambda>t. (Some (Message ''connection refused''), t)), en_sleep = id\<rparr>"

theorem EnvTestSetup_ignores_readiness_witness:
  "\<exists>t2. EnvTestSetup unreachable_env 0 = Some (Some (\<lambda>t. t - 1), None, t2)"
proof -
  have "InitScheme (en_scheme unreachable_env) (en_knownScheme unreachable_env) = Some ()"
    "SetupManagers (en_manager unreachable_env) () ''cloud-sql-proxy-operator/dev'' = ((), None)"
    by (simp_all add: unreachable_env_def InitScheme_def Must_def AddToScheme_def SetupManagers_iff)
  from EnvTestSetup_ignores_readiness [where E = unreachable_env and assets = "''/assets''" and t = 0, OF _ _ this(1) _ _ this(2)]
  show ?thesis by (auto simp: unreachable_env_def)
qed

end
