(* ===== verification/Go_Memory.thy ===== *)
theory Go_Memory
  imports Go_Prelude
begin

text \<open>
  Memory with pointers, for the code whose effect depends on aliasing. A memory is the list of its cells; an address is
  an index into it, \<open>new\<close> and \<open>make\<close> append a cell, and a nil pointer is \<open>None\<close>. A slice that is not nil is a pointer to
  a cell that holds its elements. What a struct in memory stands for is its \<open>view\<close>: the value without pointers, and
  the addresses it is spread over. The locale \<open>deep_copy\<close> is the contract between such a view and a function that copies.
\<close>

named_theorems deep_copy_intros \<open>deep copies of compound types from those of their parts\<close>

section \<open>Cells\<close>

type_synonym addr = nat

definition deref :: "'c list \<Rightarrow> addr \<Rightarrow> 'c option" where
  "deref h a = (if a < length h then Some (h ! a) else None)"

lemma deref_append [simp]: "a < length h \<Longrightarrow> deref (h @ cs) a = deref h a"
  by (simp add: deref_def nth_append)

lemma deref_SomeD: "deref h a = Some c \<Longrightarrow> a < length h"
  by (simp add: deref_def split: if_splits)

lemma deref_update_other [simp]: "b \<noteq> a \<Longrightarrow> deref (h[b := c]) a = deref h a"
  by (simp add: deref_def)

lemma deref_update_same [simp]: "a < length h \<Longrightarrow> deref (h[a := c]) a = Some c"
  by (simp add: deref_def)

section \<open>The contract of a deep copy\<close>

text \<open>
  A view depends on the cells of its footprint only, and these exist. The copy of a struct that has a view returns,
  writes to no cell that was there before, has the same value, and is spread over new cells only.
\<close>

locale deep_copy =
  fixes view :: "'c list \<Rightarrow> 'm \<Rightarrow> ('v \<times> addr list) option"
    and copy :: "'c list \<Rightarrow> 'm \<Rightarrow> ('m \<times> 'c list) option"
  assumes view_frame: "view h m = Some (v, F) \<Longrightarrow> (\<And>a. a \<in> set F \<Longrightarrow> deref h' a = deref h a) \<Longrightarrow> view h' m = Some (v, F)"
    and view_bound: "view h m = Some (v, F) \<Longrightarrow> set F \<subseteq> {..<length h}"
    and copy_view: "view h m = Some (v, F) \<Longrightarrow>
       \<exists>m' cs F'. copy h m = Some (m', h @ cs) \<and> view (h @ cs) m' = Some (v, F') \<and> set F' \<subseteq> {length h..}"
begin

lemma view_extend: "view h m = Some (v, F) \<Longrightarrow> view (h @ cs) m = Some (v, F)"
  using view_bound [of h m v F] by (auto elim!: view_frame)

lemma view_update: "view h m = Some (v, F) \<Longrightarrow> a \<notin> set F \<Longrightarrow> view (h[a := c]) m = Some (v, F)"
  by (erule view_frame) (metis deref_update_other)

text \<open>The same for a copy that runs after others and before others, as the copies of the fields of a struct do.\<close>

lemma copy_among:
  assumes "view h m = Some (v, F)"
  obtains m' cs F' where "copy (h @ ds) m = Some (m', h @ ds @ cs)" "\<And>es. view (h @ ds @ cs @ es) m' = Some (v, F')"
    "set F' \<subseteq> {length h + length ds..}"
  using copy_view [OF view_extend [OF assms, of ds]] view_extend
  by (metis append.assoc length_append)

end

section \<open>Values without pointers, slices and pointers\<close>

definition view_prim :: "'c list \<Rightarrow> 'm \<Rightarrow> ('m \<times> addr list) option" where
  "view_prim h m = Some (m, [])"

definition copy_prim :: "'c list \<Rightarrow> 'm \<Rightarrow> ('m \<times> 'c list) option" where
  "copy_prim h m = Some (m, h)"

interpretation prim: deep_copy view_prim copy_prim
  by unfold_locales (auto simp: view_prim_def copy_prim_def)

text \<open>The elements of a slice, copied one after the other.\<close>

fun view_elems :: "('c list \<Rightarrow> 'm \<Rightarrow> ('v \<times> addr list) option) \<Rightarrow> 'c list \<Rightarrow> 'm list \<Rightarrow> ('v list \<times> addr list) option" where
  "view_elems view h [] = Some ([], [])"
| "view_elems view h (m # ms) =
     do { (v, F) \<leftarrow> view h m; (vs, G) \<leftarrow> view_elems view h ms; Some (v # vs, F @ G) }"

lemma view_elems_ConsE:
  assumes "view_elems view h (m # ms) = Some (r, F)"
  obtains v G vs H where "view h m = Some (v, G)" "view_elems view h ms = Some (vs, H)" "r = v # vs" "F = G @ H"
  using assms by (auto split: bind_splits)

text \<open>A pointer, or a slice as a pointer to its elements: \<open>proj\<close> reads a cell at the type of the target and \<open>mk\<close>
  makes a cell of it. The copy allocates the zero value \<open>z\<close>, copies what the pointer leads to, and stores it.\<close>

definition view_ptr ::
    "('c \<Rightarrow> 'm option) \<Rightarrow> ('c list \<Rightarrow> 'm \<Rightarrow> ('v \<times> addr list) option) \<Rightarrow> 'c list \<Rightarrow> addr option \<Rightarrow>
     ('v option \<times> addr list) option" where
  "view_ptr proj view h p =
     (case p of
        None \<Rightarrow> Some (None, [])
      | Some a \<Rightarrow> do { c \<leftarrow> deref h a; m \<leftarrow> proj c; (v, F) \<leftarrow> view h m; Some (Some v, a # F) })"

definition copy_ptr ::
    "('c \<Rightarrow> 'm option) \<Rightarrow> ('m \<Rightarrow> 'c) \<Rightarrow> ('m \<Rightarrow> 'm) \<Rightarrow> ('c list \<Rightarrow> 'm \<Rightarrow> ('m \<times> 'c list) option) \<Rightarrow>
     'c list \<Rightarrow> addr option \<Rightarrow> (addr option \<times> 'c list) option" where
  "copy_ptr proj mk z copy h p =
     (case p of
        None \<Rightarrow> Some (None, h)
      | Some a \<Rightarrow>
          do { c \<leftarrow> deref h a;
               m \<leftarrow> proj c;
               let out = length h;
               (m', h') \<leftarrow> copy (h @ [mk (z m)]) m;
               Some (Some out, h'[out := mk m']) })"

lemma view_ptr_None [simp]: "view_ptr proj view h None = Some (None, [])"
  by (simp add: view_ptr_def)

lemma view_ptr_SomeE:
  assumes "view_ptr proj view h (Some a) = Some (r, F)"
  obtains c m v G where "deref h a = Some c" "proj c = Some m" "view h m = Some (v, G)" "r = Some v" "F = a # G"
  using assms by (auto simp: view_ptr_def split: bind_splits)

context deep_copy
begin

lemma view_elems_frame:
  "view_elems view h ms = Some (vs, F) \<Longrightarrow> (\<And>a. a \<in> set F \<Longrightarrow> deref h' a = deref h a) \<Longrightarrow> view_elems view h' ms = Some (vs, F)"
proof (induction ms arbitrary: vs F)
  case (Cons m ms)
  from Cons.prems(1) show ?case
  proof (rule view_elems_ConsE)
    fix v G ws H
    assume "view h m = Some (v, G)" "view_elems view h ms = Some (ws, H)" "vs = v # ws" "F = G @ H"
    moreover from this Cons.prems(2) have "view h' m = Some (v, G)" by (auto elim!: view_frame)
    ultimately show ?case using Cons.IH [of ws H] Cons.prems(2) by simp
  qed
qed simp

lemma view_elems_bound: "view_elems view h ms = Some (vs, F) \<Longrightarrow> set F \<subseteq> {..<length h}"
proof (induction ms arbitrary: vs F)
  case (Cons m ms)
  from Cons.prems show ?case
    by (rule view_elems_ConsE) (use Cons.IH view_bound in fastforce)
qed simp

lemma copy_elems:
  "view_elems view h ms = Some (vs, F) \<Longrightarrow>
     \<exists>ms' cs F'. map_state copy (h @ ds) ms = Some (ms', h @ ds @ cs) \<and>
       (\<forall>es. view_elems view (h @ ds @ cs @ es) ms' = Some (vs, F')) \<and> set F' \<subseteq> {length h + length ds..}"
proof (induction ms arbitrary: vs F ds)
  case Nil
  then show ?case by simp
next
  case (Cons m ms)
  then obtain v ws G where v: "view h m = Some (v, G)" and ws: "vs = v # ws"
    and G: "\<exists>F1. view_elems view h ms = Some (ws, F1)"
    by (auto split: bind_splits)
  from v obtain m' cs F1 where 1: "copy (h @ ds) m = Some (m', h @ ds @ cs)"
    "\<And>es. view (h @ ds @ cs @ es) m' = Some (v, F1)" "set F1 \<subseteq> {length h + length ds..}"
    using copy_among [where ds = ds] by metis
  from G Cons.IH [where ds = "ds @ cs"] obtain ms' cs' F2 where 2:
    "map_state copy (h @ ds @ cs) ms = Some (ms', h @ ds @ cs @ cs')"
    "\<And>es. view_elems view (h @ ds @ cs @ cs' @ es) ms' = Some (ws, F2)" "set F2 \<subseteq> {length h + length ds + length cs..}"
    by (auto simp: add.assoc)
  have "map_state copy (h @ ds) (m # ms) = Some (m' # ms', h @ ds @ (cs @ cs'))"
    using 1(1) 2(1) by simp
  moreover have "view_elems view (h @ ds @ (cs @ cs') @ es) (m' # ms') = Some (vs, F1 @ F2)" for es
    using 1(2) [of "cs' @ es"] 2(2) [of es] ws by simp
  moreover have "set (F1 @ F2) \<subseteq> {length h + length ds..}" using 1(3) 2(3) by force
  ultimately show ?case by blast
qed

lemma elems: "deep_copy (view_elems view) (map_state copy)"
proof
  fix h ms vs F
  assume "view_elems view h ms = Some (vs, F)"
  from copy_elems [OF this, of "[]"] show "\<exists>ms' cs F'. map_state copy h ms = Some (ms', h @ cs) \<and>
      view_elems view (h @ cs) ms' = Some (vs, F') \<and> set F' \<subseteq> {length h..}"
    by (metis append_Nil append_Nil2 list.size(3) add_0_right)
qed (auto intro: view_elems_frame dest: view_elems_bound)

lemma ptr:
  assumes inv: "\<And>m. proj (mk m) = Some m"
  shows "deep_copy (view_ptr proj view) (copy_ptr proj mk z copy)"
proof
  fix h p r F
  assume v: "view_ptr proj view h p = Some (r, F)"
  {
    fix h' assume "\<And>a. a \<in> set F \<Longrightarrow> deref h' a = deref h a"
    with v show "view_ptr proj view h' p = Some (r, F)"
      by (cases p) (auto simp: view_ptr_def [of _ _ h'] view_frame [of h _ _ _ h'] elim!: view_ptr_SomeE)
  }
  show "set F \<subseteq> {..<length h}"
    using v by (cases p) (auto simp: view_ptr_def split: bind_splits dest: deref_SomeD view_bound [THEN subsetD])
  show "\<exists>p' cs F'. copy_ptr proj mk z copy h p = Some (p', h @ cs) \<and>
      view_ptr proj view (h @ cs) p' = Some (r, F') \<and> set F' \<subseteq> {length h..}"
  proof (cases p)
    case None
    with v show ?thesis by (auto simp: view_ptr_def copy_ptr_def)
  next
    case (Some a)
    with v obtain c m w G where m: "deref h a = Some c" "proj c = Some m" "view h m = Some (w, G)" "r = Some w"
      by (auto elim!: view_ptr_SomeE)
    from copy_view [OF view_extend [OF m(3), of "[mk (z m)]"]]
    obtain m' cs F' where c: "copy (h @ [mk (z m)]) m = Some (m', h @ mk (z m) # cs)"
      "view (h @ mk (z m) # cs) m' = Some (w, F')" "set F' \<subseteq> {Suc (length h)..}"
      by auto
    have "view ((h @ mk (z m) # cs)[length h := mk m']) m' = Some (w, F')"
      using c(2,3) by (intro view_update) auto
    then have "view (h @ mk m' # cs) m' = Some (w, F')" by simp
    then have "view_ptr proj view (h @ mk m' # cs) (Some (length h)) = Some (r, length h # F')"
      using m(4) by (simp add: view_ptr_def deref_def inv)
    moreover have "copy_ptr proj mk z copy h p = Some (Some (length h), h @ mk m' # cs)"
      using Some m(1,2) c(1) by (simp add: copy_ptr_def)
    moreover have "set (length h # F') \<subseteq> {length h..}" using c(3) by auto
    ultimately show ?thesis by blast
  qed
qed

text \<open>What a caller gets from a copy: original and copy have the same value, share no cell, and
  nothing that happens outside the cells of one of them changes it.\<close>

lemma copy_isolated:
  assumes "view h m = Some (v, F)"
  obtains m' h' F' where "copy h m = Some (m', h')" "view h' m' = Some (v, F')" "view h' m = Some (v, F)"
    "set F \<inter> set F' = {}"
proof -
  from copy_view [OF assms] obtain m' cs F' where "copy h m = Some (m', h @ cs)" "view (h @ cs) m' = Some (v, F')"
    "set F' \<subseteq> {length h..}" by blast
  moreover have "view (h @ cs) m = Some (v, F)" using assms by (rule view_extend)
  moreover have "set F \<inter> set F' = {}" using view_bound [OF assms] \<open>set F' \<subseteq> {length h..}\<close> by fastforce
  ultimately show ?thesis using that by blast
qed

end

section \<open>Structs\<close>

text \<open>Two fields, copied in order.\<close>

definition view_pair ::
    "('c list \<Rightarrow> 'm \<Rightarrow> ('v \<times> addr list) option) \<Rightarrow> ('c list \<Rightarrow> 'n \<Rightarrow> ('w \<times> addr list) option) \<Rightarrow>
     'c list \<Rightarrow> 'm \<times> 'n \<Rightarrow> (('v \<times> 'w) \<times> addr list) option" where
  "view_pair view1 view2 h m =
     do { (v, F) \<leftarrow> view1 h (fst m); (w, G) \<leftarrow> view2 h (snd m); Some ((v, w), F @ G) }"

definition copy_pair ::
    "('c list \<Rightarrow> 'm \<Rightarrow> ('m \<times> 'c list) option) \<Rightarrow> ('c list \<Rightarrow> 'n \<Rightarrow> ('n \<times> 'c list) option) \<Rightarrow>
     'c list \<Rightarrow> 'm \<times> 'n \<Rightarrow> (('m \<times> 'n) \<times> 'c list) option" where
  "copy_pair copy1 copy2 h m =
     do { (x, h1) \<leftarrow> copy1 h (fst m); (y, h2) \<leftarrow> copy2 h1 (snd m); Some ((x, y), h2) }"

lemma view_pairE:
  assumes "view_pair view1 view2 h m = Some (r, F)"
  obtains v G w H where "view1 h (fst m) = Some (v, G)" "view2 h (snd m) = Some (w, H)" "r = (v, w)" "F = G @ H"
  using assms by (auto simp: view_pair_def split: bind_splits)

lemma deep_copy_pair [deep_copy_intros]:
  assumes 1: "deep_copy view1 copy1" and 2: "deep_copy view2 copy2"
  shows "deep_copy (view_pair view1 view2) (copy_pair copy1 copy2)"
proof
  fix h m r F
  assume "view_pair view1 view2 h m = Some (r, F)"
  then obtain v G w H where v: "view1 h (fst m) = Some (v, G)" "view2 h (snd m) = Some (w, H)" "r = (v, w)" "F = G @ H"
    by (rule view_pairE)
  show "view_pair view1 view2 h' m = Some (r, F)" if "\<And>a. a \<in> set F \<Longrightarrow> deref h' a = deref h a" for h'
    using deep_copy.view_frame [OF 1 v(1), of h'] deep_copy.view_frame [OF 2 v(2), of h'] that v(3,4)
    by (simp add: view_pair_def)
  show "set F \<subseteq> {..<length h}"
    using deep_copy.view_bound [OF 1 v(1)] deep_copy.view_bound [OF 2 v(2)] v(4) by simp
  obtain x cs G' where x: "copy1 h (fst m) = Some (x, h @ cs)" "view1 (h @ cs) x = Some (v, G')" "set G' \<subseteq> {length h..}"
    using deep_copy.copy_view [OF 1 v(1)] by blast
  obtain y ds H' where y: "copy2 (h @ cs) (snd m) = Some (y, h @ cs @ ds)" "view2 (h @ cs @ ds) y = Some (w, H')"
    "set H' \<subseteq> {length h + length cs..}"
    using deep_copy.copy_view [OF 2 deep_copy.view_extend [OF 2 v(2), of cs]] by auto
  have "copy_pair copy1 copy2 h m = Some ((x, y), h @ cs @ ds)" using x(1) y(1) by (simp add: copy_pair_def)
  moreover have "view_pair view1 view2 (h @ cs @ ds) (x, y) = Some (r, G' @ H')"
    using deep_copy.view_extend [OF 1 x(2), of ds] y(2) v(3) by (simp add: view_pair_def)
  moreover have "set (G' @ H') \<subseteq> {length h..}" using x(3) y(3) by force
  ultimately show "\<exists>m' ds F'. copy_pair copy1 copy2 h m = Some (m', h @ ds) \<and>
      view_pair view1 view2 (h @ ds) m' = Some (r, F') \<and> set F' \<subseteq> {length h..}" by blast
qed

text \<open>A struct: the fields that lead to other cells are read with \<open>get\<close> and stored with \<open>put\<close>; \<open>val\<close> makes the value
  of the struct from theirs, and depends on the other fields besides.\<close>

definition view_struct ::
    "('m \<Rightarrow> 't) \<Rightarrow> ('m \<Rightarrow> 'v \<Rightarrow> 'r option) \<Rightarrow> ('c list \<Rightarrow> 't \<Rightarrow> ('v \<times> addr list) option) \<Rightarrow>
     'c list \<Rightarrow> 'm \<Rightarrow> ('r \<times> addr list) option" where
  "view_struct get val view h m = do { (v, F) \<leftarrow> view h (get m); r \<leftarrow> val m v; Some (r, F) }"

definition copy_struct ::
    "('m \<Rightarrow> 't) \<Rightarrow> ('m \<Rightarrow> 't \<Rightarrow> 'm) \<Rightarrow> ('c list \<Rightarrow> 't \<Rightarrow> ('t \<times> 'c list) option) \<Rightarrow>
     'c list \<Rightarrow> 'm \<Rightarrow> ('m \<times> 'c list) option" where
  "copy_struct get put copy h m = do { (t, h') \<leftarrow> copy h (get m); Some (put m t, h') }"

context deep_copy
begin

lemma struct:
  assumes get: "\<And>m t. get (put m t) = t" and val: "\<And>m t v. val (put m t) v = val m v"
  shows "deep_copy (view_struct get val view) (copy_struct get put copy)"
proof
  fix h m r F
  assume "view_struct get val view h m = Some (r, F)"
  then obtain v where v: "view h (get m) = Some (v, F)" "val m v = Some r"
    by (auto simp: view_struct_def split: bind_splits)
  show "view_struct get val view h' m = Some (r, F)" if "\<And>a. a \<in> set F \<Longrightarrow> deref h' a = deref h a" for h'
    using view_frame [OF v(1) that] v(2) by (simp add: view_struct_def)
  show "set F \<subseteq> {..<length h}" using v(1) by (rule view_bound)
  from copy_view [OF v(1)] obtain t cs F' where "copy h (get m) = Some (t, h @ cs)" "view (h @ cs) t = Some (v, F')"
    "set F' \<subseteq> {length h..}" by blast
  then show "\<exists>m' cs F'. copy_struct get put copy h m = Some (m', h @ cs) \<and>
      view_struct get val view (h @ cs) m' = Some (r, F') \<and> set F' \<subseteq> {length h..}"
    using v(2) by (auto simp: copy_struct_def view_struct_def get val)
qed

end

lemma deep_copy_struct:
  "C = copy_struct get put copy \<Longrightarrow> deep_copy view copy \<Longrightarrow> (\<And>m t. get (put m t) = t) \<Longrightarrow>
     (\<And>m t v. val (put m t) v = val m v) \<Longrightarrow> deep_copy (view_struct get val view) C"
  by (simp add: deep_copy.struct)

text \<open>The value of a struct narrowed to one of its types.\<close>

definition view_as ::
    "('v \<Rightarrow> 'r option) \<Rightarrow> ('c list \<Rightarrow> 'm \<Rightarrow> ('v \<times> addr list) option) \<Rightarrow> 'c list \<Rightarrow> 'm \<Rightarrow> ('r \<times> addr list) option" where
  "view_as f view = view_struct id (\<lambda>_. f) view"

lemma copy_struct_id: "copy_struct id (\<lambda>_ t. t) copy = copy"
  by (auto simp: fun_eq_iff copy_struct_def split: Option.bind_split)

lemma deep_copy_view_as [deep_copy_intros]: "deep_copy view copy \<Longrightarrow> deep_copy (view_as f view) copy"
  unfolding view_as_def using deep_copy.struct [of view copy id "\<lambda>_ t. t" "\<lambda>_. f"] by (simp add: copy_struct_id)

end
