(* ===== verification/Deep_Copy.thy ===== *)
theory Deep_Copy
  imports Go_Memory Api_Types
begin

text \<open>
  \<open>internal/api/v1alpha1/zz_generated.deepcopy.go\<close>: the deep copies of the resource and of its parts, on structs in memory.
  The records below are the Go structs as they lie in memory, with addresses for pointers and slices; the copies of
  Kubernetes structs are parameters. Each copy meets the contract \<open>deep_copy\<close> if these do, with the records of \<open>Api_Types\<close> as values.
  \<open>T_DeepCopyInto h src\<close> gives the struct that the method \<open>DeepCopyInto\<close> of \<open>T\<close> leaves in \<open>*out\<close>, and the memory after
  it; \<open>None\<close> is an invalid memory access.
\<close>

section \<open>Structs in memory\<close>

record instance_image =
  ii_ConnectionString :: string
  ii_Port :: "addr option"
  ii_AutoIAMAuthN :: "addr option"
  ii_PrivateIP :: "addr option"
  ii_PortEnvName :: string
  ii_HostEnvName :: string

record selector_image =
  si_Selector :: "addr option"
  si_Kind :: string
  si_Name :: string

record container_spec_image =
  ci_Container :: "addr option"
  ci_Resources :: "addr option"
  ci_MaxConnections :: "addr option"
  ci_MaxSigtermDelay :: "addr option"
  ci_SQLAdminAPIEndpoint :: string
  ci_Image :: string

record spec_image =
  spi_Workload :: selector_image
  spi_AuthProxyContainer :: "addr option"
  spi_Instances :: "addr option"

record workload_status_image =
  wsi_Kind :: string
  wsi_Version :: string
  wsi_Namespace :: string
  wsi_Name :: string
  wsi_Conditions :: "addr option"

record status_image =
  sti_Conditions :: "addr option"
  sti_WorkloadStatus :: "addr option"

text \<open>\<open>'l\<close> is the type of Kubernetes structs in memory.\<close>

record 'l workload_image =
  wi_TypeMeta :: group_version_kind
  wi_ObjectMeta :: 'l
  wi_Spec :: spec_image
  wi_Status :: status_image

record 'l list_image =
  li_TypeMeta :: group_version_kind
  li_ListMeta :: 'l
  li_Items :: "addr option"

datatype 'l cell =
    Int64Cell i64
  | Int32Cell i32
  | BoolCell bool
  | LibCell 'l
  | InstanceCell instance_image
  | InstancesCell "instance_image list"
  | SelectorCell selector_image
  | ContainerCell container_spec_image
  | SpecCell spec_image
  | ConditionsCell "addr option list"
  | WorkloadStatusCell workload_status_image
  | WorkloadStatusesCell "addr option list"
  | StatusCell status_image
  | WorkloadCell "'l workload_image"
  | WorkloadsCell "'l workload_image list"
  | ListCell "'l list_image"

text \<open>A pointer of Go has a type: reading a cell at another type gives \<open>None\<close>.\<close>

definition as_Int64 :: "'l cell \<Rightarrow> i64 option" where
  "as_Int64 c = (case c of Int64Cell x \<Rightarrow> Some x | _ \<Rightarrow> None)"
definition as_Int32 :: "'l cell \<Rightarrow> i32 option" where
  "as_Int32 c = (case c of Int32Cell x \<Rightarrow> Some x | _ \<Rightarrow> None)"
definition as_Bool :: "'l cell \<Rightarrow> bool option" where
  "as_Bool c = (case c of BoolCell x \<Rightarrow> Some x | _ \<Rightarrow> None)"
definition as_Lib :: "'l cell \<Rightarrow> 'l option" where
  "as_Lib c = (case c of LibCell x \<Rightarrow> Some x | _ \<Rightarrow> None)"
definition as_Instance :: "'l cell \<Rightarrow> instance_image option" where
  "as_Instance c = (case c of InstanceCell x \<Rightarrow> Some x | _ \<Rightarrow> None)"
definition as_Instances :: "'l cell \<Rightarrow> instance_image list option" where
  "as_Instances c = (case c of InstancesCell x \<Rightarrow> Some x | _ \<Rightarrow> None)"
definition as_Selector :: "'l cell \<Rightarrow> selector_image option" where
  "as_Selector c = (case c of SelectorCell x \<Rightarrow> Some x | _ \<Rightarrow> None)"
definition as_Container :: "'l cell \<Rightarrow> container_spec_image option" where
  "as_Container c = (case c of ContainerCell x \<Rightarrow> Some x | _ \<Rightarrow> None)"
definition as_Spec :: "'l cell \<Rightarrow> spec_image option" where
  "as_Spec c = (case c of SpecCell x \<Rightarrow> Some x | _ \<Rightarrow> None)"
definition as_Conditions :: "'l cell \<Rightarrow> addr option list option" where
  "as_Conditions c = (case c of ConditionsCell x \<Rightarrow> Some x | _ \<Rightarrow> None)"
definition as_WorkloadStatus :: "'l cell \<Rightarrow> workload_status_image option" where
  "as_WorkloadStatus c = (case c of WorkloadStatusCell x \<Rightarrow> Some x | _ \<Rightarrow> None)"
definition as_WorkloadStatuses :: "'l cell \<Rightarrow> addr option list option" where
  "as_WorkloadStatuses c = (case c of WorkloadStatusesCell x \<Rightarrow> Some x | _ \<Rightarrow> None)"
definition as_Status :: "'l cell \<Rightarrow> status_image option" where
  "as_Status c = (case c of StatusCell x \<Rightarrow> Some x | _ \<Rightarrow> None)"
definition as_Workload :: "'l cell \<Rightarrow> 'l workload_image option" where
  "as_Workload c = (case c of WorkloadCell x \<Rightarrow> Some x | _ \<Rightarrow> None)"
definition as_Workloads :: "'l cell \<Rightarrow> 'l workload_image list option" where
  "as_Workloads c = (case c of WorkloadsCell x \<Rightarrow> Some x | _ \<Rightarrow> None)"
definition as_List :: "'l cell \<Rightarrow> 'l list_image option" where
  "as_List c = (case c of ListCell x \<Rightarrow> Some x | _ \<Rightarrow> None)"

lemmas as_cell_defs = as_Int64_def as_Int32_def as_Bool_def as_Lib_def as_Instance_def as_Instances_def as_Selector_def
  as_Container_def as_Spec_def as_Conditions_def as_WorkloadStatus_def as_WorkloadStatuses_def as_Status_def
  as_Workload_def as_Workloads_def as_List_def

lemma as_cell_simps [simp]:
  "as_Int64 (Int64Cell i64) = Some i64" "as_Int32 (Int32Cell i32) = Some i32" "as_Bool (BoolCell b) = Some b"
  "as_Lib (LibCell l) = Some l" "as_Instance (InstanceCell inst) = Some inst" "as_Instances (InstancesCell insts) = Some insts"
  "as_Selector (SelectorCell sel) = Some sel" "as_Container (ContainerCell cn) = Some cn" "as_Spec (SpecCell sp) = Some sp"
  "as_Conditions (ConditionsCell cs) = Some cs" "as_WorkloadStatus (WorkloadStatusCell ws) = Some ws"
  "as_WorkloadStatuses (WorkloadStatusesCell wss) = Some wss" "as_Status (StatusCell st) = Some st"
  "as_Workload (WorkloadCell wl) = Some wl" "as_Workloads (WorkloadsCell wls) = Some wls" "as_List (ListCell ls) = Some ls"
  by (simp_all add: as_cell_defs)

text \<open>The zero values of \<open>new\<close> and \<open>make\<close>.\<close>

definition zero_instance :: instance_image where
  "zero_instance = \<lparr>ii_ConnectionString = [], ii_Port = None, ii_AutoIAMAuthN = None, ii_PrivateIP = None,
     ii_PortEnvName = [], ii_HostEnvName = []\<rparr>"

definition zero_selector :: selector_image where
  "zero_selector = \<lparr>si_Selector = None, si_Kind = [], si_Name = []\<rparr>"

definition zero_container_spec :: container_spec_image where
  "zero_container_spec = \<lparr>ci_Container = None, ci_Resources = None, ci_MaxConnections = None, ci_MaxSigtermDelay = None,
     ci_SQLAdminAPIEndpoint = [], ci_Image = []\<rparr>"

definition zero_spec :: spec_image where
  "zero_spec = \<lparr>spi_Workload = zero_selector, spi_AuthProxyContainer = None, spi_Instances = None\<rparr>"

definition zero_workload_status :: workload_status_image where
  "zero_workload_status = \<lparr>wsi_Kind = [], wsi_Version = [], wsi_Namespace = [], wsi_Name = [], wsi_Conditions = None\<rparr>"

definition zero_status :: status_image where
  "zero_status = \<lparr>sti_Conditions = None, sti_WorkloadStatus = None\<rparr>"

section \<open>The generated functions\<close>

text \<open>The methods \<open>DeepCopyInto\<close> of the Kubernetes structs (\<open>Container\<close>, \<open>ResourceRequirements\<close>, \<open>LabelSelector\<close>,
  \<open>ObjectMeta\<close>, \<open>ListMeta\<close>, \<open>Condition\<close>), and the zero value of the struct type of their argument.\<close>

record 'l copy_library =
  lib_DeepCopyInto :: "'l cell list \<Rightarrow> 'l \<Rightarrow> ('l \<times> 'l cell list) option"
  lib_zero :: "'l \<Rightarrow> 'l"

abbreviation copy_lib_ptr :: "'l copy_library \<Rightarrow> 'l cell list \<Rightarrow> addr option \<Rightarrow> (addr option \<times> 'l cell list) option" where
  "copy_lib_ptr L \<equiv> copy_ptr as_Lib LibCell (lib_zero L) (lib_DeepCopyInto L)"

text \<open>\<open>make([]T, len(*in))\<close>: as many zero values as there are elements.\<close>

definition zeros :: "('m \<Rightarrow> 'm) \<Rightarrow> 'm list \<Rightarrow> 'm list" where
  "zeros z ms = map z ms"

definition InstanceSpec_DeepCopyInto ::
    "'l cell list \<Rightarrow> instance_image \<Rightarrow> (instance_image \<times> 'l cell list) option" where
  "InstanceSpec_DeepCopyInto h src =
     do { let out = src;
          (p, h) \<leftarrow> copy_ptr as_Int32 Int32Cell (\<lambda>_. 0) copy_prim h (ii_Port src);
          let out = out\<lparr>ii_Port := p\<rparr>;
          (p, h) \<leftarrow> copy_ptr as_Bool BoolCell (\<lambda>_. False) copy_prim h (ii_AutoIAMAuthN src);
          let out = out\<lparr>ii_AutoIAMAuthN := p\<rparr>;
          (p, h) \<leftarrow> copy_ptr as_Bool BoolCell (\<lambda>_. False) copy_prim h (ii_PrivateIP src);
          let out = out\<lparr>ii_PrivateIP := p\<rparr>;
          Some (out, h) }"

definition WorkloadSelectorSpec_DeepCopyInto ::
    "'l copy_library \<Rightarrow> 'l cell list \<Rightarrow> selector_image \<Rightarrow> (selector_image \<times> 'l cell list) option" where
  "WorkloadSelectorSpec_DeepCopyInto L h src =
     do { let out = src;
          (p, h) \<leftarrow> copy_lib_ptr L h (si_Selector src);
          let out = out\<lparr>si_Selector := p\<rparr>;
          Some (out, h) }"

definition AuthProxyContainerSpec_DeepCopyInto ::
    "'l copy_library \<Rightarrow> 'l cell list \<Rightarrow> container_spec_image \<Rightarrow> (container_spec_image \<times> 'l cell list) option" where
  "AuthProxyContainerSpec_DeepCopyInto L h src =
     do { let out = src;
          (p, h) \<leftarrow> copy_lib_ptr L h (ci_Container src);
          let out = out\<lparr>ci_Container := p\<rparr>;
          (p, h) \<leftarrow> copy_lib_ptr L h (ci_Resources src);
          let out = out\<lparr>ci_Resources := p\<rparr>;
          (p, h) \<leftarrow> copy_ptr as_Int64 Int64Cell (\<lambda>_. 0) copy_prim h (ci_MaxConnections src);
          let out = out\<lparr>ci_MaxConnections := p\<rparr>;
          (p, h) \<leftarrow> copy_ptr as_Int64 Int64Cell (\<lambda>_. 0) copy_prim h (ci_MaxSigtermDelay src);
          let out = out\<lparr>ci_MaxSigtermDelay := p\<rparr>;
          Some (out, h) }"

definition AuthProxyWorkloadSpec_DeepCopyInto ::
    "'l copy_library \<Rightarrow> 'l cell list \<Rightarrow> spec_image \<Rightarrow> (spec_image \<times> 'l cell list) option" where
  "AuthProxyWorkloadSpec_DeepCopyInto L h src =
     do { let out = src;
          (s, h) \<leftarrow> WorkloadSelectorSpec_DeepCopyInto L h (spi_Workload src);
          let out = out\<lparr>spi_Workload := s\<rparr>;
          (p, h) \<leftarrow> copy_ptr as_Container ContainerCell (\<lambda>_. zero_container_spec)
                      (AuthProxyContainerSpec_DeepCopyInto L) h (spi_AuthProxyContainer src);
          let out = out\<lparr>spi_AuthProxyContainer := p\<rparr>;
          (p, h) \<leftarrow> copy_ptr as_Instances InstancesCell (zeros (\<lambda>_. zero_instance))
                      (map_state InstanceSpec_DeepCopyInto) h (spi_Instances src);
          let out = out\<lparr>spi_Instances := p\<rparr>;
          Some (out, h) }"

text \<open>A slice of pointers to conditions; a nil element stays nil, as \<open>make\<close> left it.\<close>

definition copy_conditions ::
    "'l copy_library \<Rightarrow> 'l cell list \<Rightarrow> addr option \<Rightarrow> (addr option \<times> 'l cell list) option" where
  "copy_conditions L = copy_ptr as_Conditions ConditionsCell (zeros (\<lambda>_. None)) (map_state (copy_lib_ptr L))"

definition WorkloadStatus_DeepCopyInto ::
    "'l copy_library \<Rightarrow> 'l cell list \<Rightarrow> workload_status_image \<Rightarrow> (workload_status_image \<times> 'l cell list) option" where
  "WorkloadStatus_DeepCopyInto L h src =
     do { let out = src;
          (p, h) \<leftarrow> copy_conditions L h (wsi_Conditions src);
          let out = out\<lparr>wsi_Conditions := p\<rparr>;
          Some (out, h) }"

definition AuthProxyWorkloadStatus_DeepCopyInto ::
    "'l copy_library \<Rightarrow> 'l cell list \<Rightarrow> status_image \<Rightarrow> (status_image \<times> 'l cell list) option" where
  "AuthProxyWorkloadStatus_DeepCopyInto L h src =
     do { let out = src;
          (p, h) \<leftarrow> copy_conditions L h (sti_Conditions src);
          let out = out\<lparr>sti_Conditions := p\<rparr>;
          (p, h) \<leftarrow> copy_ptr as_WorkloadStatuses WorkloadStatusesCell (zeros (\<lambda>_. None))
                      (map_state (copy_ptr as_WorkloadStatus WorkloadStatusCell (\<lambda>_. zero_workload_status)
                        (WorkloadStatus_DeepCopyInto L))) h (sti_WorkloadStatus src);
          let out = out\<lparr>sti_WorkloadStatus := p\<rparr>;
          Some (out, h) }"

definition AuthProxyWorkload_DeepCopyInto ::
    "'l copy_library \<Rightarrow> 'l cell list \<Rightarrow> 'l workload_image \<Rightarrow> ('l workload_image \<times> 'l cell list) option" where
  "AuthProxyWorkload_DeepCopyInto L h src =
     do { let out = src;
          let out = out\<lparr>wi_TypeMeta := wi_TypeMeta src\<rparr>;
          (m, h) \<leftarrow> lib_DeepCopyInto L h (wi_ObjectMeta src);
          let out = out\<lparr>wi_ObjectMeta := m\<rparr>;
          (s, h) \<leftarrow> AuthProxyWorkloadSpec_DeepCopyInto L h (wi_Spec src);
          let out = out\<lparr>wi_Spec := s\<rparr>;
          (s, h) \<leftarrow> AuthProxyWorkloadStatus_DeepCopyInto L h (wi_Status src);
          let out = out\<lparr>wi_Status := s\<rparr>;
          Some (out, h) }"

definition zero_workload :: "'l copy_library \<Rightarrow> 'l workload_image \<Rightarrow> 'l workload_image" where
  "zero_workload L m = \<lparr>wi_TypeMeta = zero_gvk, wi_ObjectMeta = lib_zero L (wi_ObjectMeta m), wi_Spec = zero_spec,
     wi_Status = zero_status\<rparr>"

definition AuthProxyWorkloadList_DeepCopyInto ::
    "'l copy_library \<Rightarrow> 'l cell list \<Rightarrow> 'l list_image \<Rightarrow> ('l list_image \<times> 'l cell list) option" where
  "AuthProxyWorkloadList_DeepCopyInto L h src =
     do { let out = src;
          let out = out\<lparr>li_TypeMeta := li_TypeMeta src\<rparr>;
          (m, h) \<leftarrow> lib_DeepCopyInto L h (li_ListMeta src);
          let out = out\<lparr>li_ListMeta := m\<rparr>;
          (p, h) \<leftarrow> copy_ptr as_Workloads WorkloadsCell (zeros (zero_workload L))
                      (map_state (AuthProxyWorkload_DeepCopyInto L)) h (li_Items src);
          let out = out\<lparr>li_Items := p\<rparr>;
          Some (out, h) }"

text \<open>\<open>DeepCopy\<close>: nil for nil, else a new struct filled by \<open>DeepCopyInto\<close>.\<close>

definition InstanceSpec_DeepCopy :: "'l cell list \<Rightarrow> addr option \<Rightarrow> (addr option \<times> 'l cell list) option" where
  "InstanceSpec_DeepCopy = copy_ptr as_Instance InstanceCell (\<lambda>_. zero_instance) InstanceSpec_DeepCopyInto"

definition WorkloadSelectorSpec_DeepCopy ::
    "'l copy_library \<Rightarrow> 'l cell list \<Rightarrow> addr option \<Rightarrow> (addr option \<times> 'l cell list) option" where
  "WorkloadSelectorSpec_DeepCopy L =
     copy_ptr as_Selector SelectorCell (\<lambda>_. zero_selector) (WorkloadSelectorSpec_DeepCopyInto L)"

definition AuthProxyContainerSpec_DeepCopy ::
    "'l copy_library \<Rightarrow> 'l cell list \<Rightarrow> addr option \<Rightarrow> (addr option \<times> 'l cell list) option" where
  "AuthProxyContainerSpec_DeepCopy L =
     copy_ptr as_Container ContainerCell (\<lambda>_. zero_container_spec) (AuthProxyContainerSpec_DeepCopyInto L)"

definition AuthProxyWorkloadSpec_DeepCopy ::
    "'l copy_library \<Rightarrow> 'l cell list \<Rightarrow> addr option \<Rightarrow> (addr option \<times> 'l cell list) option" where
  "AuthProxyWorkloadSpec_DeepCopy L = copy_ptr as_Spec SpecCell (\<lambda>_. zero_spec) (AuthProxyWorkloadSpec_DeepCopyInto L)"

definition WorkloadStatus_DeepCopy ::
    "'l copy_library \<Rightarrow> 'l cell list \<Rightarrow> addr option \<Rightarrow> (addr option \<times> 'l cell list) option" where
  "WorkloadStatus_DeepCopy L =
     copy_ptr as_WorkloadStatus WorkloadStatusCell (\<lambda>_. zero_workload_status) (WorkloadStatus_DeepCopyInto L)"

definition AuthProxyWorkloadStatus_DeepCopy ::
    "'l copy_library \<Rightarrow> 'l cell list \<Rightarrow> addr option \<Rightarrow> (addr option \<times> 'l cell list) option" where
  "AuthProxyWorkloadStatus_DeepCopy L =
     copy_ptr as_Status StatusCell (\<lambda>_. zero_status) (AuthProxyWorkloadStatus_DeepCopyInto L)"

definition AuthProxyWorkload_DeepCopy ::
    "'l copy_library \<Rightarrow> 'l cell list \<Rightarrow> addr option \<Rightarrow> (addr option \<times> 'l cell list) option" where
  "AuthProxyWorkload_DeepCopy L =
     copy_ptr as_Workload WorkloadCell (zero_workload L) (AuthProxyWorkload_DeepCopyInto L)"

definition zero_list :: "'l copy_library \<Rightarrow> 'l list_image \<Rightarrow> 'l list_image" where
  "zero_list L m = \<lparr>li_TypeMeta = zero_gvk, li_ListMeta = lib_zero L (li_ListMeta m), li_Items = None\<rparr>"

definition AuthProxyWorkloadList_DeepCopy ::
    "'l copy_library \<Rightarrow> 'l cell list \<Rightarrow> addr option \<Rightarrow> (addr option \<times> 'l cell list) option" where
  "AuthProxyWorkloadList_DeepCopy L = copy_ptr as_List ListCell (zero_list L) (AuthProxyWorkloadList_DeepCopyInto L)"

text \<open>A \<open>runtime.Object\<close> is an interface: \<open>None\<close> is the nil interface, otherwise it carries the type of its pointer,
  which may itself be nil.\<close>

datatype runtime_object = WorkloadObject "addr option" | ListObject "addr option"

definition AuthProxyWorkload_DeepCopyObject ::
    "'l copy_library \<Rightarrow> 'l cell list \<Rightarrow> addr option \<Rightarrow> (runtime_object option \<times> 'l cell list) option" where
  "AuthProxyWorkload_DeepCopyObject L h src =
     do { (c, h) \<leftarrow> AuthProxyWorkload_DeepCopy L h src;
          if c \<noteq> None then Some (Some (WorkloadObject c), h) else Some (None, h) }"

definition AuthProxyWorkloadList_DeepCopyObject ::
    "'l copy_library \<Rightarrow> 'l cell list \<Rightarrow> addr option \<Rightarrow> (runtime_object option \<times> 'l cell list) option" where
  "AuthProxyWorkloadList_DeepCopyObject L h src =
     do { (c, h) \<leftarrow> AuthProxyWorkloadList_DeepCopy L h src;
          if c \<noteq> None then Some (Some (ListObject c), h) else Some (None, h) }"

section \<open>The values of structs in memory\<close>

text \<open>What a Kubernetes struct in memory stands for; \<open>V\<close> gives the value and the footprint of one.\<close>

datatype lib_value =
    VContainer container
  | VResources resource_requirements
  | VSelector label_selector
  | VObjectMeta object_meta
  | VListMeta opaque
  | VCondition condition

type_synonym 'l lib_view = "'l cell list \<Rightarrow> 'l \<Rightarrow> (lib_value \<times> addr list) option"

definition VContainer_of :: "lib_value \<Rightarrow> container option" where
  "VContainer_of v = (case v of VContainer x \<Rightarrow> Some x | _ \<Rightarrow> None)"
definition VResources_of :: "lib_value \<Rightarrow> resource_requirements option" where
  "VResources_of v = (case v of VResources x \<Rightarrow> Some x | _ \<Rightarrow> None)"
definition VSelector_of :: "lib_value \<Rightarrow> label_selector option" where
  "VSelector_of v = (case v of VSelector x \<Rightarrow> Some x | _ \<Rightarrow> None)"
definition VObjectMeta_of :: "lib_value \<Rightarrow> object_meta option" where
  "VObjectMeta_of v = (case v of VObjectMeta x \<Rightarrow> Some x | _ \<Rightarrow> None)"
definition VListMeta_of :: "lib_value \<Rightarrow> opaque option" where
  "VListMeta_of v = (case v of VListMeta x \<Rightarrow> Some x | _ \<Rightarrow> None)"
definition VCondition_of :: "lib_value \<Rightarrow> condition option" where
  "VCondition_of v = (case v of VCondition x \<Rightarrow> Some x | _ \<Rightarrow> None)"

text \<open>A nil slice reads like an empty one; in a slice of pointers no element may be nil.\<close>

definition slice_value :: "'v list option \<Rightarrow> 'v list" where
  "slice_value r = (case r of None \<Rightarrow> [] | Some vs \<Rightarrow> vs)"

definition ptr_slice_value :: "'v option list option \<Rightarrow> 'v list option" where
  "ptr_slice_value r = those (slice_value r)"

abbreviation view_lib_ptr where
  "view_lib_ptr f V \<equiv> view_ptr as_Lib (view_as f V)"

definition view_instance :: "'l cell list \<Rightarrow> instance_image \<Rightarrow> (instance_spec \<times> addr list) option" where
  "view_instance =
     view_struct (\<lambda>m. (ii_Port m, ii_AutoIAMAuthN m, ii_PrivateIP m))
       (\<lambda>m (port, auth, priv). Some \<lparr>is_ConnectionString = ii_ConnectionString m, is_Port = port, is_AutoIAMAuthN = auth,
          is_PrivateIP = priv, is_PortEnvName = ii_PortEnvName m, is_HostEnvName = ii_HostEnvName m\<rparr>)
       (view_pair (view_ptr as_Int32 view_prim) (view_pair (view_ptr as_Bool view_prim) (view_ptr as_Bool view_prim)))"

definition view_selector :: "'l lib_view \<Rightarrow> 'l cell list \<Rightarrow> selector_image \<Rightarrow> (workload_selector_spec \<times> addr list) option" where
  "view_selector V =
     view_struct si_Selector (\<lambda>m sel. Some \<lparr>wss_Selector = sel, wss_Kind = si_Kind m, wss_Name = si_Name m\<rparr>)
       (view_lib_ptr VSelector_of V)"

definition view_container :: "'l lib_view \<Rightarrow> 'l cell list \<Rightarrow> container_spec_image \<Rightarrow> (auth_proxy_container_spec \<times> addr list) option" where
  "view_container V =
     view_struct (\<lambda>m. (ci_Container m, ci_Resources m, ci_MaxConnections m, ci_MaxSigtermDelay m))
       (\<lambda>m (cont, res, conns, delay). Some \<lparr>apc_Container = cont, apc_Resources = res, apc_MaxConnections = conns,
          apc_MaxSigtermDelay = delay, apc_SQLAdminAPIEndpoint = ci_SQLAdminAPIEndpoint m, apc_Image = ci_Image m\<rparr>)
       (view_pair (view_lib_ptr VContainer_of V) (view_pair (view_lib_ptr VResources_of V)
         (view_pair (view_ptr as_Int64 view_prim) (view_ptr as_Int64 view_prim))))"

definition view_spec :: "'l lib_view \<Rightarrow> 'l cell list \<Rightarrow> spec_image \<Rightarrow> (auth_proxy_workload_spec \<times> addr list) option" where
  "view_spec V =
     view_struct (\<lambda>m. (spi_Workload m, spi_AuthProxyContainer m, spi_Instances m))
       (\<lambda>m (sel, cont, insts). Some \<lparr>aps_Workload = sel, aps_AuthProxyContainer = cont, aps_Instances = slice_value insts\<rparr>)
       (view_pair (view_selector V) (view_pair (view_ptr as_Container (view_container V))
         (view_ptr as_Instances (view_elems view_instance))))"

definition view_conditions :: "'l lib_view \<Rightarrow> 'l cell list \<Rightarrow> addr option \<Rightarrow> (condition option list option \<times> addr list) option" where
  "view_conditions V = view_ptr as_Conditions (view_elems (view_lib_ptr VCondition_of V))"

definition view_workload_status :: "'l lib_view \<Rightarrow> 'l cell list \<Rightarrow> workload_status_image \<Rightarrow> (workload_status \<times> addr list) option" where
  "view_workload_status V =
     view_struct wsi_Conditions
       (\<lambda>m conds. map_option (\<lambda>cs. \<lparr>ws_Kind = wsi_Kind m, ws_Version = wsi_Version m, ws_Namespace = wsi_Namespace m,
          ws_Name = wsi_Name m, ws_Conditions = cs\<rparr>) (ptr_slice_value conds))
       (view_conditions V)"

definition view_status :: "'l lib_view \<Rightarrow> 'l cell list \<Rightarrow> status_image \<Rightarrow> (auth_proxy_workload_status \<times> addr list) option" where
  "view_status V =
     view_struct (\<lambda>m. (sti_Conditions m, sti_WorkloadStatus m))
       (\<lambda>m (conds, wss). do { cs \<leftarrow> ptr_slice_value conds; ws \<leftarrow> ptr_slice_value wss;
          Some \<lparr>st_Conditions = cs, st_WorkloadStatus = ws\<rparr> })
       (view_pair (view_conditions V)
         (view_ptr as_WorkloadStatuses (view_elems (view_ptr as_WorkloadStatus (view_workload_status V)))))"

definition view_workload :: "'l lib_view \<Rightarrow> 'l cell list \<Rightarrow> 'l workload_image \<Rightarrow> (auth_proxy_workload \<times> addr list) option" where
  "view_workload V =
     view_struct (\<lambda>m. (wi_ObjectMeta m, wi_Spec m, wi_Status m))
       (\<lambda>m (meta, spec, status). Some \<lparr>apw_GVK = wi_TypeMeta m, apw_Meta = meta, apw_Spec = spec, apw_Status = status\<rparr>)
       (view_pair (view_as VObjectMeta_of V) (view_pair (view_spec V) (view_status V)))"

text \<open>A list of resources: its type, its metadata and its items.\<close>

definition view_list :: "'l lib_view \<Rightarrow> 'l cell list \<Rightarrow> 'l list_image \<Rightarrow>
    ((group_version_kind \<times> opaque \<times> auth_proxy_workload list) \<times> addr list) option" where
  "view_list V =
     view_struct (\<lambda>m. (li_ListMeta m, li_Items m)) (\<lambda>m (meta, items). Some (li_TypeMeta m, meta, slice_value items))
       (view_pair (view_as VListMeta_of V) (view_ptr as_Workloads (view_elems (view_workload V))))"

section \<open>The generated functions copy deeply\<close>

lemmas copy_field_defs = copy_struct_def copy_pair_def Let_def split_def fun_eq_iff

interpretation icopy: deep_copy view_instance InstanceSpec_DeepCopyInto
proof -
  have "InstanceSpec_DeepCopyInto =
      copy_struct (\<lambda>m. (ii_Port m, ii_AutoIAMAuthN m, ii_PrivateIP m))
        (\<lambda>m (port, auth, priv). m\<lparr>ii_Port := port, ii_AutoIAMAuthN := auth, ii_PrivateIP := priv\<rparr>)
        (copy_pair (copy_ptr as_Int32 Int32Cell (\<lambda>_. 0) copy_prim)
          (copy_pair (copy_ptr as_Bool BoolCell (\<lambda>_. False) copy_prim) (copy_ptr as_Bool BoolCell (\<lambda>_. False) copy_prim)))"
    by (simp add: InstanceSpec_DeepCopyInto_def copy_field_defs)
  then show "deep_copy view_instance InstanceSpec_DeepCopyInto"
    unfolding view_instance_def by (rule deep_copy_struct) (auto intro!: deep_copy_intros prim.ptr)
qed

text \<open>The copies of the Kubernetes structs are documented to copy deeply (\<open>DeepCopyInto is an autogenerated deepcopy
  function, copying the receiver, writing into out\<close>); under this contract, so do the generated copies of the operator.\<close>

locale k8s_copies = lib: deep_copy V "lib_DeepCopyInto L"
  for V :: "'l cell list \<Rightarrow> 'l \<Rightarrow> (lib_value \<times> addr list) option" and L :: "'l copy_library"
begin

lemma lib_ptr: "deep_copy (view_lib_ptr f V) (copy_lib_ptr L)"
  by (intro deep_copy.ptr deep_copy_view_as lib.deep_copy_axioms) simp

lemma conditions: "deep_copy (view_conditions V) (copy_conditions L)"
  unfolding view_conditions_def copy_conditions_def by (intro deep_copy.ptr deep_copy.elems lib_ptr) simp

end

sublocale k8s_copies \<subseteq> sel: deep_copy "view_selector V" "WorkloadSelectorSpec_DeepCopyInto L"
proof -
  have "WorkloadSelectorSpec_DeepCopyInto L = copy_struct si_Selector (\<lambda>m p. m\<lparr>si_Selector := p\<rparr>) (copy_lib_ptr L)"
    by (simp add: WorkloadSelectorSpec_DeepCopyInto_def copy_field_defs)
  then show "deep_copy (view_selector V) (WorkloadSelectorSpec_DeepCopyInto L)"
    unfolding view_selector_def by (rule deep_copy_struct) (auto intro: lib_ptr)
qed

sublocale k8s_copies \<subseteq> cont: deep_copy "view_container V" "AuthProxyContainerSpec_DeepCopyInto L"
proof -
  have "AuthProxyContainerSpec_DeepCopyInto L =
      copy_struct (\<lambda>m. (ci_Container m, ci_Resources m, ci_MaxConnections m, ci_MaxSigtermDelay m))
        (\<lambda>m (cont, res, conns, delay). m\<lparr>ci_Container := cont, ci_Resources := res, ci_MaxConnections := conns,
           ci_MaxSigtermDelay := delay\<rparr>)
        (copy_pair (copy_lib_ptr L) (copy_pair (copy_lib_ptr L)
          (copy_pair (copy_ptr as_Int64 Int64Cell (\<lambda>_. 0) copy_prim) (copy_ptr as_Int64 Int64Cell (\<lambda>_. 0) copy_prim))))"
    by (simp add: AuthProxyContainerSpec_DeepCopyInto_def copy_field_defs)
  then show "deep_copy (view_container V) (AuthProxyContainerSpec_DeepCopyInto L)"
    unfolding view_container_def by (rule deep_copy_struct) (auto intro!: deep_copy_pair prim.ptr lib_ptr)
qed

sublocale k8s_copies \<subseteq> spec: deep_copy "view_spec V" "AuthProxyWorkloadSpec_DeepCopyInto L"
proof -
  have "AuthProxyWorkloadSpec_DeepCopyInto L =
      copy_struct (\<lambda>m. (spi_Workload m, spi_AuthProxyContainer m, spi_Instances m))
        (\<lambda>m (sel, cont, insts). m\<lparr>spi_Workload := sel, spi_AuthProxyContainer := cont, spi_Instances := insts\<rparr>)
        (copy_pair (WorkloadSelectorSpec_DeepCopyInto L)
          (copy_pair (copy_ptr as_Container ContainerCell (\<lambda>_. zero_container_spec) (AuthProxyContainerSpec_DeepCopyInto L))
            (copy_ptr as_Instances InstancesCell (zeros (\<lambda>_. zero_instance)) (map_state InstanceSpec_DeepCopyInto))))"
    by (simp add: AuthProxyWorkloadSpec_DeepCopyInto_def copy_field_defs)
  then show "deep_copy (view_spec V) (AuthProxyWorkloadSpec_DeepCopyInto L)"
    unfolding view_spec_def
    by (rule deep_copy_struct) (auto intro!: deep_copy_pair sel.deep_copy_axioms cont.ptr deep_copy.ptr icopy.elems)
qed

sublocale k8s_copies \<subseteq> ws: deep_copy "view_workload_status V" "WorkloadStatus_DeepCopyInto L"
proof -
  have "WorkloadStatus_DeepCopyInto L =
      copy_struct wsi_Conditions (\<lambda>m p. m\<lparr>wsi_Conditions := p\<rparr>) (copy_conditions L)"
    by (simp add: WorkloadStatus_DeepCopyInto_def copy_field_defs)
  then show "deep_copy (view_workload_status V) (WorkloadStatus_DeepCopyInto L)"
    unfolding view_workload_status_def by (rule deep_copy_struct) (auto intro: conditions)
qed

sublocale k8s_copies \<subseteq> status: deep_copy "view_status V" "AuthProxyWorkloadStatus_DeepCopyInto L"
proof -
  have "AuthProxyWorkloadStatus_DeepCopyInto L =
      copy_struct (\<lambda>m. (sti_Conditions m, sti_WorkloadStatus m))
        (\<lambda>m (conds, wss). m\<lparr>sti_Conditions := conds, sti_WorkloadStatus := wss\<rparr>)
        (copy_pair (copy_conditions L) (copy_ptr as_WorkloadStatuses WorkloadStatusesCell (zeros (\<lambda>_. None))
           (map_state (copy_ptr as_WorkloadStatus WorkloadStatusCell (\<lambda>_. zero_workload_status) (WorkloadStatus_DeepCopyInto L)))))"
    by (simp add: AuthProxyWorkloadStatus_DeepCopyInto_def copy_field_defs)
  then show "deep_copy (view_status V) (AuthProxyWorkloadStatus_DeepCopyInto L)"
    unfolding view_status_def
    by (rule deep_copy_struct) (auto intro!: deep_copy_pair conditions deep_copy.ptr deep_copy.elems ws.deep_copy_axioms)
qed

sublocale k8s_copies \<subseteq> wl: deep_copy "view_workload V" "AuthProxyWorkload_DeepCopyInto L"
proof -
  have "AuthProxyWorkload_DeepCopyInto L =
      copy_struct (\<lambda>m. (wi_ObjectMeta m, wi_Spec m, wi_Status m))
        (\<lambda>m (meta, spec, status). m\<lparr>wi_ObjectMeta := meta, wi_Spec := spec, wi_Status := status\<rparr>)
        (copy_pair (lib_DeepCopyInto L)
          (copy_pair (AuthProxyWorkloadSpec_DeepCopyInto L) (AuthProxyWorkloadStatus_DeepCopyInto L)))"
    by (simp add: AuthProxyWorkload_DeepCopyInto_def copy_field_defs)
  then show "deep_copy (view_workload V) (AuthProxyWorkload_DeepCopyInto L)"
    unfolding view_workload_def
    by (rule deep_copy_struct)
      (auto intro!: deep_copy_pair deep_copy_view_as lib.deep_copy_axioms spec.deep_copy_axioms status.deep_copy_axioms)
qed

sublocale k8s_copies \<subseteq> list: deep_copy "view_list V" "AuthProxyWorkloadList_DeepCopyInto L"
proof -
  have "AuthProxyWorkloadList_DeepCopyInto L =
      copy_struct (\<lambda>m. (li_ListMeta m, li_Items m)) (\<lambda>m (meta, items). m\<lparr>li_ListMeta := meta, li_Items := items\<rparr>)
        (copy_pair (lib_DeepCopyInto L) (copy_ptr as_Workloads WorkloadsCell (zeros (zero_workload L))
           (map_state (AuthProxyWorkload_DeepCopyInto L))))"
    by (simp add: AuthProxyWorkloadList_DeepCopyInto_def copy_field_defs)
  then show "deep_copy (view_list V) (AuthProxyWorkloadList_DeepCopyInto L)"
    unfolding view_list_def
    by (rule deep_copy_struct)
      (auto intro!: deep_copy_pair deep_copy_view_as lib.deep_copy_axioms deep_copy.ptr wl.elems)
qed

section \<open>A copied resource is independent of the original\<close>

text \<open>The resource that a pointer leads to, with the addresses of its cells; a list of resources likewise.\<close>

definition resource_at :: "'l lib_view \<Rightarrow> 'l cell list \<Rightarrow> addr option \<Rightarrow> (auth_proxy_workload option \<times> addr list) option" where
  "resource_at V = view_ptr as_Workload (view_workload V)"

definition resources_at :: "'l lib_view \<Rightarrow> 'l cell list \<Rightarrow> addr option \<Rightarrow>
    ((group_version_kind \<times> opaque \<times> auth_proxy_workload list) option \<times> addr list) option" where
  "resources_at V = view_ptr as_List (view_list V)"

sublocale k8s_copies \<subseteq> res: deep_copy "resource_at V" "AuthProxyWorkload_DeepCopy L"
  unfolding resource_at_def AuthProxyWorkload_DeepCopy_def by (rule wl.ptr) simp

sublocale k8s_copies \<subseteq> ress: deep_copy "resources_at V" "AuthProxyWorkloadList_DeepCopy L"
  unfolding resources_at_def AuthProxyWorkloadList_DeepCopy_def by (rule list.ptr) simp

text \<open>Memory that agrees with another on some cells, as after writes to others and further allocations.\<close>

definition same_cells :: "addr list \<Rightarrow> 'c list \<Rightarrow> 'c list \<Rightarrow> bool" where
  "same_cells F h h' \<longleftrightarrow> list_all (\<lambda>a. deref h' a = deref h a) F"

text \<open>The methods of the interface \<open>runtime.Object\<close> give the nil interface for a nil pointer, and no interface that holds
  a nil pointer.\<close>

lemma DeepCopyObject_of_copy:
  "AuthProxyWorkload_DeepCopyObject L h p =
     map_option (\<lambda>(c, h'). (map_option (\<lambda>a. WorkloadObject (Some a)) c, h')) (AuthProxyWorkload_DeepCopy L h p)"
  "AuthProxyWorkloadList_DeepCopyObject L h p =
     map_option (\<lambda>(c, h'). (map_option (\<lambda>a. ListObject (Some a)) c, h')) (AuthProxyWorkloadList_DeepCopy L h p)"
  by (auto simp: AuthProxyWorkload_DeepCopyObject_def AuthProxyWorkloadList_DeepCopyObject_def split: Option.bind_split)

context k8s_copies
begin

lemma copy_resource:
  assumes r: "resource_at V h p = Some (r, F)"
  shows "\<exists>q h' F'. AuthProxyWorkload_DeepCopy L h p = Some (q, h') \<and> set F \<inter> set F' = {} \<and> take (length h) h' = h \<and>
     (\<forall>h''. same_cells F h' h'' \<longrightarrow> resource_at V h'' p = Some (r, F)) \<and>
     (\<forall>h''. same_cells F' h' h'' \<longrightarrow> resource_at V h'' q = Some (r, F'))"
proof -
  obtain q cs F' where c: "AuthProxyWorkload_DeepCopy L h p = Some (q, h @ cs)" "resource_at V (h @ cs) q = Some (r, F')"
    "set F' \<subseteq> {length h..}"
    using res.copy_view [OF r] by blast
  have frame: "resource_at V h'' x = Some (r, G)" if "same_cells G (h @ cs) h''" "resource_at V (h @ cs) x = Some (r, G)" for h'' x G
    using that by (auto simp: same_cells_def list_all_iff intro: res.view_frame)
  have "set F \<inter> set F' = {}" using res.view_bound [OF r] c(3) by fastforce
  with c frame res.view_extend [OF r, of cs] show ?thesis by (auto intro!: exI [of _ F'])
qed

lemma copy_workload:
  assumes "view_workload V h m = Some (v, F)"
  shows "\<exists>m' cs. AuthProxyWorkload_DeepCopyInto L (h @ ds) m = Some (m', h @ ds @ cs)"
  using wl.copy_among [OF assms] by metis

lemma copy_resources:
  assumes "resources_at V h p = Some (r, F)"
  obtains q h' F' where "AuthProxyWorkloadList_DeepCopy L h p = Some (q, h')" "resources_at V h' q = Some (r, F')"
    "resources_at V h' p = Some (r, F)" "set F \<inter> set F' = {}"
  using assms by (rule ress.copy_isolated)

end

text \<open>
  C9: \<open>DeepCopy\<close> of a resource returns, and the pointer it returns leads to the same resource as the original. The two share no
  cell and no cell that was there is changed; so whatever later happens to the memory outside the cells of one of them,
  in particular writes through the other, does not change it.
\<close>

theorem AuthProxyWorkload_DeepCopy_isolated:
  assumes "k8s_copies V L" and "resource_at V h p = Some (r, F)"
  shows "\<exists>q h' F'. AuthProxyWorkload_DeepCopy L h p = Some (q, h') \<and> set F \<inter> set F' = {} \<and> take (length h) h' = h \<and>
     (\<forall>h''. same_cells F h' h'' \<longrightarrow> resource_at V h'' p = Some (r, F)) \<and>
     (\<forall>h''. same_cells F' h' h'' \<longrightarrow> resource_at V h'' q = Some (r, F'))"
  using assms by (rule k8s_copies.copy_resource)

section \<open>An example library\<close>

text \<open>Kubernetes structs without pointers, and an \<open>ObjectMeta\<close> whose labels are a map in a cell of its own.\<close>

datatype k8s_image = Flat lib_value | MetaImage object_meta addr | MapImage string_map

definition map_at :: "k8s_image cell list \<Rightarrow> addr \<Rightarrow> string_map option" where
  "map_at h a = (case deref h a of Some (LibCell (MapImage ls)) \<Rightarrow> Some ls | _ \<Rightarrow> None)"

definition example_view :: "k8s_image lib_view" where
  "example_view h l =
     (case l of
        Flat v \<Rightarrow> Some (v, [])
      | MetaImage m a \<Rightarrow> map_option (\<lambda>ls. (VObjectMeta (m\<lparr>om_Labels := ls\<rparr>), [a])) (map_at h a)
      | MapImage ls \<Rightarrow> None)"

definition example_lib :: "k8s_image copy_library" where
  "example_lib =
     \<lparr>lib_DeepCopyInto = (\<lambda>h l.
        case l of
          MetaImage m a \<Rightarrow> map_option (\<lambda>ls. (MetaImage m (length h), h @ [LibCell (MapImage ls)])) (map_at h a)
        | _ \<Rightarrow> Some (l, h)),
      lib_zero = (\<lambda>l. Flat (VListMeta []))\<rparr>"

interpretation example_copies: k8s_copies example_view example_lib
proof
  fix h h' l v F
  assume v: "example_view h l = Some (v, F)"
  then show "set F \<subseteq> {..<length h}"
    by (auto simp: example_view_def map_at_def split: k8s_image.splits option.splits dest: deref_SomeD)
  show "\<exists>l' cs F'. lib_DeepCopyInto example_lib h l = Some (l', h @ cs) \<and> example_view (h @ cs) l' = Some (v, F') \<and>
      set F' \<subseteq> {length h..}"
    using v by (cases l) (auto simp: example_view_def example_lib_def map_at_def deref_def split: if_splits)
  assume "\<And>a. a \<in> set F \<Longrightarrow> deref h' a = deref h a"
  with v show "example_view h' l = Some (v, F)"
    by (cases l) (auto simp: example_view_def map_at_def)
qed

text \<open>A resource with labels and one instance with a port, spread over four cells.\<close>

definition example_image :: "k8s_image workload_image" where
  "example_image =
     \<lparr>wi_TypeMeta = zero_gvk, wi_ObjectMeta = MetaImage (zero_meta\<lparr>om_Name := ''one''\<rparr>) 0,
      wi_Spec = zero_spec\<lparr>spi_Instances := Some 2\<rparr>, wi_Status = zero_status\<rparr>"

definition example_memory :: "k8s_image cell list" where
  "example_memory =
     [LibCell (MapImage [(''app'', ''x'')]), Int32Cell 5000,
      InstancesCell [zero_instance\<lparr>ii_ConnectionString := ''p:r:db'', ii_Port := Some 1\<rparr>], WorkloadCell example_image]"

definition example_copied :: auth_proxy_workload where
  "example_copied = (example_apw [] ''one'' [] [example_inst ''p:r:db'' (Some 5000)])
     \<lparr>apw_GVK := zero_gvk, apw_Meta := zero_meta\<lparr>om_Name := ''one'', om_Labels := [(''app'', ''x'')]\<rparr>\<rparr>"

lemmas view_defs = resource_at_def view_workload_def view_spec_def view_status_def view_selector_def view_instance_def
  view_conditions_def view_as_def view_struct_def view_pair_def view_ptr_def view_prim_def slice_value_def ptr_slice_value_def

lemma example_memory_resource: "resource_at example_view example_memory (Some 3) = Some (Some example_copied, [3, 0, 2, 1])"
  by (simp add: view_defs example_memory_def example_image_def example_copied_def example_apw_def example_inst_def deref_def
      zero_spec_def zero_status_def zero_selector_def zero_instance_def example_view_def map_at_def VObjectMeta_of_def zero_meta_def)

theorem AuthProxyWorkload_DeepCopy_isolated_witness:
  "\<exists>q h' F'. AuthProxyWorkload_DeepCopy example_lib example_memory (Some 3) = Some (q, h') \<and>
     resource_at example_view (h'[1 := Int32Cell 6000]) q = Some (Some example_copied, F')"
proof -
  obtain q h' F' where c: "AuthProxyWorkload_DeepCopy example_lib example_memory (Some 3) = Some (q, h')"
    "set [3, 0, 2, 1] \<inter> set F' = {}"
    "\<forall>h''. same_cells F' h' h'' \<longrightarrow> resource_at example_view h'' q = Some (Some example_copied, F')"
    using AuthProxyWorkload_DeepCopy_isolated [OF example_copies.k8s_copies_axioms example_memory_resource] by blast
  have "same_cells F' h' (h'[1 := Int32Cell 6000])"
    using c(2) by (auto simp: same_cells_def list_all_iff intro!: deref_update_other)
  with c show ?thesis by blast
qed

section \<open>The dynamic type of a copied object\<close>

text \<open>
  C23: \<open>DeepCopyObject\<close> gives the nil interface for a nil pointer, and not an interface that holds a nil pointer, which would
  compare unequal to nil; otherwise the interface has the type of the receiver, and its pointer leads to a new cell of
  this type.
\<close>

theorem AuthProxyWorkload_DeepCopyObject_type:
  assumes "k8s_copies V L" and "resource_at V h p = Some (r, F)"
  shows "case p of
       None \<Rightarrow> AuthProxyWorkload_DeepCopyObject L h p = Some (None, h)
     | Some _ \<Rightarrow> \<exists>a h' m. AuthProxyWorkload_DeepCopyObject L h p = Some (Some (WorkloadObject (Some a)), h') \<and>
         deref h' a = Some (WorkloadCell m) \<and> length h \<le> a"
proof (cases p)
  case None
  then show ?thesis by (simp add: DeepCopyObject_of_copy AuthProxyWorkload_DeepCopy_def copy_ptr_def)
next
  case (Some b)
  with assms(2) obtain m v G where m: "deref h b = Some (WorkloadCell m)" "view_workload V h m = Some (v, G)"
    unfolding resource_at_def by (auto elim!: view_ptr_SomeE simp: as_Workload_def split: cell.splits)
  let ?z = "WorkloadCell (zero_workload L m)"
  obtain m' cs where "AuthProxyWorkload_DeepCopyInto L (h @ [?z]) m = Some (m', h @ ?z # cs)"
    using k8s_copies.copy_workload [OF assms(1) m(2), of "[?z]"] by auto
  then show ?thesis
    using Some m(1) by (simp add: DeepCopyObject_of_copy AuthProxyWorkload_DeepCopy_def copy_ptr_def deref_def split: if_splits)
qed

theorem AuthProxyWorkload_DeepCopyObject_type_witness:
  "\<exists>a h' m. AuthProxyWorkload_DeepCopyObject example_lib example_memory (Some 3) = Some (Some (WorkloadObject (Some a)), h') \<and>
     deref h' a = Some (WorkloadCell m) \<and> length example_memory \<le> a"
  using AuthProxyWorkload_DeepCopyObject_type [OF example_copies.k8s_copies_axioms example_memory_resource] by simp

end
