(* ===== verification/Reconcile_Status.thy ===== *)
theory Reconcile_Status
  imports Reconciler
begin

text \<open>
  What one round of the reconcile loop does to the status of a resource: the statuses of the
  matching workloads (\<open>updateWorkloadStatus\<close>) and the condition \<open>UpToDate\<close> (\<open>reconcileResult\<close>).
\<close>

section \<open>The statuses of the workloads\<close>

text \<open>The status that the loop stores for a workload when the clock shows \<open>t\<close>.\<close>

definition fresh_status :: "apimachinery \<Rightarrow> i64 \<Rightarrow> workload \<Rightarrow> time \<Rightarrow> workload_status" where
  "fresh_status A gen wl t =
     (newStatus A wl)\<lparr>ws_Conditions :=
       [\<lparr>cd_Type = ConditionWorkloadUpToDate, cd_Status = ConditionTrue, cd_ObservedGeneration = gen,
         cd_LastTransitionTime = Some t, cd_Reason = ReasonUpToDate,
         cd_Message = ''No update needed for this workload''\<rparr>]\<rparr>"

lemma ws_key_fresh [simp]: "ws_key (fresh_status A gen wl t) = ws_key (newStatus A wl)"
  by (simp add: fresh_status_def ws_key_def)

text \<open>The loop is a fold of \<open>replaceStatus\<close> over the new statuses.\<close>

definition fresh_statuses :: "apimachinery \<Rightarrow> (nat \<Rightarrow> time) \<Rightarrow> nat \<Rightarrow> i64 \<Rightarrow> workload list \<Rightarrow> workload_status list" where
  "fresh_statuses A now i gen wls = map (\<lambda>(j, wl). fresh_status A gen wl (now j)) (enumerate i wls)"

lemma update_statuses_foldl:
  "update_statuses A now i gen wls statuses = foldl replaceStatus statuses (fresh_statuses A now i gen wls)"
proof (induction wls arbitrary: i statuses)
  case (Cons wl wls)
  have "(newStatus A wl)\<lparr>ws_Conditions := replaceCondition (now i) (ws_Conditions (newStatus A wl))
      \<lparr>cd_Type = ConditionWorkloadUpToDate, cd_Status = ConditionTrue, cd_ObservedGeneration = gen,
       cd_LastTransitionTime = None, cd_Reason = ReasonUpToDate,
       cd_Message = ''No update needed for this workload''\<rparr>\<rparr> = fresh_status A gen wl (now i)"
    by (simp add: newStatus_def fresh_status_def replaceCondition_def)
  with Cons show ?case by (simp add: fresh_statuses_def)
qed (simp add: fresh_statuses_def)

lemma findStatus_replaceStatus:
  "findStatus (replaceStatus statuses s) q = (if ws_key s = ws_key q then Some s else findStatus statuses q)"
proof (cases "ws_key s = ws_key q")
  case True
  then show ?thesis using wst.ups_find [of s statuses] by (simp add: findStatus_def)
next
  case False
  have "find (\<lambda>y. ws_key y = ws_key q) xs =
      find (\<lambda>y. ws_key y = ws_key q) (filter (\<lambda>y. ws_key y \<noteq> ws_key s) xs)" for xs
    using False by (induction xs) auto
  with False show ?thesis unfolding findStatus_def by (metis wst.ups_others)
qed

lemma findStatus_foldl:
  "findStatus (foldl replaceStatus statuses us) q =
     (case find (\<lambda>u. ws_key u = ws_key q) (rev us) of Some u \<Rightarrow> Some u | None \<Rightarrow> findStatus statuses q)"
  by (induction us rule: rev_induct) (auto simp: findStatus_replaceStatus)

lemma keys_fresh_statuses: "ws_key ` set (fresh_statuses A now i gen wls) = (\<lambda>wl. ws_key (newStatus A wl)) ` set wls"
proof -
  have "map ws_key (fresh_statuses A now i gen wls) = map (\<lambda>wl. ws_key (newStatus A wl)) wls"
    by (induction wls arbitrary: i) (simp_all add: fresh_statuses_def)
  then show ?thesis by (metis list.set_map)
qed

lemma mem_fresh_statuses:
  "s \<in> set (fresh_statuses A now i gen wls) \<Longrightarrow>
     \<exists>wl \<in> set wls. \<exists>j. i \<le> j \<and> j < i + length wls \<and> s = fresh_status A gen wl (now j)"
proof -
  assume "s \<in> set (fresh_statuses A now i gen wls)"
  then obtain j wl where "(j, wl) \<in> set (enumerate i wls)" and s: "s = fresh_status A gen wl (now j)"
    by (auto simp: fresh_statuses_def)
  then have j: "i \<le> j" "j < i + length wls" "wls ! (j - i) = wl" by (auto simp: in_set_enumerate_eq)
  then have "wl \<in> set wls" using nth_mem [of "j - i" wls] by auto
  with j s show ?thesis by blast
qed

lemma updateWorkloadStatus_alt:
  assumes "updateWorkloadStatus K A now w r = Inr (wls, r')"
  shows "r' = r\<lparr>apw_Status := (apw_Status r)\<lparr>st_WorkloadStatus :=
      foldl replaceStatus (st_WorkloadStatus (apw_Status r))
        (fresh_statuses A now 0 (om_Generation (apw_Meta r)) wls)\<rparr>\<rparr>"
  using assms by (auto simp: updateWorkloadStatus_def update_statuses_foldl split: sum.splits)

lemma update_statuses_found:
  assumes "updateWorkloadStatus K A now w r = Inr (wls, r')" and "wl \<in> set wls"
  shows "\<exists>wl' \<in> set wls. \<exists>j < length wls. ws_key (newStatus A wl') = ws_key (newStatus A wl) \<and>
     findStatus (st_WorkloadStatus (apw_Status r')) (newStatus A wl) =
       Some (fresh_status A (om_Generation (apw_Meta r)) wl' (now j))"
proof -
  let ?us = "fresh_statuses A now 0 (om_Generation (apw_Meta r)) wls"
  note r' = updateWorkloadStatus_alt [OF assms(1)]
  have "ws_key (newStatus A wl) \<in> ws_key ` set ?us" using assms(2) by (simp add: keys_fresh_statuses)
  then obtain u where u: "find (\<lambda>u. ws_key u = ws_key (newStatus A wl)) (rev ?us) = Some u"
    by (cases "find (\<lambda>u. ws_key u = ws_key (newStatus A wl)) (rev ?us)") (auto simp: find_None_iff)
  then have "u \<in> set ?us" "ws_key u = ws_key (newStatus A wl)"
    by (auto simp: find_Some_iff intro: nth_mem) (metis length_rev nth_mem set_rev)
  with mem_fresh_statuses [of u A now 0] u show ?thesis
    by (auto simp: r' findStatus_foldl) (metis ws_key_fresh)
qed

text \<open>
  C19: the status lists every matching workload. After \<open>updateWorkloadStatus\<close>, each matching workload
  has a status with the single condition \<open>WorkloadUpToDate\<close>, true for the current generation, with an instant
  read during the call; the statuses of all other workloads are still there, unchanged; a
  list with one entry per workload keeps that property; and nothing else of the resource changes.
\<close>

theorem updateWorkloadStatus_statuses:
  assumes "updateWorkloadStatus K A now w r = Inr (wls, r')"
  shows "(\<forall>wl \<in> set wls. \<exists>wl' \<in> set wls. \<exists>j < length wls. ws_key (newStatus A wl') = ws_key (newStatus A wl) \<and>
        findStatus (st_WorkloadStatus (apw_Status r')) (newStatus A wl) =
          Some (fresh_status A (om_Generation (apw_Meta r)) wl' (now j))) \<and>
     filter (\<lambda>s. ws_key s \<notin> (\<lambda>wl. ws_key (newStatus A wl)) ` set wls) (st_WorkloadStatus (apw_Status r')) =
       filter (\<lambda>s. ws_key s \<notin> (\<lambda>wl. ws_key (newStatus A wl)) ` set wls) (st_WorkloadStatus (apw_Status r)) \<and>
     (distinct (map ws_key (st_WorkloadStatus (apw_Status r))) \<longrightarrow>
        distinct (map ws_key (st_WorkloadStatus (apw_Status r')))) \<and>
     r' = r\<lparr>apw_Status := (apw_Status r)\<lparr>st_WorkloadStatus := st_WorkloadStatus (apw_Status r')\<rparr>\<rparr>"
proof -
  note r' = updateWorkloadStatus_alt [OF assms]
  have "filter (\<lambda>s. ws_key s \<notin> (\<lambda>wl. ws_key (newStatus A wl)) ` set wls) (st_WorkloadStatus (apw_Status r')) =
       filter (\<lambda>s. ws_key s \<notin> (\<lambda>wl. ws_key (newStatus A wl)) ` set wls) (st_WorkloadStatus (apw_Status r))"
    unfolding r' by (simp, rule wst.foldl_ups_others_set) (simp add: keys_fresh_statuses)
  then show ?thesis
    using update_statuses_found [OF assms] by (simp add: r' wst.foldl_ups_distinct)
qed

lemma example_listWorkloads:
  assumes "wss_Name sel = []" and "wss_Selector sel = None" and "wss_Kind sel = ''Pod''"
  shows "listWorkloads (example_cluster pods) example_api w sel ns =
     Inr (map PodWorkload (filter (\<lambda>p. om_Namespace (pod_Meta p) = ns) pods))"
  using assms
  by (simp add: listWorkloads_def loadByLabelSelector_def LabelsSelector_def example_api_def
      WorkloadListForKind_def example_cluster_def)

abbreviation example_resource :: auth_proxy_workload where
  "example_resource \<equiv> example_apw ''default'' ''one'' ''Pod'' []"

definition status_pod :: pod where
  "status_pod = zero_pod\<lparr>pod_Meta := zero_meta\<lparr>om_Namespace := ''default'', om_Name := ''busybox''\<rparr>\<rparr>"

theorem updateWorkloadStatus_statuses_witness:
  "\<exists>r'. updateWorkloadStatus (example_cluster [status_pod]) example_api (\<lambda>_. 7) Map.empty example_resource =
      Inr ([PodWorkload status_pod], r') \<and>
     findStatus (st_WorkloadStatus (apw_Status r')) (newStatus example_api (PodWorkload status_pod)) =
       Some (fresh_status example_api 0 (PodWorkload status_pod) 7)"
proof -
  obtain r' where r': "updateWorkloadStatus (example_cluster [status_pod]) example_api (\<lambda>_. 7) Map.empty example_resource =
      Inr ([PodWorkload status_pod], r')"
    by (simp add: updateWorkloadStatus_def example_listWorkloads status_pod_def zero_pod_def)
  from updateWorkloadStatus_statuses [OF r'] r' show ?thesis by (auto simp: zero_meta_def)
qed

text \<open>
  C33: reconciling again never settles. If a resource matches at least one workload, then a second call of
  \<open>updateWorkloadStatus\<close> on its result, at different instants, gives a different list of statuses, even if
  nothing in the cluster changed: the instant of the last transition of each workload is always the current
  one, because the conditions start from an empty status. So the status patch that follows is never empty.
\<close>

theorem updateWorkloadStatus_never_stable:
  assumes "updateWorkloadStatus K A now w r = Inr (wls, r1)" and "updateWorkloadStatus K A now' w r1 = Inr (wls, r2)"
    and "wls \<noteq> []" and "\<And>i j. now i \<noteq> now' j"
  shows "st_WorkloadStatus (apw_Status r2) \<noteq> st_WorkloadStatus (apw_Status r1)"
proof
  assume eq: "st_WorkloadStatus (apw_Status r2) = st_WorkloadStatus (apw_Status r1)"
  obtain wl where wl: "wl \<in> set wls" using assms(3) by (cases wls) auto
  obtain x j where 1: "findStatus (st_WorkloadStatus (apw_Status r1)) (newStatus A wl) =
      Some (fresh_status A (om_Generation (apw_Meta r)) x (now j))"
    using update_statuses_found [OF assms(1) wl] by blast
  obtain y k where 2: "findStatus (st_WorkloadStatus (apw_Status r2)) (newStatus A wl) =
      Some (fresh_status A (om_Generation (apw_Meta r1)) y (now' k))"
    using update_statuses_found [OF assms(2) wl] by blast
  from 1 2 eq have "now j = now' k" by (auto simp: fresh_status_def newStatus_def)
  with assms(4) show False by blast
qed

theorem updateWorkloadStatus_never_stable_witness:
  "\<exists>r1 r2. updateWorkloadStatus (example_cluster [status_pod]) example_api (\<lambda>_. 7) Map.empty example_resource =
      Inr ([PodWorkload status_pod], r1) \<and>
     updateWorkloadStatus (example_cluster [status_pod]) example_api (\<lambda>_. 8) Map.empty r1 =
      Inr ([PodWorkload status_pod], r2) \<and>
     st_WorkloadStatus (apw_Status r2) \<noteq> st_WorkloadStatus (apw_Status r1)"
proof -
  let ?K = "example_cluster [status_pod]"
  have l: "listWorkloads ?K example_api Map.empty (aps_Workload (apw_Spec example_resource)) ''default'' =
      Inr [PodWorkload status_pod]"
    by (simp add: example_listWorkloads status_pod_def zero_pod_def)
  obtain r1 where 1: "updateWorkloadStatus ?K example_api (\<lambda>_. 7) Map.empty example_resource =
      Inr ([PodWorkload status_pod], r1)"
    using l by (simp add: updateWorkloadStatus_def)
  then have "apw_Spec r1 = apw_Spec example_resource" "apw_Namespace r1 = ''default''"
    using updateWorkloadStatus_alt [OF 1] by auto
  then obtain r2 where 2: "updateWorkloadStatus ?K example_api (\<lambda>_. 8) Map.empty r1 =
      Inr ([PodWorkload status_pod], r2)"
    using l by (simp add: updateWorkloadStatus_def)
  from updateWorkloadStatus_never_stable [OF 1 2] 1 2 show ?thesis by auto
qed

end
