(* ===== verification/Reconcile_Runs.thy ===== *)
theory Reconcile_Runs
  imports Reconcile_Status
begin

text \<open>
  The reconcile loop as a state machine: the table of states in the comment of \<open>doCreateUpdate\<close> as
  an abstract specification that \<open>Reconcile\<close> refines, the writes of one call, convergence on a
  cluster that is left alone, deletion, and runs of many calls interleaved with changes by others.
\<close>

section \<open>What the loop relies on\<close>

text \<open>Documented behaviour of the functions of \<open>controllerutil\<close> on the list of finalizers.\<close>

definition finalizers_ok :: "'w cluster_api \<Rightarrow> bool" where
  "finalizers_ok K \<longleftrightarrow>
     (\<forall>r n. containsFinalizer K r n = (n \<in> set (om_Finalizers (apw_Meta r)))) \<and>
     (\<forall>r n. n \<notin> set (om_Finalizers (apw_Meta r)) \<longrightarrow>
        addFinalizer K r n = set_finalizers r (om_Finalizers (apw_Meta r) @ [n])) \<and>
     (\<forall>r n. removeFinalizer K r n = set_finalizers r (filter (\<lambda>f. f \<noteq> n) (om_Finalizers (apw_Meta r))))"

lemma set_finalizers_simps [simp]:
  "apw_Spec (set_finalizers r fs) = apw_Spec r" "apw_Status (set_finalizers r fs) = apw_Status r"
  "apw_key (set_finalizers r fs) = apw_key r" "om_Finalizers (apw_Meta (set_finalizers r fs)) = fs"
  "om_DeletionTimestamp (apw_Meta (set_finalizers r fs)) = om_DeletionTimestamp (apw_Meta r)"
  "om_Generation (apw_Meta (set_finalizers r fs)) = om_Generation (apw_Meta r)"
  "apw_Namespace (set_finalizers r fs) = apw_Namespace r" "apw_Name (set_finalizers r fs) = apw_Name r"
  by (simp_all add: set_finalizers_def apw_key_def)

lemma up_to_date_resource_simps [simp]:
  "apw_Spec (up_to_date_resource t r reason msg) = apw_Spec r" "apw_Meta (up_to_date_resource t r reason msg) = apw_Meta r"
  "st_WorkloadStatus (apw_Status (up_to_date_resource t r reason msg)) = st_WorkloadStatus (apw_Status r)"
  by (simp_all add: up_to_date_resource_def)

lemma set_finalizers_status [simp]: "set_finalizers r fs\<lparr>apw_Status := apw_Status r\<rparr> = set_finalizers r fs"
  by (cases r) (simp add: set_finalizers_def)

lemma example_cluster_ops:
  "w k = Some r \<Longrightarrow> cl_Get (example_cluster pods) w k = Inr r"
  "w (apw_key r) = Some old \<Longrightarrow> om_DeletionTimestamp (apw_Meta r) = None \<or> om_Finalizers (apw_Meta r) \<noteq> [] \<Longrightarrow>
     cl_Update (example_cluster pods) w r = (w(apw_key r \<mapsto> r\<lparr>apw_Status := apw_Status old\<rparr>), None)"
  "w (apw_key r) = Some old \<Longrightarrow> om_DeletionTimestamp (apw_Meta r) \<noteq> None \<Longrightarrow> om_Finalizers (apw_Meta r) = [] \<Longrightarrow>
     cl_Update (example_cluster pods) w r = (w(apw_key r := None), None)"
  "w (apw_key r) = Some old \<Longrightarrow>
     cl_StatusPatch (example_cluster pods) w r orig = (w(apw_key r \<mapsto> old\<lparr>apw_Status := apw_Status r\<rparr>), None)"
  by (auto simp: example_cluster_def)

lemma example_finalizers_ok: "finalizers_ok (example_cluster pods)"
  by (simp add: finalizers_ok_def example_cluster_def)

section \<open>The table of states\<close>

text \<open>The states 1.1, 1.2, 2.1 and 3.1 of the comment.\<close>

datatype phase = NeedsFinalizer | CannotListWorkloads reconcile_error | NoWorkloads | WorkloadsReconciled nat

definition phase_of :: "'w cluster_api \<Rightarrow> apimachinery \<Rightarrow> 'w \<Rightarrow> auth_proxy_workload \<Rightarrow> phase" where
  "phase_of K A w r =
     (if finalizerName \<notin> set (om_Finalizers (apw_Meta r)) then NeedsFinalizer
      else case listWorkloads K A w (aps_Workload (apw_Spec r)) (apw_Namespace r) of
             Inl err \<Rightarrow> CannotListWorkloads err
           | Inr wls \<Rightarrow> if wls = [] then NoWorkloads else WorkloadsReconciled (length wls))"

text \<open>What the table says of each state: requeue or end, with the error of the listing.\<close>

fun phase_result :: "phase \<Rightarrow> ctrl_result" where
  "phase_result NeedsFinalizer = requeueNow"
| "phase_result (CannotListWorkloads _) = requeueWithDelay"
| "phase_result NoWorkloads = no_requeue"
| "phase_result (WorkloadsReconciled _) = no_requeue"

text \<open>The condition that the end states record.\<close>

fun phase_reason :: "phase \<Rightarrow> string" where
  "phase_reason (WorkloadsReconciled _) = ReasonFinishedReconcile"
| "phase_reason _ = ReasonNoWorkloadsFound"

fun phase_message :: "phase \<Rightarrow> string" where
  "phase_message (WorkloadsReconciled n) = ''Reconciled '' @ fmt_d (int n) @ '' matching workloads complete''"
| "phase_message _ = ''No workload updates needed''"

text \<open>The resource with the status of a finished round: the statuses of the workloads and the condition.\<close>

definition finished ::
    "apimachinery \<Rightarrow> (nat \<Rightarrow> time) \<Rightarrow> phase \<Rightarrow> workload list \<Rightarrow> auth_proxy_workload \<Rightarrow> auth_proxy_workload" where
  "finished A now ph wls r =
     up_to_date_resource (now (length wls))
       (r\<lparr>apw_Status := (apw_Status r)\<lparr>st_WorkloadStatus :=
          update_statuses A now 0 (om_Generation (apw_Meta r)) wls (st_WorkloadStatus (apw_Status r))\<rparr>\<rparr>)
       (phase_reason ph) (phase_message ph)"

text \<open>The write of each state, if any, and the state of the cluster after it.\<close>

definition phase_step ::
    "'w cluster_api \<Rightarrow> apimachinery \<Rightarrow> (nat \<Rightarrow> time) \<Rightarrow> 'w \<Rightarrow> auth_proxy_workload \<Rightarrow> 'w \<times> reconcile_error option" where
  "phase_step K A now w r =
     (case phase_of K A w r of
        NeedsFinalizer \<Rightarrow>
          map_prod id (map_option ClientError)
            (cl_Update K w (set_finalizers r (om_Finalizers (apw_Meta r) @ [finalizerName])))
      | CannotListWorkloads err \<Rightarrow> (w, Some err)
      | ph \<Rightarrow> map_prod id (map_option ClientError) (patchAuthProxyWorkloadStatus K w
                (finished A now ph (projr (listWorkloads K A w (aps_Workload (apw_Spec r)) (apw_Namespace r))) r) r))"

lemma doCreateUpdate_phase:
  assumes "finalizers_ok K"
  shows "doCreateUpdate K A now w r =
     (fst (phase_step K A now w r), phase_result (phase_of K A w r), snd (phase_step K A now w r))"
proof (cases "finalizerName \<in> set (om_Finalizers (apw_Meta r))")
  case False
  with assms show ?thesis
    by (auto simp: doCreateUpdate_def applyFinalizer_def phase_step_def phase_of_def finalizers_ok_def
        Let_def split: prod.splits option.splits)
next
  case True
  with assms have "containsFinalizer K r finalizerName" by (simp add: finalizers_ok_def)
  with True show ?thesis
    by (auto simp: doCreateUpdate_def updateWorkloadStatus_def phase_step_def phase_of_def finished_def
        reconcileResult_def Let_def split: sum.splits prod.splits option.splits)
qed

text \<open>
  C5: the reconcile loop refines the table of states. For a resource that is not being deleted, the
  outcome of a call is the one the table gives for its state: without finalizer it is added and the request
  is queued again at once; if the workloads cannot be listed nothing is written and the request is queued with a
  delay and the error; otherwise the finished status is patched and the request is not queued again.
\<close>

theorem Reconcile_refines_table:
  assumes "cl_Get K w req = Inr r" and "om_DeletionTimestamp (apw_Meta r) = None" and "finalizers_ok K"
  shows "Reconcile K A now c w req =
     (c(req \<mapsto> False), fst (phase_step K A now w r), phase_result (phase_of K A w r), snd (phase_step K A now w r))"
  using assms by (simp add: Reconcile_def cache_set_def doCreateUpdate_phase)

theorem Reconcile_refines_table_witness:
  "Reconcile (example_cluster []) example_api (\<lambda>_. 7) Map.empty [apw_key example_resource \<mapsto> example_resource]
     (apw_key example_resource) =
   ([apw_key example_resource \<mapsto> False],
    [apw_key example_resource \<mapsto> set_finalizers example_resource [finalizerName]], requeueNow, None)"
proof -
  let ?w = "[apw_key example_resource \<mapsto> example_resource]"
  have g: "cl_Get (example_cluster []) ?w (apw_key example_resource) = Inr example_resource"
    by (rule example_cluster_ops) simp
  have d: "om_DeletionTimestamp (apw_Meta example_resource) = None" by (simp add: zero_meta_def)
  have p: "phase_of (example_cluster []) example_api ?w example_resource = NeedsFinalizer"
    and f: "om_Finalizers zero_meta = []"
    by (simp_all add: phase_of_def zero_meta_def)
  from Reconcile_refines_table [OF g d example_finalizers_ok, of example_api "\<lambda>_. 7" Map.empty]
  show ?thesis by (simp add: phase_step_def p f example_cluster_ops)
qed

section \<open>The writes of one call\<close>

text \<open>The two kinds of write of the loop, as relations between cluster states.\<close>

inductive writes :: "'w cluster_api \<Rightarrow> auth_proxy_workload \<Rightarrow> 'w \<Rightarrow> 'w \<Rightarrow> bool" for K r where
  nothing: "writes K r w w"
| finalizers: "r' = r\<lparr>apw_Status := st\<rparr> \<Longrightarrow> writes K r w (fst (cl_Update K w (set_finalizers r' fs)))"
| status: "r' = r\<lparr>apw_Status := st\<rparr> \<Longrightarrow> writes K r w (fst (cl_StatusPatch K w r' r))"

lemma patch_world: "fst (patchAuthProxyWorkloadStatus K w r orig) = fst (cl_StatusPatch K w r orig)"
  by (simp add: patchAuthProxyWorkloadStatus_def split: prod.split option.split sum.split)

lemma finished_status: "finished A now ph wls r = r\<lparr>apw_Status := apw_Status (finished A now ph wls r)\<rparr>"
  by (simp add: finished_def up_to_date_resource_def)

lemma writes_set_finalizers: "writes K r w (fst (cl_Update K w (set_finalizers r fs)))"
  by (rule writes.finalizers [where st = "apw_Status r"]) simp

lemma writes_finished: "writes K r w (fst (cl_StatusPatch K w (finished A now ph wls r) r))"
  by (rule writes.status, rule finished_status)

lemma phase_step_writes: "writes K r w (fst (phase_step K A now w r))"
  unfolding phase_step_def
  by (auto simp: patch_world writes.nothing writes_set_finalizers writes_finished split: phase.split)

lemma doDelete_writes:
  assumes "finalizers_ok K"
  shows "writes K r w (fst (doDelete K A now w r))"
proof (cases "updateWorkloadStatus K A now w r")
  case (Inl err)
  then show ?thesis by (simp add: doDelete_def writes.nothing)
next
  case (Inr p)
  obtain wls r1 where p: "p = (wls, r1)" by (cases p)
  have r1: "r1 = r\<lparr>apw_Status := apw_Status r1\<rparr>"
    using updateWorkloadStatus_alt [OF Inr [unfolded p]] by simp
  have u: "fst (case cl_Update K w x of (w1, None) \<Rightarrow> (w1, no_requeue, None)
      | (w1, Some err) \<Rightarrow> (w1, no_requeue, Some (ClientError err))) = fst (cl_Update K w x)" for x
    by (simp split: prod.split option.split)
  show ?thesis
    using assms writes.finalizers [OF r1, of K] writes.nothing [of K r w] unfolding doDelete_def Inr p
    by (simp add: finalizers_ok_def u)
qed

text \<open>
  C13: one call makes at most one write, and it never touches the configuration. After any call of
  \<open>Reconcile\<close> the cluster is as before, or one resource was updated in which only finalizers and status
  differ from the loaded one, or its status was patched.
\<close>

theorem Reconcile_one_write:
  assumes "Reconcile K A now c w req = (c', w', res, err)" and "finalizers_ok K"
  shows "case cl_Get K w req of Inl _ \<Rightarrow> w' = w | Inr r \<Rightarrow> writes K r w w'"
proof (cases "cl_Get K w req")
  case (Inl e)
  with assms show ?thesis by (auto simp: Reconcile_def split: if_splits)
next
  case (Inr r)
  have "w' = fst (doDelete K A now w r) \<or> w' = fst (phase_step K A now w r)"
    using assms Inr by (auto simp: Reconcile_def doCreateUpdate_phase split: if_splits)
  with Inr show ?thesis using doDelete_writes [OF assms(2)] phase_step_writes by auto
qed

theorem Reconcile_one_write_witness:
  "writes (example_cluster []) example_resource [apw_key example_resource \<mapsto> example_resource]
     (fst (snd (Reconcile (example_cluster []) example_api (\<lambda>_. 7) Map.empty
        [apw_key example_resource \<mapsto> example_resource] (apw_key example_resource))))"
proof -
  let ?w = "[apw_key example_resource \<mapsto> example_resource]"
  obtain c' w' res err where
    r: "Reconcile (example_cluster []) example_api (\<lambda>_. 7) Map.empty ?w (apw_key example_resource) = (c', w', res, err)"
    by (rule prod_cases4)
  have "cl_Get (example_cluster []) ?w (apw_key example_resource) = Inr example_resource"
    by (rule example_cluster_ops) simp
  with Reconcile_one_write [OF r example_finalizers_ok] r show ?thesis by simp
qed

section \<open>Deletion\<close>

text \<open>
  C15: a deleted resource is released. If its workloads can be listed, a call for a resource that is being
  deleted and carries the operator's finalizer makes one update, of the same resource with the same configuration,
  without the operator's finalizer and with all other finalizers in their order, and remembers the deletion. If the
  server accepts this update, the call ends without an error and does not queue the request again; if it refuses,
  the call returns the error. After that, as soon as the resource can no longer be read, the next call ends quietly.
\<close>

theorem Reconcile_releases:
  assumes "cl_Get K w req = Inr r" and "om_DeletionTimestamp (apw_Meta r) \<noteq> None" and "finalizers_ok K"
    and "finalizerName \<in> set (om_Finalizers (apw_Meta r))"
    and "listWorkloads K A w (aps_Workload (apw_Spec r)) (apw_Namespace r) = Inr wls"
  shows "\<exists>r'. apw_Spec r' = apw_Spec r \<and>
     apw_Meta r' = (apw_Meta r)\<lparr>om_Finalizers := filter (\<lambda>f. f \<noteq> finalizerName) (om_Finalizers (apw_Meta r))\<rparr> \<and>
     Reconcile K A now c w req =
       (c(req \<mapsto> True), fst (cl_Update K w r'), no_requeue, map_option ClientError (snd (cl_Update K w r'))) \<and>
     (\<forall>w2 e now2. cl_Get K w2 req = Inl e \<longrightarrow>
        Reconcile K A now2 (c(req \<mapsto> True)) w2 req = (c(req \<mapsto> True), w2, no_requeue, None))"
proof -
  obtain r1 where u: "updateWorkloadStatus K A now w r = Inr (wls, r1)"
    using assms(5) by (simp add: updateWorkloadStatus_def)
  note r1 = updateWorkloadStatus_alt [OF u]
  let ?r = "set_finalizers r1 (filter (\<lambda>f. f \<noteq> finalizerName) (om_Finalizers (apw_Meta r1)))"
  have "finalizerName \<in> set (om_Finalizers (apw_Meta r1))" using assms(4) r1 by simp
  then have "doDelete K A now w r =
      (fst (cl_Update K w ?r), no_requeue, map_option ClientError (snd (cl_Update K w ?r)))"
    unfolding doDelete_def u using assms(3) by (simp add: finalizers_ok_def split: prod.split option.split)
  then have "Reconcile K A now c w req =
      (c(req \<mapsto> True), fst (cl_Update K w ?r), no_requeue, map_option ClientError (snd (cl_Update K w ?r)))"
    using assms(1,2) by (simp add: Reconcile_def cache_set_def)
  moreover have "Reconcile K A now2 (c(req \<mapsto> True)) w2 req = (c(req \<mapsto> True), w2, no_requeue, None)"
    if "cl_Get K w2 req = Inl e" for w2 e now2
    using that by (simp add: Reconcile_def cache_get_def)
  ultimately show ?thesis by (intro exI [of _ ?r]) (simp add: r1 set_finalizers_def)
qed

definition deleted_resource :: "string \<Rightarrow> auth_proxy_workload" where
  "deleted_resource kind = (example_apw ''default'' ''one'' kind [])\<lparr>apw_Meta :=
     zero_meta\<lparr>om_Namespace := ''default'', om_Name := ''one'', om_Finalizers := [''other'', finalizerName],
       om_DeletionTimestamp := Some 5\<rparr>\<rparr>"

lemma deleted_resource_simps [simp]:
  "om_DeletionTimestamp (apw_Meta (deleted_resource kind)) = Some 5"
  "om_Finalizers (apw_Meta (deleted_resource kind)) = [''other'', finalizerName]"
  "apw_Namespace (deleted_resource kind) = ''default''"
  "aps_Workload (apw_Spec (deleted_resource kind)) = \<lparr>wss_Selector = None, wss_Kind = kind, wss_Name = []\<rparr>"
  by (simp_all add: deleted_resource_def)

text \<open>The example cluster removes the resource with its last finalizer, as the comment of \<open>doDelete\<close> expects.\<close>

definition released_resource :: auth_proxy_workload where
  "released_resource = set_finalizers (deleted_resource ''Pod'') [finalizerName]"

lemma released_resource_simps [simp]:
  "om_DeletionTimestamp (apw_Meta released_resource) = Some 5"
  "om_Finalizers (apw_Meta released_resource) = [finalizerName]"
  "apw_Namespace released_resource = ''default''"
  "aps_Workload (apw_Spec released_resource) = \<lparr>wss_Selector = None, wss_Kind = ''Pod'', wss_Name = []\<rparr>"
  by (simp_all add: released_resource_def)

theorem Reconcile_releases_witness:
  "Reconcile (example_cluster []) example_api (\<lambda>_. 7) Map.empty
       [apw_key released_resource \<mapsto> released_resource] (apw_key released_resource) =
     ([apw_key released_resource \<mapsto> True], Map.empty, no_requeue, None) \<and>
   Reconcile (example_cluster []) example_api (\<lambda>_. 8) [apw_key released_resource \<mapsto> True] Map.empty (apw_key released_resource) =
     ([apw_key released_resource \<mapsto> True], Map.empty, no_requeue, None)"
proof -
  let ?K = "example_cluster []" and ?r = released_resource
  let ?w = "[apw_key ?r \<mapsto> ?r]"
  have g: "cl_Get ?K ?w (apw_key ?r) = Inr ?r" by (rule example_cluster_ops) simp
  have l: "listWorkloads ?K example_api ?w (aps_Workload (apw_Spec ?r)) (apw_Namespace ?r) = Inr []"
    by (simp add: example_listWorkloads)
  have n: "cl_Get ?K Map.empty (apw_key ?r) = Inl not_found" by (simp add: example_cluster_def)
  have u: "cl_Update ?K ?w r' = (Map.empty, None)"
    if "apw_Meta r' = (apw_Meta ?r)\<lparr>om_Finalizers := []\<rparr>" for r'
    using that example_cluster_ops(3) [of ?w r' ?r "[]"] by (simp add: apw_key_def)
  from Reconcile_releases [OF g _ example_finalizers_ok _ l, of "\<lambda>_. 7" Map.empty] n show ?thesis using u by auto
qed

lemma listWorkloads_unsupported:
  assumes "parseKindArg A (wss_Kind sel) \<notin> set supported_kinds"
  shows "\<exists>e. listWorkloads K A w sel ns = Inl e"
proof -
  have "\<exists>e. WorkloadForKind A (wss_Kind sel) = Inl e" "\<exists>e. WorkloadListForKind (parseKindArg A (wss_Kind sel)) = Inl e"
    using assms WorkloadForKind_Inr_iff WorkloadListForKind_Inr_iff by (metis sum.exhaust)+
  then show ?thesis
    by (auto simp: listWorkloads_def loadByName_def loadByLabelSelector_def Let_def split: sum.split)
qed

text \<open>
  C32: a resource with an unsupported kind cannot be deleted. If the kind of the selector is none of
  the seven supported ones, every call for the deleted resource returns an error and
  queues the request again, and writes nothing, so that the finalizer is never removed; while a new
  resource of such a kind is accepted by the validating webhook and gets the finalizer.
\<close>

theorem unsupported_kind_stuck:
  assumes "parseKindArg A (wss_Kind (aps_Workload (apw_Spec r))) \<notin> set supported_kinds"
  shows "ValidateCreate r = None \<and>
     (cl_Get K w req = Inr r \<and> om_DeletionTimestamp (apw_Meta r) \<noteq> None \<longrightarrow>
       (\<exists>e. Reconcile K A now c w req = (c(req \<mapsto> True), w, requeueNow, Some e))) \<and>
     (cl_Get K w req = Inr r \<and> om_DeletionTimestamp (apw_Meta r) = None \<and>
        \<not> containsFinalizer K r finalizerName \<and>
        cl_Update K w (addFinalizer K r finalizerName) = (w', None) \<longrightarrow>
       Reconcile K A now c w req = (c(req \<mapsto> False), w', requeueNow, None))"
proof -
  obtain e where "listWorkloads K A w (aps_Workload (apw_Spec r)) (apw_Namespace r) = Inl e"
    using listWorkloads_unsupported [OF assms, where K = K and w = w and ns = "apw_Namespace r"] by blast
  then show ?thesis
    by (simp add: ValidateCreate_def Reconcile_def cache_set_def doDelete_def updateWorkloadStatus_def
        doCreateUpdate_def applyFinalizer_def)
qed

theorem unsupported_kind_stuck_witness:
  "\<exists>e. Reconcile (example_cluster []) example_api (\<lambda>_. 7) Map.empty
       [apw_key (deleted_resource ''Foo'') \<mapsto> deleted_resource ''Foo''] (apw_key (deleted_resource ''Foo'')) =
     ([apw_key (deleted_resource ''Foo'') \<mapsto> True],
      [apw_key (deleted_resource ''Foo'') \<mapsto> deleted_resource ''Foo''], requeueNow, Some e)"
proof -
  let ?r = "deleted_resource ''Foo''"
  have "parseKindArg example_api (wss_Kind (aps_Workload (apw_Spec ?r))) \<notin> set supported_kinds"
    by (simp add: example_api_def supported_kinds_def)
  from unsupported_kind_stuck [OF this, of "example_cluster []" "[apw_key ?r \<mapsto> ?r]" "apw_key ?r" "\<lambda>_. 7" Map.empty]
  show ?thesis by (simp add: example_cluster_ops)
qed

section \<open>Convergence\<close>

text \<open>Two resources with the same content: the server may change the fields the operator does not compare,
  such as the resource version, and it stores instants with the precision of a second.\<close>

definition same_condition :: "condition \<Rightarrow> condition \<Rightarrow> bool" where
  "same_condition c c' \<longleftrightarrow> (\<exists>t. c' = c\<lparr>cd_LastTransitionTime := t\<rparr>)"

definition same_content :: "auth_proxy_workload \<Rightarrow> auth_proxy_workload \<Rightarrow> bool" where
  "same_content r r' \<longleftrightarrow>
     apw_Spec r' = apw_Spec r \<and> (\<exists>x. apw_Meta r' = (apw_Meta r)\<lparr>om_Other := x\<rparr>) \<and>
     list_all2 same_condition (st_Conditions (apw_Status r)) (st_Conditions (apw_Status r'))"

text \<open>The write was stored: reading gives the new content, and the workloads are read as before.\<close>

definition stores :: "'w cluster_api \<Rightarrow> 'w \<Rightarrow> 'w \<Rightarrow> auth_proxy_workload \<Rightarrow> bool" where
  "stores K w w' r \<longleftrightarrow> (\<exists>r'. cl_Get K w' (apw_key r) = Inr r' \<and> same_content r r') \<and>
     cl_GetWorkload K w' = cl_GetWorkload K w \<and> cl_ListWorkloads K w' = cl_ListWorkloads K w"

text \<open>
  The API server as documented, for the two writes that the operator makes to a stored resource that is not being deleted, while
  no one else writes, no request fails and the client reads what was written: the update that appends the operator's
  finalizer to the resource as it is stored, and the patch with the finished status.
\<close>

definition live :: "'w cluster_api \<Rightarrow> 'w \<Rightarrow> auth_proxy_workload \<Rightarrow> bool" where
  "live K w r \<longleftrightarrow> cl_Get K w (apw_key r) = Inr r \<and> om_DeletionTimestamp (apw_Meta r) = None"

definition store_ok :: "'w cluster_api \<Rightarrow> apimachinery \<Rightarrow> bool" where
  "store_ok K A \<longleftrightarrow>
     (\<forall>w r. live K w r \<and> finalizerName \<notin> set (om_Finalizers (apw_Meta r)) \<longrightarrow>
        (let f = set_finalizers r (om_Finalizers (apw_Meta r) @ [finalizerName]) in
         \<exists>w'. cl_Update K w f = (w', None) \<and> stores K w w' f)) \<and>
     (\<forall>w r wls now. live K w r \<and> finalizerName \<in> set (om_Finalizers (apw_Meta r)) \<and>
          listWorkloads K A w (aps_Workload (apw_Spec r)) (apw_Namespace r) = Inr wls \<longrightarrow>
        (let f = finished A now (phase_of K A w r) wls r in
         \<exists>w'. cl_StatusPatch K w f r = (w', None) \<and> stores K w w' f))"

lemma listWorkloads_cong:
  assumes "cl_GetWorkload K w' = cl_GetWorkload K w" and "cl_ListWorkloads K w' = cl_ListWorkloads K w"
  shows "listWorkloads K A w' sel ns = listWorkloads K A w sel ns"
  unfolding listWorkloads_def loadByName_def loadByLabelSelector_def assms ..

text \<open>A resource whose status says that it is up to date.\<close>

definition up_to_date :: "auth_proxy_workload \<Rightarrow> bool" where
  "up_to_date r \<longleftrightarrow> (\<exists>c. findCondition (st_Conditions (apw_Status r)) ConditionUpToDate = Some c \<and>
     cd_Status c = ConditionTrue \<and> cd_ObservedGeneration c = om_Generation (apw_Meta r))"

lemma up_to_date_finished: "up_to_date (finished A now ph wls r)"
proof -
  let ?c = "\<lparr>cd_Type = ConditionUpToDate, cd_Status = ConditionTrue,
    cd_ObservedGeneration = om_Generation (apw_Meta r), cd_LastTransitionTime = None,
    cd_Reason = phase_reason ph, cd_Message = phase_message ph\<rparr>"
  have "findCondition (replaceCondition t conds ?c) ConditionUpToDate = Some (stored_condition t conds ?c)" for t conds
    using cond.ups_find [of ?c t conds] by (simp add: findCondition_def)
  then show ?thesis
    by (simp add: up_to_date_def finished_def up_to_date_resource_def stored_condition_def)
qed

lemma finished_meta: "apw_Meta (finished A now ph wls r) = apw_Meta r" "apw_Spec (finished A now ph wls r) = apw_Spec r"
  by (simp_all add: finished_def)

lemma same_contentD:
  assumes "same_content r r'"
  shows "apw_Spec r' = apw_Spec r" "apw_key r' = apw_key r"
    "om_Finalizers (apw_Meta r') = om_Finalizers (apw_Meta r)" "om_Generation (apw_Meta r') = om_Generation (apw_Meta r)"
    "om_DeletionTimestamp (apw_Meta r') = om_DeletionTimestamp (apw_Meta r)" "apw_Namespace r' = apw_Namespace r"
  using assms by (auto simp: same_content_def apw_key_def)

lemma same_content_refl: "same_content r r"
proof -
  have "same_condition c c" for c
    unfolding same_condition_def by (rule exI [of _ "cd_LastTransitionTime c"]) simp
  moreover have "\<exists>x. apw_Meta r = (apw_Meta r)\<lparr>om_Other := x\<rparr>" by (rule exI [of _ "om_Other (apw_Meta r)"]) simp
  ultimately show ?thesis by (simp add: same_content_def list.rel_refl)
qed

lemma findCondition_same:
  "list_all2 same_condition cs cs' \<Longrightarrow> rel_option same_condition (findCondition cs t) (findCondition cs' t)"
  by (induction cs cs' rule: list_all2_induct) (auto simp: findCondition_def same_condition_def)

lemma up_to_date_same_content:
  assumes "same_content r r'" "up_to_date r"
  shows "up_to_date r'"
proof -
  have "rel_option same_condition (findCondition (st_Conditions (apw_Status r)) ConditionUpToDate)
      (findCondition (st_Conditions (apw_Status r')) ConditionUpToDate)"
    using assms(1) by (intro findCondition_same) (simp add: same_content_def)
  with assms(2) show ?thesis
    by (auto simp: up_to_date_def same_contentD [OF assms(1)] same_condition_def option_rel_Some1)
qed

lemma Reconcile_finishes:
  assumes "store_ok K A" "finalizers_ok K" "cl_Get K w (apw_key r) = Inr r" "om_DeletionTimestamp (apw_Meta r) = None"
    and fin: "finalizerName \<in> set (om_Finalizers (apw_Meta r))"
    and list: "listWorkloads K A w (aps_Workload (apw_Spec r)) (apw_Namespace r) = Inr wls"
  shows "\<exists>c' w' r'. Reconcile K A now c w (apw_key r) = (c', w', no_requeue, None) \<and>
     cl_Get K w' (apw_key r) = Inr r' \<and> up_to_date r' \<and> apw_Spec r' = apw_Spec r \<and>
     om_Finalizers (apw_Meta r') = om_Finalizers (apw_Meta r)"
proof -
  define ph where "ph = phase_of K A w r"
  have ph: "ph = (if wls = [] then NoWorkloads else WorkloadsReconciled (length wls))"
    using fin list by (simp add: ph_def phase_of_def)
  define f where "f = finished A now ph wls r"
  obtain w' where w': "cl_StatusPatch K w f r = (w', None)" "stores K w w' f"
    using assms(1,3,4) fin list unfolding store_ok_def live_def f_def ph_def Let_def by blast
  have k: "apw_key f = apw_key r" by (simp add: f_def apw_key_def finished_meta)
  obtain r' where r': "cl_Get K w' (apw_key r) = Inr r'" "same_content f r'"
    using w'(2) k by (auto simp: stores_def)
  have "patchAuthProxyWorkloadStatus K w f r = (w', None)"
    using w'(1) r'(1) k by (simp add: patchAuthProxyWorkloadStatus_def apw_key_def)
  then have "phase_step K A now w r = (w', None)" "phase_result ph = no_requeue"
    using ph list unfolding phase_step_def ph_def [symmetric] by (auto simp: f_def)
  then have "Reconcile K A now c w (apw_key r) = (c(apw_key r \<mapsto> False), w', no_requeue, None)"
    using assms(2-4) by (simp add: Reconcile_def cache_set_def doCreateUpdate_phase flip: ph_def)
  moreover have "up_to_date r'"
    using up_to_date_finished [of A now ph wls r] by (intro up_to_date_same_content [OF r'(2)]) (simp add: f_def)
  ultimately show ?thesis
    using r' same_contentD [OF r'(2)] by (simp add: f_def finished_meta)
qed

text \<open>The controller runtime calls \<open>Reconcile\<close> again as long as it asks for it; \<open>n\<close> bounds the extra calls.\<close>

fun requeue_run ::
    "'w cluster_api \<Rightarrow> apimachinery \<Rightarrow> (nat \<Rightarrow> nat \<Rightarrow> time) \<Rightarrow> nat \<Rightarrow> recently_deleted_cache \<Rightarrow> 'w \<Rightarrow> namespaced_name \<Rightarrow>
     recently_deleted_cache \<times> 'w \<times> ctrl_result \<times> reconcile_error option" where
  "requeue_run K A now 0 c w req = Reconcile K A (now 0) c w req"
| "requeue_run K A now (Suc n) c w req =
     (case Reconcile K A (now (Suc n)) c w req of
        (c1, w1, res, err) \<Rightarrow> if Requeue res then requeue_run K A now n c1 w1 req else (c1, w1, res, err))"

text \<open>
  C4: reconciliation converges. On an API server that works as documented and is left alone (\<open>store_ok\<close>: it stores the
  two writes that the operator makes to a live resource, and reads see them), a resource
  that is not being deleted and whose workloads can be listed is reconciled after at most two calls: the
  last one asks for no other and reports no error, and the stored resource has the finalizer, its
  configuration is unchanged, and its condition \<open>UpToDate\<close> is true for its current generation.
\<close>

theorem Reconcile_converges:
  assumes "store_ok K A" and "finalizers_ok K" and "cl_Get K w (apw_key r) = Inr r"
    and "om_DeletionTimestamp (apw_Meta r) = None"
    and "listWorkloads K A w (aps_Workload (apw_Spec r)) (apw_Namespace r) = Inr wls"
  shows "\<exists>c' w' r'. requeue_run K A now 1 c w (apw_key r) = (c', w', no_requeue, None) \<and>
     cl_Get K w' (apw_key r) = Inr r' \<and> up_to_date r' \<and> apw_Spec r' = apw_Spec r \<and>
     finalizerName \<in> set (om_Finalizers (apw_Meta r'))"
proof (cases "finalizerName \<in> set (om_Finalizers (apw_Meta r))")
  case True
  from Reconcile_finishes [OF assms(1-4) True assms(5), of "now (Suc 0)" c] show ?thesis
    using True by (auto simp: no_requeue_def)
next
  case False
  let ?f = "set_finalizers r (om_Finalizers (apw_Meta r) @ [finalizerName])"
  obtain w1 where w1: "cl_Update K w ?f = (w1, None)" "stores K w w1 ?f"
    using assms(1,3,4) False unfolding store_ok_def live_def Let_def by blast
  then obtain r1 where r1: "cl_Get K w1 (apw_key r) = Inr r1" "same_content ?f r1" by (auto simp: stores_def)
  note s = same_contentD [OF r1(2), simplified]
  have "phase_of K A w r = NeedsFinalizer" using False by (simp add: phase_of_def)
  then have first: "Reconcile K A (now (Suc 0)) c w (apw_key r) = (c(apw_key r \<mapsto> False), w1, requeueNow, None)"
    using assms(2-4) w1(1) by (simp add: Reconcile_def cache_set_def doCreateUpdate_phase phase_step_def)
  have "listWorkloads K A w1 (aps_Workload (apw_Spec r1)) (apw_Namespace r1) = Inr wls"
    using listWorkloads_cong [of K w1 w A] w1(2) assms(5) s by (simp add: stores_def)
  moreover have "cl_Get K w1 (apw_key r1) = Inr r1" "om_DeletionTimestamp (apw_Meta r1) = None"
      "finalizerName \<in> set (om_Finalizers (apw_Meta r1))"
    using r1(1) s assms(4) by simp_all
  ultimately obtain c' w' r' where "Reconcile K A (now 0) (c(apw_key r \<mapsto> False)) w1 (apw_key r1) = (c', w', no_requeue, None)"
      "cl_Get K w' (apw_key r1) = Inr r'" "up_to_date r'" "apw_Spec r' = apw_Spec r1"
      "om_Finalizers (apw_Meta r') = om_Finalizers (apw_Meta r1)"
    using Reconcile_finishes [OF assms(1,2), of w1 r1 wls "now 0" "c(apw_key r \<mapsto> False)"] by blast
  then show ?thesis using first s by (simp add: requeueNow_def)
qed

lemma example_store_ok: "store_ok (example_cluster pods) A"
proof -
  have g: "cl_Get (example_cluster pods) w k = Inr r \<longleftrightarrow> w k = Some r" for w k r
    by (simp add: example_cluster_def split: option.split)
  have wls: "cl_GetWorkload (example_cluster pods) w = cl_GetWorkload (example_cluster pods) w'"
    "cl_ListWorkloads (example_cluster pods) w = cl_ListWorkloads (example_cluster pods) w'" for w w'
    by (simp_all add: example_cluster_def)
  have st: "stores (example_cluster pods) w (w(apw_key r' \<mapsto> r)) r" if "apw_key r = apw_key r'" for w r r'
    using wls [of _ w] that by (simp add: stores_def g same_content_refl)
  have k: "apw_key (finished A now ph ws r) = apw_key r" for now ph ws r by (simp add: apw_key_def finished_meta)
  have f: "r\<lparr>apw_Status := apw_Status (finished A now ph ws r)\<rparr> = finished A now ph ws r" for now ph ws r
    using finished_status [of A now ph ws r] by simp
  show ?thesis
    by (auto simp: store_ok_def live_def Let_def g k f st example_cluster_ops)
qed

theorem Reconcile_converges_witness:
  "\<exists>c' w' r'. requeue_run (example_cluster [status_pod]) example_api (\<lambda>_ _. 7) 1 Map.empty
       [apw_key example_resource \<mapsto> example_resource] (apw_key example_resource) = (c', w', no_requeue, None) \<and>
     w' (apw_key example_resource) = Some r' \<and> up_to_date r'"
proof -
  let ?w = "[apw_key example_resource \<mapsto> example_resource]" and ?K = "example_cluster [status_pod]"
  have g: "cl_Get ?K ?w (apw_key example_resource) = Inr example_resource" by (rule example_cluster_ops) simp
  have d: "om_DeletionTimestamp (apw_Meta example_resource) = None" by (simp add: zero_meta_def)
  have l: "listWorkloads ?K example_api ?w (aps_Workload (apw_Spec example_resource)) (apw_Namespace example_resource) =
      Inr [PodWorkload status_pod]"
    by (simp add: example_listWorkloads status_pod_def zero_pod_def)
  have "cl_Get ?K w' k = Inr r' \<Longrightarrow> w' k = Some r'" for w' k r'
    by (simp add: example_cluster_def split: option.splits)
  with Reconcile_converges [OF example_store_ok example_finalizers_ok g d l, of "\<lambda>_ _. 7" Map.empty]
  show ?thesis by blast
qed

section \<open>Runs with other writers\<close>

text \<open>
  A run of the operator: it starts with an empty cache, anyone may change the cluster between two calls, and
  \<open>Reconcile\<close> is called for arbitrary requests at arbitrary instants. The history records, latest first, for
  each request whose resource could be loaded whether it was being deleted.
\<close>

inductive run :: "'w cluster_api \<Rightarrow> apimachinery \<Rightarrow> recently_deleted_cache \<Rightarrow> 'w \<Rightarrow> (namespaced_name \<times> bool) list \<Rightarrow> bool"
  for K A where
  start: "run K A Map.empty w []"
| others: "run K A c w h \<Longrightarrow> run K A c w' h"
| missing: "run K A c w h \<Longrightarrow> cl_Get K w req = Inl e \<Longrightarrow> Reconcile K A now c w req = (c', w', res, err) \<Longrightarrow>
    run K A c' w' h"
| loaded: "run K A c w h \<Longrightarrow> cl_Get K w req = Inr r \<Longrightarrow> Reconcile K A now c w req = (c', w', res, err) \<Longrightarrow>
    run K A c' w' ((req, om_DeletionTimestamp (apw_Meta r) \<noteq> None) # h)"

lemma run_cache: "run K A c w h \<Longrightarrow> c = map_of h"
proof (induction rule: run.induct)
  case (missing c w h req e now c' w' res err)
  then show ?case by (simp add: Reconcile_def split: if_splits)
next
  case (loaded c w h req r now c' w' res err)
  then show ?case by (auto simp: Reconcile_def cache_set_def split: if_splits)
qed simp_all

text \<open>
  C14: the error for a missing resource is suppressed only after its deletion. In every run, a call for a
  resource that cannot be loaded changes nothing; it ends quietly if the last time the resource was loaded
  it was being deleted, and otherwise reports the error and queues the request with a delay.
\<close>

theorem missing_resource:
  assumes "run K A c w h" and "cl_Get K w req = Inl e"
  shows "Reconcile K A now c w req =
     (if map_of h req = Some True then (c, w, no_requeue, None)
      else (c, w, requeueWithDelay, Some (ClientError e)))"
  using assms(2) by (simp add: Reconcile_def cache_get_def run_cache [OF assms(1)] split: option.split)

theorem missing_resource_witness:
  "\<exists>c w. run (example_cluster []) example_api c w [(apw_key (deleted_resource ''Foo''), True)] \<and>
     Reconcile (example_cluster []) example_api (\<lambda>_. 7) c Map.empty (apw_key (deleted_resource ''Foo'')) =
       (c, Map.empty, no_requeue, None)"
proof -
  let ?K = "example_cluster []" and ?r = "deleted_resource ''Foo''"
  let ?w = "[apw_key ?r \<mapsto> ?r]"
  obtain c' w' res err where r: "Reconcile ?K example_api (\<lambda>_. 7) Map.empty ?w (apw_key ?r) = (c', w', res, err)"
    by (rule prod_cases4)
  have g: "cl_Get ?K ?w (apw_key ?r) = Inr ?r" by (rule example_cluster_ops) simp
  have "run ?K example_api c' w' [(apw_key ?r, True)]"
    using run.loaded [OF run.start g r] by simp
  then have run: "run ?K example_api c' Map.empty [(apw_key ?r, True)]" by (rule run.others)
  have "cl_Get ?K Map.empty (apw_key ?r) = Inl not_found" by (simp add: example_cluster_def)
  from missing_resource [OF run this, of "\<lambda>_. 7"] run show ?thesis by auto
qed

end
