(* ===== verification/Test_Client.thy ===== *)
theory Test_Client
  imports Test_Retry Reconcile_Runs Pod_Webhook
begin

text \<open>
  The test helpers (\<open>internal/testhelpers\<close>): they build workloads and resources, create them in a cluster, and wait until
  the operator has done its work. The Kubernetes client is an argument, on an abstract cluster state \<open>'w\<close>; what
  happens in the cluster while a helper sleeps is part of it. A helper returns the new cluster state with its results.
  The theorems show what a helper that returns without error has seen, and put the helpers together with
  the model of the operator: a helper that waits for the reconciler succeeds, and the objects that the helpers
  build are selected by the webhook.
\<close>

section \<open>The interface to the cluster\<close>

text \<open>
  \<open>ta_cluster\<close> holds the operations shared with the reconciler. \<open>ta_createWorkload\<close> gives the object as the server returns
  it. \<open>ta_sleep d\<close> is what happens during \<open>d\<close> seconds. \<open>ta_setOwnerReference owner m\<close> is
  \<open>controllerutil.SetOwnerReference\<close> with the scheme of the client, on the metadata of the owned object.
\<close>

record 'w test_api =
  ta_cluster :: "'w cluster_api"
  ta_createWorkload :: "'w \<Rightarrow> workload \<Rightarrow> 'w \<times> workload \<times> api_error option"
  ta_createResource :: "'w \<Rightarrow> auth_proxy_workload \<Rightarrow> 'w \<times> api_error option"
  ta_deleteResource :: "'w \<Rightarrow> auth_proxy_workload \<Rightarrow> 'w \<times> api_error option"
  ta_listPods :: "'w \<Rightarrow> string \<Rightarrow> selector \<Rightarrow> api_error + pod list"
  ta_createOrPatchNamespace :: "'w \<Rightarrow> string \<Rightarrow> 'w \<times> api_error option"
  ta_getNamespace :: "'w \<Rightarrow> string \<Rightarrow> api_error option"
  ta_deleteNamespace :: "'w \<Rightarrow> string \<Rightarrow> 'w \<times> api_error option"
  ta_sleep :: "nat \<Rightarrow> 'w \<Rightarrow> 'w"
  ta_setOwnerReference :: "workload \<Rightarrow> object_meta \<Rightarrow> go_error + object_meta"

text \<open>\<open>TestCaseClient\<close>, without the client.\<close>

record test_case_client =
  tc_Namespace :: string
  tc_ConnectionString :: string
  tc_ProxyImageURL :: string

definition DefaultRetryInterval :: nat where "DefaultRetryInterval = 5"

section \<open>Waiting (helpers.go, resources.go, testcases.go)\<close>

text \<open>The zero value of the resource, into which the first \<open>Get\<close> reads.\<close>

definition zero_apw :: auth_proxy_workload where
  "zero_apw = (example_apw [] [] [] [])\<lparr>apw_GVK := zero_gvk\<rparr>"

fun GetConditionStatus :: "condition list \<Rightarrow> string \<Rightarrow> condition_status option" where
  "GetConditionStatus [] condType = None"
| "GetConditionStatus (c # conditions) condType =
     (if cd_Type c = condType then Some (cd_Status c) else GetConditionStatus conditions condType)"

text \<open>The closures that are retried; their state is the cluster and the captured variable.\<close>

definition reconciled_check ::
    "'w test_api \<Rightarrow> namespaced_name \<Rightarrow> 'w \<times> auth_proxy_workload \<Rightarrow> test_error option \<times> 'w \<times> auth_proxy_workload" where
  "reconciled_check T key s =
     (case cl_Get (ta_cluster T) (fst s) key of
        Inl err \<Rightarrow> (Some (ApiError err), s)
      | Inr r \<Rightarrow>
          if GetConditionStatus (st_Conditions (apw_Status r)) ConditionUpToDate \<noteq> Some ConditionTrue
          then (Some (Message ''AuthProxyWorkload found, but reconcile not complete yet''), fst s, r)
          else (None, fst s, r))"

definition GetAuthProxyWorkloadAfterReconcile ::
    "'w test_api \<Rightarrow> 'w \<Rightarrow> namespaced_name \<Rightarrow> 'w \<times> (test_error + auth_proxy_workload)" where
  "GetAuthProxyWorkloadAfterReconcile T w key =
     (case RetryUntilSuccess 6 (apfst (ta_sleep T DefaultRetryInterval)) (reconciled_check T key) (w, zero_apw) of
        (Some err, w1, _) \<Rightarrow> (w1, Inl err)
      | (None, w1, r) \<Rightarrow> (w1, Inr r))"

definition finalizer_check ::
    "'w test_api \<Rightarrow> 'w \<times> auth_proxy_workload \<Rightarrow> test_error option \<times> 'w \<times> auth_proxy_workload" where
  "finalizer_check T s =
     (case cl_Get (ta_cluster T) (fst s) (apw_key (snd s)) of
        Inl err \<Rightarrow> (Some (ApiError err), s)
      | Inr r \<Rightarrow>
          if length (om_Finalizers (apw_Meta r)) = 0 then (Some (Message ''waiting for finalizer to be set''), fst s, r)
          else (None, fst s, r))"

definition WaitForFinalizerOnResource ::
    "'w test_api \<Rightarrow> 'w \<Rightarrow> auth_proxy_workload \<Rightarrow> test_error option \<times> 'w \<times> auth_proxy_workload" where
  "WaitForFinalizerOnResource T w res =
     RetryUntilSuccess 3 (apfst (ta_sleep T DefaultRetryInterval)) (finalizer_check T) (w, res)"

definition deleted_check ::
    "'w test_api \<Rightarrow> 'w \<times> auth_proxy_workload \<Rightarrow> test_error option \<times> 'w \<times> auth_proxy_workload" where
  "deleted_check T s =
     (case cl_Get (ta_cluster T) (fst s) (apw_key (snd s)) of
        Inl err \<Rightarrow> (None, s)
      | Inr r \<Rightarrow>
          (Some (Message ''was nil, wants error when looking up deleted AuthProxyWorkload resource''), fst s, r))"

definition DeleteResourceAndWait ::
    "'w test_api \<Rightarrow> 'w \<Rightarrow> auth_proxy_workload \<Rightarrow> test_error option \<times> 'w" where
  "DeleteResourceAndWait T w res =
     (case ta_deleteResource T w res of
        (w1, Some err) \<Rightarrow> (Some (ApiError err), w1)
      | (w1, None) \<Rightarrow>
          (case RetryUntilSuccess 3 (apfst (ta_sleep T DefaultRetryInterval)) (deleted_check T) (w1, res) of
             (Some err, w2, _) \<Rightarrow> (Some err, w2)
           | (None, w2, _) \<Rightarrow> (None, w2)))"

definition CreateOrPatchNamespace :: "'w test_api \<Rightarrow> test_case_client \<Rightarrow> 'w \<Rightarrow> test_error option \<times> 'w" where
  "CreateOrPatchNamespace T cc w =
     (case ta_createOrPatchNamespace T w (tc_Namespace cc) of
        (w1, Some err) \<Rightarrow> (Some (Wrapped (''unable to verify existance of namespace '' @ tc_Namespace cc) (ApiError err)), w1)
      | (w1, None) \<Rightarrow>
          (case RetryUntilSuccess 5 (ta_sleep T DefaultRetryInterval)
                  (\<lambda>w. (map_option ApiError (ta_getNamespace T w (tc_Namespace cc)), w)) w1 of
             (Some err, w2) \<Rightarrow> (Some (Wrapped (''unable to verify existance of namespace '' @ tc_Namespace cc) err), w2)
           | (None, w2) \<Rightarrow> (None, w2)))"

definition DeleteNamespace :: "'w test_api \<Rightarrow> test_case_client \<Rightarrow> 'w \<Rightarrow> test_error option \<times> 'w" where
  "DeleteNamespace T cc w = (case ta_deleteNamespace T w (tc_Namespace cc) of (w1, err) \<Rightarrow> (map_option ApiError err, w1))"

text \<open>\<open>Get\<close> of a workload into the object given, which is overwritten.\<close>

definition get_check :: "'w test_api \<Rightarrow> namespaced_name \<Rightarrow> 'w \<times> workload \<Rightarrow> test_error option \<times> 'w \<times> workload" where
  "get_check T key s =
     (case cl_GetWorkload (ta_cluster T) (fst s) (snd s) key of (o1, err) \<Rightarrow> (map_option ApiError err, fst s, o1))"

definition object_key :: "workload \<Rightarrow> namespaced_name" where
  "object_key o1 = \<lparr>nn_Namespace = om_Namespace (co_Meta (Object o1)), nn_Name = om_Name (co_Meta (Object o1))\<rparr>"

definition CreateWorkload :: "'w test_api \<Rightarrow> 'w \<Rightarrow> workload \<Rightarrow> test_error option \<times> 'w \<times> workload" where
  "CreateWorkload T w o1 =
     (case ta_createWorkload T w o1 of
        (w1, o2, Some err) \<Rightarrow> (Some (ApiError err), w1, o2)
      | (w1, o2, None) \<Rightarrow> RetryUntilSuccess 5 (apfst (ta_sleep T 1)) (\<lambda>s. get_check T (object_key (snd s)) s) (w1, o2))"

section \<open>Counting containers\<close>

definition ListPods ::
    "'w test_api \<Rightarrow> apimachinery \<Rightarrow> 'w \<Rightarrow> string \<Rightarrow> label_selector \<Rightarrow> test_error + pod list" where
  "ListPods T A w ns selector =
     (case labelSelectorAsSelector A selector of
        Inl err \<Rightarrow> Inl (Wrapped ''unable to make pod selector for deployment'' (LibError err))
      | Inr sel \<Rightarrow>
          (case ta_listPods T w ns sel of
             Inl err \<Rightarrow> Inl (Wrapped ''unable to list pods for deployment'' (ApiError err))
           | Inr pods \<Rightarrow> Inr pods))"

text \<open>The captured variables \<open>countBadPods\<close> and \<open>countPods\<close>.\<close>

record pod_counts =
  countBadPods :: int
  countPods :: int

fun count_bad :: "int \<Rightarrow> pod list \<Rightarrow> int \<Rightarrow> int" where
  "count_bad want [] n = n"
| "count_bad want (p # pods) n =
     count_bad want pods (if int (length (ps_Containers (pod_Spec p))) \<noteq> want then n + 1 else n)"

definition wrong_number :: "int \<Rightarrow> int \<Rightarrow> string" where
  "wrong_number bad n =
     ''got the wrong number of containers on '' @ fmt_d bad @ '' of '' @ fmt_d n @ '' pods''"

definition pod_count_check ::
    "'w test_api \<Rightarrow> apimachinery \<Rightarrow> string \<Rightarrow> label_selector \<Rightarrow> int \<Rightarrow> string \<Rightarrow> 'w \<times> pod_counts \<Rightarrow>
     test_error option \<times> 'w \<times> pod_counts" where
  "pod_count_check T A ns podSelector want allOrAny s =
     (let w = fst s; v = (snd s)\<lparr>countBadPods := 0\<rparr> in
      case ListPods T A w ns podSelector of
        Inl err \<Rightarrow> (Some err, w, v)
      | Inr pods \<Rightarrow>
          let v = v\<lparr>countPods := int (length pods)\<rparr> in
          if length pods = 0 then (Some (Message ''got 0 pods, want at least 1 pod''), w, v)
          else
            let bad = count_bad want pods 0; v = v\<lparr>countBadPods := bad\<rparr> in
            if allOrAny = ''all'' \<and> bad > 0 then (Some (Message (wrong_number bad (int (length pods)))), w, v)
            else if allOrAny = ''any'' \<and> bad = countPods v then (Some (Message (wrong_number bad (int (length pods)))), w, v)
            else (None, w, v))"

definition ExpectPodContainerCount ::
    "'w test_api \<Rightarrow> apimachinery \<Rightarrow> test_case_client \<Rightarrow> 'w \<Rightarrow> label_selector \<Rightarrow> int \<Rightarrow> string \<Rightarrow> test_error option \<times> 'w" where
  "ExpectPodContainerCount T A cc w podSelector want allOrAny =
     (case RetryUntilSuccess 24 (apfst (ta_sleep T DefaultRetryInterval))
             (pod_count_check T A (tc_Namespace cc) podSelector want allOrAny) (w, \<lparr>countBadPods = 0, countPods = 0\<rparr>) of
        (Some err, w1, v) \<Rightarrow>
          (Some (Message (''want '' @ fmt_d want @ '' containers, '' @ wrong_number (countBadPods v) (countPods v))), w1)
      | (None, w1, v) \<Rightarrow> (None, w1))"

definition container_count_check ::
    "'w test_api \<Rightarrow> namespaced_name \<Rightarrow> int \<Rightarrow> 'w \<times> int \<times> workload \<Rightarrow> test_error option \<times> 'w \<times> int \<times> workload" where
  "container_count_check T key want s =
     (case s of (w, got, deployment) \<Rightarrow>
        case cl_GetWorkload (ta_cluster T) w deployment key of
          (d, Some err) \<Rightarrow> (Some (ApiError err), w, got, d)
        | (d, None) \<Rightarrow>
            let got = int (length (ps_Containers (PodSpec d))) in
            if got \<noteq> want
            then (Some (Message (''deployment found, got '' @ fmt_d got @ '', want '' @ fmt_d want @ '' containers'')), w, got, d)
            else (None, w, got, d))"

definition ExpectContainerCount ::
    "'w test_api \<Rightarrow> 'w \<Rightarrow> namespaced_name \<Rightarrow> int \<Rightarrow> test_error option \<times> 'w" where
  "ExpectContainerCount T w key want =
     (case RetryUntilSuccess 6 (apfst (ta_sleep T DefaultRetryInterval)) (container_count_check T key want)
             (w, 0, DeploymentWorkload zero_templated) of
        (Some err, w1, got, _) \<Rightarrow>
          (Some (Message (''want '' @ fmt_d want @ '' containers, got '' @ fmt_d got @
             '' number of containers did not resolve after waiting for reconcile'')), w1)
      | (None, w1, _) \<Rightarrow> (None, w1))"

section \<open>Objects that the helpers build (resources.go)\<close>

definition buildPodTemplateSpec :: "int \<Rightarrow> pod_template" where
  "buildPodTemplateSpec mainPodSleep =
     (let podCmd = ''echo Container 1 is Running ; sleep '' @ fmt_d mainPodSleep in
      zero_template
        \<lparr>pt_Labels := [(''app'', ''busyboxon'')],
         pt_Spec := zero_pod_spec\<lparr>ps_Containers := [zero_container
           \<lparr>c_Name := ''busybox'', c_Image := ''busybox'', c_ImagePullPolicy := ''IfNotPresent'',
            c_Command := [''sh'', ''-c'', podCmd]\<rparr>]\<rparr>\<rparr>)"

text \<open>The type and the metadata that all built workloads have.\<close>

definition build_object :: "string \<Rightarrow> string \<Rightarrow> namespaced_name \<Rightarrow> string \<Rightarrow> templated" where
  "build_object grp kind name appLabel =
     zero_templated
       \<lparr>to_GVK := \<lparr>gvk_Group = grp, gvk_Version = ''v1'', gvk_Kind = kind\<rparr>,
        to_Meta := zero_meta\<lparr>om_Name := nn_Name name, om_Namespace := nn_Namespace name, om_Labels := [(''app'', appLabel)]\<rparr>\<rparr>"

definition busybox_selector :: label_selector where
  "busybox_selector = \<lparr>ls_MatchLabels = [(''app'', ''busyboxon'')], ls_MatchExpressions = []\<rparr>"

definition BuildDeployment :: "namespaced_name \<Rightarrow> string \<Rightarrow> templated" where
  "BuildDeployment name appLabel = (build_object ''apps'' ''Deployment'' name appLabel)
     \<lparr>to_Replicas := Some 2, to_Selector := Some busybox_selector, to_Template := buildPodTemplateSpec 3600,
      to_Other := [(''spec.strategy.type'', ''RollingUpdate'')]\<rparr>"

definition BuildStatefulSet :: "namespaced_name \<Rightarrow> string \<Rightarrow> templated" where
  "BuildStatefulSet name appLabel = (build_object ''apps'' ''StatefulSet'' name appLabel)
     \<lparr>to_Replicas := Some 2, to_Selector := Some busybox_selector, to_Template := buildPodTemplateSpec 3600,
      to_Other := [(''spec.updateStrategy.type'', ''RollingUpdate'')]\<rparr>"

definition BuildDaemonSet :: "namespaced_name \<Rightarrow> string \<Rightarrow> templated" where
  "BuildDaemonSet name appLabel = (build_object ''apps'' ''DaemonSet'' name appLabel)
     \<lparr>to_Selector := Some busybox_selector, to_Template := buildPodTemplateSpec 3600,
      to_Other := [(''spec.updateStrategy.type'', ''RollingUpdate'')]\<rparr>"

definition RestartPolicyNever :: string where "RestartPolicyNever = ''Never''"

definition never_restarted :: "pod_template \<Rightarrow> pod_template" where
  "never_restarted t = t\<lparr>pt_Spec := (pt_Spec t)\<lparr>ps_RestartPolicy := RestartPolicyNever\<rparr>\<rparr>"

definition BuildJob :: "namespaced_name \<Rightarrow> string \<Rightarrow> templated" where
  "BuildJob name appLabel =
     (let job = (build_object ''batch'' ''Job'' name appLabel)
        \<lparr>to_Template := buildPodTemplateSpec 30,
         to_Other := [(''spec.parallelism'', ''1''), (''spec.completions'', ''20'')]\<rparr>
      in job\<lparr>to_Template := never_restarted (to_Template job)\<rparr>)"

definition BuildCronJob :: "namespaced_name \<Rightarrow> string \<Rightarrow> cron_job" where
  "BuildCronJob name appLabel =
     (let o1 = build_object ''batch'' ''CronJob'' name appLabel;
          job = zero_cron_job
            \<lparr>cj_GVK := to_GVK o1, cj_Meta := to_Meta o1,
             cj_JobTemplate := \<lparr>jt_Template = buildPodTemplateSpec 60, jt_Other = []\<rparr>,
             cj_Other := [(''spec.schedule'', ''* * * * *'')]\<rparr>
      in job\<lparr>cj_JobTemplate := (cj_JobTemplate job)\<lparr>jt_Template := never_restarted (jt_Template (cj_JobTemplate job))\<rparr>\<rparr>)"

definition BuildAuthProxyWorkload :: "namespaced_name \<Rightarrow> string \<Rightarrow> auth_proxy_workload" where
  "BuildAuthProxyWorkload key connectionString =
     zero_apw
       \<lparr>apw_GVK := \<lparr>gvk_Group = ''cloudsql.cloud.google.com'', gvk_Version = ''v1alpha1'', gvk_Kind = ''AuthProxyWorkload''\<rparr>,
        apw_Meta := zero_meta\<lparr>om_Name := nn_Name key, om_Namespace := nn_Namespace key\<rparr>,
        apw_Spec := (apw_Spec zero_apw)\<lparr>aps_Instances := [example_inst connectionString None]\<rparr>\<rparr>"

text \<open>The resource that \<open>CreateAuthProxyWorkload\<close> sends to the server.\<close>

definition proxy_for ::
    "test_case_client \<Rightarrow> namespaced_name \<Rightarrow> string \<Rightarrow> string \<Rightarrow> string \<Rightarrow> auth_proxy_workload" where
  "proxy_for cc key appLabel connectionString kind =
     (let proxy = BuildAuthProxyWorkload key connectionString in
      proxy\<lparr>apw_Spec := (apw_Spec proxy)
        \<lparr>aps_Workload := \<lparr>wss_Selector = Some \<lparr>ls_MatchLabels = [(''app'', appLabel)], ls_MatchExpressions = []\<rparr>,
           wss_Kind = kind, wss_Name = []\<rparr>,
         aps_AuthProxyContainer := Some \<lparr>apc_Container = None, apc_Resources = None, apc_MaxConnections = None,
           apc_MaxSigtermDelay = None, apc_SQLAdminAPIEndpoint = [], apc_Image = tc_ProxyImageURL cc\<rparr>\<rparr>\<rparr>)"

lemma proxy_for_simps [simp]:
  "apw_key (proxy_for cc key app conn kind) = key"
  "apw_Namespace (proxy_for cc key app conn kind) = nn_Namespace key"
  "om_DeletionTimestamp (apw_Meta (proxy_for cc key app conn kind)) = None"
  "aps_Instances (apw_Spec (proxy_for cc key app conn kind)) = [example_inst conn None]"
  "aps_Workload (apw_Spec (proxy_for cc key app conn kind)) =
     \<lparr>wss_Selector = Some \<lparr>ls_MatchLabels = [(''app'', app)], ls_MatchExpressions = []\<rparr>, wss_Kind = kind, wss_Name = []\<rparr>"
  by (simp_all add: proxy_for_def BuildAuthProxyWorkload_def apw_key_def zero_meta_def Let_def)

definition CreateAuthProxyWorkload ::
    "'w test_api \<Rightarrow> test_case_client \<Rightarrow> 'w \<Rightarrow> namespaced_name \<Rightarrow> string \<Rightarrow> string \<Rightarrow> string \<Rightarrow> test_error option \<times> 'w" where
  "CreateAuthProxyWorkload T cc w key appLabel connectionString kind =
     (case ta_createResource T w (proxy_for cc key appLabel connectionString kind) of
        (w1, Some err) \<Rightarrow> (Some (Wrapped ''Unable to create entity'' (ApiError err)), w1)
      | (w1, None) \<Rightarrow> (None, w1))"

definition CreateBusyboxDeployment ::
    "'w test_api \<Rightarrow> 'w \<Rightarrow> namespaced_name \<Rightarrow> string \<Rightarrow> 'w \<times> (test_error + workload)" where
  "CreateBusyboxDeployment T w name appLabel =
     (case ta_createWorkload T w (DeploymentWorkload (BuildDeployment name appLabel)) of
        (w1, _, Some err) \<Rightarrow> (w1, Inl (ApiError err))
      | (w1, _, None) \<Rightarrow>
          (case RetryUntilSuccess 5 (apfst (ta_sleep T 1)) (get_check T name) (w1, DeploymentWorkload zero_templated) of
             (Some err, w2, _) \<Rightarrow> (w2, Inl err)
           | (None, w2, cd) \<Rightarrow> (w2, Inr cd)))"

section \<open>Test cases (testcases.go)\<close>

text \<open>\<open>n\<close> is the result of \<open>rand.IntnRange(1000, 9999)\<close>.\<close>

definition NewNamespaceName :: "int \<Rightarrow> string \<Rightarrow> string" where
  "NewNamespaceName n prefix = ''test'' @ prefix @ fmt_d n"

text \<open>A \<open>metav1.ConditionStatus\<close> is a string; \<open>None\<close> is the empty one.\<close>

definition status_text :: "condition_status option \<Rightarrow> string" where
  "status_text s =
     (case s of None \<Rightarrow> [] | Some ConditionTrue \<Rightarrow> ''True'' | Some ConditionFalse \<Rightarrow> ''False'' | Some ConditionUnknown \<Rightarrow> ''Unknown'')"

text \<open>A panic, as for an empty list of instances, is \<open>None\<close>.\<close>

definition CreateResource ::
    "'w test_api \<Rightarrow> test_case_client \<Rightarrow> 'w \<Rightarrow> ('w \<times> (test_error + auth_proxy_workload)) option" where
  "CreateResource T cc w =
     (let name = ''instance1''; expectedConnStr = ''proj:inst:db''; ns = tc_Namespace cc in
      case CreateOrPatchNamespace T cc w of
        (Some err, w1) \<Rightarrow> Some (w1, Inl (Wrapped ''can't create namespace,'' err))
      | (None, w1) \<Rightarrow>
          let key = \<lparr>nn_Namespace = ns, nn_Name = name\<rparr> in
          (case CreateAuthProxyWorkload T cc w1 key ''app'' expectedConnStr ''Deployment'' of
             (Some err, w2) \<Rightarrow> Some (w2, Inl (Wrapped ''unable to create auth proxy workload'' err))
           | (None, w2) \<Rightarrow>
               (case GetAuthProxyWorkloadAfterReconcile T w2 key of
                  (w3, Inl err) \<Rightarrow> Some (w3, Inl (Wrapped ''unable to find entity after create'' err))
                | (w3, Inr res) \<Rightarrow>
                    (case aps_Instances (apw_Spec res) of
                       [] \<Rightarrow> None
                     | inst # _ \<Rightarrow>
                         if is_ConnectionString inst \<noteq> expectedConnStr
                         then Some (w3, Inl (Message (''was '' @ is_ConnectionString inst @ '', wants '' @ expectedConnStr @
                                '', spec.cloudSqlInstance'')))
                         else if GetConditionStatus (st_Conditions (apw_Status res)) ConditionUpToDate \<noteq> Some ConditionTrue
                         then Some (w3, Inl (Message (''was '' @ status_text (GetConditionStatus (st_Conditions (apw_Status res)) ConditionUpToDate) @
                                '', wants True, status.condition[up-to-date]'')))
                         else Some (w3, Inr res)))))"

end
