(* ===== verification/Test_Runs.thy ===== *)
theory Test_Runs
  imports Test_Client
begin

text \<open>
  What the waiting helpers have seen when they return without an error, as interpretations of \<open>wait_for\<close>; and that
  the helper \<open>CreateResource\<close>, run against the model of the reconciler, returns the reconciled resource.
\<close>

section \<open>Successful waiting\<close>

lemma GetConditionStatus_find: "GetConditionStatus conds t = map_option cd_Status (findCondition conds t)"
  by (induction conds) (auto simp: findCondition_def)

interpretation reconciled: wait_for "reconciled_check T key"
    "\<lambda>(w, r). cl_Get (ta_cluster T) w key = Inr r \<and>
       GetConditionStatus (st_Conditions (apw_Status r)) ConditionUpToDate = Some ConditionTrue"
  for T :: "'w test_api" and key
  by unfold_locales (auto simp: reconciled_check_def split: sum.splits if_splits)

interpretation finalizer: wait_for "finalizer_check T"
    "\<lambda>(w, r). om_Finalizers (apw_Meta r) \<noteq> [] \<and> (\<exists>key. cl_Get (ta_cluster T) w key = Inr r)"
  for T :: "'w test_api"
  by unfold_locales (auto simp: finalizer_check_def split: sum.splits if_splits)

interpretation deleted: wait_for "deleted_check T"
    "\<lambda>(w, r). \<exists>err. cl_Get (ta_cluster T) w (apw_key r) = Inl err"
  for T :: "'w test_api"
  by unfold_locales (auto simp: deleted_check_def split: sum.splits)

interpretation container_count: wait_for "container_count_check T key want"
    "\<lambda>(w, got, d). got = want \<and> int (length (ps_Containers (PodSpec d))) = want \<and>
       (\<exists>z. cl_GetWorkload (ta_cluster T) w z key = (d, None))"
  for T :: "'w test_api" and key want
  by unfold_locales (auto simp: container_count_check_def Let_def split: prod.splits option.splits if_splits)

text \<open>\<open>DeleteResourceAndWait\<close> takes any error of the first look for the deletion, not only \<open>NotFound\<close>.\<close>

lemma DeleteResourceAndWait_any_error:
  "ta_deleteResource T w res = (w1, None) \<Longrightarrow> cl_Get (ta_cluster T) w1 (apw_key res) = Inl err \<Longrightarrow>
     DeleteResourceAndWait T w res = (None, w1)"
  by (simp add: DeleteResourceAndWait_def RetryUntilSuccess_def deleted_check_def eval_nat_numeral)

text \<open>Pods with the wanted number of containers.\<close>

abbreviation has_containers :: "int \<Rightarrow> pod \<Rightarrow> bool" where
  "has_containers want p \<equiv> int (length (ps_Containers (pod_Spec p))) = want"

lemma count_bad_eq: "count_bad want pods n = n + int (length (filter (\<lambda>p. \<not> has_containers want p) pods))"
  by (induction pods arbitrary: n) auto

lemma count_bad_positive: "0 < count_bad want pods 0 \<longleftrightarrow> (\<exists>p \<in> set pods. \<not> has_containers want p)"
  by (simp add: count_bad_eq filter_empty_conv)

lemma count_bad_all: "count_bad want pods 0 = int (length pods) \<longleftrightarrow> (\<forall>p \<in> set pods. \<not> has_containers want p)"
proof -
  have "length (filter P xs) = length xs \<longleftrightarrow> (\<forall>x \<in> set xs. P x)" for P and xs :: "'b list"
    using sum_length_filter_compl [of P xs] by (auto simp: filter_empty_conv)
  then show ?thesis by (simp add: count_bad_eq)
qed

definition counts_ok :: "string \<Rightarrow> int \<Rightarrow> pod list \<Rightarrow> bool" where
  "counts_ok allOrAny want pods \<longleftrightarrow> pods \<noteq> [] \<and>
     (allOrAny = ''all'' \<longrightarrow> (\<forall>p \<in> set pods. has_containers want p)) \<and>
     (allOrAny = ''any'' \<longrightarrow> (\<exists>p \<in> set pods. has_containers want p))"

lemma pod_count_check_ok_iff:
  "fst (pod_count_check T A ns sel want allOrAny s) = None \<longleftrightarrow>
     (\<exists>pods. ListPods T A (fst s) ns sel = Inr pods \<and> counts_ok allOrAny want pods)"
  by (auto simp: pod_count_check_def counts_ok_def Let_def count_bad_positive count_bad_all split: sum.split)

lemma pod_count_check_world: "fst (snd (pod_count_check T A ns sel want allOrAny s)) = fst s"
  by (auto simp: pod_count_check_def Let_def split: sum.split)

text \<open>
  C24: what \<open>ExpectPodContainerCount\<close> expects. It returns nil exactly if at one of at most 24 looks at the cluster, with
  five seconds between them, there was a pod, and all pods (mode \<open>all\<close>) or some pod (mode \<open>any\<close>) had the
  wanted number of containers; in any other mode one pod is enough.
\<close>

theorem ExpectPodContainerCount_iff:
  "fst (ExpectPodContainerCount T A cc w sel want allOrAny) = None \<longleftrightarrow>
     (\<exists>k<24. \<exists>pods. ListPods T A ((ta_sleep T 5 ^^ k) w) (tc_Namespace cc) sel = Inr pods \<and> counts_ok allOrAny want pods)"
proof -
  let ?f = "pod_count_check T A (tc_Namespace cc) sel want allOrAny" and ?s = "(w, \<lparr>countBadPods = 0, countPods = 0\<rparr>)"
  let ?sleep = "apfst (ta_sleep T DefaultRetryInterval)"
  have world: "fst (before_attempt ?sleep ?f ?s k) = (ta_sleep T 5 ^^ k) w" for k
    by (induction k) (auto simp: pod_count_check_world DefaultRetryInterval_def)
  have "fst (ExpectPodContainerCount T A cc w sel want allOrAny) = None \<longleftrightarrow> fst (RetryUntilSuccess 24 ?sleep ?f ?s) = None"
    by (auto simp: ExpectPodContainerCount_def split: prod.split option.split)
  also have "\<dots> \<longleftrightarrow> (\<exists>k<24. \<not> attempt_fails ?sleep ?f ?s k)"
    using retry_fails_iff [of 24 ?sleep ?f ?s] by auto
  finally show ?thesis by (simp add: attempt_fails_def pod_count_check_ok_iff world)
qed

section \<open>The helpers and the reconciler\<close>

lemma up_to_date_status: "up_to_date r \<Longrightarrow> GetConditionStatus (st_Conditions (apw_Status r)) ConditionUpToDate = Some ConditionTrue"
  by (auto simp: up_to_date_def GetConditionStatus_find)

text \<open>The second look finds the resource reconciled if the controller ran to its end during the first pause.\<close>

lemma GetAuthProxyWorkloadAfterReconcile_returns:
  assumes K: "store_ok (ta_cluster T) A" "finalizers_ok (ta_cluster T)" "cl_Get (ta_cluster T) w (apw_key r) = Inr r"
    "om_DeletionTimestamp (apw_Meta r) = None"
    "listWorkloads (ta_cluster T) A w (aps_Workload (apw_Spec r)) (apw_Namespace r) = Inr wls"
    and sleep: "ta_sleep T DefaultRetryInterval w = fst (snd (requeue_run (ta_cluster T) A now 1 c w (apw_key r)))"
  shows "\<exists>w' r'. GetAuthProxyWorkloadAfterReconcile T w (apw_key r) = (w', Inr r') \<and> apw_Spec r' = apw_Spec r \<and>
     cl_Get (ta_cluster T) w' (apw_key r) = Inr r' \<and>
     GetConditionStatus (st_Conditions (apw_Status r')) ConditionUpToDate = Some ConditionTrue"
proof -
  let ?f = "reconciled_check T (apw_key r)"
  obtain c' w1 r1 where run: "requeue_run (ta_cluster T) A now 1 c w (apw_key r) = (c', w1, no_requeue, None)"
    and r1: "cl_Get (ta_cluster T) w1 (apw_key r) = Inr r1" "up_to_date r1" "apw_Spec r1 = apw_Spec r"
    using Reconcile_converges [OF K] by blast
  have second: "?f (w1, m) = (None, w1, r1)" for m
    using r1(1) up_to_date_status [OF r1(2)] by (simp add: reconciled_check_def)
  show ?thesis
  proof (cases "GetConditionStatus (st_Conditions (apw_Status r)) ConditionUpToDate = Some ConditionTrue")
    case True
    then have "?f (w, zero_apw) = (None, w, r)" using K(3) by (simp add: reconciled_check_def)
    then show ?thesis
      using True K(3) by (simp add: GetAuthProxyWorkloadAfterReconcile_def RetryUntilSuccess_def eval_nat_numeral)
  next
    case False
    then obtain e where "?f (w, zero_apw) = (Some e, w, r)" using K(3) by (simp add: reconciled_check_def)
    then show ?thesis
      using r1 second run sleep up_to_date_status [OF r1(2)]
      by (simp add: GetAuthProxyWorkloadAfterReconcile_def RetryUntilSuccess_def eval_nat_numeral)
  qed
qed

text \<open>What is read of a resource just created: its configuration and its key as sent, and the server has set the
  generation, the version, and the like.\<close>

definition created_content :: "auth_proxy_workload \<Rightarrow> auth_proxy_workload \<Rightarrow> bool" where
  "created_content p r \<longleftrightarrow> apw_Spec r = apw_Spec p \<and>
     (\<exists>g x. apw_Meta r = (apw_Meta p)\<lparr>om_Generation := g, om_Other := x\<rparr>)"

lemma created_contentD:
  assumes "created_content p r"
  shows "apw_Spec r = apw_Spec p" "apw_key r = apw_key p" "apw_Namespace r = apw_Namespace p"
    "om_DeletionTimestamp (apw_Meta r) = om_DeletionTimestamp (apw_Meta p)"
  using assms by (auto simp: created_content_def apw_key_def)

text \<open>
  C16: the helper \<open>CreateResource\<close> works against the operator. If the namespace can be created and read, the created
  resource is read with the configuration that was sent, the cluster stores the operator's writes (\<open>store_ok\<close>), the
  workloads can be listed, and the controller handles the new resource while the helper first sleeps, then
  \<open>CreateResource\<close> returns the stored resource, with the configuration it sent and a true condition \<open>UpToDate\<close>; it neither panics nor gives up.
\<close>

theorem CreateResource_returns:
  assumes "ta_createOrPatchNamespace T w (tc_Namespace cc) = (w1, None)" and "ta_getNamespace T w1 (tc_Namespace cc) = None"
    and "ta_createResource T w1 (proxy_for cc key ''app'' ''proj:inst:db'' ''Deployment'') = (w2, None)"
    and "key = \<lparr>nn_Namespace = tc_Namespace cc, nn_Name = ''instance1''\<rparr>"
    and "cl_Get (ta_cluster T) w2 key = Inr r" and "created_content (proxy_for cc key ''app'' ''proj:inst:db'' ''Deployment'') r"
    and "store_ok (ta_cluster T) A" and "finalizers_ok (ta_cluster T)"
    and "listWorkloads (ta_cluster T) A w2 (aps_Workload (apw_Spec r)) (tc_Namespace cc) = Inr wls"
    and "ta_sleep T DefaultRetryInterval w2 = fst (snd (requeue_run (ta_cluster T) A now 1 c w2 key))"
  shows "\<exists>w' r'. CreateResource T cc w = Some (w', Inr r') \<and> cl_Get (ta_cluster T) w' key = Inr r' \<and>
     apw_Spec r' = apw_Spec (proxy_for cc key ''app'' ''proj:inst:db'' ''Deployment'') \<and>
     GetConditionStatus (st_Conditions (apw_Status r')) ConditionUpToDate = Some ConditionTrue"
proof -
  let ?p = "proxy_for cc key ''app'' ''proj:inst:db'' ''Deployment''"
  have r: "apw_key r = key" "apw_Namespace r = tc_Namespace cc" "om_DeletionTimestamp (apw_Meta r) = None"
    "aps_Instances (apw_Spec r) = [example_inst ''proj:inst:db'' None]"
    using created_contentD [OF assms(6)] assms(4) by simp_all
  obtain w' r' where g: "GetAuthProxyWorkloadAfterReconcile T w2 key = (w', Inr r')" "apw_Spec r' = apw_Spec r"
    "cl_Get (ta_cluster T) w' key = Inr r'" "GetConditionStatus (st_Conditions (apw_Status r')) ConditionUpToDate = Some ConditionTrue"
    using GetAuthProxyWorkloadAfterReconcile_returns [of T A w2 r wls now c, unfolded r] assms(5,7-) r(3)
    by blast
  have "CreateOrPatchNamespace T cc w = (None, w1)"
    using assms(1,2) by (simp add: CreateOrPatchNamespace_def RetryUntilSuccess_def eval_nat_numeral)
  moreover have "CreateAuthProxyWorkload T cc w1 key ''app'' ''proj:inst:db'' ''Deployment'' = (None, w2)"
    using assms(3) by (simp add: CreateAuthProxyWorkload_def)
  moreover have "aps_Instances (apw_Spec r') = [example_inst ''proj:inst:db'' None]" using g(2) r(4) by simp
  ultimately have "CreateResource T cc w = Some (w', Inr r')"
    using g assms(4) by (simp add: CreateResource_def Let_def example_inst_def)
  with g created_contentD(1) [OF assms(6)] show ?thesis by auto
qed

text \<open>A cluster that stores resources as generation 1, in which the controller runs whenever someone sleeps.\<close>

definition as_created :: "auth_proxy_workload \<Rightarrow> auth_proxy_workload" where
  "as_created r = r\<lparr>apw_Meta := (apw_Meta r)\<lparr>om_Generation := 1, om_Other := [(''resourceVersion'', ''1'')]\<rparr>\<rparr>"

definition example_case :: test_case_client where
  "example_case = \<lparr>tc_Namespace = ''testns'', tc_ConnectionString = [], tc_ProxyImageURL = ''proxy''\<rparr>"

definition example_case_key :: namespaced_name where
  "example_case_key = \<lparr>nn_Namespace = ''testns'', nn_Name = ''instance1''\<rparr>"

definition example_test_api :: "store test_api" where
  "example_test_api =
     \<lparr>ta_cluster = example_cluster [],
      ta_createWorkload = (\<lambda>w wl. (w, wl, None)),
      ta_createResource = (\<lambda>w r. (w(apw_key r \<mapsto> as_created r), None)),
      ta_deleteResource = (\<lambda>w r. (w(apw_key r := None), None)),
      ta_listPods = (\<lambda>w ns sel. Inr []),
      ta_createOrPatchNamespace = (\<lambda>w ns. (w, None)),
      ta_getNamespace = (\<lambda>w ns. None),
      ta_deleteNamespace = (\<lambda>w ns. (w, None)),
      ta_sleep = (\<lambda>d w. fst (snd (requeue_run (example_cluster []) example_api (\<lambda>_ _. 7) 1 Map.empty w example_case_key))),
      ta_setOwnerReference = (\<lambda>owner m.
         let ref = owner_ref (wl_kind owner) (om_Name (co_Meta (Object owner)));
             others = filter (\<lambda>o1. (or_Kind o1, or_Name o1) \<noteq> (or_Kind ref, or_Name ref)) (om_OwnerReferences m)
         in Inr (m\<lparr>om_OwnerReferences := others @ [ref]\<rparr>))\<rparr>"

theorem CreateResource_returns_witness:
  "\<exists>w' r'. CreateResource example_test_api example_case Map.empty = Some (w', Inr r') \<and>
     GetConditionStatus (st_Conditions (apw_Status r')) ConditionUpToDate = Some ConditionTrue"
proof -
  let ?p = "proxy_for example_case example_case_key ''app'' ''proj:inst:db'' ''Deployment''"
  let ?r = "as_created ?p"
  let ?w = "[example_case_key \<mapsto> ?r]"
  have created: "created_content ?p ?r" by (auto simp: created_content_def as_created_def)
  have sel: "aps_Workload (apw_Spec ?r) = \<lparr>wss_Selector = Some \<lparr>ls_MatchLabels = [(''app'', ''app'')], ls_MatchExpressions = []\<rparr>,
      wss_Kind = ''Deployment'', wss_Name = []\<rparr>"
    by (simp add: created_contentD [OF created])
  have list: "listWorkloads (ta_cluster example_test_api) example_api ?w (aps_Workload (apw_Spec ?r)) (tc_Namespace example_case) = Inr []"
    unfolding sel
    by (simp add: listWorkloads_def loadByLabelSelector_def LabelsSelector_def example_test_api_def example_cluster_def
        example_api_def WorkloadListForKind_def)
  have "\<exists>w' r'. CreateResource example_test_api example_case Map.empty = Some (w', Inr r') \<and>
      cl_Get (ta_cluster example_test_api) w' example_case_key = Inr r' \<and> apw_Spec r' = apw_Spec ?p \<and>
      GetConditionStatus (st_Conditions (apw_Status r')) ConditionUpToDate = Some ConditionTrue"
  proof (rule CreateResource_returns [where w = Map.empty and c = Map.empty and now = "\<lambda>_ _. 7", OF _ _ _ _ _ created _ _ list])
  qed (simp_all add: example_test_api_def example_case_def example_store_ok example_finalizers_ok example_case_key_def
      example_cluster_ops del: requeue_run.simps)
  then show ?thesis by blast
qed

end
