(* ===== verification/Test_Fixtures.thy ===== *)
theory Test_Fixtures
  imports Test_Runs
begin

text \<open>
  \<open>CreateDeploymentReplicaSetAndPods\<close> of \<open>internal/testhelpers/resources.go\<close> plays the deployment controller: it creates a replica
  set for a deployment and the pods of the replica set, linked by owner references. Together with the webhook: a
  pod made this way is configured by every resource that selects the deployment.
\<close>

section \<open>Definitions\<close>

text \<open>Reading a key of a \<open>map[string]string\<close>; a missing key gives the empty string.\<close>

definition map_index :: "string_map \<Rightarrow> string \<Rightarrow> string" where
  "map_index m k = (case map_of m k of None \<Rightarrow> [] | Some v \<Rightarrow> v)"

definition template_labels :: "templated \<Rightarrow> string \<Rightarrow> string_map" where
  "template_labels d podTemplateHash =
     [(''app'', map_index (pt_Labels (to_Template d)) ''app''), (''enablewait'', ''yes''), (''pod-template-hash'', podTemplateHash)]"

definition replica_set_for :: "templated \<Rightarrow> string \<Rightarrow> templated" where
  "replica_set_for d podTemplateHash =
     zero_templated
       \<lparr>to_GVK := \<lparr>gvk_Group = ''apps'', gvk_Version = ''metav1'', gvk_Kind = ''ReplicaSet''\<rparr>,
        to_Meta := zero_meta
          \<lparr>om_Name := om_Name (to_Meta d) @ ''-'' @ podTemplateHash, om_Namespace := om_Namespace (to_Meta d),
           om_Annotations := [(''deployment.kubernetes.io/desired-replicas'', ''2''),
             (''deployment.kubernetes.io/max-replicas'', ''3''), (''deployment.kubernetes.io/revision'', ''1'')],
           om_Generation := 1, om_Labels := template_labels d podTemplateHash\<rparr>,
        to_Replicas := to_Replicas d, to_Selector := to_Selector d, to_Template := to_Template d\<rparr>"

definition pod_for :: "templated \<Rightarrow> string \<Rightarrow> string \<Rightarrow> pod" where
  "pod_for d podTemplateHash podID =
     zero_pod
       \<lparr>pod_GVK := \<lparr>gvk_Group = [], gvk_Version = ''v1'', gvk_Kind = ''Pod''\<rparr>,
        pod_Meta := zero_meta
          \<lparr>om_Name := om_Name (to_Meta d) @ ''-'' @ podTemplateHash @ ''-'' @ podID, om_Namespace := om_Namespace (to_Meta d),
           om_Generation := 1, om_Labels := template_labels d podTemplateHash\<rparr>,
        pod_Spec := pt_Spec (to_Template d)\<rparr>"

text \<open>The loop over the replicas: \<open>rand32 i\<close> is the random number of its \<open>i\<close>-th round. The client gives each pod back as the server has it.\<close>

fun create_pods ::
    "'w test_api \<Rightarrow> templated \<Rightarrow> string \<Rightarrow> workload \<Rightarrow> (nat \<Rightarrow> u32) \<Rightarrow> nat \<Rightarrow> nat \<Rightarrow> 'w \<Rightarrow>
     'w \<times> (test_error + workload list)" where
  "create_pods T d podTemplateHash rs rand32 i 0 w = (w, Inr [])"
| "create_pods T d podTemplateHash rs rand32 i (Suc n) w =
     (let p = pod_for d podTemplateHash (fmt_x (unat (rand32 i))) in
      case ta_setOwnerReference T rs (pod_Meta p) of
        Inl err \<Rightarrow> (w, Inl (LibError err))
      | Inr m \<Rightarrow>
          (case ta_createWorkload T w (PodWorkload (p\<lparr>pod_Meta := m\<rparr>)) of
             (w1, _, Some err) \<Rightarrow> (w1, Inl (ApiError err))
           | (w1, p1, None) \<Rightarrow>
               (case create_pods T d podTemplateHash rs rand32 (Suc i) n w1 of
                  (w2, Inl err) \<Rightarrow> (w2, Inl err)
                | (w2, Inr pods) \<Rightarrow> (w2, Inr (p1 # pods)))))"

text \<open>The replica set, if it could be created, the pods and the error; \<open>rand64\<close> is the random number of the template hash.\<close>

definition CreateDeploymentReplicaSetAndPods ::
    "'w test_api \<Rightarrow> 64 word \<Rightarrow> (nat \<Rightarrow> u32) \<Rightarrow> 'w \<Rightarrow> templated \<Rightarrow>
     'w \<times> workload option \<times> workload list \<times> test_error option" where
  "CreateDeploymentReplicaSetAndPods T rand64 rand32 w d =
     (let podTemplateHash = fmt_x (unat rand64);
          rs = replica_set_for d podTemplateHash in
      case ta_setOwnerReference T (DeploymentWorkload d) (to_Meta rs) of
        Inl err \<Rightarrow> (w, None, [], Some (LibError err))
      | Inr m \<Rightarrow>
          (case ta_createWorkload T w (ReplicaSetWorkload (rs\<lparr>to_Meta := m\<rparr>)) of
             (w1, _, Some err) \<Rightarrow> (w1, None, [], Some (ApiError err))
           | (w1, rs1, None) \<Rightarrow>
               let replicas = (case to_Replicas d of Some n \<Rightarrow> n | None \<Rightarrow> 1) in
               (case create_pods T d podTemplateHash rs1 rand32 0 (nat (sint replicas)) w1 of
                  (w2, Inl err) \<Rightarrow> (w2, Some rs1, [], Some err)
                | (w2, Inr pods) \<Rightarrow> (w2, Some rs1, pods, None))))"

section \<open>The owners of the pods\<close>

text \<open>Documented: on an object without owners, \<open>SetOwnerReference\<close> leaves one reference, with the name of the owner and the kind
  that the scheme has for its Go type.\<close>

definition owner_refs_ok :: "'w test_api \<Rightarrow> bool" where
  "owner_refs_ok T \<longleftrightarrow> (\<forall>owner m m'. om_OwnerReferences m = [] \<and> ta_setOwnerReference T owner m = Inr m' \<longrightarrow>
     (\<exists>v. m' = m\<lparr>om_OwnerReferences :=
        [\<lparr>or_APIVersion = v, or_Kind = wl_kind owner, or_Name = om_Name (co_Meta (Object owner))\<rparr>]\<rparr>))"

text \<open>The same object, with other fields as the server sets them: an object of the same Go type with the same namespace, name, labels
  and owners. Documented: this is what \<open>Create\<close> gives back.\<close>

definition same_object :: "workload \<Rightarrow> workload \<Rightarrow> bool" where
  "same_object o1 o2 \<longleftrightarrow> wl_kind o2 = wl_kind o1 \<and> obj_ns (Object o2) = obj_ns (Object o1) \<and>
     om_Name (co_Meta (Object o2)) = om_Name (co_Meta (Object o1)) \<and>
     om_Labels (co_Meta (Object o2)) = om_Labels (co_Meta (Object o1)) \<and> obj_refs (Object o2) = obj_refs (Object o1)"

definition create_ok :: "'w test_api \<Rightarrow> bool" where
  "create_ok T \<longleftrightarrow> (\<forall>w o1 w' o2. ta_createWorkload T w o1 = (w', o2, None) \<longrightarrow> same_object o1 o2)"

text \<open>An object of a namespace with one owner of the given kind and name.\<close>

definition owned_by :: "workload \<Rightarrow> string \<Rightarrow> string \<Rightarrow> string \<Rightarrow> bool" where
  "owned_by o1 ns kind name \<longleftrightarrow> obj_ns (Object o1) = ns \<and>
     (\<exists>v. obj_refs (Object o1) = [\<lparr>or_APIVersion = v, or_Kind = kind, or_Name = name\<rparr>])"

lemma owned_by_same_object: "same_object o1 o2 \<Longrightarrow> owned_by o1 ns kind name \<Longrightarrow> owned_by o2 ns kind name"
  by (simp add: same_object_def owned_by_def)

lemma wl_kind_Pod: "wl_kind o1 = ''Pod'' \<Longrightarrow> \<exists>p. o1 = PodWorkload p"
  by (cases o1) simp_all

lemma create_pods_owned:
  assumes "owner_refs_ok T" "create_ok T"
  shows "create_pods T d hash rs rand32 i n w = (w', Inr pods) \<Longrightarrow>
    length pods = n \<and> (\<forall>p \<in> set pods. wl_kind p = ''Pod'' \<and>
      owned_by p (om_Namespace (to_Meta d)) (wl_kind rs) (om_Name (co_Meta (Object rs))))"
proof (induction n arbitrary: i w w' pods)
  case (Suc n)
  let ?p = "pod_for d hash (fmt_x (unat (rand32 i)))"
  from Suc.prems obtain m w1 p1 ps where m: "ta_setOwnerReference T rs (pod_Meta ?p) = Inr m"
    and p1: "ta_createWorkload T w (PodWorkload (?p\<lparr>pod_Meta := m\<rparr>)) = (w1, p1, None)"
    and ps: "create_pods T d hash rs rand32 (Suc i) n w1 = (w', Inr ps)" "pods = p1 # ps"
    by (auto simp: Let_def split: sum.splits prod.splits option.splits)
  have "om_OwnerReferences (pod_Meta ?p) = []" by (simp add: pod_for_def zero_meta_def)
  with assms(1) m obtain v where v: "m = (pod_Meta ?p)\<lparr>om_OwnerReferences := [\<lparr>or_APIVersion = v,
      or_Kind = wl_kind rs, or_Name = om_Name (co_Meta (Object rs))\<rparr>]\<rparr>"
    unfolding owner_refs_ok_def by blast
  have same: "same_object (PodWorkload (?p\<lparr>pod_Meta := m\<rparr>)) p1"
    using assms(2) p1 by (auto simp: create_ok_def)
  have "owned_by (PodWorkload (?p\<lparr>pod_Meta := m\<rparr>)) (om_Namespace (to_Meta d)) (wl_kind rs) (om_Name (co_Meta (Object rs)))"
    by (simp add: owned_by_def v pod_for_def)
  with same have "owned_by p1 (om_Namespace (to_Meta d)) (wl_kind rs) (om_Name (co_Meta (Object rs)))" "wl_kind p1 = ''Pod''"
    by (simp_all add: owned_by_same_object) (simp add: same_object_def)
  with Suc.IH [OF ps(1)] ps(2) show ?case by simp
qed simp

lemma CreateDeploymentReplicaSetAndPods_owned:
  assumes "owner_refs_ok T" "create_ok T"
    and "CreateDeploymentReplicaSetAndPods T rand64 rand32 w d = (w', rs, pods, None)"
  shows "\<exists>rs1. rs = Some rs1 \<and> owned_by rs1 (om_Namespace (to_Meta d)) ''Deployment'' (om_Name (to_Meta d)) \<and>
     length pods = nat (sint (case to_Replicas d of Some n \<Rightarrow> n | None \<Rightarrow> 1)) \<and>
     (\<forall>p \<in> set pods. wl_kind p = ''Pod'' \<and>
        owned_by p (om_Namespace (to_Meta d)) ''ReplicaSet'' (om_Name (co_Meta (Object rs1))))"
proof -
  let ?hash = "fmt_x (unat rand64)"
  let ?rs = "replica_set_for d ?hash" and ?n = "nat (sint (case to_Replicas d of Some n \<Rightarrow> n | None \<Rightarrow> 1))"
  from assms(3) obtain m w1 rs1 where m: "ta_setOwnerReference T (DeploymentWorkload d) (to_Meta ?rs) = Inr m"
    and c: "ta_createWorkload T w (ReplicaSetWorkload (?rs\<lparr>to_Meta := m\<rparr>)) = (w1, rs1, None)" "rs = Some rs1"
    and p: "create_pods T d ?hash rs1 rand32 0 ?n w1 = (w', Inr pods)"
    by (auto simp: CreateDeploymentReplicaSetAndPods_def Let_def split: sum.splits prod.splits option.splits)
  have "om_OwnerReferences (to_Meta ?rs) = []" by (simp add: replica_set_for_def zero_meta_def)
  with assms(1) m obtain v where v: "m = (to_Meta ?rs)\<lparr>om_OwnerReferences := [\<lparr>or_APIVersion = v,
      or_Kind = wl_kind (DeploymentWorkload d), or_Name = om_Name (co_Meta (Object (DeploymentWorkload d)))\<rparr>]\<rparr>"
    unfolding owner_refs_ok_def by blast
  have same: "same_object (ReplicaSetWorkload (?rs\<lparr>to_Meta := m\<rparr>)) rs1"
    using assms(2) c(1) by (auto simp: create_ok_def)
  have "owned_by (ReplicaSetWorkload (?rs\<lparr>to_Meta := m\<rparr>)) (om_Namespace (to_Meta d)) ''Deployment'' (om_Name (to_Meta d))"
    by (simp add: owned_by_def v replica_set_for_def)
  with same have "owned_by rs1 (om_Namespace (to_Meta d)) ''Deployment'' (om_Name (to_Meta d))" "wl_kind rs1 = ''ReplicaSet''"
    by (simp_all add: owned_by_same_object) (simp add: same_object_def)
  with create_pods_owned [OF assms(1,2) p] c(2) show ?thesis by auto
qed

section \<open>The pods and the webhook\<close>

lemma owner_via_pod:
  assumes parse: "parse_kind_ok A" and pod: "owned_by o1 ns ''ReplicaSet'' rsname"
    and rs: "owned_by rs ns ''Deployment'' name"
    and get: "ac_Get C (ReplicaSetWorkload zero_templated) \<lparr>nn_Namespace = ns, nn_Name = rsname\<rparr> = (rs, None)"
      "ac_Get C (DeploymentWorkload zero_templated) \<lparr>nn_Namespace = ns, nn_Name = name\<rparr> = (wl, None)"
  shows "owner_via A C (obj_ns (Object o1)) (obj_refs (Object o1)) wl"
proof -
  from pod obtain v where v: "obj_ns (Object o1) = ns" "obj_refs (Object o1) = [\<lparr>or_APIVersion = v, or_Kind = ''ReplicaSet'',
      or_Name = rsname\<rparr>]" by (auto simp: owned_by_def)
  from rs obtain u where u: "obj_ns (Object rs) = ns" "obj_refs (Object rs) = [\<lparr>or_APIVersion = u, or_Kind = ''Deployment'',
      or_Name = name\<rparr>]" by (auto simp: owned_by_def)
  have kinds: "WorkloadForKind A ''ReplicaSet'' = Inr (ReplicaSetWorkload zero_templated)"
    "WorkloadForKind A ''Deployment'' = Inr (DeploymentWorkload zero_templated)"
    using parse by (simp_all add: WorkloadForKind_def parse_kind_ok_def)
  have f1: "fetch_owner A C ns \<lparr>or_APIVersion = v, or_Kind = ''ReplicaSet'', or_Name = rsname\<rparr> =
      \<lparr>fo_appended = [rs], fo_owner = Object rs, fo_err = None\<rparr>"
    and f2: "fetch_owner A C ns \<lparr>or_APIVersion = u, or_Kind = ''Deployment'', or_Name = name\<rparr> =
      \<lparr>fo_appended = [wl], fo_owner = Object wl, fo_err = None\<rparr>"
    by (simp_all add: fetch_owner_def kinds get)
  show ?thesis unfolding v by (simp add: owner_via_Cons f1 u f2)
qed

text \<open>Documented: if the library accepts a label as a selector, the selector matches the objects with this label. (It rejects keys and
  values that are no labels.)\<close>

definition match_label_ok :: "apimachinery \<Rightarrow> bool" where
  "match_label_ok A \<longleftrightarrow> (\<forall>k v s. labelSelectorAsSelector A \<lparr>ls_MatchLabels = [(k, v)], ls_MatchExpressions = []\<rparr> = Inr s \<longrightarrow>
     (\<forall>ls. sel_Matches s ls \<longleftrightarrow> map_of ls k = Some v))"

text \<open>A deployment as the client of the webhook finds it: the one that was built, with its kind set by the client.\<close>

definition found_deployment :: "namespaced_name \<Rightarrow> string \<Rightarrow> workload \<Rightarrow> bool" where
  "found_deployment name app wl \<longleftrightarrow> same_object (DeploymentWorkload (BuildDeployment name app)) wl \<and>
     gvk_Kind (co_GVK (Object wl)) = ''Deployment''"

text \<open>A resource as the webhook lists it: the configuration that was sent, in the namespace, not being deleted.\<close>

definition listed_resource :: "auth_proxy_workload \<Rightarrow> auth_proxy_workload \<Rightarrow> bool" where
  "listed_resource p r \<longleftrightarrow> apw_Spec r = apw_Spec p \<and> apw_Namespace r = apw_Namespace p \<and>
     om_DeletionTimestamp (apw_Meta r) = None"

lemma fixture_matches:
  assumes "match_label_ok A" "found_deployment name app wl" "listed_resource (proxy_for cc key app conn ''Deployment'') r"
    and "labelSelectorAsSelector A \<lparr>ls_MatchLabels = [(''app'', app)], ls_MatchExpressions = []\<rparr> = Inr s"
    and "nn_Namespace key = nn_Namespace name"
  shows "workloadMatches A (Object wl) (aps_Workload (apw_Spec r)) (apw_Namespace r)"
proof -
  have "sel_Matches s [(''app'', app)]" using assms(1,4) by (simp add: match_label_ok_def)
  moreover have "om_Labels (co_Meta (Object wl)) = [(''app'', app)]" "obj_ns (Object wl) = nn_Namespace name"
      "gvk_Kind (co_GVK (Object wl)) = ''Deployment''"
    using assms(2) by (simp_all add: found_deployment_def same_object_def BuildDeployment_def build_object_def)
  ultimately show ?thesis
    using assms(3-5) by (simp add: workloadMatches_def LabelsSelector_def listed_resource_def)
qed

text \<open>
  C17: the fixtures of the tests fit the webhook. Take a deployment and a resource built by the helpers in one namespace and for
  the same label, which the label library accepts. Let \<open>CreateDeploymentReplicaSetAndPods\<close> succeed for the deployment, let the client of the
  webhook find the replica set and the deployment (with the server's additions), and let the resource be listed. Then two
  pods were created, and the webhook selects the resource for each of them, through the chain of owners from
  the pod to the replica set to the deployment.
\<close>

theorem fixture_pods_selected:
  assumes "owner_refs_ok T" and "create_ok T" and "match_label_ok (wh_api a)" and "parse_kind_ok (wh_api a)"
    and "CreateDeploymentReplicaSetAndPods T rand64 rand32 w (BuildDeployment name app) = (w', Some rs, pods, None)"
    and "ac_Get (wh_Client a) (ReplicaSetWorkload zero_templated)
       \<lparr>nn_Namespace = nn_Namespace name, nn_Name = om_Name (co_Meta (Object rs))\<rparr> = (rs', None)" and "same_object rs rs'"
    and "ac_Get (wh_Client a) (DeploymentWorkload zero_templated) name = (d', None)" and "found_deployment name app d'"
    and "labelSelectorAsSelector (wh_api a) \<lparr>ls_MatchLabels = [(''app'', app)], ls_MatchExpressions = []\<rparr> = Inr s"
    and "nn_Namespace key = nn_Namespace name" and "r \<in> set pl" and "listed_resource (proxy_for cc key app conn ''Deployment'') r"
  shows "length pods = 2 \<and> (\<forall>o1 \<in> set pods. \<exists>p. o1 = PodWorkload p \<and> r \<in> selecting a p pl)"
proof -
  let ?d = "BuildDeployment name app"
  have d: "om_Namespace (to_Meta ?d) = nn_Namespace name" "om_Name (to_Meta ?d) = nn_Name name" "to_Replicas ?d = Some 2"
    by (simp_all add: BuildDeployment_def build_object_def)
  have o: "owned_by rs (nn_Namespace name) ''Deployment'' (nn_Name name)" "length pods = nat (sint (2 :: i32))"
    "\<forall>p \<in> set pods. wl_kind p = ''Pod'' \<and> owned_by p (nn_Namespace name) ''ReplicaSet'' (om_Name (co_Meta (Object rs)))"
    using CreateDeploymentReplicaSetAndPods_owned [OF assms(1,2,5)] by (simp_all add: d)
  note rs' = owned_by_same_object [OF assms(7) o(1)]
  have get: "ac_Get (wh_Client a) (DeploymentWorkload zero_templated) \<lparr>nn_Namespace = nn_Namespace name, nn_Name = nn_Name name\<rparr> =
      (d', None)"
    using assms(8) by (cases name) simp
  have "owner_via (wh_api a) (wh_Client a) (obj_ns (Object p)) (obj_refs (Object p)) d'" if "p \<in> set pods" for p
    using owner_via_pod [OF assms(4) _ rs' assms(6) get] o(3) that by blast
  moreover have "om_DeletionTimestamp (apw_Meta r) = None" using assms(13) by (simp add: listed_resource_def)
  ultimately have "r \<in> selecting a p pl" if "PodWorkload p \<in> set pods" for p
    using that assms(12) fixture_matches [OF assms(3,9,13,10,11)] unfolding selecting_def by blast
  then have "\<forall>o1 \<in> set pods. \<exists>p. o1 = PodWorkload p \<and> r \<in> selecting a p pl" using o(3) wl_kind_Pod by metis
  with o(2) show ?thesis by simp
qed

text \<open>A run of the helper, and a client that finds its replica set and the deployment.\<close>

definition fixture_name :: namespaced_name where
  "fixture_name = \<lparr>nn_Namespace = ''testns'', nn_Name = ''deploy''\<rparr>"

definition fixture_deployment :: workload where
  "fixture_deployment = (let d = BuildDeployment fixture_name ''app'' in
     DeploymentWorkload (d\<lparr>to_Meta := (to_Meta d)\<lparr>om_Generation := 1, om_Other := [(''resourceVersion'', ''2'')]\<rparr>\<rparr>))"

definition fixture_client :: "workload \<Rightarrow> api_client" where
  "fixture_client rs = (example_client [] [])
     \<lparr>ac_Get := (\<lambda>z key. case z of ReplicaSetWorkload _ \<Rightarrow> (rs, None) | _ \<Rightarrow> (fixture_deployment, None))\<rparr>"

definition fixture_resource :: auth_proxy_workload where
  "fixture_resource = as_created (proxy_for example_case example_case_key ''app'' ''proj:inst:db'' ''Deployment'')"

lemma fixture_found: "found_deployment fixture_name ''app'' fixture_deployment"
  by (simp add: found_deployment_def same_object_def fixture_deployment_def Let_def BuildDeployment_def build_object_def)

lemma fixture_listed:
  "listed_resource (proxy_for example_case example_case_key ''app'' ''proj:inst:db'' ''Deployment'') fixture_resource"
proof -
  have "created_content p (as_created p)" for p by (auto simp: created_content_def as_created_def)
  from created_contentD [OF this] show ?thesis by (simp add: listed_resource_def fixture_resource_def)
qed

lemma example_test_api_ok: "owner_refs_ok example_test_api" "create_ok example_test_api"
  by (auto simp: owner_refs_ok_def create_ok_def same_object_def example_test_api_def owner_ref_def Let_def)

lemma match_label_ok_example: "match_label_ok example_api"
  by (simp add: match_label_ok_def example_api_def example_matches_def)

lemma fixture_run:
  "\<exists>w' rs p q. CreateDeploymentReplicaSetAndPods example_test_api 7 (\<lambda>_. 1) Map.empty (BuildDeployment fixture_name ''app'') =
     (w', Some rs, [PodWorkload p, q], None)"
  by (simp add: CreateDeploymentReplicaSetAndPods_def example_test_api_def BuildDeployment_def Let_def eval_nat_numeral)

theorem fixture_pods_selected_witness:
  "\<exists>w' rs p q. CreateDeploymentReplicaSetAndPods example_test_api 7 (\<lambda>_. 1) Map.empty (BuildDeployment fixture_name ''app'') =
       (w', Some rs, [PodWorkload p, q], None) \<and>
     fixture_resource \<in> selecting (example_webhook (fixture_client rs) p) p [fixture_resource]"
proof -
  obtain w' rs p q where run: "CreateDeploymentReplicaSetAndPods example_test_api 7 (\<lambda>_. 1) Map.empty
      (BuildDeployment fixture_name ''app'') = (w', Some rs, [PodWorkload p, q], None)"
    using fixture_run by blast
  let ?a = "example_webhook (fixture_client rs) p"
  have ok: "match_label_ok (wh_api ?a)" "parse_kind_ok (wh_api ?a)"
    by (simp_all add: example_webhook_def match_label_ok_example parse_kind_ok_example)
  have same: "same_object rs rs" by (simp add: same_object_def)
  have sel: "\<exists>s. labelSelectorAsSelector (wh_api ?a) \<lparr>ls_MatchLabels = [(''app'', ''app'')], ls_MatchExpressions = []\<rparr> = Inr s"
    by (simp add: example_webhook_def example_api_def)
  then obtain s where
    s: "labelSelectorAsSelector (wh_api ?a) \<lparr>ls_MatchLabels = [(''app'', ''app'')], ls_MatchExpressions = []\<rparr> = Inr s" ..
  have "\<forall>o1 \<in> set [PodWorkload p, q]. \<exists>p'. o1 = PodWorkload p' \<and> fixture_resource \<in> selecting ?a p' [fixture_resource]"
    using fixture_pods_selected [OF example_test_api_ok ok run _ same _ fixture_found s _ _ fixture_listed, of "[fixture_resource]"]
    by (simp add: example_webhook_def fixture_client_def fixture_name_def example_case_key_def)
  then have "fixture_resource \<in> selecting ?a p [fixture_resource]" by simp
  with run show ?thesis by blast
qed

end
