(* ===== verification/Go_Slices.thy ===== *)
theory Go_Slices
  imports Go_Memory
begin

text \<open>
  Slices of Go with the array behind them, for the code that writes to the elements of a slice it got from its caller.
  A memory for one element type is the list of its arrays; a slice is a length and the address of an array, or nil. The capacity
  of a slice is the length of its array, so slices start at the first element of their array, as the slices of a decoded
  object do. The locale \<open>growable_slices\<close> is what a loop over a slice relies on: writes and \<open>append\<close> act on the slice as
  on a list, and what other slices see of them.
\<close>

section \<open>Definitions\<close>

type_synonym 'a arrays = "'a list list"

record slice =
  sl_array :: "addr option"
  sl_len :: nat

definition nil_slice :: slice where
  "nil_slice = \<lparr>sl_array = None, sl_len = 0\<rparr>"

definition sl_cap :: "'a arrays \<Rightarrow> slice \<Rightarrow> nat" where
  "sl_cap h s = (case sl_array s of None \<Rightarrow> 0 | Some a \<Rightarrow> length (h ! a))"

text \<open>A slice that the program can hold.\<close>

definition slice_ok :: "'a arrays \<Rightarrow> slice \<Rightarrow> bool" where
  "slice_ok h s \<longleftrightarrow> sl_len s \<le> sl_cap h s \<and> (\<forall>a \<in> set_option (sl_array s). a < length h)"

definition slice_vals :: "'a arrays \<Rightarrow> slice \<Rightarrow> 'a list" where
  "slice_vals h s = (case sl_array s of None \<Rightarrow> [] | Some a \<Rightarrow> take (sl_len s) (h ! a))"

text \<open>\<open>s[i] = x\<close>, for an index below the length.\<close>

definition slice_set :: "'a arrays \<Rightarrow> slice \<Rightarrow> nat \<Rightarrow> 'a \<Rightarrow> 'a arrays" where
  "slice_set h s i x = (case sl_array s of None \<Rightarrow> h | Some a \<Rightarrow> h[a := (h ! a)[i := x]])"

text \<open>A new array with the elements \<open>xs\<close> and no room for more; a slice without elements is nil.\<close>

definition slice_new :: "'a arrays \<Rightarrow> 'a list \<Rightarrow> slice \<times> 'a arrays" where
  "slice_new h xs =
     (if xs = [] then (nil_slice, h) else (\<lparr>sl_array = Some (length h), sl_len = length xs\<rparr>, h @ [xs]))"

text \<open>\<open>append(s, x)\<close>: into the array if it has room, otherwise into a new array with a copy of the elements. How much room
  the new array has beyond that is up to the implementation of Go: \<open>grow\<close> gives it for the new length, and \<open>z\<close> is the zero value
  that fills it.\<close>

definition go_append :: "(nat \<Rightarrow> nat) \<Rightarrow> 'a \<Rightarrow> 'a arrays \<Rightarrow> slice \<Rightarrow> 'a \<Rightarrow> slice \<times> 'a arrays" where
  "go_append grow z h s x =
     (let n = sl_len s
      in if n < sl_cap h s then (s\<lparr>sl_len := n + 1\<rparr>, slice_set h s n x)
         else (\<lparr>sl_array = Some (length h), sl_len = n + 1\<rparr>,
               h @ [slice_vals h s @ [x] @ replicate (grow (n + 1)) z]))"

section \<open>Partial updates\<close>

text \<open>Some elements of a list are replaced by elements of \<open>X\<close> with the same key.\<close>

definition partly :: "('a \<Rightarrow> 'k) \<Rightarrow> 'a set \<Rightarrow> 'a list \<Rightarrow> 'a list \<Rightarrow> bool" where
  "partly key X old new \<longleftrightarrow> list_all2 (\<lambda>a b. b = a \<or> b \<in> X \<and> key b = key a) old new"

lemma partly_refl: "partly key X xs xs"
  by (simp add: partly_def list.rel_refl)

lemma partly_update:
  assumes "partly key X old new" and "x \<in> X" and "i < length new \<Longrightarrow> key x = key (new ! i)"
  shows "partly key X old (new[i := x])"
  unfolding partly_def list_all2_conv_all_nth
proof (intro conjI allI impI)
  show "length old = length (new[i := x])" using assms(1) by (auto simp: partly_def dest: list_all2_lengthD)
  fix j assume "j < length old"
  moreover from this assms(1) have "new ! j = old ! j \<or> new ! j \<in> X \<and> key (new ! j) = key (old ! j)" "length old = length new"
    by (auto simp: partly_def list_all2_conv_all_nth)
  ultimately show "new[i := x] ! j = old ! j \<or> new[i := x] ! j \<in> X \<and> key (new[i := x] ! j) = key (old ! j)"
    using assms(2,3) by (cases "i = j") auto
qed

section \<open>The contract\<close>

text \<open>
  \<open>foot\<close> gives the arrays of a slice. A write and \<open>append\<close> act on the slice as on a list; slices without a common array are
  not affected and stay apart; a slice that shares the array sees a write or it does not, and does not see an \<open>append\<close> to a slice
  that is at least as long.
\<close>

locale growable_slices =
  fixes ok :: "'h \<Rightarrow> 's \<Rightarrow> bool"
    and vals :: "'h \<Rightarrow> 's \<Rightarrow> 'a list"
    and foot :: "'s \<Rightarrow> addr set"
    and put :: "'h \<Rightarrow> 's \<Rightarrow> nat \<Rightarrow> 'a \<Rightarrow> 'h"
    and app :: "'h \<Rightarrow> 's \<Rightarrow> 'a \<Rightarrow> 's \<times> 'h"
  assumes put_ok: "ok (put h s i x) t = ok h t"
    and put_vals: "ok h s \<Longrightarrow> vals (put h s i x) s = (vals h s)[i := x]"
    and put_apart: "foot s \<inter> foot t = {} \<Longrightarrow> vals (put h s i x) t = vals h t"
    and put_shared: "ok h s \<Longrightarrow> ok h t \<Longrightarrow> vals (put h s i x) t \<in> {vals h t, (vals h t)[i := x]}"
    and app_ok: "ok h s \<Longrightarrow> ok h t \<Longrightarrow> ok (snd (app h s x)) t"
    and app_vals: "ok h s \<Longrightarrow> ok (snd (app h s x)) (fst (app h s x)) \<and>
       vals (snd (app h s x)) (fst (app h s x)) = vals h s @ [x]"
    and app_apart: "ok h s \<Longrightarrow> ok h t \<Longrightarrow> foot s \<inter> foot t = {} \<Longrightarrow>
       vals (snd (app h s x)) t = vals h t \<and> foot (fst (app h s x)) \<inter> foot t = {}"
    and app_shared: "ok h s \<Longrightarrow> ok h t \<Longrightarrow> length (vals h t) \<le> length (vals h s) \<Longrightarrow> vals (snd (app h s x)) t = vals h t"
begin

text \<open>The loop that replaces the elements with a given key in place, one index after the other.\<close>

lemma replace_loop:
  assumes "ok h s" and "n \<le> length (vals h s)"
    and "foldl (\<lambda>(h, found) j. if P (vals h s ! j) then (put h s j x, True) else (h, found)) (h, b) [0..<n] = (h', found)"
  shows "vals h' s = map (\<lambda>e. if P e then x else e) (take n (vals h s)) @ drop n (vals h s) \<and>
     found = (b \<or> list_ex P (take n (vals h s))) \<and> (\<forall>t. ok h' t = ok h t)"
  using assms(2,3)
proof (induction n arbitrary: h' found)
  case (Suc n)
  obtain h1 f1 where 1: "foldl (\<lambda>(h, found) j. if P (vals h s ! j) then (put h s j x, True) else (h, found)) (h, b) [0..<n] = (h1, f1)"
    by fastforce
  with Suc have IH: "vals h1 s = map (\<lambda>e. if P e then x else e) (take n (vals h s)) @ drop n (vals h s)"
    "f1 = (b \<or> list_ex P (take n (vals h s)))" "\<And>t. ok h1 t = ok h t" by auto
  have n: "n < length (vals h s)" using Suc.prems(1) by simp
  have cur: "vals h1 s ! n = vals h s ! n" using n by (simp add: IH(1) nth_append)
  have d: "drop n (vals h s) = vals h s ! n # drop (Suc n) (vals h s)" using n by (rule Cons_nth_drop_Suc [symmetric])
  have t: "take (Suc n) (vals h s) = take n (vals h s) @ [vals h s ! n]" using n by (rule take_Suc_conv_app_nth)
  show ?case
  proof (cases "P (vals h s ! n)")
    case True
    with Suc.prems(2) 1 cur have "h' = put h1 s n x" "found" by auto
    moreover have "vals (put h1 s n x) s = (vals h1 s)[n := x]" by (rule put_vals) (simp add: IH(3) assms(1))
    ultimately show ?thesis using n True by (simp add: IH put_ok t list_update_append d)
  next
    case False
    with Suc.prems(2) 1 cur have "h' = h1" "found = f1" by auto
    with False show ?thesis using n by (auto simp: IH(1,2,3) t d)
  qed
qed auto

text \<open>A slice apart from the one that is written keeps its elements.\<close>

lemma replace_loop_apart:
  assumes "foot s \<inter> foot t = {}"
    and "foldl (\<lambda>(h, found) j. if P h j then (put h s j x, True) else (h, found)) (h, b) js = (h', found)"
  shows "vals h' t = vals h t"
  using assms(2)
proof (induction js arbitrary: h b)
  case (Cons j js)
  then show ?case using put_apart [OF assms(1), of h j x] by (cases "P h j") auto
qed simp

text \<open>
  A slice that may share the array. It sees a written element only where the written slice has an element with the same key;
  \<open>aligned\<close> says that both have the same keys as far as the shorter one goes.
\<close>

definition aligned :: "('a \<Rightarrow> 'k) \<Rightarrow> 'h \<Rightarrow> 's \<Rightarrow> 's \<Rightarrow> bool" where
  "aligned key h s t \<longleftrightarrow> ok h s \<and> ok h t \<and> length (vals h t) \<le> length (vals h s) \<and>
     (\<forall>j < length (vals h t). key (vals h t ! j) = key (vals h s ! j))"

lemma put_aligned:
  assumes a: "aligned key h s t" and i: "i < length (vals h s)" and k: "key x = key (vals h s ! i)"
  shows "aligned key (put h s i x) s t" "partly key X old (vals h t) \<Longrightarrow> x \<in> X \<Longrightarrow> partly key X old (vals (put h s i x) t)"
proof -
  have s: "vals (put h s i x) s = (vals h s)[i := x]" using a by (auto simp: aligned_def put_vals)
  have t: "vals (put h s i x) t \<in> {vals h t, (vals h t)[i := x]}" using a unfolding aligned_def by (intro put_shared) simp_all
  have "key ((vals h s)[i := x] ! j) = key (vals h s ! j)" if "j < length (vals h s)" for j
    using that k by (cases "i = j") auto
  moreover have "key ((vals h t)[i := x] ! j) = key (vals h t ! j)" if "j < length (vals h t)" for j
    using that a k by (cases "i = j") (auto simp: aligned_def)
  ultimately show "aligned key (put h s i x) s t"
    using a t by (auto simp: aligned_def put_ok s)
  assume p: "partly key X old (vals h t)" "x \<in> X"
  have "key x = key (vals h t ! i)" if "i < length (vals h t)" using that a k by (auto simp: aligned_def)
  with t partly_update [OF p, of i] p show "partly key X old (vals (put h s i x) t)" by auto
qed

lemma replace_loop_shared:
  assumes "aligned key h s t" and "\<And>j. j \<in> set js \<Longrightarrow> j < length (vals h s)" and "x \<in> X" and "partly key X old (vals h t)"
    and "foldl (\<lambda>(h, found) j. if key x = key (vals h s ! j) then (put h s j x, True) else (h, found)) (h, b) js = (h', found)"
  shows "aligned key h' s t \<and> partly key X old (vals h' t)"
  using assms(1,2,4,5)
proof (induction js arbitrary: h b)
  case (Cons j js)
  show ?case
  proof (cases "key x = key (vals h s ! j)")
    case True
    have j: "j < length (vals h s)" using Cons.prems(2) by simp
    have "length (vals (put h s j x) s) = length (vals h s)" using Cons.prems(1) by (simp add: aligned_def put_vals)
    with Cons.IH [of "put h s j x" True] put_aligned [OF Cons.prems(1) j True] Cons.prems(2,3,4) assms(3) True
    show ?thesis by auto
  next
    case False
    with Cons.IH [of h b] Cons.prems show ?thesis by auto
  qed
qed auto

lemma app_aligned:
  assumes "aligned key h s t"
  shows "aligned key (snd (app h s x)) (fst (app h s x)) t" "vals (snd (app h s x)) t = vals h t"
  using assms app_vals [of h s x] app_ok [of h s t x] app_shared [of h s t x]
  by (auto simp: aligned_def nth_append)

end

section \<open>The slices of the model\<close>

definition slice_arrays :: "slice \<Rightarrow> addr set" where
  "slice_arrays s = set_option (sl_array s)"

lemma length_slice_vals: "slice_ok h s \<Longrightarrow> length (slice_vals h s) = sl_len s"
  by (auto simp: slice_ok_def slice_vals_def sl_cap_def split: option.splits)

lemma slice_set_ok: "slice_ok (slice_set h s i x) t = slice_ok h t"
proof (cases "sl_array s")
  case (Some a)
  have "length (h[a := (h ! a)[i := x]] ! b) = length (h ! b)" if "b < length h" for b
    using that by (cases "a = b") auto
  with Some show ?thesis by (cases "sl_array t") (auto simp: slice_ok_def slice_set_def sl_cap_def)
qed (simp add: slice_set_def)

lemma go_append_ok: "slice_ok h t \<Longrightarrow> slice_ok (snd (go_append grow z h s x)) t"
proof -
  assume t: "slice_ok h t"
  have "slice_ok (h @ [xs]) t" for xs
    using t by (cases "sl_array t") (auto simp: slice_ok_def sl_cap_def nth_append)
  with t show ?thesis by (simp add: go_append_def Let_def slice_set_ok)
qed

lemma slice_vals_append: "slice_ok h t \<Longrightarrow> slice_vals (h @ xs) t = slice_vals h t"
  by (cases "sl_array t") (auto simp: slice_ok_def slice_vals_def nth_append)

lemma slice_set_apart: "slice_arrays s \<inter> slice_arrays t = {} \<Longrightarrow> slice_vals (slice_set h s i x) t = slice_vals h t"
  by (cases "sl_array s"; cases "sl_array t") (auto simp: slice_arrays_def slice_vals_def slice_set_def)

lemma slice_set_beyond: "slice_ok h s \<Longrightarrow> sl_len t \<le> i \<Longrightarrow> slice_vals (slice_set h s i x) t = slice_vals h t"
  by (cases "sl_array s"; cases "sl_array t") (auto simp: slice_ok_def slice_vals_def slice_set_def nth_list_update)

lemma go_append_vals:
  assumes "slice_ok h s"
  shows "slice_ok (snd (go_append grow z h s x)) (fst (go_append grow z h s x)) \<and>
    slice_vals (snd (go_append grow z h s x)) (fst (go_append grow z h s x)) = slice_vals h s @ [x]"
proof (cases "sl_len s < sl_cap h s")
  case True
  then obtain a where "sl_array s = Some a" by (auto simp: sl_cap_def split: option.splits)
  with True assms show ?thesis
    by (auto simp: go_append_def Let_def slice_ok_def slice_set_def slice_vals_def sl_cap_def take_Suc_conv_app_nth)
next
  case False
  with length_slice_vals [OF assms] show ?thesis
    by (simp add: go_append_def Let_def slice_ok_def slice_vals_def [of "h @ _"] sl_cap_def)
qed

lemma go_append_apart:
  assumes "slice_ok h t" and "slice_arrays s \<inter> slice_arrays t = {}"
  shows "slice_vals (snd (go_append grow z h s x)) t = slice_vals h t \<and>
    slice_arrays (fst (go_append grow z h s x)) \<inter> slice_arrays t = {}"
proof (cases "sl_len s < sl_cap h s")
  case True
  with assms show ?thesis by (simp add: go_append_def Let_def slice_set_apart) (simp add: slice_arrays_def)
next
  case False
  with assms(1) show ?thesis
    by (auto simp: go_append_def Let_def slice_vals_append slice_arrays_def) (auto simp: slice_ok_def)
qed

lemma go_append_shared:
  "slice_ok h s \<Longrightarrow> slice_ok h t \<Longrightarrow> length (slice_vals h t) \<le> length (slice_vals h s) \<Longrightarrow>
     slice_vals (snd (go_append grow z h s x)) t = slice_vals h t"
  by (simp add: go_append_def Let_def slice_set_beyond slice_vals_append length_slice_vals)

interpretation go_slices: growable_slices slice_ok slice_vals slice_arrays slice_set "go_append grow z"
  for grow z
proof
  fix h :: "'a arrays" and s t i x
  show "slice_ok (slice_set h s i x) t = slice_ok h t" by (rule slice_set_ok)
  show "slice_vals (slice_set h s i x) s = (slice_vals h s)[i := x]" if "slice_ok h s"
    using that by (cases "sl_array s") (auto simp: slice_ok_def slice_vals_def slice_set_def take_update_swap)
  show "slice_vals (slice_set h s i x) t = slice_vals h t" if "slice_arrays s \<inter> slice_arrays t = {}"
    using that by (rule slice_set_apart)
  show "slice_vals (slice_set h s i x) t \<in> {slice_vals h t, (slice_vals h t)[i := x]}" if "slice_ok h s" "slice_ok h t"
    using that by (cases "sl_array s"; cases "sl_array t")
      (auto simp: slice_ok_def slice_vals_def slice_set_def take_update_swap nth_list_update)
  show "slice_ok (snd (go_append grow z h s x)) t" if "slice_ok h s" "slice_ok h t"
    using that(2) by (rule go_append_ok)
  show "slice_ok (snd (go_append grow z h s x)) (fst (go_append grow z h s x)) \<and>
      slice_vals (snd (go_append grow z h s x)) (fst (go_append grow z h s x)) = slice_vals h s @ [x]" if "slice_ok h s"
    using that by (rule go_append_vals)
  show "slice_vals (snd (go_append grow z h s x)) t = slice_vals h t \<and>
      slice_arrays (fst (go_append grow z h s x)) \<inter> slice_arrays t = {}"
    if "slice_ok h s" "slice_ok h t" "slice_arrays s \<inter> slice_arrays t = {}"
    using that(2,3) by (rule go_append_apart)
  show "slice_vals (snd (go_append grow z h s x)) t = slice_vals h t"
    if "slice_ok h s" "slice_ok h t" "length (slice_vals h t) \<le> length (slice_vals h s)"
    using that by (rule go_append_shared)
qed

end
