(* ===== verification/Update_In_Place.thy ===== *)
theory Update_In_Place
  imports Go_Slices Matching
begin

text \<open>
  The pod update on memory. \<open>Updater\<close> models \<open>updateState.update\<close> on values; the Go code gets a pod whose containers and
  environment entries lie in arrays, writes \<open>c.Env[j] = operatorEnv\<close> into them, and appends to slices that may or may not
  have room. Here the same code runs on these arrays. For a pod whose containers do not share environment arrays the result is that
  of \<open>update\<close>, however Go grows arrays; and what an update that ends with an error has done to the caller's pod is stated exactly.
\<close>

section \<open>Definitions\<close>

text \<open>A container and a pod in memory: the struct, whose list of entries or containers is not used, and the slice in place of it.\<close>

record mem_container =
  mc_Fields :: container
  mc_Env :: slice

record mem_pod =
  mpod_Fields :: pod
  mpod_Containers :: slice

record pod_memory =
  pm_envs :: "env_var arrays"
  pm_containers :: "mem_container arrays"

definition zero_env_var :: env_var where
  "zero_env_var = \<lparr>ev_Name = [], ev_Value = [], ev_ValueFrom = None\<rparr>"

definition zero_mem_container :: mem_container where
  "zero_mem_container = \<lparr>mc_Fields = zero_container, mc_Env = nil_slice\<rparr>"

text \<open>The values they stand for.\<close>

definition container_val :: "env_var arrays \<Rightarrow> mem_container \<Rightarrow> container" where
  "container_val h c = (mc_Fields c)\<lparr>c_Env := slice_vals h (mc_Env c)\<rparr>"

definition containers_val :: "pod_memory \<Rightarrow> slice \<Rightarrow> container list" where
  "containers_val m cs = map (container_val (pm_envs m)) (slice_vals (pm_containers m) cs)"

definition pod_val :: "pod_memory \<Rightarrow> mem_pod \<Rightarrow> pod" where
  "pod_val m wl = (mpod_Fields wl)\<lparr>pod_Spec := (pod_Spec (mpod_Fields wl))\<lparr>ps_Containers := containers_val m (mpod_Containers wl)\<rparr>\<rparr>"

text \<open>One round of the outer loop of \<open>updateContainerEnv\<close>, and the loop.\<close>

definition set_env_in_place :: "(nat \<Rightarrow> nat) \<Rightarrow> slice \<times> env_var arrays \<Rightarrow> env_var \<Rightarrow> slice \<times> env_var arrays" where
  "set_env_in_place grow eh operatorEnv =
     (let (es, h) = eh;
          (h1, found) = foldl (\<lambda>(h, found) j. if ev_Name operatorEnv = ev_Name (slice_vals h es ! j)
                                              then (slice_set h es j operatorEnv, True) else (h, found))
                          (h, False) [0..<sl_len es]
      in if found then (es, h1) else go_append grow zero_env_var h1 es operatorEnv)"

definition updateContainerEnv_in_place ::
    "(nat \<Rightarrow> nat) \<Rightarrow> update_state \<Rightarrow> slice \<Rightarrow> env_var arrays \<Rightarrow> slice \<times> env_var arrays" where
  "updateContainerEnv_in_place grow s es h =
     foldl (set_env_in_place grow) (es, h) (map me_OperatorManagedValue (us_envs s))"

text \<open>The loop of \<open>update\<close> over the containers of the new slice, through pointers to its elements.\<close>

definition update_env_at :: "(nat \<Rightarrow> nat) \<Rightarrow> update_state \<Rightarrow> slice \<Rightarrow> pod_memory \<Rightarrow> nat \<Rightarrow> pod_memory" where
  "update_env_at grow s cs m i =
     (let c = slice_vals (pm_containers m) cs ! i;
          (es, h) = updateContainerEnv_in_place grow s (mc_Env c) (pm_envs m)
      in m\<lparr>pm_envs := h, pm_containers := slice_set (pm_containers m) cs i (c\<lparr>mc_Env := es\<rparr>)\<rparr>)"

definition update_envs :: "(nat \<Rightarrow> nat) \<Rightarrow> update_state \<Rightarrow> slice \<Rightarrow> pod_memory \<Rightarrow> pod_memory" where
  "update_envs grow s cs m = foldl (update_env_at grow s cs) m [0..<sl_len cs]"

text \<open>The loop over the matching resources. The entries of a custom container are a deep copy, in an array of their own.\<close>

definition append_container :: "(nat \<Rightarrow> nat) \<Rightarrow> slice \<times> pod_memory \<Rightarrow> container \<Rightarrow> slice \<times> pod_memory" where
  "append_container growc cm c =
     (let (cs, m) = cm;
          (es, h) = slice_new (pm_envs m) (c_Env c);
          (cs1, hc) = go_append growc zero_mem_container (pm_containers m) cs \<lparr>mc_Fields = c, mc_Env = es\<rparr>
      in (cs1, m\<lparr>pm_envs := h, pm_containers := hc\<rparr>))"

fun add_containers ::
    "(nat \<Rightarrow> nat) \<Rightarrow> update_state \<Rightarrow> slice \<times> pod_memory \<Rightarrow> auth_proxy_workload list \<Rightarrow>
     (update_state \<times> slice \<times> pod_memory) option" where
  "add_containers growc s cm [] = Some (s, cm)"
| "add_containers growc s cm (inst # matches) =
     do { (newContainer, s1) \<leftarrow> updateContainer s inst zero_container;
          add_containers growc s1 (append_container growc cm newContainer) matches }"

text \<open>The whole update: the error, the memory, and the pod, which has its old containers slice if there is an error.\<close>

definition update_in_place ::
    "(nat \<Rightarrow> nat) \<Rightarrow> (nat \<Rightarrow> nat) \<Rightarrow> update_state \<Rightarrow> pod_memory \<Rightarrow> mem_pod \<Rightarrow> auth_proxy_workload list \<Rightarrow>
     (config_error option \<times> pod_memory \<times> mem_pod) option" where
  "update_in_place grow growc s m wl matches =
     (let s0 = initState s matches;
          containers = mpod_Containers wl;
          nonAuthProxyContainers = filter (\<lambda>c. \<not> has_prefix (c_Name c) ContainerPrefix) (containers_val m containers);
          s1 = addContainerPorts s0 nonAuthProxyContainers
      in do {
        (s2, containers1, m1) \<leftarrow> add_containers growc s1 (containers, m) matches;
        let m2 = update_envs grow s2 containers1 m1;
        if length (us_errors s2) > 0 then Some (Some (us_err s2), m2, wl)
        else Some (None, m2, wl\<lparr>mpod_Containers := containers1\<rparr>)
      })"

text \<open>The containers of a slice have environment slices of their own.\<close>

definition separated :: "pod_memory \<Rightarrow> slice \<Rightarrow> bool" where
  "separated m cs \<longleftrightarrow> slice_ok (pm_containers m) cs \<and>
     list_all (\<lambda>c. slice_ok (pm_envs m) (mc_Env c)) (slice_vals (pm_containers m) cs) \<and>
     sorted_wrt (\<lambda>c d. slice_arrays (mc_Env c) \<inter> slice_arrays (mc_Env d) = {}) (slice_vals (pm_containers m) cs)"

section \<open>The environment of one container\<close>

lemma set_env_in_place_spec:
  assumes "slice_ok h es" and "set_env_in_place grow (es, h) e = (es', h')"
  shows "slice_ok h' es'" "slice_vals h' es' = env_upsert (slice_vals h es) e"
    "slice_ok h t \<Longrightarrow> slice_ok h' t"
    "slice_ok h t \<Longrightarrow> slice_arrays es \<inter> slice_arrays t = {} \<Longrightarrow>
       slice_vals h' t = slice_vals h t \<and> slice_arrays es' \<inter> slice_arrays t = {}"
    "go_slices.aligned ev_Name h es t \<Longrightarrow> e \<in> X \<Longrightarrow> partly ev_Name X old (slice_vals h t) \<Longrightarrow>
       go_slices.aligned ev_Name h' es' t \<and> partly ev_Name X old (slice_vals h' t)"
proof -
  let ?P = "\<lambda>x. ev_Name e = ev_Name x"
  obtain h1 found where loop: "foldl (\<lambda>(h, found) j. if ?P (slice_vals h es ! j) then (slice_set h es j e, True) else (h, found))
      (h, False) [0..<sl_len es] = (h1, found)" by fastforce
  have len: "sl_len es = length (slice_vals h es)" using assms(1) by (simp add: length_slice_vals)
  from go_slices.replace_loop [OF assms(1) _ loop] len
  have v: "slice_vals h1 es = map (\<lambda>x. if ?P x then e else x) (slice_vals h es)" "found = list_ex ?P (slice_vals h es)"
    and ok: "\<And>t. slice_ok h1 t = slice_ok h t" by auto
  let ?g = "go_append grow zero_env_var h1 es e"
  have "(es', h') = (if found then (es, h1) else ?g)"
    using assms(2) loop by (simp add: set_env_in_place_def)
  then have r: "es' = (if found then es else fst ?g)" "h' = (if found then h1 else snd ?g)"
    by (simp_all add: prod_eq_iff split: if_splits)
  have up: "env_upsert (slice_vals h es) e = (if found then slice_vals h1 es else slice_vals h1 es @ [e])"
    by (auto simp: env_upsert_def replace_all_or_append_def v eq_commute [of "ev_Name e"] list_ex_iff intro!: map_idI [symmetric])
  have es1: "slice_ok h1 es" using assms(1) ok by simp
  show "slice_ok h' es'" "slice_vals h' es' = env_upsert (slice_vals h es) e"
    using go_slices.app_vals [OF es1, of grow zero_env_var e] es1 by (simp_all add: r up)
  show "slice_ok h t \<Longrightarrow> slice_ok h' t"
    using go_slices.app_ok [OF es1, of t grow zero_env_var e] by (simp add: r ok)
  show "slice_vals h' t = slice_vals h t \<and> slice_arrays es' \<inter> slice_arrays t = {}"
    if "slice_ok h t" "slice_arrays es \<inter> slice_arrays t = {}"
    using go_slices.replace_loop_apart [OF that(2) loop] go_slices.app_apart [OF es1 _ that(2), of grow zero_env_var e] that
    by (simp add: r ok)
  assume a: "go_slices.aligned ev_Name h es t" "e \<in> X" "partly ev_Name X old (slice_vals h t)"
  from go_slices.replace_loop_shared [OF a(1) _ a(2,3) loop] len
  have "go_slices.aligned ev_Name h1 es t" "partly ev_Name X old (slice_vals h1 t)" by auto
  with go_slices.app_aligned [of ev_Name h1 es t grow zero_env_var e]
  show "go_slices.aligned ev_Name h' es' t \<and> partly ev_Name X old (slice_vals h' t)" by (simp add: r)
qed

text \<open>
  What the environment update of one container does to memory: its slice gets the value of \<open>updateContainerEnv\<close>, slices that share
  no array with it are untouched, and a copy of the old slice header sees some of the replaced entries.
\<close>

lemma updateContainerEnv_in_place_spec:
  assumes "slice_ok h es" and "updateContainerEnv_in_place grow s es h = (es', h')"
  shows "slice_ok h' es'" "slice_vals h' es' = foldl env_upsert (slice_vals h es) (map me_OperatorManagedValue (us_envs s))"
    "slice_ok h t \<Longrightarrow> slice_ok h' t"
    "slice_ok h t \<Longrightarrow> slice_arrays es \<inter> slice_arrays t = {} \<Longrightarrow>
       slice_vals h' t = slice_vals h t \<and> slice_arrays es' \<inter> slice_arrays t = {}"
    "partly ev_Name (me_OperatorManagedValue ` set (us_envs s)) (slice_vals h es) (slice_vals h' es)"
proof -
  have gen: "slice_ok h' es' \<and> slice_vals h' es' = foldl env_upsert (slice_vals h es) ees \<and>
      (\<forall>t. slice_ok h t \<longrightarrow> slice_ok h' t) \<and>
      (\<forall>t. slice_ok h t \<longrightarrow> slice_arrays es \<inter> slice_arrays t = {} \<longrightarrow>
         slice_vals h' t = slice_vals h t \<and> slice_arrays es' \<inter> slice_arrays t = {}) \<and>
      (\<forall>t old. go_slices.aligned ev_Name h es t \<longrightarrow> set ees \<subseteq> X \<longrightarrow> partly ev_Name X old (slice_vals h t) \<longrightarrow>
         partly ev_Name X old (slice_vals h' t))"
    if "slice_ok h es" "foldl (set_env_in_place grow) (es, h) ees = (es', h')" for ees h es X
    using that
  proof (induction ees arbitrary: es h)
    case (Cons e ees)
    obtain es1 h1 where 1: "set_env_in_place grow (es, h) e = (es1, h1)" by fastforce
    note step = set_env_in_place_spec [OF Cons.prems(1) 1]
    from Cons.prems(2) 1 have "foldl (set_env_in_place grow) (es1, h1) ees = (es', h')" by simp
    note IH = Cons.IH [OF step(1) this]
    show ?case
      using IH step(2) step(3,4,5) by auto
  qed simp
  let ?ees = "map me_OperatorManagedValue (us_envs s)"
  note g = gen [OF assms(1) assms(2) [unfolded updateContainerEnv_in_place_def], of "set ?ees"]
  show "slice_ok h' es'" "slice_vals h' es' = foldl env_upsert (slice_vals h es) ?ees" using g by simp_all
  show "slice_ok h t \<Longrightarrow> slice_ok h' t" using g by simp
  show "slice_vals h' t = slice_vals h t \<and> slice_arrays es' \<inter> slice_arrays t = {}"
    if "slice_ok h t" "slice_arrays es \<inter> slice_arrays t = {}"
    using g that by simp
  have "go_slices.aligned ev_Name h es es" using assms(1) by (simp add: go_slices.aligned_def)
  with g show "partly ev_Name (me_OperatorManagedValue ` set (us_envs s)) (slice_vals h es) (slice_vals h' es)"
    by (simp add: partly_refl)
qed

section \<open>The loop over the containers\<close>

lemma separated_iff:
  "separated m cs \<longleftrightarrow> slice_ok (pm_containers m) cs \<and>
     (\<forall>j < sl_len cs. slice_ok (pm_envs m) (mc_Env (slice_vals (pm_containers m) cs ! j))) \<and>
     (\<forall>j < sl_len cs. \<forall>k < sl_len cs. j \<noteq> k \<longrightarrow>
        slice_arrays (mc_Env (slice_vals (pm_containers m) cs ! j)) \<inter> slice_arrays (mc_Env (slice_vals (pm_containers m) cs ! k)) = {})"
proof (cases "slice_ok (pm_containers m) cs")
  case True
  then have len: "length (slice_vals (pm_containers m) cs) = sl_len cs" by (rule length_slice_vals)
  have "(\<forall>j k. j < k \<longrightarrow> k < n \<longrightarrow> A j \<inter> A k = {}) \<longleftrightarrow> (\<forall>j < n. \<forall>k < n. j \<noteq> k \<longrightarrow> A j \<inter> A k = {})" for A :: "nat \<Rightarrow> nat set" and n
  proof (intro iffI allI impI)
    fix j k
    assume *: "\<forall>j k. j < k \<longrightarrow> k < n \<longrightarrow> A j \<inter> A k = {}" and "j < n" "k < n" "j \<noteq> k"
    then consider "j < k" | "k < j" by linarith
    then show "A j \<inter> A k = {}" using * \<open>j < n\<close> \<open>k < n\<close> by cases blast+
  qed auto
  from this [of "sl_len cs" "\<lambda>j. slice_arrays (mc_Env (slice_vals (pm_containers m) cs ! j))"] True show ?thesis
    unfolding separated_def by (simp add: list_all_length len sorted_wrt_iff_nth_less)
qed (simp add: separated_def)

lemma separatedD:
  assumes "separated m cs"
  shows "slice_ok (pm_containers m) cs" "length (slice_vals (pm_containers m) cs) = sl_len cs"
    "j < sl_len cs \<Longrightarrow> slice_ok (pm_envs m) (mc_Env (slice_vals (pm_containers m) cs ! j))"
    "j < sl_len cs \<Longrightarrow> k < sl_len cs \<Longrightarrow> j \<noteq> k \<Longrightarrow>
       slice_arrays (mc_Env (slice_vals (pm_containers m) cs ! j)) \<inter> slice_arrays (mc_Env (slice_vals (pm_containers m) cs ! k)) = {}"
  using assms by (auto simp: separated_iff length_slice_vals)

lemma separated_update:
  assumes sep: "separated m cs" and i: "i < sl_len cs" and es: "slice_ok h es"
    and h: "\<And>t. slice_ok (pm_envs m) t \<Longrightarrow> slice_ok h t"
    and apart: "\<And>k. k < sl_len cs \<Longrightarrow> k \<noteq> i \<Longrightarrow> slice_arrays es \<inter> slice_arrays (mc_Env (slice_vals (pm_containers m) cs ! k)) = {}"
  shows "separated (m\<lparr>pm_envs := h, pm_containers := slice_set (pm_containers m) cs i (c\<lparr>mc_Env := es\<rparr>)\<rparr>) cs"
proof -
  let ?L = "slice_vals (pm_containers m) cs" and ?H = "slice_set (pm_containers m) cs i (c\<lparr>mc_Env := es\<rparr>)"
  note d = separatedD [OF sep]
  have env: "mc_Env (slice_vals ?H cs ! j) = (if j = i then es else mc_Env (?L ! j))" if "j < sl_len cs" for j
    using that d(1,2) by (simp add: go_slices.put_vals nth_list_update)
  have "slice_arrays (mc_Env (slice_vals ?H cs ! j)) \<inter> slice_arrays (mc_Env (slice_vals ?H cs ! k)) = {}"
    if "j < sl_len cs" "k < sl_len cs" "j \<noteq> k" for j k
    using that d(4) [OF that] apart [of j] apart [of k] by (auto simp: env)
  moreover have "slice_ok h (mc_Env (slice_vals ?H cs ! j))" if "j < sl_len cs" for j
    using es h [OF d(3) [OF that]] by (simp add: env that)
  ultimately show ?thesis using d(1) by (simp add: separated_iff go_slices.put_ok)
qed

lemma update_env_at_spec:
  fixes grow :: "nat \<Rightarrow> nat" and s :: update_state
  assumes sep: "separated m cs" and i: "i < sl_len cs"
  defines "m' \<equiv> update_env_at grow s cs m i" and "c \<equiv> slice_vals (pm_containers m) cs ! i"
  shows "separated m' cs"
    "containers_val m' cs = (containers_val m cs)[i := updateContainerEnv s (containers_val m cs ! i)]"
    "j \<noteq> i \<Longrightarrow> slice_vals (pm_containers m') cs ! j = slice_vals (pm_containers m) cs ! j"
    "slice_arrays cs \<inter> slice_arrays cs0 = {} \<Longrightarrow> slice_vals (pm_containers m') cs0 = slice_vals (pm_containers m) cs0"
    "slice_ok (pm_envs m) t \<Longrightarrow> slice_ok (pm_envs m') t"
    "slice_ok (pm_envs m) t \<Longrightarrow> slice_arrays (mc_Env c) \<inter> slice_arrays t = {} \<Longrightarrow>
       slice_vals (pm_envs m') t = slice_vals (pm_envs m) t"
    "partly ev_Name (me_OperatorManagedValue ` set (us_envs s)) (slice_vals (pm_envs m) (mc_Env c)) (slice_vals (pm_envs m') (mc_Env c))"
proof -
  obtain es h where e: "updateContainerEnv_in_place grow s (mc_Env c) (pm_envs m) = (es, h)" by fastforce
  note d = separatedD [OF sep]
  note spec = updateContainerEnv_in_place_spec [OF d(3) [OF i, folded c_def] e]
  have m': "pm_envs m' = h" "pm_containers m' = slice_set (pm_containers m) cs i (c\<lparr>mc_Env := es\<rparr>)"
    using e by (simp_all add: m'_def update_env_at_def c_def [symmetric])
  let ?L = "slice_vals (pm_containers m) cs"
  have L': "slice_vals (pm_containers m') cs = ?L[i := c\<lparr>mc_Env := es\<rparr>]"
    using d(1) by (simp add: m' go_slices.put_vals)
  have apart: "slice_arrays es \<inter> slice_arrays (mc_Env (?L ! k)) = {}" if "k < sl_len cs" "k \<noteq> i" for k
    using spec(4) [OF d(3) [OF that(1)]] d(4) [OF i that(1)] that(2) by (auto simp: c_def)
  have "m' = m\<lparr>pm_envs := h, pm_containers := slice_set (pm_containers m) cs i (c\<lparr>mc_Env := es\<rparr>)\<rparr>"
    using e by (simp add: m'_def update_env_at_def c_def [symmetric])
  with separated_update [OF sep i spec(1,3) apart] show "separated m' cs" by simp
  have other: "container_val h (?L ! j) = container_val (pm_envs m) (?L ! j)" if "j < sl_len cs" "j \<noteq> i" for j
    using spec(4) [OF d(3) [OF that(1)]] d(4) [OF i that(1)] that(2) by (auto simp: container_val_def c_def)
  have here: "container_val h (c\<lparr>mc_Env := es\<rparr>) = updateContainerEnv s (container_val (pm_envs m) c)"
    using spec(2) by (simp add: container_val_def updateContainerEnv_def)
  show "containers_val m' cs = (containers_val m cs)[i := updateContainerEnv s (containers_val m cs ! i)]"
    by (rule nth_equalityI)
      (use d(2) i in \<open>auto simp: containers_val_def L' m'(1) nth_list_update other here c_def [symmetric]\<close>)
  show "j \<noteq> i \<Longrightarrow> slice_vals (pm_containers m') cs ! j = slice_vals (pm_containers m) cs ! j"
    by (simp add: L')
  show "slice_arrays cs \<inter> slice_arrays cs0 = {} \<Longrightarrow> slice_vals (pm_containers m') cs0 = slice_vals (pm_containers m) cs0"
    by (simp add: m' go_slices.put_apart)
  show "slice_ok (pm_envs m) t \<Longrightarrow> slice_ok (pm_envs m') t" using spec(3) by (simp add: m'(1))
  show "slice_vals (pm_envs m') t = slice_vals (pm_envs m) t"
    if "slice_ok (pm_envs m) t" "slice_arrays (mc_Env c) \<inter> slice_arrays t = {}" using spec(4) [OF that] by (simp add: m'(1))
  show "partly ev_Name (me_OperatorManagedValue ` set (us_envs s)) (slice_vals (pm_envs m) (mc_Env c)) (slice_vals (pm_envs m') (mc_Env c))"
    using spec(5) by (simp add: m'(1))
qed

text \<open>After the loop every container has the value that \<open>updateContainerEnv\<close> gives it.\<close>

lemma update_env_loop:
  fixes grow :: "nat \<Rightarrow> nat" and s :: update_state
  assumes sep: "separated m cs" and "n \<le> sl_len cs"
  defines "m' \<equiv> foldl (update_env_at grow s cs) m [0..<n]"
  shows "separated m' cs \<and>
    containers_val m' cs = map (updateContainerEnv s) (take n (containers_val m cs)) @ drop n (containers_val m cs) \<and>
    (\<forall>j \<ge> n. slice_vals (pm_containers m') cs ! j = slice_vals (pm_containers m) cs ! j)"
  using assms(2) unfolding m'_def
proof (induction n)
  case (Suc n)
  let ?m = "foldl (update_env_at grow s cs) m [0..<n]" and ?V = "containers_val m cs"
  from Suc have n: "n < sl_len cs" and IH: "separated ?m cs"
    "containers_val ?m cs = map (updateContainerEnv s) (take n ?V) @ drop n ?V"
    "\<forall>j \<ge> n. slice_vals (pm_containers ?m) cs ! j = slice_vals (pm_containers m) cs ! j" by auto
  have len: "n < length ?V" using n separatedD(2) [OF sep] by (simp add: containers_val_def)
  note step = update_env_at_spec [OF IH(1) n, where grow = grow and s = s]
  have "containers_val (update_env_at grow s cs ?m n) cs = map (updateContainerEnv s) (take (Suc n) ?V) @ drop (Suc n) ?V"
    using len by (simp add: step(2) IH(2) nth_append list_update_append take_Suc_conv_app_nth Cons_nth_drop_Suc [symmetric])
  with step(1,3) IH(3) show ?case by simp
qed (simp add: sep)

text \<open>What a reader of the old containers sees, if they are in another array: the fields are untouched, and some entries are
  replaced by managed variables of the same name.\<close>

lemma update_env_loop_old:
  fixes grow :: "nat \<Rightarrow> nat" and s :: update_state
  assumes sep: "separated m cs" and "n \<le> sl_len cs" and j: "j < sl_len cs"
  defines "m' \<equiv> foldl (update_env_at grow s cs) m [0..<n]" and "t \<equiv> mc_Env (slice_vals (pm_containers m) cs ! j)"
  shows "slice_ok (pm_envs m') t \<and>
    (if j < n then partly ev_Name (me_OperatorManagedValue ` set (us_envs s)) (slice_vals (pm_envs m) t) (slice_vals (pm_envs m') t)
     else slice_vals (pm_envs m') t = slice_vals (pm_envs m) t)"
  using assms(2) unfolding m'_def
proof (induction n)
  case 0
  then show ?case using separatedD(3) [OF sep j] by (simp add: t_def)
next
  case (Suc n)
  let ?m = "foldl (update_env_at grow s cs) m [0..<n]" and ?m' = "foldl (update_env_at grow s cs) m [0..<Suc n]"
  have n: "n < sl_len cs" using Suc.prems by simp
  from update_env_loop [OF sep, where n = n and grow = grow and s = s] n have sep': "separated ?m cs"
    and cur: "slice_vals (pm_containers ?m) cs ! n = slice_vals (pm_containers m) cs ! n" by auto
  note step = update_env_at_spec [OF sep' n, where grow = grow and s = s, unfolded cur]
  note IH = Suc.IH [OF less_imp_le [OF n]]
  have ok: "slice_ok (pm_envs ?m') t" using step(5) IH by simp
  show ?case
  proof (cases "j = n")
    case True
    with step(7) IH ok show ?thesis by (simp add: t_def)
  next
    case False
    from separatedD(4) [OF sep n j] False have "slice_arrays (mc_Env (slice_vals (pm_containers m) cs ! n)) \<inter> slice_arrays t = {}"
      by (simp add: t_def)
    with step(6) IH have "slice_vals (pm_envs ?m') t = slice_vals (pm_envs ?m) t" by simp
    with False IH ok show ?thesis by (simp add: less_Suc_eq)
  qed
qed

lemma update_env_loop_elsewhere:
  assumes sep: "separated m cs" and "n \<le> sl_len cs" and apart: "slice_arrays cs \<inter> slice_arrays cs0 = {}"
  shows "slice_vals (pm_containers (foldl (update_env_at grow s cs) m [0..<n])) cs0 = slice_vals (pm_containers m) cs0"
  using assms(2)
proof (induction n)
  case (Suc n)
  with update_env_loop [OF sep, of n grow s] update_env_at_spec(4) [OF _ _ apart] show ?case by simp
qed simp

section \<open>The loop over the resources\<close>

text \<open>
  How the slice \<open>cs\<close> in memory \<open>m\<close> comes from \<open>cs0\<close> in \<open>m0\<close> by \<open>n\<close> calls of \<open>append\<close>: what the old slice shows is the same and is
  the beginning of the new one, and both share their array exactly if it had room for all new elements.
\<close>

definition grown :: "pod_memory \<Rightarrow> slice \<Rightarrow> nat \<Rightarrow> pod_memory \<Rightarrow> slice \<Rightarrow> bool" where
  "grown m0 cs0 n m cs \<longleftrightarrow> sl_len cs = sl_len cs0 + n \<and> slice_ok (pm_containers m) cs0 \<and>
     slice_vals (pm_containers m) cs0 = slice_vals (pm_containers m0) cs0 \<and>
     take (sl_len cs0) (slice_vals (pm_containers m) cs) = slice_vals (pm_containers m0) cs0 \<and>
     (\<exists>hs. pm_envs m = pm_envs m0 @ hs) \<and>
     (if sl_len cs0 + n \<le> sl_cap (pm_containers m0) cs0
      then sl_array cs = sl_array cs0 \<and> sl_cap (pm_containers m) cs = sl_cap (pm_containers m0) cs0
      else slice_arrays cs \<inter> slice_arrays cs0 = {})"

lemma grown_refl: "separated m cs \<Longrightarrow> grown m cs 0 m cs"
  using separatedD(1,2) [of m cs] by (auto simp: grown_def slice_ok_def)

lemma slice_new_spec:
  assumes "slice_new h xs = (s, h')"
  shows "slice_ok h' s" "slice_vals h' s = xs" "\<exists>hs. h' = h @ hs" "slice_ok h t \<Longrightarrow> slice_arrays t \<inter> slice_arrays s = {}"
  using assms by (auto simp: slice_new_def nil_slice_def slice_ok_def slice_vals_def sl_cap_def slice_arrays_def split: if_splits)

lemma slice_ok_append: "slice_ok h t \<Longrightarrow> slice_ok (h @ xs) t"
  by (cases "sl_array t") (auto simp: slice_ok_def sl_cap_def nth_append)

lemma go_append_header:
  "sl_len (fst (go_append grow z h s x)) = sl_len s + 1"
  "sl_len s < sl_cap h s \<Longrightarrow> sl_array (fst (go_append grow z h s x)) = sl_array s"
  "sl_len s < sl_cap h s \<Longrightarrow> slice_ok h s \<Longrightarrow>
     sl_cap (snd (go_append grow z h s x)) (fst (go_append grow z h s x)) = sl_cap h s"
  "\<not> sl_len s < sl_cap h s \<Longrightarrow> slice_ok h t \<Longrightarrow> slice_arrays (fst (go_append grow z h s x)) \<inter> slice_arrays t = {}"
  by (cases "sl_array s"; auto simp: go_append_def Let_def sl_cap_def slice_set_def slice_ok_def slice_arrays_def)+

lemma go_append_room:
  assumes s: "slice_ok h s" and t: "slice_ok h t" and len: "sl_len s = sl_len t + n"
    and room: "if sl_len t + n \<le> cap then sl_array s = sl_array t \<and> sl_cap h s = cap else slice_arrays s \<inter> slice_arrays t = {}"
  shows "if sl_len t + Suc n \<le> cap
    then sl_array (fst (go_append grow z h s x)) = sl_array t \<and> sl_cap (snd (go_append grow z h s x)) (fst (go_append grow z h s x)) = cap
    else slice_arrays (fst (go_append grow z h s x)) \<inter> slice_arrays t = {}"
proof (cases "sl_len t + n \<le> cap")
  case True
  with room go_append_header(2-4) [of s h, where grow = grow and z = z and x = x] s t len show ?thesis
    by auto
next
  case False
  with room go_slices.app_apart [OF s t, of grow z x] show ?thesis by simp
qed

lemma append_container_spec:
  assumes sep: "separated m cs" and app: "append_container growc (cs, m) c = (cs', m')"
  shows "separated m' cs'" "containers_val m' cs' = containers_val m cs @ [c]"
    "grown m0 cs0 n m cs \<Longrightarrow> grown m0 cs0 (Suc n) m' cs'"
proof -
  obtain es h where new: "slice_new (pm_envs m) (c_Env c) = (es, h)" by fastforce
  note n = slice_new_spec [OF new]
  from n(3) obtain hs where h: "h = pm_envs m @ hs" by blast
  let ?c = "\<lparr>mc_Fields = c, mc_Env = es\<rparr>"
  let ?g = "go_append growc zero_mem_container (pm_containers m) cs ?c"
  have g: "cs' = fst ?g" "pm_containers m' = snd ?g" "pm_envs m' = h"
    using app new by (auto simp: append_container_def split: prod.splits)
  note d = separatedD [OF sep]
  note av = go_slices.app_vals [OF d(1), of growc zero_mem_container ?c, folded g]
  have len: "sl_len cs' = Suc (sl_len cs)" by (simp add: g go_append_header)
  have L': "slice_vals (pm_containers m') cs' = slice_vals (pm_containers m) cs @ [?c]" using av by simp
  show "separated m' cs'"
    unfolding separated_iff len
    using av n(1) d(2,3,4) n(4) [OF d(3)]
    by (auto simp: L' nth_append g(3) h less_Suc_eq slice_ok_append Int_commute [of "slice_arrays es"])
  have old: "container_val h x = container_val (pm_envs m) x" if "x \<in> set (slice_vals (pm_containers m) cs)" for x
    using that sep by (auto simp: separated_def list_all_iff container_val_def h slice_vals_append)
  have "container_val h ?c = c" using n(2) by (simp add: container_val_def)
  with old show "containers_val m' cs' = containers_val m cs @ [c]"
    by (simp add: containers_val_def L' g(3))
  assume gr: "grown m0 cs0 n m cs"
  then have ok0: "slice_ok (pm_containers m) cs0" and l0: "sl_len cs = sl_len cs0 + n" by (simp_all add: grown_def)
  have v0: "slice_vals (pm_containers m') cs0 = slice_vals (pm_containers m) cs0"
    unfolding g using ok0 d(1) l0 by (intro go_slices.app_shared) (simp_all add: length_slice_vals)
  have room: "if sl_len cs0 + Suc n \<le> sl_cap (pm_containers m0) cs0
      then sl_array cs' = sl_array cs0 \<and> sl_cap (pm_containers m') cs' = sl_cap (pm_containers m0) cs0
      else slice_arrays cs' \<inter> slice_arrays cs0 = {}"
    unfolding g using gr by (intro go_append_room [OF d(1) ok0 l0]) (simp add: grown_def)
  have "slice_ok (pm_containers m') cs0" unfolding g by (rule go_append_ok) (rule ok0)
  with room v0 gr d(2) show "grown m0 cs0 (Suc n) m' cs'"
    by (auto simp: grown_def len L' g(3) h)
qed

lemma add_containers_spec:
  assumes "separated m cs" and "grown m0 cs0 n m cs"
  shows "case map_state (\<lambda>s p. updateContainer s p zero_container) s ms of
      None \<Rightarrow> add_containers growc s (cs, m) ms = None
    | Some (new, s') \<Rightarrow> \<exists>cs' m'. add_containers growc s (cs, m) ms = Some (s', cs', m') \<and> separated m' cs' \<and>
        containers_val m' cs' = containers_val m cs @ new \<and> grown m0 cs0 (n + length ms) m' cs'"
  using assms
proof (induction ms arbitrary: s m cs n)
  case (Cons p ms)
  show ?case
  proof (cases "updateContainer s p zero_container")
    case (Some r)
    obtain c s1 where r: "r = (c, s1)" by fastforce
    obtain cs1 m1 where 1: "append_container growc (cs, m) c = (cs1, m1)" by fastforce
    note a = append_container_spec [OF Cons.prems(1) 1]
    from Cons.IH [OF a(1) a(3) [OF Cons.prems(2)], of s1] show ?thesis
      by (cases "map_state (\<lambda>s p. updateContainer s p zero_container) s1 ms") (auto simp: Some r 1 a(2))
  qed simp
qed simp

section \<open>The whole update\<close>

text \<open>A run on memory follows the run on values: the same state, the new containers, and the loop over the environments.\<close>

lemma update_in_place_run:
  assumes sep: "separated m (mpod_Containers wl)"
  shows "case map_state (\<lambda>s p. updateContainer s p zero_container)
        (addContainerPorts (initState s ms) (own_containers (pod_val m wl))) ms of
      None \<Rightarrow> update_in_place grow growc s m wl ms = None
    | Some (new, s') \<Rightarrow> \<exists>cs m1. separated m1 cs \<and> containers_val m1 cs = containers_val m (mpod_Containers wl) @ new \<and>
        grown m (mpod_Containers wl) (length ms) m1 cs \<and>
        update_in_place grow growc s m wl ms = Some (if us_errors s' \<noteq> [] then (Some (us_err s'), update_envs grow s' cs m1, wl)
          else (None, update_envs grow s' cs m1, wl\<lparr>mpod_Containers := cs\<rparr>))"
  using add_containers_spec [OF sep grown_refl [OF sep], where ms = ms and growc = growc
      and s = "addContainerPorts (initState s ms) (own_containers (pod_val m wl))"]
  by (auto simp: update_in_place_def own_containers_def pod_val_def Let_def split: option.splits) blast

lemma update_envs_spec:
  assumes "separated m cs"
  shows "separated (update_envs grow s cs m) cs"
    "containers_val (update_envs grow s cs m) cs = map (updateContainerEnv s) (containers_val m cs)"
  using update_env_loop [OF assms order_refl, of grow s] separatedD(2) [OF assms]
  by (simp_all add: update_envs_def containers_val_def)

text \<open>The caller's view of the containers after the loop over the environments.\<close>

lemma update_envs_old:
  assumes sep0: "separated m0 cs0" and sep: "separated m cs" and gr: "grown m0 cs0 n m cs"
  shows "if sl_len cs0 + n \<le> sl_cap (pm_containers m0) cs0
    then containers_val (update_envs grow s cs m) cs0 = map (updateContainerEnv s) (containers_val m0 cs0)
    else list_all2 (\<lambda>c c'. same_but_env c c' \<and>
        partly ev_Name (me_OperatorManagedValue ` set (us_envs s)) (c_Env c) (c_Env c'))
      (containers_val m0 cs0) (containers_val (update_envs grow s cs m) cs0)"
proof -
  let ?m = "update_envs grow s cs m" and ?L0 = "slice_vals (pm_containers m0) cs0"
  from gr obtain hs where hs: "pm_envs m = pm_envs m0 @ hs" by (auto simp: grown_def)
  have len: "sl_len cs = sl_len cs0 + n" and L: "take (sl_len cs0) (slice_vals (pm_containers m) cs) = ?L0"
    using gr by (simp_all add: grown_def)
  have val: "container_val (pm_envs m) x = container_val (pm_envs m0) x" if "x \<in> set ?L0" for x
    using that sep0 by (auto simp: separated_def list_all_iff container_val_def hs slice_vals_append)
  have V: "take (sl_len cs0) (containers_val m cs) = containers_val m0 cs0"
    using val by (simp add: containers_val_def take_map L)
  show ?thesis
  proof (cases "sl_len cs0 + n \<le> sl_cap (pm_containers m0) cs0")
    case True
    with gr have "sl_array cs = sl_array cs0" by (simp add: grown_def)
    then have "slice_vals h cs0 = take (sl_len cs0) (slice_vals h cs)" for h :: "mem_container arrays"
      using len by (auto simp: slice_vals_def min_def split: option.splits)
    then have "containers_val ?m cs0 = take (sl_len cs0) (containers_val ?m cs)" by (simp add: containers_val_def take_map)
    with True V show ?thesis by (simp add: update_envs_spec [OF sep] take_map)
  next
    case False
    with gr have apart: "slice_arrays cs \<inter> slice_arrays cs0 = {}" by (simp add: grown_def)
    from update_env_loop_elsewhere [OF sep order_refl apart]
    have L': "slice_vals (pm_containers ?m) cs0 = ?L0" using gr by (simp add: update_envs_def grown_def)
    have "partly ev_Name (me_OperatorManagedValue ` set (us_envs s)) (slice_vals (pm_envs m0) (mc_Env (?L0 ! j)))
        (slice_vals (pm_envs ?m) (mc_Env (?L0 ! j)))" if "j < sl_len cs0" for j
    proof -
      have "?L0 ! j = slice_vals (pm_containers m) cs ! j" using that by (simp flip: L)
      moreover have "slice_vals (pm_envs m) (mc_Env (?L0 ! j)) = slice_vals (pm_envs m0) (mc_Env (?L0 ! j))"
        using separatedD(3) [OF sep0 that] by (simp add: hs slice_vals_append)
      ultimately show ?thesis
        using update_env_loop_old [OF sep order_refl, of j grow s] that len by (simp add: update_envs_def)
    qed
    with False separatedD(2) [OF sep0] show ?thesis
      by (auto simp: containers_val_def L' list_all2_conv_all_nth container_val_def same_but_env_def intro: exI)
  qed
qed

text \<open>
  C7: the update on values is what the update on memory does. For a pod whose containers have environment arrays of
  their own, and however Go grows arrays, the update in place returns exactly if \<open>update\<close> does, reports the same error, and
  without an error leaves in memory the pod that \<open>update\<close> gives, again with separate arrays.
\<close>

theorem update_in_place_refines:
  assumes "separated m (mpod_Containers wl)"
  shows "case update s (pod_val m wl) ms of
      None \<Rightarrow> update_in_place grow growc s m wl ms = None
    | Some (Inl err) \<Rightarrow> \<exists>m'. update_in_place grow growc s m wl ms = Some (Some err, m', wl)
    | Some (Inr w) \<Rightarrow> \<exists>m' wl'. update_in_place grow growc s m wl ms = Some (None, m', wl') \<and>
        w = PodWorkload (pod_val m' wl') \<and> separated m' (mpod_Containers wl')"
proof -
  let ?run = "map_state (\<lambda>s p. updateContainer s p zero_container)
        (addContainerPorts (initState s ms) (own_containers (pod_val m wl))) ms"
  have u: "update s (pod_val m wl) ms = map_option (\<lambda>(new, s').
      if us_errors s' \<noteq> [] then Inl (us_err s')
      else Inr (PodWorkload ((mpod_Fields wl)\<lparr>pod_Spec := (pod_Spec (mpod_Fields wl))\<lparr>ps_Containers :=
         map (updateContainerEnv s') (containers_val m (mpod_Containers wl) @ new)\<rparr>\<rparr>))) ?run"
    by (cases ?run) (auto simp: update_def own_containers_def pod_val_def Let_def)
  show ?thesis
  proof (cases ?run)
    case None
    with update_in_place_run [OF assms, where s = s and ms = ms and grow = grow and growc = growc] u show ?thesis by simp
  next
    case (Some r)
    obtain new s' where r: "r = (new, s')" by fastforce
    from update_in_place_run [OF assms, where s = s and ms = ms and grow = grow and growc = growc] Some r obtain cs m1 where
      sep: "separated m1 cs" and v: "containers_val m1 cs = containers_val m (mpod_Containers wl) @ new"
      and run: "update_in_place grow growc s m wl ms = Some (if us_errors s' \<noteq> [] then (Some (us_err s'), update_envs grow s' cs m1, wl)
          else (None, update_envs grow s' cs m1, wl\<lparr>mpod_Containers := cs\<rparr>))" by auto
    from update_envs_spec [OF sep] v have "pod_val (update_envs grow s' cs m1) (wl\<lparr>mpod_Containers := cs\<rparr>) =
        (mpod_Fields wl)\<lparr>pod_Spec := (pod_Spec (mpod_Fields wl))\<lparr>ps_Containers :=
         map (updateContainerEnv s') (containers_val m (mpod_Containers wl) @ new)\<rparr>\<rparr>"
      by (simp add: pod_val_def)
    with update_envs_spec(1) [OF sep] show ?thesis by (simp add: u Some r run)
  qed
qed

text \<open>
  C31: what a rejected update leaves behind. When the update reports an error, the pod has its old slice of containers. If the
  array behind it had room for the proxy containers, every container of the pod nevertheless has its updated environment;
  otherwise the containers differ from before at most in environment entries, some of which are replaced by the managed
  variable of the same name.
\<close>

theorem update_in_place_error:
  assumes "separated m (mpod_Containers wl)" and "update_in_place grow growc s m wl ms = Some (Some err, m', wl')"
  shows "wl' = wl \<and> (\<exists>new s'. map_state (\<lambda>s p. updateContainer s p zero_container)
        (addContainerPorts (initState s ms) (own_containers (pod_val m wl))) ms = Some (new, s') \<and> err = us_err s' \<and>
     (if sl_len (mpod_Containers wl) + length ms \<le> sl_cap (pm_containers m) (mpod_Containers wl)
      then containers_val m' (mpod_Containers wl) = map (updateContainerEnv s') (containers_val m (mpod_Containers wl))
      else list_all2 (\<lambda>c c'. same_but_env c c' \<and>
             partly ev_Name (me_OperatorManagedValue ` set (us_envs s')) (c_Env c) (c_Env c'))
           (containers_val m (mpod_Containers wl)) (containers_val m' (mpod_Containers wl))))"
proof -
  let ?run = "map_state (\<lambda>s p. updateContainer s p zero_container)
        (addContainerPorts (initState s ms) (own_containers (pod_val m wl))) ms"
  from update_in_place_run [OF assms(1), where s = s and ms = ms and grow = grow and growc = growc] assms(2) obtain new s' where r: "?run = Some (new, s')"
    by (cases ?run) auto
  with update_in_place_run [OF assms(1), where s = s and ms = ms and grow = grow and growc = growc] assms(2) obtain cs m1 where
    "separated m1 cs" "grown m (mpod_Containers wl) (length ms) m1 cs" "err = us_err s'" "m' = update_envs grow s' cs m1" "wl' = wl"
    by (auto split: if_splits)
  with r update_envs_old [OF assms(1), of m1 cs "length ms" grow s'] show ?thesis by auto
qed

text \<open>A pod in memory whose container has a variable that the resources set to another value. Its arrays have no room left.\<close>

definition example_mem_pod :: mem_pod where
  "example_mem_pod = \<lparr>mpod_Fields = example_pod, mpod_Containers = \<lparr>sl_array = Some 0, sl_len = 1\<rparr>\<rparr>"

definition example_memory :: pod_memory where
  "example_memory =
     \<lparr>pm_envs = [[env_entry ''DB_HOST'' ''db.internal'']],
      pm_containers = [[\<lparr>mc_Fields = zero_container\<lparr>c_Name := ''busybox'', c_Ports := [\<lparr>cp_ContainerPort = 8080, cp_Other = []\<rparr>]\<rparr>,
                         mc_Env = \<lparr>sl_array = Some 0, sl_len = 1\<rparr>\<rparr>]]\<rparr>"

lemmas memory_defs = example_mem_pod_def example_memory_def slice_vals_def slice_ok_def sl_cap_def slice_set_def slice_new_def
  slice_arrays_def go_append_def nil_slice_def containers_val_def container_val_def

lemma example_memory_separated: "separated example_memory (mpod_Containers example_mem_pod)"
  by (simp add: separated_def memory_defs)

lemma example_start_in_place:
  "addContainerPorts (initState (initial_state u example_pod) ms)
     (filter (\<lambda>c. \<not> has_prefix (c_Name c) ContainerPrefix) (containers_val example_memory (mpod_Containers example_mem_pod))) =
   start_state u example_pod ms"
  by (simp add: start_state_def own_containers_example memory_defs addContainerPorts_def add_ports_of_def ContainerPrefix_def)

lemma rejectedI:
  "(case r of Some (Some e, m', wl') \<Rightarrow> wl' = wl \<and> P m' | _ \<Rightarrow> False) \<Longrightarrow> \<exists>e m'. r = Some (Some e, m', wl) \<and> P m'"
  by (auto split: option.splits)

lemma example_conflict_run:
  "\<exists>c1 c2 s. map_state (\<lambda>s p. updateContainer s p zero_container) (start_state (NewUpdater ''dev'') example_pod [one_db, two_db])
       [one_db, two_db] = Some ([c1, c2], s) \<and> c_Env c1 = [] \<and> c_Env c2 = [] \<and> us_errors s \<noteq> [] \<and>
     map me_OperatorManagedValue (us_envs s) = [env_entry ''DB_HOST'' ''127.0.0.1'', env_entry ''DB_PORT'' ''5000'']"
proof -
  have *: "\<exists>c1 c2 s. r = Some ([c1, c2], s) \<and> P c1 c2 s"
    if "case r of Some ([c1, c2], s) \<Rightarrow> P c1 c2 s | _ \<Rightarrow> False" for r :: "(container list \<times> update_state) option" and P
  proof -
    from that obtain cs s where r: "r = Some (cs, s)" by (cases r) auto
    with that show ?thesis by (cases cs; cases "tl cs"; cases "tl (tl cs)") auto
  qed
  show ?thesis
    by (rule *) (simp add: run_defs example_names zero_container_def env_entry_def fmt_d_ports)
qed

lemma example_rejected:
  "\<exists>e m'. update_in_place (\<lambda>_. 0) (\<lambda>_. 0) (initial_state (NewUpdater ''dev'') example_pod) example_memory example_mem_pod
     [one_db, two_db] = Some (Some e, m', example_mem_pod) \<and>
   map c_Env (containers_val m' (mpod_Containers example_mem_pod)) = [[env_entry ''DB_HOST'' ''127.0.0.1'']]"
proof -
  obtain c1 c2 s where run: "map_state (\<lambda>s p. updateContainer s p zero_container)
      (start_state (NewUpdater ''dev'') example_pod [one_db, two_db]) [one_db, two_db] = Some ([c1, c2], s)"
    and s: "c_Env c1 = []" "c_Env c2 = []" "us_errors s \<noteq> []"
      "map me_OperatorManagedValue (us_envs s) = [env_entry ''DB_HOST'' ''127.0.0.1'', env_entry ''DB_PORT'' ''5000'']"
    using example_conflict_run by (elim exE conjE)
  from run obtain s1 where "updateContainer (start_state (NewUpdater ''dev'') example_pod [one_db, two_db]) one_db zero_container = Some (c1, s1)"
    "updateContainer s1 two_db zero_container = Some (c2, s)"
    by (auto split: bind_splits)
  then show ?thesis
    unfolding update_in_place_def Let_def example_start_in_place
    by (simp add: s append_container_def update_envs_def update_env_at_def updateContainerEnv_in_place_def
        set_env_in_place_def memory_defs env_entry_def Let_def)
qed

theorem update_in_place_error_witness:
  "\<exists>e m' new s'. update_in_place (\<lambda>_. 0) (\<lambda>_. 0) (initial_state (NewUpdater ''dev'') example_pod) example_memory example_mem_pod
     [one_db, two_db] = Some (Some e, m', example_mem_pod) \<and> e = us_err s' \<and>
   map c_Env (containers_val m' (mpod_Containers example_mem_pod)) = [[env_entry ''DB_HOST'' ''127.0.0.1'']] \<and>
   list_all2 (\<lambda>c c'. same_but_env c c' \<and> partly ev_Name (me_OperatorManagedValue ` set (us_envs s')) (c_Env c) (c_Env c'))
     (containers_val example_memory (mpod_Containers example_mem_pod)) (containers_val m' (mpod_Containers example_mem_pod))"
proof -
  obtain e m' where r: "update_in_place (\<lambda>_. 0) (\<lambda>_. 0) (initial_state (NewUpdater ''dev'') example_pod) example_memory example_mem_pod
     [one_db, two_db] = Some (Some e, m', example_mem_pod)"
    and v: "map c_Env (containers_val m' (mpod_Containers example_mem_pod)) = [[env_entry ''DB_HOST'' ''127.0.0.1'']]"
    using example_rejected by (elim exE conjE)
  have "\<not> sl_len (mpod_Containers example_mem_pod) + length [one_db, two_db] \<le>
      sl_cap (pm_containers example_memory) (mpod_Containers example_mem_pod)" by (simp add: memory_defs)
  with update_in_place_error [OF example_memory_separated r] r v show ?thesis by auto
qed

theorem update_in_place_refines_witness:
  "\<exists>m' wl'. update_in_place (\<lambda>n. n) (\<lambda>n. n) (initial_state (NewUpdater ''dev'') (pod_val example_memory example_mem_pod))
     example_memory example_mem_pod [one_db] = Some (None, m', wl') \<and> separated m' (mpod_Containers wl') \<and>
     ConfigureWorkload (NewUpdater ''dev'') (pod_val example_memory example_mem_pod) [one_db] =
       Some (Inr (PodWorkload (pod_val m' wl')))"
proof -
  let ?wl = "pod_val example_memory example_mem_pod"
  have own: "own_containers ?wl = [zero_container\<lparr>c_Name := ''busybox'', c_Ports := [\<lparr>cp_ContainerPort = 8080, cp_Other = []\<rparr>],
      c_Env := [env_entry ''DB_HOST'' ''db.internal'']\<rparr>]"
    by (simp add: own_containers_def pod_val_def memory_defs ContainerPrefix_def)
  then have "own_ports ?wl = own_ports example_pod" by (simp add: own_ports_def own_containers_example)
  with demands_examples(1) have d: "ports_free (own_ports ?wl) (demands [one_db])" by (simp only:)
  have "port_budget ?wl [one_db] < 2 ^ 32" by (simp add: port_budget_def own n_instances_def)
  then obtain w where "ConfigureWorkload (NewUpdater ''dev'') ?wl [one_db] = Some (Inr w)"
    using ConfigureWorkload_quiet [OF unambiguous_examples(1) d demands_examples(2)] by blast
  with update_in_place_refines [OF example_memory_separated, where s = "initial_state (NewUpdater ''dev'') ?wl"
      and ms = "[one_db]" and grow = "\<lambda>n. n" and growc = "\<lambda>n. n"]
  show ?thesis by (auto simp: ConfigureWorkload_def)
qed

end
