(* ===== verification/Admission.thy ===== *)
theory Admission
  imports Pod_Webhook Update_In_Place
begin

text \<open>
  The pod webhook from the request to the answer: \<open>Handle\<close>, the search for owners and matching resources, and the pod
  update together. The abstract specification \<open>configured\<close> says what a pod looks like after resources were applied to it, without
  the state of the update; an admitted pod satisfies it for exactly the resources that select it.
\<close>

section \<open>Specification\<close>





section \<open>From the request to the answer\<close>







end
