(* ===== verification/Spec2Isabelle.thy ===== *)
theory Spec2Isabelle
  imports Entry_Points Deep_Copy Test_Fixtures Admission
begin

text \<open>
  \<^bold>\<open>Cloud SQL Proxy Operator: a verified model\<close>

  \<^bold>\<open>The program.\<close> The operator adds Cloud SQL Auth Proxy containers to pods. A user declares an
  \<open>AuthProxyWorkload\<close> resource (\<open>src/internal/api/v1alpha1\<close>) that selects workloads and lists database
  instances. When a pod is created, the admission webhook (\<open>src/internal/controller/pod_controller.go\<close>)
  lists the resources of its namespace, follows the owner references of the pod, keeps the
  resources that select the pod or an owner, and lets package \<open>workload\<close>
  (\<open>src/internal/workload\<close>) add one proxy container per resource and set environment variables in all
  containers. Independently, the reconcile loop
  (\<open>src/internal/controller/authproxyworkload_controller.go\<close>) keeps a finalizer on each resource and
  reports in its status which workloads match. \<open>src/main.go\<close> starts both; the helpers of the integration tests
  (\<open>src/internal/testhelpers\<close>, \<open>src/internal/testintegration\<close>) create objects and wait for the operator.

  \<^bold>\<open>The theories\<close>, in the order of their imports:

  \<^item> \<open>Go_Prelude\<close>: machine integers, byte strings, number formatting, writes through pointers held in slices,
    loops that thread a state (\<open>map_state\<close>, locale \<open>bounded_step\<close>), the search for a free
    number (\<open>next_free\<close>).
  \<^item> \<open>Keyed_Upsert\<close>: the contract of ``replace the entry with this key or append it'' as a locale,
    interpreted by four loops of the source: \<open>addWorkloadEnvVar\<close>, \<open>updateContainerEnv\<close>, \<open>replaceCondition\<close>,
    \<open>replaceStatus\<close>.
  \<^item> \<open>K8s_Types\<close>: the Kubernetes structs with the fields the operator reads or writes (the others are
    one opaque field), and the library functions as parameters.
  \<^item> \<open>Api_Types\<close>: the resource, field by field (\<open>authproxyworkload_types.go\<close>), and its webhook.
  \<^item> \<open>Names\<close>: \<open>names.go\<close>. Names fit into 63 bytes; when they are DNS labels, and when two of them can be equal.
  \<^item> \<open>Workloads\<close>: \<open>workload.go\<close>. The seven kinds behind one interface (locale \<open>pod_template_access\<close>),
    the lists by kind, and \<open>workloadMatches\<close>.
  \<^item> \<open>Update_State\<close>: \<open>updateState\<close> of \<open>podspec_updates.go\<close> with its methods on ports, variables and errors;
    the locale \<open>port_env_client\<close> is the contract of a step that takes ports and variables, closed under loops.
  \<^item> \<open>Proxy_Container\<close>: one proxy container and the environment of all containers; the specification
    \<open>build_container\<close> gives the container as a function of the ports. The contract is interpreted for one instance
    and for one container.
  \<^item> \<open>Updater\<close>: \<open>FindMatchingAuthProxyWorkloads\<close>, \<open>update\<close>, \<open>ConfigureWorkload\<close>.
  \<^item> \<open>Update_Complete\<close>: exactly when the update reports no error.
  \<^item> \<open>Pod_Update\<close>: properties of \<open>ConfigureWorkload\<close>: ports, variables, errors, frame, repetition.
  \<^item> \<open>Matching\<close>: properties of \<open>FindMatchingAuthProxyWorkloads\<close>, and concrete runs that show limits of the code.
  \<^item> \<open>Go_Slices\<close>, \<open>Update_In_Place\<close>: slices with the arrays behind them, \<open>append\<close> for every way of growing arrays, and the contract
    of a loop over a slice as a locale (\<open>growable_slices\<close>); \<open>update\<close> and \<open>updateContainerEnv\<close> on them. The update on memory
    refines the update on values, and the traces that a rejected update leaves in the caller's pod are stated exactly.
  \<^item> \<open>Pod_Webhook\<close>: \<open>Handle\<close> and \<open>listOwners\<close>; the owner search against an inductive specification, what an admitted
    pod is, isolation of namespaces, termination.
  \<^item> \<open>Admission\<close>: the webhook and the pod update together, against the specification \<open>configured\<close> of an admitted pod.
  \<^item> \<open>Status\<close>, \<open>Reconciler\<close>: conditions, statuses and every method of the reconciler.
  \<^item> \<open>Reconcile_Status\<close>, \<open>Reconcile_Runs\<close>: the status of one round; the state machine of the comment as an
    abstract specification, at most one write per call, convergence, deletion, and runs with other writers.
  \<^item> \<open>Setup\<close>: start-up, the registration of both controllers with the manager (\<open>setup.go\<close>).
  \<^item> \<open>Go_Memory\<close>, \<open>Deep_Copy\<close>: a memory with pointers and the contract of a deep copy as a locale, closed under pointers,
    slices and structs; \<open>zz_generated.deepcopy.go\<close> on it. A copied resource has the value of the original and is independent of
    it, which is what lets the other theories treat \<open>orig := resource.DeepCopy()\<close> as a value.
  \<^item> \<open>Test_Retry\<close>, \<open>Test_Client\<close>, \<open>Test_Runs\<close>, \<open>Test_Fixtures\<close>: the test helpers. The retry loop against a sequence of attempts
    (locale \<open>wait_for\<close>), what the waiting helpers have seen, and the helpers together with the reconciler and the webhook.
  \<^item> \<open>Entry_Points\<close>: \<open>main.go\<close> with its command line, the scheme, and the environment of the integration tests.
  \<^item> \<open>Spec2Isabelle\<close>: this overview and a property that spans both controllers.

  \<^bold>\<open>State and effects.\<close> A Go struct is a record, a pointer that may be nil an \<open>option\<close>, a map an
  association list in the order of its assignments or a HOL map. A method on \<open>*updateState\<close> takes and returns the state.
  Errors are values: \<open>Inl\<close> of a sum, with the wrapped error instead of its text. A panic is \<open>None\<close>. The two methods
  of the recently deleted cache hold its lock throughout, so they are atomic. \<open>Deep_Copy\<close> and \<open>Update_In_Place\<close> have an explicit memory, as there
  the effect depends on aliasing; elsewhere a pointer or slice is the value it leads to. The closures of the test helpers are functions on the cluster and their captured variables.
  \<open>int32\<close> ports are 32-bit words and wrap around; \<open>fmt\<close> prints their signed value.

  \<^bold>\<open>Parameters.\<close> What is not in the repository is an argument: the label selector library and \<open>ParseKindArg\<close>
  (\<open>apimachinery\<close>), the Kubernetes client of the webhook (\<open>api_client\<close>) and of the reconciler (\<open>cluster_api\<close>, on an
  abstract cluster state) and of the test helpers (\<open>test_api\<close>), \<open>controllerutil\<close>, the manager and the scheme of controller-runtime, the copies
  of Kubernetes structs (\<open>copy_library\<close>), the flags that libraries add, the decoder and the JSON encoder, the clock, random numbers, and the iteration
  order of Go maps. Their documented behaviour appears as named hypotheses, each shown to hold of a concrete instance where it is used:
  the label library and \<open>ParseKindArg\<close> (\<open>labels_api_ok\<close>, \<open>parse_kind_ok\<close>, \<open>match_label_ok\<close>), map orders (\<open>permutes_order\<close>), listing and
  reading in the webhook (\<open>list_ok\<close>, \<open>stored_ok\<close>, \<open>get_ok\<close>), the functions on finalizers and owner references (\<open>finalizers_ok\<close>,
  \<open>owner_refs_ok\<close>), the copies of Kubernetes structs (\<open>k8s_copies\<close>), the server's answer to a creation (\<open>create_ok\<close>, \<open>created_content\<close>), and a
  server that is left alone (\<open>store_ok\<close>, only for the two writes the operator makes to a resource that is not being deleted).

  \<^bold>\<open>A condition that nothing enforces.\<close> Neither the schema of the resource nor its webhook keeps a user from listing one
  instance twice in a resource, and the ports of such a resource can clash unnoticed (\<open>repeated_instance_hides_conflict\<close>). The properties on ports and
  variables therefore have the hypothesis \<open>instances_once\<close>. It is a condition on what users write, not behaviour of the API server,
  and \<open>admitted_pod_configured\<close> says what holds without it.

  \<^bold>\<open>Loops that may not end.\<close> The searches for a free port and the recursion over owner references are
  \<open>partial_function (option)\<close>: \<open>None\<close> means that the code does not return. The port searches return whenever fewer
  than \<open>2\<^sup>3\<^sup>2\<close> ports and instances are involved, since a free 32-bit number then exists; the owner recursion returns when
  ownership has no cycle, and does not return on a self-owner. The reconcile loop is run with a bound of one extra call, which is
  shown to be enough on an undisturbed cluster.

  \<^bold>\<open>Not modelled.\<close> Logging and the contexts that carry the logger (\<open>TestContext\<close>), the texts of errors that wrap others, the
  concurrency of the manager that the integration tests start in the background, and the package documentation (\<open>doc.go\<close>), which has no code.
\<close>

section \<open>The reconciler and the webhook together\<close>

text \<open>The reconciler has found workloads and finished with them: the condition in the status.\<close>

definition reported_finished :: "auth_proxy_workload \<Rightarrow> nat \<Rightarrow> bool" where
  "reported_finished r n \<longleftrightarrow> (\<exists>c. findCondition (st_Conditions (apw_Status r)) ConditionUpToDate = Some c \<and>
     cd_Status c = ConditionTrue \<and> cd_ObservedGeneration c = om_Generation (apw_Meta r) \<and>
     cd_Reason c = ReasonFinishedReconcile \<and>
     cd_Message c = ''Reconciled '' @ fmt_d (int n) @ '' matching workloads complete'')"

lemma reported_finished_finished: "reported_finished (finished A now (WorkloadsReconciled n) wls r) n"
proof -
  let ?c = "\<lparr>cd_Type = ConditionUpToDate, cd_Status = ConditionTrue,
    cd_ObservedGeneration = om_Generation (apw_Meta r), cd_LastTransitionTime = None, cd_Reason = ReasonFinishedReconcile,
    cd_Message = ''Reconciled '' @ fmt_d (int n) @ '' matching workloads complete''\<rparr>"
  have "findCondition (replaceCondition t conds ?c) ConditionUpToDate = Some (stored_condition t conds ?c)" for t conds
    using cond.ups_find [of ?c t conds] by (simp add: findCondition_def)
  then show ?thesis
    by (simp add: reported_finished_def finished_def up_to_date_resource_def stored_condition_def)
qed

lemma Reconcile_reports:
  assumes "cl_Get K w req = Inr r" "om_DeletionTimestamp (apw_Meta r) = None" "finalizers_ok K"
    "finalizerName \<in> set (om_Finalizers (apw_Meta r))"
    "listWorkloads K A w (aps_Workload (apw_Spec r)) (apw_Namespace r) = Inr wls" "wls \<noteq> []"
  shows "\<exists>st. reported_finished (r\<lparr>apw_Status := st\<rparr>) (length wls) \<and>
     Reconcile K A now c w req = (c(req \<mapsto> False), fst (patchAuthProxyWorkloadStatus K w (r\<lparr>apw_Status := st\<rparr>) r), no_requeue,
       map_option ClientError (snd (patchAuthProxyWorkloadStatus K w (r\<lparr>apw_Status := st\<rparr>) r)))"
proof -
  let ?f = "finished A now (WorkloadsReconciled (length wls)) wls r"
  have ph: "phase_of K A w r = WorkloadsReconciled (length wls)" using assms(4-6) by (simp add: phase_of_def)
  have "phase_step K A now w r = map_prod id (map_option ClientError) (patchAuthProxyWorkloadStatus K w ?f r)"
    by (simp add: phase_step_def ph assms(5))
  then have "Reconcile K A now c w req = (c(req \<mapsto> False), fst (patchAuthProxyWorkloadStatus K w ?f r), no_requeue,
      map_option ClientError (snd (patchAuthProxyWorkloadStatus K w ?f r)))"
    using assms(1,2) by (simp add: Reconcile_def cache_set_def doCreateUpdate_phase [OF assms(3)] ph)
  then show ?thesis
    using reported_finished_finished [of A now "length wls" wls r] finished_status [of A now _ wls r]
    by (intro exI [of _ "apw_Status ?f"]) simp
qed

text \<open>
  C30: a kind with a version is reported as applied but never is. The documentation of \<open>Kind\<close> gives
  \<open>Deployment.v1\<close> as an example. Take a live resource with the finalizer that selects by label, with a kind that contains a dot
  and from which \<open>ParseKindArg\<close> reads a supported kind, of which some objects are listed. Then a call of \<open>Reconcile\<close> patches its
  status with a true condition \<open>UpToDate\<close> that counts these objects as reconciled, and ends; but the webhook selects the
  resource for no pod, as the kinds of objects contain no dot.
\<close>

theorem dotted_kind_reported_not_applied:
  assumes "CHR ''.'' \<in> set (wss_Kind (aps_Workload (apw_Spec r)))"
    and "\<And>w. w = PodWorkload wl \<or> owner_via (wh_api a) (wh_Client a) (om_Namespace (pod_Meta wl))
        (om_OwnerReferences (pod_Meta wl)) w \<Longrightarrow> CHR ''.'' \<notin> set (gvk_Kind (co_GVK (Object w)))"
    and "cl_Get K w req = Inr r" and "om_DeletionTimestamp (apw_Meta r) = None" and "finalizers_ok K"
    and "finalizerName \<in> set (om_Finalizers (apw_Meta r))"
    and "wss_Name (aps_Workload (apw_Spec r)) = []" and "LabelsSelector (wh_api a) (aps_Workload (apw_Spec r)) = Inr s"
    and "WorkloadListForKind (parseKindArg (wh_api a) (wss_Kind (aps_Workload (apw_Spec r)))) = Inr l"
    and "cl_ListWorkloads K w l (apw_Namespace r) s = Inr filled" and "Workloads filled \<noteq> []"
  shows "r \<notin> selecting a wl pl \<and>
     (\<exists>st. reported_finished (r\<lparr>apw_Status := st\<rparr>) (length (Workloads filled)) \<and>
        Reconcile K (wh_api a) now c w req =
          (c(req \<mapsto> False), fst (patchAuthProxyWorkloadStatus K w (r\<lparr>apw_Status := st\<rparr>) r), no_requeue,
           map_option ClientError (snd (patchAuthProxyWorkloadStatus K w (r\<lparr>apw_Status := st\<rparr>) r))))"
proof
  have "\<not> workloadMatches (wh_api a) (Object w) (aps_Workload (apw_Spec r)) (apw_Namespace r)"
    if "w = PodWorkload wl \<or> owner_via (wh_api a) (wh_Client a) (om_Namespace (pod_Meta wl))
        (om_OwnerReferences (pod_Meta wl)) w" for w
    using assms(1) assms(2) [OF that] by (auto simp: workloadMatches_def)
  then show "r \<notin> selecting a wl pl" by (auto simp: selecting_def)
  have "listWorkloads K (wh_api a) w (aps_Workload (apw_Spec r)) (apw_Namespace r) = Inr (Workloads filled)"
    using assms(7-10) by (simp add: listWorkloads_def loadByLabelSelector_def)
  from Reconcile_reports [OF assms(3-6) this assms(11)]
  show "\<exists>st. reported_finished (r\<lparr>apw_Status := st\<rparr>) (length (Workloads filled)) \<and>
        Reconcile K (wh_api a) now c w req =
          (c(req \<mapsto> False), fst (patchAuthProxyWorkloadStatus K w (r\<lparr>apw_Status := st\<rparr>) r), no_requeue,
           map_option ClientError (snd (patchAuthProxyWorkloadStatus K w (r\<lparr>apw_Status := st\<rparr>) r)))" .
qed

definition dotted_resource :: auth_proxy_workload where
  "dotted_resource = set_finalizers (example_apw ''default'' ''one'' ''Pod.v1'' []) [finalizerName]"

lemma dotted_resource_simps:
  "aps_Workload (apw_Spec dotted_resource) = \<lparr>wss_Selector = None, wss_Kind = ''Pod.v1'', wss_Name = []\<rparr>"
  "apw_Namespace dotted_resource = ''default''" "om_Finalizers (apw_Meta dotted_resource) = [finalizerName]"
  "om_DeletionTimestamp (apw_Meta dotted_resource) = None"
  by (simp_all add: dotted_resource_def zero_meta_def)

lemma example_patch:
  assumes "w (apw_key r) = Some r"
  shows "patchAuthProxyWorkloadStatus (example_cluster pods) w (r\<lparr>apw_Status := st\<rparr>) r = (w(apw_key r \<mapsto> r\<lparr>apw_Status := st\<rparr>), None)"
  using assms by (simp add: patchAuthProxyWorkloadStatus_def example_cluster_def apw_key_def)

theorem dotted_kind_reported_not_applied_witness:
  "dotted_resource \<notin> selecting (example_webhook (example_client [] [dotted_resource]) example_pod) example_pod [dotted_resource] \<and>
   (\<exists>r'. reported_finished r' 1 \<and> apw_Spec r' = apw_Spec dotted_resource \<and>
      Reconcile (example_cluster [example_pod]) example_api (\<lambda>_. 7) Map.empty [apw_key dotted_resource \<mapsto> dotted_resource]
        (apw_key dotted_resource) =
      ([apw_key dotted_resource \<mapsto> False], [apw_key dotted_resource \<mapsto> r'], no_requeue, None))"
proof -
  let ?a = "example_webhook (example_client [] [dotted_resource]) example_pod" and ?K = "example_cluster [example_pod]"
  let ?w = "[apw_key dotted_resource \<mapsto> dotted_resource]"
  have api: "wh_api ?a = example_api" by (simp add: example_webhook_def)
  have g: "cl_Get ?K ?w (apw_key dotted_resource) = Inr dotted_resource" by (rule example_cluster_ops) simp
  obtain s where s: "LabelsSelector (wh_api ?a) (aps_Workload (apw_Spec dotted_resource)) = Inr s"
    unfolding api by (simp add: dotted_resource_simps LabelsSelector_def example_api_def)
  have l: "WorkloadListForKind (parseKindArg (wh_api ?a) (wss_Kind (aps_Workload (apw_Spec dotted_resource)))) = Inr (PodList [])"
    unfolding api by (simp add: dotted_resource_simps example_api_def WorkloadListForKind_def)
  have f: "cl_ListWorkloads ?K ?w (PodList []) (apw_Namespace dotted_resource) s = Inr (PodList [example_pod])"
    by (simp add: dotted_resource_simps example_cluster_def example_pod_def)
  have "om_OwnerReferences (pod_Meta example_pod) = []" "gvk_Kind (co_GVK (Object (PodWorkload example_pod))) = ''Pod''"
    by (simp_all add: example_pod_def zero_meta_def)
  then have plain: "CHR ''.'' \<notin> set (gvk_Kind (co_GVK (Object w)))"
    if "w = PodWorkload example_pod \<or> owner_via (wh_api ?a) (wh_Client ?a) (om_Namespace (pod_Meta example_pod))
        (om_OwnerReferences (pod_Meta example_pod)) w" for w
    using that by (auto elim: owner_via_NilE)
  have "\<exists>st. reported_finished (dotted_resource\<lparr>apw_Status := st\<rparr>) 1 \<and>
      Reconcile ?K example_api (\<lambda>_. 7) Map.empty ?w (apw_key dotted_resource) =
        ([apw_key dotted_resource \<mapsto> False], [apw_key dotted_resource \<mapsto> dotted_resource\<lparr>apw_Status := st\<rparr>], no_requeue, None)"
    and "dotted_resource \<notin> selecting ?a example_pod [dotted_resource]"
    using dotted_kind_reported_not_applied [where a = ?a and wl = example_pod and pl = "[dotted_resource]" and now = "\<lambda>_. 7"
        and c = Map.empty, OF _ plain g _ example_finalizers_ok _ _ s l f]
    by (simp_all add: dotted_resource_simps example_patch api)
  moreover have "apw_Spec (dotted_resource\<lparr>apw_Status := st\<rparr>) = apw_Spec dotted_resource" for st by simp
  ultimately show ?thesis by blast
qed

end
